(* ===== verification/Vane_Prelude.thy ===== *)
theory Vane_Prelude
  imports Main "HOL-Library.Word" "HOL-Library.AList"
begin

text \<open>
  Shared vocabulary of the development: the machine integers of the Rust sources, the outcome of a
  fallible or panicking computation, the state-passing actions the handlers are written with, the
  association lists that stand for hash maps, and the list, map and word lemmas that more than
  one component uses.

  Rust integers keep their width: \<open>u8\<close> to \<open>u128\<close> are words, \<open>i64\<close> is a 64-bit word read with
  \<open>sint\<close>. The crates are built with \<open>cargo build --release\<close> (\<open>scripts/build-wasm-package.sh\<close>,
  \<open>Dockerfile\<close>), where \<open>+\<close> wraps around, as word addition does.

  A \<open>HashMap\<close> (and a \<open>DashMap\<close>, its concurrent drop-in replacement) is an association list with
  distinct keys. The order of the list is the order in which the code's loops visit the
  entries; it is not determined by the program, so theorems hold for every order.
\<close>

section \<open>Machine integers and bytes\<close>

type_synonym u8 = "8 word"
type_synonym u16 = "16 word"
type_synonym u32 = "32 word"
type_synonym u64 = "64 word"
type_synonym u128 = "128 word"
type_synonym i64 = "64 word"
type_synonym f32 = "32 word" \<comment> \<open>the IEEE bits; the code only stores and copies them\<close>
type_synonym bytes = "u8 list"

named_theorems run_simps \<open>how the primitive actions run\<close>
named_theorems wf_intros \<open>operations keep the well-formedness of their state\<close>
named_theorems frame_simps \<open>what an operation leaves alone\<close>

definition saturating_add :: "'a::len word \<Rightarrow> 'a word \<Rightarrow> 'a word" where
  "saturating_add a b = (if unat a + unat b < 2 ^ LENGTH('a) then a + b else - 1)"

definition saturating_sub :: "'a::len word \<Rightarrow> 'a word \<Rightarrow> 'a word" where
  "saturating_sub a b = (if a < b then 0 else a - b)"

lemma unat_max_word: "unat (- 1 :: 'a::len word) = 2 ^ LENGTH('a) - 1"
  by (simp add: unsigned_minus_1_eq_mask mask_eq_exp_minus_1)

lemma unat_saturating_add:
  "unat (saturating_add a b :: 'a::len word) = min (unat a + unat b) (2 ^ LENGTH('a) - 1)"
proof (cases "unat a + unat b < 2 ^ LENGTH('a)")
  case True
  then have "unat a + unat b \<le> 2 ^ LENGTH('a) - 1" by linarith
  with True show ?thesis by (simp add: saturating_add_def unat_word_ariths min_def)
next
  case False
  then have "2 ^ LENGTH('a) - 1 \<le> unat a + unat b" by linarith
  with False show ?thesis by (simp add: saturating_add_def unat_max_word)
qed

lemma unat_saturating_sub: "unat (saturating_sub a b :: 'a::len word) = unat a - unat b"
  by (auto simp: saturating_sub_def word_less_nat_alt unat_sub_if')

text \<open>\<open>str::as_bytes\<close>: a Rust string is its UTF-8 bytes, as an Isabelle string is a list of 8-bit
  characters.\<close>

definition as_bytes :: "string \<Rightarrow> bytes" where
  "as_bytes s = map of_char s"

lemma as_bytes_append: "as_bytes (s @ t) = as_bytes s @ as_bytes t"
  by (simp add: as_bytes_def)

text \<open>\<open>str::starts_with\<close> and \<open>str::contains\<close>.\<close>

definition starts_with :: "string \<Rightarrow> string \<Rightarrow> bool" where
  "starts_with p s = (take (length p) s = p)"

definition contains_str :: "string \<Rightarrow> string \<Rightarrow> bool" where
  "contains_str p s = list_ex (\<lambda>i. starts_with p (drop i s)) [0..<Suc (length s)]"

lemma contains_str_iff: "contains_str p s \<longleftrightarrow> (\<exists>xs ys. s = xs @ p @ ys)"
proof
  assume "contains_str p s"
  then obtain i where "take (length p) (drop i s) = p"
    by (auto simp: contains_str_def starts_with_def list_ex_iff)
  then have "s = take i s @ p @ drop (length p) (drop i s)"
    by (metis append_take_drop_id)
  then show "\<exists>xs ys. s = xs @ p @ ys" by blast
next
  assume "\<exists>xs ys. s = xs @ p @ ys"
  then obtain xs ys where s: "s = xs @ p @ ys" by blast
  then have "take (length p) (drop (length xs) s) = p" "length xs < Suc (length s)" by simp_all
  then show "contains_str p s"
    unfolding contains_str_def starts_with_def list_ex_iff by (intro bexI [of _ "length xs"]) auto
qed

section \<open>Outcomes and actions\<close>

text \<open>
  The errors the sources build with \<open>anyhow!\<close> or \<open>JsError::new\<close>, one constructor per message,
  and the reasons for which the modelled code panics.
\<close>

datatype vane_error =
    UserAccountNotFound
  | PeerNotFoundInDb
  | PeerNotFoundWithMultiAddr string
  | FailedToDecodeSavedPeers
  | FailedToDecodeTxStateMachine
  | PeerNotFound string string
  | TransactionNotFound string
  | FailedToUpdateTransaction string
  | PeerWithAccountIdNotFound string
  | TokenNetworkMismatch
  | InvalidEvmAddress
  | InvalidSolanaAddress
  | InvalidKeyLength
  | RouteNotSupported
  | ReceiverDidntSign
  | OriginalSenderDidntSign
  | SignatureConversionFailed
  | PointNotOnCurve
  | PubKeyHashConversionFailed
  | AddrRecoveryEqualityFailed
  | EcSignatureVerificationFailed
  | SolanaSignatureVerificationFailed
  | SubmitTxFailed
  | CreateTxFailed
  | ChannelFull
  | FailedGetTransactionFromCache
  | FailedGetTransactionIntegrity
  | TransactionIntegrityFailed
  | TransactionAlreadyReverted
  | ReceiverNotRegisteredErr
  | ReceiverAddressFailed
  | WaitForReceiverToConfirm
  | TransactionNotInInitialState
  | ReceiverDidNotConfirm
  | SerdeCustom string
  | RedbError string
  | OpfsError string
  | PrismaError string
  | Anyhow string

datatype panic_reason =
    BorrowMutError             \<comment> \<open>\<open>RefCell::borrow_mut\<close> while the cell is borrowed\<close>
  | BorrowError                \<comment> \<open>\<open>RefCell::borrow\<close> while the cell is mutably borrowed\<close>
  | ExpectFailed string        \<comment> \<open>\<open>expect\<close> or \<open>unwrap\<close> on \<open>None\<close> or \<open>Err\<close>\<close>
  | NotImplemented string      \<comment> \<open>\<open>todo!\<close> or \<open>unimplemented!\<close>\<close>

datatype 'a outcome = Ok 'a | Err vane_error | Panic panic_reason

text \<open>
  An action runs on a state and returns its outcome with the state it leaves. The state after an
  error or a panic is the state the code had reached: nothing is rolled back.
\<close>

type_synonym ('s, 'a) action = "'s \<Rightarrow> 'a outcome \<times> 's"

definition ret :: "'a \<Rightarrow> ('s, 'a) action" where
  "ret x = (\<lambda>s. (Ok x, s))"

definition raise :: "vane_error \<Rightarrow> ('s, 'a) action" where
  "raise e = (\<lambda>s. (Err e, s))"

definition panic :: "panic_reason \<Rightarrow> ('s, 'a) action" where
  "panic p = (\<lambda>s. (Panic p, s))"

definition modify :: "('s \<Rightarrow> 's) \<Rightarrow> ('s, unit) action" where
  "modify f = (\<lambda>s. (Ok (), f s))"

definition gets :: "('s \<Rightarrow> 'a) \<Rightarrow> ('s, 'a) action" where
  "gets f = (\<lambda>s. (Ok (f s), s))"

text \<open>\<open>and_then\<close> is Rust's \<open>?\<close> and \<open>;\<close>: an error or a panic ends the sequence.\<close>

definition and_then :: "('s, 'a) action \<Rightarrow> ('a \<Rightarrow> ('s, 'b) action) \<Rightarrow> ('s, 'b) action" where
  "and_then m f = (\<lambda>s. case m s of
       (Ok x, s') \<Rightarrow> f x s'
     | (Err e, s') \<Rightarrow> (Err e, s')
     | (Panic p, s') \<Rightarrow> (Panic p, s'))"

text \<open>\<open>attempt\<close> hands an error to the code as a value (\<open>match r\<close>, \<open>if let Err(e) = r\<close>);
  a panic is not caught.\<close>

definition attempt :: "('s, 'a) action \<Rightarrow> ('s, vane_error + 'a) action" where
  "attempt m = (\<lambda>s. case m s of
       (Ok x, s') \<Rightarrow> (Ok (Inr x), s')
     | (Err e, s') \<Rightarrow> (Ok (Inl e), s')
     | (Panic p, s') \<Rightarrow> (Panic p, s'))"

text \<open>A \<open>for\<close> loop whose body may fail.\<close>

fun for_each :: "('a \<Rightarrow> ('s, unit) action) \<Rightarrow> 'a list \<Rightarrow> ('s, unit) action" where
  "for_each f [] = ret ()"
| "for_each f (x # xs) = and_then (f x) (\<lambda>_. for_each f xs)"

text \<open>A pure result (\<open>Result\<close> of a function without effects) as an action.\<close>

definition lift_outcome :: "'a outcome \<Rightarrow> ('s, 'a) action" where
  "lift_outcome r = (\<lambda>s. (r, s))"

lemma run_ret [run_simps]: "ret x s = (Ok x, s)"
  by (simp add: ret_def)

lemma run_raise [run_simps]: "raise e s = (Err e, s)"
  by (simp add: raise_def)

lemma run_panic [run_simps]: "panic p s = (Panic p, s)"
  by (simp add: panic_def)

lemma run_modify [run_simps]: "modify f s = (Ok (), f s)"
  by (simp add: modify_def)

lemma run_gets [run_simps]: "gets f s = (Ok (f s), s)"
  by (simp add: gets_def)

lemma run_lift_outcome [run_simps]: "lift_outcome r s = (r, s)"
  by (simp add: lift_outcome_def)

lemma run_and_then [run_simps]:
  "and_then m f s = (case m s of
       (Ok x, s') \<Rightarrow> f x s'
     | (Err e, s') \<Rightarrow> (Err e, s')
     | (Panic p, s') \<Rightarrow> (Panic p, s'))"
  by (simp add: and_then_def)

lemma run_attempt [run_simps]:
  "attempt m s = (case m s of
       (Ok x, s') \<Rightarrow> (Ok (Inr x), s')
     | (Err e, s') \<Rightarrow> (Ok (Inl e), s')
     | (Panic p, s') \<Rightarrow> (Panic p, s'))"
  by (simp add: attempt_def)

lemma and_then_Ok_iff:
  "and_then m f s = (Ok y, t) \<longleftrightarrow> (\<exists>x u. m s = (Ok x, u) \<and> f x u = (Ok y, t))"
  by (auto simp: and_then_def split: prod.splits outcome.splits)

lemma and_then_assoc: "and_then (and_then m f) g = and_then m (\<lambda>x. and_then (f x) g)"
  by (rule ext) (simp add: and_then_def split: prod.split outcome.split)

text \<open>An invariant of the state that every step of a loop keeps is kept by the loop.\<close>

lemma for_each_invariant:
  assumes "\<And>x s. x \<in> set xs \<Longrightarrow> I s \<Longrightarrow> I (snd (f x s))" and "I s"
  shows "I (snd (for_each f xs s))"
  using assms
proof (induction xs arbitrary: s)
  case Nil
  then show ?case by (simp add: run_simps)
next
  case (Cons x xs)
  have "I (snd (f x s))" using Cons.prems by simp
  then show ?case
    using Cons.IH [of "snd (f x s)"] Cons.prems(1)
    by (auto simp: run_simps split: prod.splits outcome.splits)
qed

text \<open>An action keeps an invariant, whatever its outcome.\<close>

definition preserves :: "('s \<Rightarrow> bool) \<Rightarrow> ('s, 'a) action \<Rightarrow> bool" where
  "preserves I m \<longleftrightarrow> (\<forall>s. I s \<longrightarrow> I (snd (m s)))"

named_theorems preserves_intros \<open>actions that keep an invariant\<close>

lemma preservesD: "preserves I m \<Longrightarrow> I s \<Longrightarrow> I (snd (m s))"
  by (simp add: preserves_def)

lemma preserves_ret [preserves_intros]: "preserves I (ret x)"
  and preserves_raise [preserves_intros]: "preserves I (raise e)"
  and preserves_panic [preserves_intros]: "preserves I (panic p)"
  and preserves_gets [preserves_intros]: "preserves I (gets f)"
  and preserves_lift_outcome [preserves_intros]: "preserves I (lift_outcome r)"
  by (simp_all add: preserves_def run_simps)

lemma preserves_modify [preserves_intros]: "(\<And>s. I s \<Longrightarrow> I (f s)) \<Longrightarrow> preserves I (modify f)"
  by (simp add: preserves_def run_simps)

lemma preserves_and_then [preserves_intros]:
  "preserves I m \<Longrightarrow> (\<And>x. preserves I (f x)) \<Longrightarrow> preserves I (and_then m f)"
  unfolding preserves_def run_and_then
  by (auto split: prod.splits outcome.splits)

lemma preserves_attempt [preserves_intros]: "preserves I m \<Longrightarrow> preserves I (attempt m)"
  unfolding preserves_def run_attempt
  by (auto split: prod.splits outcome.splits)

lemma preserves_if [preserves_intros]:
  "(b \<Longrightarrow> preserves I m) \<Longrightarrow> (\<not> b \<Longrightarrow> preserves I n) \<Longrightarrow> preserves I (if b then m else n)"
  by simp

lemma preserves_option [preserves_intros]:
  "(r = None \<Longrightarrow> preserves I n) \<Longrightarrow> (\<And>x. r = Some x \<Longrightarrow> preserves I (f x)) \<Longrightarrow>
   preserves I (case r of None \<Rightarrow> n | Some x \<Rightarrow> f x)"
  by (cases r) simp_all

lemma preserves_outcome [preserves_intros]:
  "(\<And>x. r = Ok x \<Longrightarrow> preserves I (f x)) \<Longrightarrow> (\<And>e. r = Err e \<Longrightarrow> preserves I (g e)) \<Longrightarrow>
   (\<And>p. r = Panic p \<Longrightarrow> preserves I (h p)) \<Longrightarrow>
   preserves I (case r of Ok x \<Rightarrow> f x | Err e \<Rightarrow> g e | Panic p \<Rightarrow> h p)"
  by (cases r) simp_all

lemma preserves_Let [preserves_intros]: "(\<And>x. x = v \<Longrightarrow> preserves I (f x)) \<Longrightarrow> preserves I (let x = v in f x)"
  by simp

section \<open>Association lists as hash maps\<close>

abbreviation distinct_keys :: "('k \<times> 'v) list \<Rightarrow> bool" where
  "distinct_keys m \<equiv> distinct (map fst m)"

abbreviation contains_key :: "'k \<Rightarrow> ('k \<times> 'v) list \<Rightarrow> bool" where
  "contains_key k m \<equiv> map_of m k \<noteq> None"

lemma map_of_update [simp]: "map_of (AList.update k v m) = (map_of m)(k \<mapsto> v)"
  by (simp add: update_conv')

lemma map_of_delete [simp]: "map_of (AList.delete k m) = (map_of m)(k := None)"
  by (simp add: delete_conv')

lemma distinct_keys_update [simp, wf_intros]:
  "distinct_keys m \<Longrightarrow> distinct_keys (AList.update k v m)"
  by (rule distinct_update)

lemma distinct_keys_delete [simp, wf_intros]:
  "distinct_keys m \<Longrightarrow> distinct_keys (AList.delete k m)"
  by (rule distinct_delete)

lemma distinct_keys_filter [simp, wf_intros]:
  "distinct_keys m \<Longrightarrow> distinct_keys (filter P m)"
  by (rule distinct_map_filter)

text \<open>Removing a list of keys one after the other is one filter.\<close>

lemma fold_delete_eq_filter:
  "fold AList.delete ks m = filter (\<lambda>(k, v). k \<notin> set ks) m"
proof (induction ks arbitrary: m)
  case Nil
  show ?case by simp
next
  case (Cons k ks)
  have "fold AList.delete (k # ks) m = filter (\<lambda>(j, v). j \<notin> set ks) (AList.delete k m)"
    by (simp add: Cons.IH)
  also have "\<dots> = filter (\<lambda>(j, v). j \<notin> set (k # ks)) m"
    by (auto simp: AList.delete_eq filter_filter intro: filter_cong)
  finally show ?case .
qed

lemma map_of_filter_keys:
  "distinct_keys m \<Longrightarrow>
   map_of (filter P m) k = (case map_of m k of None \<Rightarrow> None | Some v \<Rightarrow> if P (k, v) then Some v else None)"
  by (induction m) (auto simp: map_of_eq_None_iff split: option.splits)

lemma fold_delete_matching:
  assumes "distinct_keys m"
  shows "fold AList.delete (map fst (filter P m)) m = filter (\<lambda>kv. \<not> P kv) m"
proof -
  have "(k \<in> set (map fst (filter P m))) = P (k, v)" if kv: "(k, v) \<in> set m" for k v
  proof
    assume "k \<in> set (map fst (filter P m))"
    then obtain w where w: "(k, w) \<in> set m" "P (k, w)" by auto
    with kv assms have "w = v" by (metis map_of_is_SomeI option.inject)
    with w show "P (k, v)" by simp
  qed (use kv in force)
  then show ?thesis
    by (auto simp: fold_delete_eq_filter intro!: filter_cong)
qed

end
