(* ===== verification/Data_Structure.thy ===== *)
theory Data_Structure
  imports Vane_Prelude
begin

text \<open>
  The data of \<open>primitives/src/data_structure.rs\<close>: chains, tokens, the status and the transaction
  record that travels between the nodes and the backend, the records of the local database, the
  commands and events exchanged between the layers, and the methods of these types.

  Constructors keep the names of the source; where two enums share a constructor name the later one
  carries a prefix (\<open>TokEthereum\<close> for \<open>Token::Ethereum\<close>, \<open>EvSenderConfirmed\<close> for
  \<open>BackendEvent::SenderConfirmed\<close>).
\<close>

section \<open>Chains and tokens\<close>

datatype chain_supported =
    Polkadot | Ethereum | Bnb | Solana | Tron | Optimism | Arbitrum | Polygon | Base | Bitcoin

datatype ethereum_token = EthETH | EthERC20 string string u8
datatype bnb_token = BnbBNB | BnbBEP20 string string u8
datatype polkadot_token = DotDOT | DotAsset string string
datatype solana_token = SolSOL | SolSPL string string u8
datatype tron_token = TronTRX | TronTRC20 string string u8
datatype optimism_token = OptETH | OptERC20 string string u8
datatype arbitrum_token = ArbETH | ArbERC20 string string u8
datatype polygon_token = PolPOL | PolERC20 string string u8
datatype base_token = BaseETH | BaseERC20 string string u8
datatype bitcoin_token = BtcBTC

datatype token =
    TokEthereum ethereum_token
  | TokBnb bnb_token
  | TokPolkadot polkadot_token
  | TokSolana solana_token
  | TokTron tron_token
  | TokOptimism optimism_token
  | TokArbitrum arbitrum_token
  | TokPolygon polygon_token
  | TokBase base_token
  | TokBitcoin bitcoin_token

definition default_token :: token where
  "default_token = TokEthereum EthETH"

definition default_chain :: chain_supported where
  "default_chain = Ethereum"

definition name_and_address :: "string \<Rightarrow> string \<Rightarrow> string \<Rightarrow> string" where
  "name_and_address chain nm addr = chain @ '':'' @ nm @ '' ('' @ addr @ '')''"

fun token_to_string :: "token \<Rightarrow> string" where
  "token_to_string (TokEthereum EthETH) = ''Ethereum:ETH''"
| "token_to_string (TokEthereum (EthERC20 nm addr _)) = name_and_address ''Ethereum'' nm addr"
| "token_to_string (TokBnb BnbBNB) = ''BNB:BNB''"
| "token_to_string (TokBnb (BnbBEP20 nm addr _)) = name_and_address ''BNB'' nm addr"
| "token_to_string (TokPolkadot DotDOT) = ''Polkadot:DOT''"
| "token_to_string (TokPolkadot (DotAsset nm i)) = name_and_address ''Polkadot'' nm i"
| "token_to_string (TokSolana SolSOL) = ''Solana:SOL''"
| "token_to_string (TokSolana (SolSPL nm addr _)) = name_and_address ''Solana'' nm addr"
| "token_to_string (TokTron TronTRX) = ''TRON:TRX''"
| "token_to_string (TokTron (TronTRC20 nm addr _)) = name_and_address ''TRON'' nm addr"
| "token_to_string (TokOptimism OptETH) = ''Optimism:ETH''"
| "token_to_string (TokOptimism (OptERC20 nm addr _)) = name_and_address ''Optimism'' nm addr"
| "token_to_string (TokArbitrum ArbETH) = ''Arbitrum:ETH''"
| "token_to_string (TokArbitrum (ArbERC20 nm addr _)) = name_and_address ''Arbitrum'' nm addr"
| "token_to_string (TokPolygon PolPOL) = ''Polygon:POL''"
| "token_to_string (TokPolygon (PolERC20 nm addr _)) = name_and_address ''Polygon'' nm addr"
| "token_to_string (TokBase BaseETH) = ''Base:ETH''"
| "token_to_string (TokBase (BaseERC20 nm addr _)) = name_and_address ''Base'' nm addr"
| "token_to_string (TokBitcoin BtcBTC) = ''Bitcoin:BTC''"

fun token_to_chain :: "token \<Rightarrow> chain_supported" where
  "token_to_chain (TokEthereum _) = Ethereum"
| "token_to_chain (TokBnb _) = Bnb"
| "token_to_chain (TokPolkadot _) = Polkadot"
| "token_to_chain (TokSolana _) = Solana"
| "token_to_chain (TokTron _) = Tron"
| "token_to_chain (TokOptimism _) = Optimism"
| "token_to_chain (TokArbitrum _) = Arbitrum"
| "token_to_chain (TokPolygon _) = Polygon"
| "token_to_chain (TokBase _) = Base"
| "token_to_chain (TokBitcoin _) = Bitcoin"

fun chain_to_string :: "chain_supported \<Rightarrow> string" where
  "chain_to_string Polkadot = ''Polkadot''"
| "chain_to_string Ethereum = ''Ethereum''"
| "chain_to_string Bnb = ''Bnb''"
| "chain_to_string Solana = ''Solana''"
| "chain_to_string Tron = ''Tron''"
| "chain_to_string Optimism = ''Optimism''"
| "chain_to_string Arbitrum = ''Arbitrum''"
| "chain_to_string Polygon = ''Polygon''"
| "chain_to_string Base = ''Base''"
| "chain_to_string Bitcoin = ''Bitcoin''"

definition chain_from_str :: "string \<Rightarrow> chain_supported" where
  "chain_from_str v =
     (if v = ''Polkadot'' then Polkadot
      else if v = ''Ethereum'' then Ethereum
      else if v = ''Bnb'' then Bnb
      else if v = ''Solana'' then Solana
      else if v = ''Tron'' then Tron
      else if v = ''Optimism'' then Optimism
      else if v = ''Arbitrum'' then Arbitrum
      else if v = ''Polygon'' then Polygon
      else if v = ''Base'' then Base
      else if v = ''Bitcoin'' then Bitcoin
      else Ethereum)"

section \<open>The transaction state machine\<close>

datatype tx_status =
    Genesis
  | RecvAddrConfirmed
  | RecvAddrConfirmationPassed
  | NetConfirmed
  | SenderConfirmed
  | SenderConfirmationfailed
  | RecvAddrFailed
  | FailedToSubmitTxn string
  | TxError string
  | TxSubmissionPassed bytes
  | ReceiverNotRegistered
  | Reverted string

definition default_tx_status :: tx_status where
  "default_tx_status = Genesis"

fun tx_status_to_string :: "tx_status \<Rightarrow> string outcome" where
  "tx_status_to_string RecvAddrFailed = Ok ''Receiver address failed''"
| "tx_status_to_string _ = Panic (NotImplemented ''not used'')"

fun is_reverted :: "tx_status \<Rightarrow> bool" where
  "is_reverted (Reverted _) = True"
| "is_reverted _ = False"

record unsigned_eip1559 =
  eth_to :: string
  eth_value :: u128
  eth_chain_id :: u64
  eth_nonce :: u64
  eth_gas :: u64
  max_fee_per_gas :: u64
  max_priority_fee_per_gas :: u64
  eth_data :: "string option"
  access_list :: "unit list option"
  eth_tx_type :: string

record unsigned_bnb_legacy =
  bnb_to :: string
  bnb_value :: u128
  bnb_chain_id :: u64
  bnb_nonce :: u64
  bnb_gas :: u64
  gas_price :: u64
  bnb_data :: "string option"
  bnb_tx_type :: string

datatype chain_transaction_type =
    TxEthereum unsigned_eip1559 "bytes \<times> bytes"
  | TxSolana bytes u64
  | TxBnb "bytes \<times> bytes" unsigned_bnb_legacy

record tx_state_machine =
  sender_address :: string
  sender_public_key :: "string option"
  receiver_address :: string
  receiver_public_key :: "string option"
  multi_id :: bytes
  recv_signature :: "bytes option"
  tx_token :: token
  status :: tx_status
  code_word :: string
  amount :: u128
  fees_amount :: f32
  signed_call_payload :: "bytes option"
  call_payload :: "chain_transaction_type option"
  inbound_req_id :: "u64 option"
  outbound_req_id :: "u64 option"
  tx_nonce :: u32
  tx_version :: u32
  sender_address_network :: chain_supported
  receiver_address_network :: chain_supported

definition default_tx_state_machine :: tx_state_machine where
  "default_tx_state_machine =
     \<lparr>sender_address = [], sender_public_key = None, receiver_address = [],
      receiver_public_key = None, multi_id = replicate 32 0, recv_signature = None,
      tx_token = default_token, status = default_tx_status, code_word = [], amount = 0,
      fees_amount = 0, signed_call_payload = None, call_payload = None, inbound_req_id = None,
      outbound_req_id = None, tx_nonce = 0, tx_version = 0,
      sender_address_network = default_chain, receiver_address_network = default_chain\<rparr>"

definition increment_version :: "tx_state_machine \<Rightarrow> tx_state_machine" where
  "increment_version tx = tx\<lparr>tx_version := saturating_add (tx_version tx) 1\<rparr>"

definition recv_confirmation_passed :: "tx_state_machine \<Rightarrow> tx_state_machine" where
  "recv_confirmation_passed tx = tx\<lparr>status := RecvAddrConfirmationPassed\<rparr>"

text \<open>\<open>let reason: String = TxStatus::RecvAddrFailed.into()\<close>: the conversion does not panic on
  this status, so the model writes its result.\<close>

definition recv_confirmation_failed :: "tx_state_machine \<Rightarrow> tx_state_machine" where
  "recv_confirmation_failed tx =
     tx\<lparr>status := Reverted (case tx_status_to_string RecvAddrFailed of Ok r \<Rightarrow> r | _ \<Rightarrow> [])\<rparr>"

definition recv_confirmed :: "tx_state_machine \<Rightarrow> tx_state_machine" where
  "recv_confirmed tx = tx\<lparr>status := RecvAddrConfirmed\<rparr>"

definition sender_confirmation :: "tx_state_machine \<Rightarrow> tx_state_machine" where
  "sender_confirmation tx = tx\<lparr>status := SenderConfirmed\<rparr>"

definition sender_confirmation_failed :: "tx_state_machine \<Rightarrow> tx_state_machine" where
  "sender_confirmation_failed tx = tx\<lparr>status := SenderConfirmationfailed\<rparr>"

definition tx_submission_failed :: "string \<Rightarrow> tx_state_machine \<Rightarrow> tx_state_machine" where
  "tx_submission_failed reason tx = tx\<lparr>status := FailedToSubmitTxn reason\<rparr>"

definition tx_submission_passed :: "bytes \<Rightarrow> tx_state_machine \<Rightarrow> tx_state_machine" where
  "tx_submission_passed h tx = tx\<lparr>status := TxSubmissionPassed h\<rparr>"

definition net_confirmed :: "tx_state_machine \<Rightarrow> tx_state_machine" where
  "net_confirmed tx = tx\<lparr>status := NetConfirmed\<rparr>"

definition recv_not_registered :: "tx_state_machine \<Rightarrow> tx_state_machine" where
  "recv_not_registered tx = tx\<lparr>status := ReceiverNotRegistered\<rparr>"

definition increment_nonce :: "tx_state_machine \<Rightarrow> tx_state_machine" where
  "increment_nonce tx = tx\<lparr>tx_nonce := tx_nonce tx + 1\<rparr>"

definition set_sender_public_key :: "string \<Rightarrow> tx_state_machine \<Rightarrow> tx_state_machine" where
  "set_sender_public_key k tx = tx\<lparr>sender_public_key := Some k\<rparr>"

definition set_receiver_public_key :: "string \<Rightarrow> tx_state_machine \<Rightarrow> tx_state_machine" where
  "set_receiver_public_key k tx = tx\<lparr>receiver_public_key := Some k\<rparr>"

lemmas tx_method_defs =
  recv_confirmation_passed_def recv_confirmation_failed_def recv_confirmed_def
  sender_confirmation_def sender_confirmation_failed_def tx_submission_failed_def
  tx_submission_passed_def net_confirmed_def recv_not_registered_def increment_nonce_def
  set_sender_public_key_def set_receiver_public_key_def increment_version_def

section \<open>Entries with a creation time\<close>

text \<open>\<open>TtlWrapper\<close>: despite its name the field \<open>ttl\<close> holds the time of creation; \<open>is_expired\<close> adds
  the allowed age to it, in \<open>u32\<close> arithmetic.\<close>

record 'a ttl_wrapper =
  ttl_value :: 'a
  ttl :: u32

definition ttl_new :: "'a \<Rightarrow> u32 \<Rightarrow> 'a ttl_wrapper" where
  "ttl_new v t = \<lparr>ttl_value = v, ttl = t\<rparr>"

definition ttl_is_expired :: "'a ttl_wrapper \<Rightarrow> u32 \<Rightarrow> u32 \<Rightarrow> bool" where
  "ttl_is_expired w now time_to_live = (ttl w + time_to_live < now)"

definition update_value :: "'a \<Rightarrow> 'a ttl_wrapper \<Rightarrow> 'a ttl_wrapper" where
  "update_value v w = w\<lparr>ttl_value := v\<rparr>"

definition get_value :: "'a ttl_wrapper \<Rightarrow> 'a" where
  "get_value w = ttl_value w"

lemma get_value_simps [simp]:
  "get_value (ttl_new v t) = v" "get_value (update_value v w) = v"
  by (simp_all add: get_value_def ttl_new_def update_value_def)

lemma ttl_simps [simp]: "ttl (ttl_new v t) = t" "ttl (update_value v w) = ttl w"
  by (simp_all add: ttl_new_def update_value_def)

section \<open>Connection status\<close>

datatype connection_state = Connected u64 | Disconnected u64

definition default_connection_state :: "u64 \<Rightarrow> connection_state" where
  "default_connection_state now = Disconnected now"

record node_connection_status =
  relay_connected :: bool
  ncs_peer_id :: string
  relay_address :: string
  connection_uptime_seconds :: "u64 option"
  last_connection_change :: "u64 option"

section \<open>Records of the local database\<close>

record user_account =
  user_multi_addr :: string
  accounts :: "(string \<times> chain_supported) list"

record db_tx_state_machine =
  tx_hash :: bytes
  db_amount :: u128
  db_token :: token
  db_sender :: string
  db_receiver :: string
  sender_network :: chain_supported
  receiver_network :: chain_supported
  success :: bool

record saved_peer_info =
  peer_id :: string
  multi_addr :: string
  account_ids :: "string list"

record storage_export =
  se_user_account :: "user_account option"
  se_nonce :: u32
  success_transactions :: "db_tx_state_machine list"
  failed_transactions :: "db_tx_state_machine list"

record node_error =
  ne_timestamp :: u64
  error_type :: string
  message :: string
  details :: "string option"

section \<open>Commands, messages and events\<close>

text \<open>\<open>NetworkCommand\<close> and \<open>SwarmMessage\<close>: the constructors of the libp2p transport of the native
  node (with its peer ids, response channels and request ids) are one constructor each, which the
  wasm node does not handle.\<close>

datatype network_command =
    WasmSendRequest tx_state_machine
  | WasmSendResponse "string + tx_state_machine"
  | FetchPendingTransactions string
  | RevertTransaction string tx_state_machine
  | ConfirmTransaction string tx_state_machine
  | TxSubmissionUpdate string tx_state_machine
  | CloseCommand string tx_state_machine
  | Libp2pCommand

datatype swarm_message =
    WasmRequest tx_state_machine
  | WasmResponse tx_state_machine
  | SwarmPendingTransactionsFetched string "tx_state_machine list"
  | Libp2pMessage

datatype backend_event =
    EvSenderRequestReceived string bytes
  | EvSenderRequestHandled string bytes
  | EvSenderConfirmed string bytes
  | EvSenderReverted string bytes
  | EvReceiverResponseReceived string bytes
  | EvReceiverResponseHandled string bytes
  | EvPeerDisconnected string
  | EvDataExpired string bytes
  | EvPendingTransactionsFetched string "tx_state_machine list"
  | EvTxSubmitted string bytes

fun get_address :: "backend_event \<Rightarrow> string" where
  "get_address (EvSenderRequestReceived a _) = a"
| "get_address (EvSenderRequestHandled a _) = a"
| "get_address (EvSenderConfirmed a _) = a"
| "get_address (EvSenderReverted a _) = a"
| "get_address (EvReceiverResponseReceived a _) = a"
| "get_address (EvReceiverResponseHandled a _) = a"
| "get_address (EvPeerDisconnected acc) = acc"
| "get_address (EvDataExpired mid _) = mid"
| "get_address (EvPendingTransactionsFetched a _) = a"
| "get_address (EvTxSubmitted a _) = a"

fun get_data :: "backend_event \<Rightarrow> bytes outcome" where
  "get_data (EvSenderRequestReceived _ d) = Ok d"
| "get_data (EvSenderRequestHandled _ d) = Ok d"
| "get_data (EvSenderConfirmed _ d) = Ok d"
| "get_data (EvSenderReverted _ d) = Ok d"
| "get_data (EvReceiverResponseReceived _ d) = Ok d"
| "get_data (EvReceiverResponseHandled _ d) = Ok d"
| "get_data (EvDataExpired _ d) = Ok d"
| "get_data (EvTxSubmitted _ d) = Ok d"
| "get_data _ = Panic (NotImplemented [])"

datatype system_notification =
    PeerAdded string string chain_supported
  | PeerRemoved string
  | RequestQueued string
  | RequestProcessed string

end
