(* ===== verification/Db_Interface.thy ===== *)
theory Db_Interface
  imports Data_Structure
begin

text \<open>
  The trait \<open>DbWorkerInterface\<close> of \<open>primitives/src/data_structure.rs\<close>, as a record of actions that
  its clients take as an argument (\<open>impl DbWorkerInterface\<close>), and its contract: an abstract
  database \<open>db_view\<close> whose operations (\<open>spec_db_ops\<close>) say what each method returns and stores. The
  locale \<open>db_worker_interface\<close> is the promise of an implementation to behave like the abstract
  database; a client's result is then the result on the abstract database.
\<close>

section \<open>The trait\<close>

record 's db_ops =
  op_set_user_account :: "user_account \<Rightarrow> ('s, unit) action"
  op_update_user_account :: "string \<Rightarrow> chain_supported \<Rightarrow> ('s, user_account) action"
  op_get_nonce :: "('s, u32) action"
  op_set_nonce :: "u32 \<Rightarrow> ('s, unit) action"
  op_get_user_account :: "('s, user_account) action"
  op_update_success_tx :: "db_tx_state_machine \<Rightarrow> ('s, unit) action"
  op_update_failed_tx :: "db_tx_state_machine \<Rightarrow> ('s, unit) action"
  op_get_failed_txs :: "('s, db_tx_state_machine list) action"
  op_get_total_value_success :: "('s, u128) action"
  op_get_total_value_failed :: "('s, u128) action"
  op_get_success_txs :: "('s, db_tx_state_machine list) action"
  op_increment_nonce :: "('s, unit) action"
  op_get_all_saved_peers_info :: "('s, saved_peer_info list) action"
  op_get_saved_user_peers :: "string \<Rightarrow> ('s, string) action"
  op_delete_saved_peer :: "string \<Rightarrow> ('s, unit) action"
  op_record_saved_user_peers :: "string \<Rightarrow> string \<Rightarrow> ('s, unit) action"

section \<open>The abstract database\<close>

record db_view =
  v_user :: "user_account option"
  v_nonce :: u32
  v_success :: "db_tx_state_machine list"
  v_failed :: "db_tx_state_machine list"
  v_success_value :: i64
  v_failed_value :: i64
  v_peers :: "saved_peer_info list"

definition empty_view :: db_view where
  "empty_view = \<lparr>v_user = None, v_nonce = 0, v_success = [], v_failed = [],
     v_success_value = 0, v_failed_value = 0, v_peers = []\<rparr>"

definition add_account :: "string \<Rightarrow> chain_supported \<Rightarrow> user_account \<Rightarrow> user_account" where
  "add_account acc net u =
     (if (acc, net) \<in> set (accounts u) then u else u\<lparr>accounts := accounts u @ [(acc, net)]\<rparr>)"

definition find_peer :: "string \<Rightarrow> saved_peer_info list \<Rightarrow> saved_peer_info option" where
  "find_peer acc ps = List.find (\<lambda>p. acc \<in> set (account_ids p)) ps"

definition add_peer_account :: "string \<Rightarrow> saved_peer_info \<Rightarrow> saved_peer_info" where
  "add_peer_account acc p =
     (if acc \<in> set (account_ids p) then p else p\<lparr>account_ids := account_ids p @ [acc]\<rparr>)"

fun record_peer :: "string \<Rightarrow> string \<Rightarrow> saved_peer_info list \<Rightarrow> saved_peer_info list" where
  "record_peer acc ma [] = [\<lparr>peer_id = ma, multi_addr = ma, account_ids = [acc]\<rparr>]"
| "record_peer acc ma (p # ps) =
     (if multi_addr p = ma then add_peer_account acc p # ps else p # record_peer acc ma ps)"

definition spec_get_user_account :: "(db_view, user_account) action" where
  "spec_get_user_account = (\<lambda>v. case v_user v of
       None \<Rightarrow> (Err UserAccountNotFound, v) | Some u \<Rightarrow> (Ok u, v))"

definition spec_update_user_account ::
    "string \<Rightarrow> chain_supported \<Rightarrow> (db_view, user_account) action" where
  "spec_update_user_account acc net = (\<lambda>v. case v_user v of
       None \<Rightarrow> (Err UserAccountNotFound, v)
     | Some u \<Rightarrow> (Ok (add_account acc net u), v\<lparr>v_user := Some (add_account acc net u)\<rparr>))"

definition spec_update_success_tx :: "db_tx_state_machine \<Rightarrow> (db_view, unit) action" where
  "spec_update_success_tx tx = modify (\<lambda>v. v\<lparr>v_success := v_success v @ [tx],
     v_success_value := v_success_value v + ucast (db_amount tx)\<rparr>)"

definition spec_update_failed_tx :: "db_tx_state_machine \<Rightarrow> (db_view, unit) action" where
  "spec_update_failed_tx tx = modify (\<lambda>v. v\<lparr>v_failed := v_failed v @ [tx],
     v_failed_value := v_failed_value v + ucast (db_amount tx)\<rparr>)"

definition spec_get_saved_user_peers :: "string \<Rightarrow> (db_view, string) action" where
  "spec_get_saved_user_peers acc = (\<lambda>v. case find_peer acc (v_peers v) of
       None \<Rightarrow> (Err PeerNotFoundInDb, v) | Some p \<Rightarrow> (Ok (multi_addr p), v))"

definition spec_delete_saved_peer :: "string \<Rightarrow> (db_view, unit) action" where
  "spec_delete_saved_peer ma = (\<lambda>v.
     if ma \<in> set (map multi_addr (v_peers v))
     then (Ok (), v\<lparr>v_peers := filter (\<lambda>p. multi_addr p \<noteq> ma) (v_peers v)\<rparr>)
     else (Err (PeerNotFoundWithMultiAddr ma), v))"

definition spec_db_ops :: "db_view db_ops" where
  "spec_db_ops =
     \<lparr>op_set_user_account = (\<lambda>u. modify (\<lambda>v. v\<lparr>v_user := Some u\<rparr>)),
      op_update_user_account = spec_update_user_account,
      op_get_nonce = gets v_nonce,
      op_set_nonce = (\<lambda>n. modify (\<lambda>v. v\<lparr>v_nonce := n\<rparr>)),
      op_get_user_account = spec_get_user_account,
      op_update_success_tx = spec_update_success_tx,
      op_update_failed_tx = spec_update_failed_tx,
      op_get_failed_txs = gets v_failed,
      op_get_total_value_success = gets (\<lambda>v. scast (v_success_value v)),
      op_get_total_value_failed = gets (\<lambda>v. scast (v_failed_value v)),
      op_get_success_txs = gets v_success,
      op_increment_nonce = modify (\<lambda>v. v\<lparr>v_nonce := v_nonce v + 1\<rparr>),
      op_get_all_saved_peers_info = gets v_peers,
      op_get_saved_user_peers = spec_get_saved_user_peers,
      op_delete_saved_peer = spec_delete_saved_peer,
      op_record_saved_user_peers =
        (\<lambda>acc ma. modify (\<lambda>v. v\<lparr>v_peers := record_peer acc ma (v_peers v)\<rparr>))\<rparr>"

section \<open>Simulation\<close>

text \<open>An action \<open>m\<close> on the concrete state simulates \<open>m'\<close> on the abstract one: from a good state
  it has the same outcome, leads to a good state, and the views agree.\<close>

definition simulates ::
    "('s \<Rightarrow> 'v) \<Rightarrow> ('s \<Rightarrow> bool) \<Rightarrow> ('s, 'a) action \<Rightarrow> ('v, 'a) action \<Rightarrow> bool" where
  "simulates view good m m' \<longleftrightarrow>
     (\<forall>s. good s \<longrightarrow> good (snd (m s)) \<and> m' (view s) = (fst (m s), view (snd (m s))))"

lemma simulates_ret [intro]: "simulates view good (ret x) (ret x)"
  and simulates_raise [intro]: "simulates view good (raise e) (raise e)"
  and simulates_panic [intro]: "simulates view good (panic p) (panic p)"
  by (simp_all add: simulates_def run_simps)

lemma simulates_and_then [intro]:
  assumes "simulates view good m m'" and "\<And>x. simulates view good (f x) (f' x)"
  shows "simulates view good (and_then m f) (and_then m' f')"
  using assms by (auto simp: simulates_def run_simps split: prod.splits outcome.splits)

lemma simulates_attempt [intro]:
  "simulates view good m m' \<Longrightarrow> simulates view good (attempt m) (attempt m')"
  by (auto simp: simulates_def run_simps split: prod.splits outcome.splits)

lemma simulates_for_each [intro]:
  "(\<And>x. simulates view good (f x) (f' x)) \<Longrightarrow> simulates view good (for_each f xs) (for_each f' xs)"
  by (induction xs) auto

locale db_worker_interface =
  fixes D :: "'s db_ops" and view :: "'s \<Rightarrow> db_view" and good :: "'s \<Rightarrow> bool"
  assumes set_user_account:
      "simulates view good (op_set_user_account D u) (op_set_user_account spec_db_ops u)"
    and update_user_account:
      "simulates view good (op_update_user_account D acc net)
         (op_update_user_account spec_db_ops acc net)"
    and get_nonce: "simulates view good (op_get_nonce D) (op_get_nonce spec_db_ops)"
    and set_nonce: "simulates view good (op_set_nonce D n) (op_set_nonce spec_db_ops n)"
    and get_user_account:
      "simulates view good (op_get_user_account D) (op_get_user_account spec_db_ops)"
    and update_success_tx:
      "simulates view good (op_update_success_tx D tx) (op_update_success_tx spec_db_ops tx)"
    and update_failed_tx:
      "simulates view good (op_update_failed_tx D tx) (op_update_failed_tx spec_db_ops tx)"
    and get_failed_txs: "simulates view good (op_get_failed_txs D) (op_get_failed_txs spec_db_ops)"
    and get_total_value_success:
      "simulates view good (op_get_total_value_success D) (op_get_total_value_success spec_db_ops)"
    and get_total_value_failed:
      "simulates view good (op_get_total_value_failed D) (op_get_total_value_failed spec_db_ops)"
    and get_success_txs:
      "simulates view good (op_get_success_txs D) (op_get_success_txs spec_db_ops)"
    and increment_nonce:
      "simulates view good (op_increment_nonce D) (op_increment_nonce spec_db_ops)"
    and get_all_saved_peers_info:
      "simulates view good (op_get_all_saved_peers_info D) (op_get_all_saved_peers_info spec_db_ops)"
    and get_saved_user_peers:
      "simulates view good (op_get_saved_user_peers D acc) (op_get_saved_user_peers spec_db_ops acc)"
    and delete_saved_peer:
      "simulates view good (op_delete_saved_peer D ma) (op_delete_saved_peer spec_db_ops ma)"
    and record_saved_user_peers:
      "simulates view good (op_record_saved_user_peers D acc ma)
         (op_record_saved_user_peers spec_db_ops acc ma)"

text \<open>The abstract database is an implementation of itself.\<close>

interpretation spec_db: db_worker_interface spec_db_ops "\<lambda>v. v" "\<lambda>_. True"
  by unfold_locales (simp_all add: simulates_def)

section \<open>Calls and their replies\<close>

text \<open>A client's use of the database is a sequence of calls; the reply of each is its outcome.\<close>

datatype db_call =
    CSetUserAccount user_account
  | CUpdateUserAccount string chain_supported
  | CGetNonce
  | CSetNonce u32
  | CGetUserAccount
  | CUpdateSuccessTx db_tx_state_machine
  | CUpdateFailedTx db_tx_state_machine
  | CGetFailedTxs
  | CGetTotalValueSuccess
  | CGetTotalValueFailed
  | CGetSuccessTxs
  | CIncrementNonce
  | CGetAllSavedPeersInfo
  | CGetSavedUserPeers string
  | CDeleteSavedPeer string
  | CRecordSavedUserPeers string string

datatype db_reply =
    RUnit
  | RUser user_account
  | RNonce u32
  | RValue u128
  | RTxs "db_tx_state_machine list"
  | RPeers "saved_peer_info list"
  | RAddr string

definition reply :: "('a \<Rightarrow> db_reply) \<Rightarrow> ('s, 'a) action \<Rightarrow> ('s, db_reply) action" where
  "reply f m = and_then m (\<lambda>x. ret (f x))"

fun run_call :: "'s db_ops \<Rightarrow> db_call \<Rightarrow> ('s, db_reply) action" where
  "run_call D (CSetUserAccount u) = reply (\<lambda>_. RUnit) (op_set_user_account D u)"
| "run_call D (CUpdateUserAccount acc net) = reply RUser (op_update_user_account D acc net)"
| "run_call D CGetNonce = reply RNonce (op_get_nonce D)"
| "run_call D (CSetNonce n) = reply (\<lambda>_. RUnit) (op_set_nonce D n)"
| "run_call D CGetUserAccount = reply RUser (op_get_user_account D)"
| "run_call D (CUpdateSuccessTx tx) = reply (\<lambda>_. RUnit) (op_update_success_tx D tx)"
| "run_call D (CUpdateFailedTx tx) = reply (\<lambda>_. RUnit) (op_update_failed_tx D tx)"
| "run_call D CGetFailedTxs = reply RTxs (op_get_failed_txs D)"
| "run_call D CGetTotalValueSuccess = reply RValue (op_get_total_value_success D)"
| "run_call D CGetTotalValueFailed = reply RValue (op_get_total_value_failed D)"
| "run_call D CGetSuccessTxs = reply RTxs (op_get_success_txs D)"
| "run_call D CIncrementNonce = reply (\<lambda>_. RUnit) (op_increment_nonce D)"
| "run_call D CGetAllSavedPeersInfo = reply RPeers (op_get_all_saved_peers_info D)"
| "run_call D (CGetSavedUserPeers acc) = reply RAddr (op_get_saved_user_peers D acc)"
| "run_call D (CDeleteSavedPeer ma) = reply (\<lambda>_. RUnit) (op_delete_saved_peer D ma)"
| "run_call D (CRecordSavedUserPeers acc ma) =
     reply (\<lambda>_. RUnit) (op_record_saved_user_peers D acc ma)"

fun run_calls :: "'s db_ops \<Rightarrow> db_call list \<Rightarrow> 's \<Rightarrow> db_reply outcome list \<times> 's" where
  "run_calls D [] s = ([], s)"
| "run_calls D (c # cs) s =
     (let (r, s') = run_call D c s; (rs, s'') = run_calls D cs s' in (r # rs, s''))"

lemma simulates_reply: "simulates view good m m' \<Longrightarrow> simulates view good (reply f m) (reply f m')"
  unfolding reply_def by auto

context db_worker_interface
begin

lemmas op_simulations =
  set_user_account update_user_account get_nonce set_nonce get_user_account update_success_tx
  update_failed_tx get_failed_txs get_total_value_success get_total_value_failed get_success_txs
  increment_nonce get_all_saved_peers_info get_saved_user_peers delete_saved_peer
  record_saved_user_peers

lemma run_call_simulates: "simulates view good (run_call D c) (run_call spec_db_ops c)"
  by (cases c) (simp_all add: simulates_reply op_simulations)

lemma run_calls_refine:
  "good s \<Longrightarrow> fst (run_calls D cs s) = fst (run_calls spec_db_ops cs (view s))
     \<and> view (snd (run_calls D cs s)) = snd (run_calls spec_db_ops cs (view s))
     \<and> good (snd (run_calls D cs s))"
proof (induction cs arbitrary: s)
  case Nil
  then show ?case by simp
next
  case (Cons c cs)
  from run_call_simulates [of c] Cons.prems
  have c: "good (snd (run_call D c s))"
    "run_call spec_db_ops c (view s) = (fst (run_call D c s), view (snd (run_call D c s)))"
    by (simp_all add: simulates_def)
  show ?case
    using Cons.IH [OF c(1)] c(2) by (simp add: case_prod_beta)
qed

end

end
