(* ===== verification/Db_Wasm.thy ===== *)
theory Db_Wasm
  imports Db_Interface
begin

text \<open>
  \<open>InMemoryDbWorker\<close> of \<open>db-wasm/src/lib.rs\<close>, the database the wasm node runs on: five tables of
  SCALE-encoded records, each used under one fixed key. The SCALE codec is not part of the
  repository; it is a record of functions, and \<open>scale_codec\<close> states that decoding what was encoded
  gives it back. The type \<open>'b\<close> stands for the encoded bytes, which the worker only stores.

  The worker is shown to implement the contract of \<open>Db_Interface\<close>, and the totals, the nonce and
  the saved peers are characterised.
\<close>

section \<open>Tables and codec\<close>

definition USER_ACC_KEY :: string where "USER_ACC_KEY = ''user_account''"
definition NONCE_KEY :: string where "NONCE_KEY = ''nonce_key''"
definition SUCCESS_TXS_KEY :: string where "SUCCESS_TXS_KEY = ''success_txs_key''"
definition FAILED_TXS_KEY :: string where "FAILED_TXS_KEY = ''failed_txs_key''"
definition TXS_DATA_KEY :: string where "TXS_DATA_KEY = ''txs_data_key''"
definition SAVED_PEERS_KEY :: string where "SAVED_PEERS_KEY = ''saved_peers_key''"

record transactions_data =
  success_value :: i64
  failed_value :: i64

record 'b codec =
  enc_user :: "user_account \<Rightarrow> 'b"
  dec_user :: "'b \<Rightarrow> user_account option"
  enc_tx :: "db_tx_state_machine \<Rightarrow> 'b"
  dec_tx :: "'b \<Rightarrow> db_tx_state_machine option"
  enc_data :: "transactions_data \<Rightarrow> 'b"
  dec_data :: "'b \<Rightarrow> transactions_data option"
  enc_peers :: "saved_peer_info list \<Rightarrow> 'b"
  dec_peers :: "'b \<Rightarrow> saved_peer_info list option"

record 'b in_memory_db_worker =
  user_accounts :: "(string \<times> 'b) list"
  transactions_data_tbl :: "(string \<times> 'b) list"
  transactions :: "(string \<times> 'b list) list"
  nonces :: "(string \<times> u32) list"
  saved_peers :: "(string \<times> 'b) list"

definition mem_initialize_db_client :: "'b in_memory_db_worker" where
  "mem_initialize_db_client = \<lparr>user_accounts = [], transactions_data_tbl = [], transactions = [],
     nonces = [], saved_peers = []\<rparr>"

section \<open>Operations\<close>

text \<open>\<open>.map(|v| Decode::decode(v).expect("failed to decode"))\<close>: absent stays absent, a record that
  does not decode is a panic.\<close>

definition decode_expect :: "('b \<Rightarrow> 'a option) \<Rightarrow> 'b option \<Rightarrow> ('s, 'a option) action" where
  "decode_expect dec v = (case v of
       None \<Rightarrow> ret None
     | Some b \<Rightarrow> (case dec b of
           None \<Rightarrow> panic (ExpectFailed ''failed to decode'')
         | Some x \<Rightarrow> ret (Some x)))"

definition mem_set_user_account ::
    "'b codec \<Rightarrow> user_account \<Rightarrow> ('b in_memory_db_worker, unit) action" where
  "mem_set_user_account C user =
     modify (\<lambda>s. s\<lparr>user_accounts := AList.update USER_ACC_KEY (enc_user C user) (user_accounts s)\<rparr>)"

definition mem_get_user_account ::
    "'b codec \<Rightarrow> ('b in_memory_db_worker, user_account) action" where
  "mem_get_user_account C =
     and_then (gets (\<lambda>s. map_of (user_accounts s) USER_ACC_KEY)) (\<lambda>v.
     and_then (decode_expect (dec_user C) v) (\<lambda>u.
       case u of None \<Rightarrow> raise UserAccountNotFound | Some user \<Rightarrow> ret user))"

definition mem_update_user_account ::
    "'b codec \<Rightarrow> string \<Rightarrow> chain_supported \<Rightarrow> ('b in_memory_db_worker, user_account) action" where
  "mem_update_user_account C account_id network =
     and_then (gets (\<lambda>s. map_of (user_accounts s) USER_ACC_KEY)) (\<lambda>v.
     and_then (decode_expect (dec_user C) v) (\<lambda>u.
       case u of
         None \<Rightarrow> raise UserAccountNotFound
       | Some user \<Rightarrow>
           (if (account_id, network) \<in> set (accounts user) then ret user
            else
              (let user' = user\<lparr>accounts := accounts user @ [(account_id, network)]\<rparr> in
               and_then (modify (\<lambda>s. s\<lparr>user_accounts :=
                           AList.update USER_ACC_KEY (enc_user C user') (user_accounts s)\<rparr>)) (\<lambda>_.
               ret user')))))"

definition mem_get_nonce :: "('b in_memory_db_worker, u32) action" where
  "mem_get_nonce = gets (\<lambda>s. case map_of (nonces s) NONCE_KEY of Some n \<Rightarrow> n | None \<Rightarrow> 0)"

definition mem_increment_nonce :: "('b in_memory_db_worker, unit) action" where
  "mem_increment_nonce =
     and_then (gets (\<lambda>s. case map_of (nonces s) NONCE_KEY of Some n \<Rightarrow> n | None \<Rightarrow> 0)) (\<lambda>current.
     modify (\<lambda>s. s\<lparr>nonces := AList.update NONCE_KEY (current + 1) (nonces s)\<rparr>))"

definition mem_set_nonce :: "u32 \<Rightarrow> ('b in_memory_db_worker, unit) action" where
  "mem_set_nonce n = modify (\<lambda>s. s\<lparr>nonces := AList.update NONCE_KEY n (nonces s)\<rparr>)"

definition mem_get_all_saved_peers_info ::
    "'b codec \<Rightarrow> ('b in_memory_db_worker, saved_peer_info list) action" where
  "mem_get_all_saved_peers_info C =
     and_then (gets (\<lambda>s. map_of (saved_peers s) SAVED_PEERS_KEY)) (\<lambda>v.
       case v of
         Some encoded \<Rightarrow>
           (case dec_peers C encoded of
              None \<Rightarrow> raise FailedToDecodeSavedPeers | Some ps \<Rightarrow> ret ps)
       | None \<Rightarrow> ret [])"

fun first_with_account :: "string \<Rightarrow> saved_peer_info list \<Rightarrow> string option" where
  "first_with_account acc [] = None"
| "first_with_account acc (p # ps) =
     (if acc \<in> set (account_ids p) then Some (multi_addr p) else first_with_account acc ps)"

definition mem_get_saved_user_peers ::
    "'b codec \<Rightarrow> string \<Rightarrow> ('b in_memory_db_worker, string) action" where
  "mem_get_saved_user_peers C account_id =
     and_then (mem_get_all_saved_peers_info C) (\<lambda>ps.
       case first_with_account account_id ps of
         Some ma \<Rightarrow> ret ma | None \<Rightarrow> raise PeerNotFoundInDb)"

definition mem_delete_saved_peer ::
    "'b codec \<Rightarrow> string \<Rightarrow> ('b in_memory_db_worker, unit) action" where
  "mem_delete_saved_peer C ma =
     and_then (mem_get_all_saved_peers_info C) (\<lambda>ps.
     (let original_len = length ps; ps' = filter (\<lambda>p. multi_addr p \<noteq> ma) ps in
      if length ps' = original_len then raise (PeerNotFoundWithMultiAddr ma)
      else modify (\<lambda>s. s\<lparr>saved_peers :=
             AList.update SAVED_PEERS_KEY (enc_peers C ps') (saved_peers s)\<rparr>)))"

fun position :: "('a \<Rightarrow> bool) \<Rightarrow> 'a list \<Rightarrow> nat option" where
  "position P [] = None"
| "position P (x # xs) = (if P x then Some 0 else map_option Suc (position P xs))"

definition mem_record_saved_user_peers ::
    "'b codec \<Rightarrow> string \<Rightarrow> string \<Rightarrow> ('b in_memory_db_worker, unit) action" where
  "mem_record_saved_user_peers C account_id ma =
     and_then (mem_get_all_saved_peers_info C) (\<lambda>ps.
     (let ps' = (case position (\<lambda>p. multi_addr p = ma) ps of
          Some idx \<Rightarrow>
            (if account_id \<notin> set (account_ids (ps ! idx))
             then ps[idx := (ps ! idx)\<lparr>account_ids := account_ids (ps ! idx) @ [account_id]\<rparr>]
             else ps)
        | None \<Rightarrow> ps @ [\<lparr>peer_id = ma, multi_addr = ma, account_ids = [account_id]\<rparr>])
      in modify (\<lambda>s. s\<lparr>saved_peers :=
           AList.update SAVED_PEERS_KEY (enc_peers C ps') (saved_peers s)\<rparr>)))"

definition mem_totals :: "'b codec \<Rightarrow> ('b in_memory_db_worker, transactions_data) action" where
  "mem_totals C =
     and_then (gets (\<lambda>s. map_of (transactions_data_tbl s) TXS_DATA_KEY)) (\<lambda>v.
     and_then (decode_expect (dec_data C) v) (\<lambda>d.
       ret (case d of Some x \<Rightarrow> x | None \<Rightarrow> \<lparr>success_value = 0, failed_value = 0\<rparr>)))"

definition mem_push_tx :: "string \<Rightarrow> 'b \<Rightarrow> ('b in_memory_db_worker, unit) action" where
  "mem_push_tx key tx_data = modify (\<lambda>s. s\<lparr>transactions := AList.update key
       (case map_of (transactions s) key of Some saved \<Rightarrow> saved @ [tx_data] | None \<Rightarrow> [tx_data])
       (transactions s)\<rparr>)"

definition mem_update_success_tx ::
    "'b codec \<Rightarrow> db_tx_state_machine \<Rightarrow> ('b in_memory_db_worker, unit) action" where
  "mem_update_success_tx C tx_state =
     and_then (mem_push_tx SUCCESS_TXS_KEY (enc_tx C tx_state)) (\<lambda>_.
     and_then (mem_totals C) (\<lambda>current.
     modify (\<lambda>s. s\<lparr>transactions_data_tbl := AList.update TXS_DATA_KEY
        (enc_data C (current\<lparr>success_value := success_value current + ucast (db_amount tx_state)\<rparr>))
        (transactions_data_tbl s)\<rparr>)))"

definition mem_update_failed_tx ::
    "'b codec \<Rightarrow> db_tx_state_machine \<Rightarrow> ('b in_memory_db_worker, unit) action" where
  "mem_update_failed_tx C tx_state =
     and_then (mem_push_tx FAILED_TXS_KEY (enc_tx C tx_state)) (\<lambda>_.
     and_then (mem_totals C) (\<lambda>current.
     modify (\<lambda>s. s\<lparr>transactions_data_tbl := AList.update TXS_DATA_KEY
        (enc_data C (current\<lparr>failed_value := failed_value current + ucast (db_amount tx_state)\<rparr>))
        (transactions_data_tbl s)\<rparr>)))"

fun decode_all :: "('b \<Rightarrow> 'a option) \<Rightarrow> 'b list \<Rightarrow> ('s, 'a list) action" where
  "decode_all dec [] = ret []"
| "decode_all dec (b # bs) = (case dec b of
       None \<Rightarrow> panic (ExpectFailed ''failed to decode'')
     | Some x \<Rightarrow> and_then (decode_all dec bs) (\<lambda>xs. ret (x # xs)))"

definition mem_get_failed_txs ::
    "'b codec \<Rightarrow> ('b in_memory_db_worker, db_tx_state_machine list) action" where
  "mem_get_failed_txs C =
     and_then (gets (\<lambda>s. case map_of (transactions s) FAILED_TXS_KEY of Some v \<Rightarrow> v | None \<Rightarrow> []))
       (decode_all (dec_tx C))"

definition mem_get_success_txs ::
    "'b codec \<Rightarrow> ('b in_memory_db_worker, db_tx_state_machine list) action" where
  "mem_get_success_txs C =
     and_then (gets (\<lambda>s. case map_of (transactions s) SUCCESS_TXS_KEY of Some v \<Rightarrow> v | None \<Rightarrow> []))
       (decode_all (dec_tx C))"

text \<open>\<open>data.success_value as u128\<close>: a cast from \<open>i64\<close> extends the sign.\<close>

definition mem_get_total_value_success :: "'b codec \<Rightarrow> ('b in_memory_db_worker, u128) action" where
  "mem_get_total_value_success C = and_then (mem_totals C) (\<lambda>d. ret (scast (success_value d)))"

definition mem_get_total_value_failed :: "'b codec \<Rightarrow> ('b in_memory_db_worker, u128) action" where
  "mem_get_total_value_failed C = and_then (mem_totals C) (\<lambda>d. ret (scast (failed_value d)))"

definition in_memory_db_ops :: "'b codec \<Rightarrow> 'b in_memory_db_worker db_ops" where
  "in_memory_db_ops C =
     \<lparr>op_set_user_account = mem_set_user_account C,
      op_update_user_account = mem_update_user_account C,
      op_get_nonce = mem_get_nonce,
      op_set_nonce = mem_set_nonce,
      op_get_user_account = mem_get_user_account C,
      op_update_success_tx = mem_update_success_tx C,
      op_update_failed_tx = mem_update_failed_tx C,
      op_get_failed_txs = mem_get_failed_txs C,
      op_get_total_value_success = mem_get_total_value_success C,
      op_get_total_value_failed = mem_get_total_value_failed C,
      op_get_success_txs = mem_get_success_txs C,
      op_increment_nonce = mem_increment_nonce,
      op_get_all_saved_peers_info = mem_get_all_saved_peers_info C,
      op_get_saved_user_peers = mem_get_saved_user_peers C,
      op_delete_saved_peer = mem_delete_saved_peer C,
      op_record_saved_user_peers = mem_record_saved_user_peers C\<rparr>"

lemmas mem_defs =
  mem_set_user_account_def mem_get_user_account_def mem_update_user_account_def mem_get_nonce_def
  mem_increment_nonce_def mem_set_nonce_def mem_get_all_saved_peers_info_def
  mem_get_saved_user_peers_def mem_delete_saved_peer_def mem_record_saved_user_peers_def
  mem_totals_def mem_push_tx_def mem_update_success_tx_def mem_update_failed_tx_def
  mem_get_failed_txs_def mem_get_success_txs_def mem_get_total_value_success_def
  mem_get_total_value_failed_def decode_expect_def

section \<open>The worker implements the contract\<close>

locale scale_codec =
  fixes C :: "'b codec"
  assumes dec_enc_user [simp]: "dec_user C (enc_user C u) = Some u"
    and dec_enc_tx [simp]: "dec_tx C (enc_tx C t) = Some t"
    and dec_enc_data [simp]: "dec_data C (enc_data C d) = Some d"
    and dec_enc_peers [simp]: "dec_peers C (enc_peers C ps) = Some ps"

text \<open>The view of a worker: its tables, decoded. A good worker holds only encoded records.\<close>

definition txs_under :: "'b codec \<Rightarrow> string \<Rightarrow> 'b in_memory_db_worker \<Rightarrow> db_tx_state_machine list" where
  "txs_under C key s = (case map_of (transactions s) key of
       None \<Rightarrow> [] | Some bs \<Rightarrow> map (\<lambda>b. the (dec_tx C b)) bs)"

definition data_of :: "'b codec \<Rightarrow> 'b in_memory_db_worker \<Rightarrow> transactions_data" where
  "data_of C s = (case map_of (transactions_data_tbl s) TXS_DATA_KEY of
       None \<Rightarrow> \<lparr>success_value = 0, failed_value = 0\<rparr> | Some b \<Rightarrow> the (dec_data C b))"

definition mem_view :: "'b codec \<Rightarrow> 'b in_memory_db_worker \<Rightarrow> db_view" where
  "mem_view C s =
     \<lparr>v_user = Option.bind (map_of (user_accounts s) USER_ACC_KEY) (dec_user C),
      v_nonce = (case map_of (nonces s) NONCE_KEY of Some n \<Rightarrow> n | None \<Rightarrow> 0),
      v_success = txs_under C SUCCESS_TXS_KEY s,
      v_failed = txs_under C FAILED_TXS_KEY s,
      v_success_value = success_value (data_of C s),
      v_failed_value = failed_value (data_of C s),
      v_peers = (case map_of (saved_peers s) SAVED_PEERS_KEY of
          None \<Rightarrow> [] | Some b \<Rightarrow> the (dec_peers C b))\<rparr>"

definition mem_good :: "'b codec \<Rightarrow> 'b in_memory_db_worker \<Rightarrow> bool" where
  "mem_good C s \<longleftrightarrow>
     (\<forall>b. map_of (user_accounts s) USER_ACC_KEY = Some b \<longrightarrow> dec_user C b \<noteq> None)
   \<and> (\<forall>b. map_of (transactions_data_tbl s) TXS_DATA_KEY = Some b \<longrightarrow> dec_data C b \<noteq> None)
   \<and> (\<forall>b. map_of (saved_peers s) SAVED_PEERS_KEY = Some b \<longrightarrow> dec_peers C b \<noteq> None)
   \<and> (\<forall>key bs. map_of (transactions s) key = Some bs \<longrightarrow> (\<forall>b \<in> set bs. dec_tx C b \<noteq> None))"

lemma keys_distinct [simp]: "SUCCESS_TXS_KEY \<noteq> FAILED_TXS_KEY" "FAILED_TXS_KEY \<noteq> SUCCESS_TXS_KEY"
  by (simp_all add: SUCCESS_TXS_KEY_def FAILED_TXS_KEY_def)

lemma run_decode_all:
  "\<forall>b \<in> set bs. dec b \<noteq> None \<Longrightarrow> decode_all dec bs s = (Ok (map (\<lambda>b. the (dec b)) bs), s)"
  by (induction bs) (auto simp: run_simps)

lemma first_with_account_find:
  "first_with_account acc ps = map_option multi_addr (find_peer acc ps)"
  by (induction ps) (auto simp: find_peer_def)

lemma filter_multi_addr_length:
  "length (filter (\<lambda>p. multi_addr p \<noteq> ma) ps) = length ps \<longleftrightarrow> ma \<notin> set (map multi_addr ps)"
proof (cases "ma \<in> set (map multi_addr ps)")
  case True
  then obtain p where "p \<in> set ps" "\<not> multi_addr p \<noteq> ma" by auto
  from length_filter_less [of _ _ "\<lambda>p. multi_addr p \<noteq> ma", OF this] True show ?thesis by simp
next
  case False
  then have "filter (\<lambda>p. multi_addr p \<noteq> ma) ps = ps" by (auto simp: filter_id_conv)
  with False show ?thesis by simp
qed

lemma position_record_peer:
  "(case position (\<lambda>p. multi_addr p = ma) ps of
      Some idx \<Rightarrow>
        (if acc \<notin> set (account_ids (ps ! idx))
         then ps[idx := (ps ! idx)\<lparr>account_ids := account_ids (ps ! idx) @ [acc]\<rparr>] else ps)
    | None \<Rightarrow> ps @ [\<lparr>peer_id = ma, multi_addr = ma, account_ids = [acc]\<rparr>]) = record_peer acc ma ps"
  by (induction ps) (auto simp: add_peer_account_def split: option.splits)

context scale_codec
begin

lemma good_cases:
  assumes "mem_good C s"
  shows good_user: "map_of (user_accounts s) USER_ACC_KEY = Some b \<Longrightarrow> \<exists>u. dec_user C b = Some u"
    and good_data: "map_of (transactions_data_tbl s) TXS_DATA_KEY = Some b \<Longrightarrow> \<exists>d. dec_data C b = Some d"
    and good_peers: "map_of (saved_peers s) SAVED_PEERS_KEY = Some b \<Longrightarrow> \<exists>ps. dec_peers C b = Some ps"
    and good_txs: "map_of (transactions s) key = Some bs \<Longrightarrow> \<forall>x \<in> set bs. dec_tx C x \<noteq> None"
  using assms by (auto simp: mem_good_def)

lemma run_mem_totals: "mem_good C s \<Longrightarrow> mem_totals C s = (Ok (data_of C s), s)"
  by (auto simp: mem_totals_def decode_expect_def data_of_def run_simps split: option.splits
      dest: good_data)

lemma run_mem_peers:
  "mem_good C s \<Longrightarrow> mem_get_all_saved_peers_info C s = (Ok (v_peers (mem_view C s)), s)"
  by (auto simp: mem_get_all_saved_peers_info_def mem_view_def run_simps split: option.splits
      dest: good_peers)

lemma run_mem_user:
  "mem_good C s \<Longrightarrow> decode_expect (dec_user C) (map_of (user_accounts s) USER_ACC_KEY) s
     = (Ok (v_user (mem_view C s)), s)"
  by (auto simp: decode_expect_def mem_view_def run_simps split: option.splits dest: good_user)

lemma good_put_peers:
  "mem_good C s \<Longrightarrow>
   mem_good C (s\<lparr>saved_peers := AList.update SAVED_PEERS_KEY (enc_peers C ps) (saved_peers s)\<rparr>)"
  by (simp add: mem_good_def)

lemma good_put_user:
  "mem_good C s \<Longrightarrow>
   mem_good C (s\<lparr>user_accounts := AList.update USER_ACC_KEY (enc_user C u) (user_accounts s)\<rparr>)"
  by (simp add: mem_good_def)

lemma good_put_data:
  "mem_good C s \<Longrightarrow>
   mem_good C (s\<lparr>transactions_data_tbl :=
     AList.update TXS_DATA_KEY (enc_data C d) (transactions_data_tbl s)\<rparr>)"
  by (simp add: mem_good_def)

lemma run_push_success:
  assumes "mem_good C s"
  shows "\<exists>s'. mem_push_tx SUCCESS_TXS_KEY (enc_tx C t) s = (Ok (), s') \<and> mem_good C s'
     \<and> data_of C s' = data_of C s
     \<and> mem_view C s' = (mem_view C s)\<lparr>v_success := v_success (mem_view C s) @ [t]\<rparr>"
  using assms
  by (auto simp: mem_push_tx_def run_simps mem_good_def mem_view_def data_of_def txs_under_def
      split: option.splits)

lemma run_push_failed:
  assumes "mem_good C s"
  shows "\<exists>s'. mem_push_tx FAILED_TXS_KEY (enc_tx C t) s = (Ok (), s') \<and> mem_good C s'
     \<and> data_of C s' = data_of C s
     \<and> mem_view C s' = (mem_view C s)\<lparr>v_failed := v_failed (mem_view C s) @ [t]\<rparr>"
  using assms
  by (auto simp: mem_push_tx_def run_simps mem_good_def mem_view_def data_of_def txs_under_def
      split: option.splits)

lemma mem_view_values:
  "v_success_value (mem_view C s) = success_value (data_of C s)"
  "v_failed_value (mem_view C s) = failed_value (data_of C s)"
  by (simp_all add: mem_view_def)

lemma mem_view_same_values:
  "(mem_view C s)\<lparr>v_success_value := success_value (data_of C s)\<rparr> = mem_view C s"
  "(mem_view C s)\<lparr>v_failed_value := failed_value (data_of C s)\<rparr> = mem_view C s"
  by (simp_all add: mem_view_def)

lemma mem_view_put_user:
  "mem_view C (s\<lparr>user_accounts := AList.update USER_ACC_KEY (enc_user C u) (user_accounts s)\<rparr>)
     = (mem_view C s)\<lparr>v_user := Some u\<rparr>"
  by (simp add: mem_view_def txs_under_def data_of_def)

lemma mem_view_put_peers:
  "mem_view C (s\<lparr>saved_peers := AList.update SAVED_PEERS_KEY (enc_peers C ps) (saved_peers s)\<rparr>)
     = (mem_view C s)\<lparr>v_peers := ps\<rparr>"
  by (simp add: mem_view_def txs_under_def data_of_def)

lemma mem_view_put_data:
  "mem_view C (s\<lparr>transactions_data_tbl :=
       AList.update TXS_DATA_KEY (enc_data C d) (transactions_data_tbl s)\<rparr>)
     = (mem_view C s)\<lparr>v_success_value := success_value d, v_failed_value := failed_value d\<rparr>"
  by (simp add: mem_view_def txs_under_def data_of_def)

abbreviation sim :: "('b in_memory_db_worker, 'a) action \<Rightarrow> (db_view, 'a) action \<Rightarrow> bool" where
  "sim \<equiv> simulates (mem_view C) (mem_good C)"

lemmas sim_defs = simulates_def in_memory_db_ops_def spec_db_ops_def

lemma sim_set_user_account:
  "sim (op_set_user_account (in_memory_db_ops C) u)
    (op_set_user_account spec_db_ops u)"
  by (simp add: sim_defs mem_set_user_account_def
      run_simps good_put_user mem_view_put_user)

lemma sim_update_user_account:
  "sim (op_update_user_account (in_memory_db_ops C) acc net)
    (op_update_user_account spec_db_ops acc net)"
  unfolding simulates_def
proof (intro allI impI)
  fix s assume good: "mem_good C s"
  show "mem_good C (snd (op_update_user_account (in_memory_db_ops C) acc net s))
      \<and> op_update_user_account spec_db_ops acc net (mem_view C s) =
        (fst (op_update_user_account (in_memory_db_ops C) acc net s),
         mem_view C (snd (op_update_user_account (in_memory_db_ops C) acc net s)))"
  proof (cases "v_user (mem_view C s)")
    case None
    then show ?thesis using good
      by (simp add: in_memory_db_ops_def spec_db_ops_def spec_update_user_account_def
          mem_update_user_account_def run_mem_user run_simps)
  next
    case (Some u)
    have same: "(mem_view C s)\<lparr>v_user := Some u\<rparr> = mem_view C s"
      using Some by (cases "mem_view C s") simp
    show ?thesis using good Some
      by (simp add: in_memory_db_ops_def spec_db_ops_def spec_update_user_account_def
          mem_update_user_account_def run_mem_user run_simps good_put_user
          add_account_def Let_def same mem_view_put_user)
  qed
qed

lemma sim_get_nonce:
  "sim (op_get_nonce (in_memory_db_ops C))
    (op_get_nonce spec_db_ops)"
  by (simp add: sim_defs mem_get_nonce_def run_simps
      mem_view_def)

lemma sim_set_nonce:
  "sim (op_set_nonce (in_memory_db_ops C) n)
    (op_set_nonce spec_db_ops n)"
  by (simp add: sim_defs mem_set_nonce_def run_simps
      mem_view_def mem_good_def txs_under_def data_of_def)

lemma sim_get_user_account:
  "sim (op_get_user_account (in_memory_db_ops C)) (op_get_user_account spec_db_ops)"
  by (simp add: sim_defs spec_get_user_account_def mem_get_user_account_def run_mem_user run_simps
      split: option.split)

lemma sim_update_success_tx:
  "sim (op_update_success_tx (in_memory_db_ops C) tx) (op_update_success_tx spec_db_ops tx)"
  unfolding simulates_def
proof (intro allI impI)
  fix s assume "mem_good C s"
  from run_push_success [OF this]
  obtain s' where "mem_push_tx SUCCESS_TXS_KEY (enc_tx C tx) s = (Ok (), s')" "mem_good C s'"
    "data_of C s' = data_of C s"
    "mem_view C s' = (mem_view C s)\<lparr>v_success := v_success (mem_view C s) @ [tx]\<rparr>"
    by metis
  then show "mem_good C (snd (op_update_success_tx (in_memory_db_ops C) tx s))
      \<and> op_update_success_tx spec_db_ops tx (mem_view C s) =
        (fst (op_update_success_tx (in_memory_db_ops C) tx s),
         mem_view C (snd (op_update_success_tx (in_memory_db_ops C) tx s)))"
    by (simp add: in_memory_db_ops_def spec_db_ops_def mem_update_success_tx_def
        spec_update_success_tx_def run_simps run_mem_totals good_put_data mem_view_put_data
        mem_view_values mem_view_same_values)
qed

lemma sim_update_failed_tx:
  "sim (op_update_failed_tx (in_memory_db_ops C) tx) (op_update_failed_tx spec_db_ops tx)"
  unfolding simulates_def
proof (intro allI impI)
  fix s assume "mem_good C s"
  from run_push_failed [OF this]
  obtain s' where "mem_push_tx FAILED_TXS_KEY (enc_tx C tx) s = (Ok (), s')" "mem_good C s'"
    "data_of C s' = data_of C s"
    "mem_view C s' = (mem_view C s)\<lparr>v_failed := v_failed (mem_view C s) @ [tx]\<rparr>"
    by metis
  then show "mem_good C (snd (op_update_failed_tx (in_memory_db_ops C) tx s))
      \<and> op_update_failed_tx spec_db_ops tx (mem_view C s) =
        (fst (op_update_failed_tx (in_memory_db_ops C) tx s),
         mem_view C (snd (op_update_failed_tx (in_memory_db_ops C) tx s)))"
    by (simp add: in_memory_db_ops_def spec_db_ops_def mem_update_failed_tx_def
        spec_update_failed_tx_def run_simps run_mem_totals good_put_data mem_view_put_data
        mem_view_values mem_view_same_values)
qed

lemma sim_get_failed_txs:
  "sim (op_get_failed_txs (in_memory_db_ops C))
    (op_get_failed_txs spec_db_ops)"
  by (auto simp: sim_defs mem_get_failed_txs_def
      run_simps mem_view_def txs_under_def run_decode_all good_txs split: option.splits)

lemma sim_get_total_value_success:
  "sim (op_get_total_value_success (in_memory_db_ops C))
    (op_get_total_value_success spec_db_ops)"
  by (simp add: sim_defs
      mem_get_total_value_success_def run_simps run_mem_totals mem_view_def)

lemma sim_get_total_value_failed:
  "sim (op_get_total_value_failed (in_memory_db_ops C))
    (op_get_total_value_failed spec_db_ops)"
  by (simp add: sim_defs
      mem_get_total_value_failed_def run_simps run_mem_totals mem_view_def)

lemma sim_get_success_txs:
  "sim (op_get_success_txs (in_memory_db_ops C))
    (op_get_success_txs spec_db_ops)"
  by (auto simp: sim_defs mem_get_success_txs_def
      run_simps mem_view_def txs_under_def run_decode_all good_txs split: option.splits)

lemma sim_increment_nonce:
  "sim (op_increment_nonce (in_memory_db_ops C))
    (op_increment_nonce spec_db_ops)"
  by (simp add: sim_defs mem_increment_nonce_def
      run_simps mem_view_def mem_good_def txs_under_def data_of_def)

lemma sim_get_all_saved_peers_info:
  "sim (op_get_all_saved_peers_info (in_memory_db_ops C))
    (op_get_all_saved_peers_info spec_db_ops)"
  by (simp add: sim_defs run_mem_peers run_simps)

lemma sim_get_saved_user_peers:
  "sim (op_get_saved_user_peers (in_memory_db_ops C) acc)
    (op_get_saved_user_peers spec_db_ops acc)"
  by (simp add: sim_defs mem_get_saved_user_peers_def
      spec_get_saved_user_peers_def run_mem_peers run_simps first_with_account_find
      split: option.splits)

lemma sim_delete_saved_peer:
  "sim (op_delete_saved_peer (in_memory_db_ops C) ma)
    (op_delete_saved_peer spec_db_ops ma)"
  by (simp add: sim_defs mem_delete_saved_peer_def
      spec_delete_saved_peer_def run_mem_peers run_simps filter_multi_addr_length Let_def
      good_put_peers mem_view_put_peers del: set_map)

lemma sim_record_saved_user_peers:
  "sim (op_record_saved_user_peers (in_memory_db_ops C) acc ma)
    (op_record_saved_user_peers spec_db_ops acc ma)"
  by (simp add: sim_defs
      mem_record_saved_user_peers_def run_mem_peers run_simps position_record_peer Let_def
      good_put_peers mem_view_put_peers)

end

sublocale scale_codec < mem: db_worker_interface "in_memory_db_ops C" "mem_view C" "mem_good C"
  by unfold_locales
    (rule sim_set_user_account sim_update_user_account sim_get_nonce sim_set_nonce sim_get_user_account sim_update_success_tx sim_update_failed_tx sim_get_failed_txs sim_get_total_value_success sim_get_total_value_failed sim_get_success_txs sim_increment_nonce sim_get_all_saved_peers_info sim_get_saved_user_peers sim_delete_saved_peer sim_record_saved_user_peers)+

text \<open>A codec that keeps the records under a tag stands for SCALE in the concrete runs.\<close>

datatype plain_encoding =
    PlainUser user_account
  | PlainTx db_tx_state_machine
  | PlainData transactions_data
  | PlainPeers "saved_peer_info list"

definition plain_codec :: "plain_encoding codec" where
  "plain_codec = \<lparr>enc_user = PlainUser, dec_user = (\<lambda>b. case b of PlainUser u \<Rightarrow> Some u | _ \<Rightarrow> None),
     enc_tx = PlainTx, dec_tx = (\<lambda>b. case b of PlainTx t \<Rightarrow> Some t | _ \<Rightarrow> None),
     enc_data = PlainData, dec_data = (\<lambda>b. case b of PlainData d \<Rightarrow> Some d | _ \<Rightarrow> None),
     enc_peers = PlainPeers, dec_peers = (\<lambda>b. case b of PlainPeers ps \<Rightarrow> Some ps | _ \<Rightarrow> None)\<rparr>"

interpretation plain: scale_codec plain_codec
  by unfold_locales (simp_all add: plain_codec_def)

section \<open>What a client observes\<close>

lemma good_fresh: "mem_good C mem_initialize_db_client"
  by (simp add: mem_good_def mem_initialize_db_client_def)

lemma view_fresh: "mem_view C mem_initialize_db_client = empty_view"
  by (simp add: mem_view_def mem_initialize_db_client_def empty_view_def txs_under_def data_of_def)

context scale_codec
begin

lemma fresh_run:
  "fst (run_calls (in_memory_db_ops C) cs mem_initialize_db_client)
     = fst (run_calls spec_db_ops cs empty_view)"
  using mem.run_calls_refine [OF good_fresh [of C], of cs] by (simp add: view_fresh)

end

lemma run_calls_append:
  "run_calls D (cs @ ds) s =
     (fst (run_calls D cs s) @ fst (run_calls D ds (snd (run_calls D cs s))),
      snd (run_calls D ds (snd (run_calls D cs s))))"
  by (induction cs arbitrary: s) (simp_all add: case_prod_beta)

lemma length_run_calls [simp]: "length (fst (run_calls D cs s)) = length cs"
  by (induction cs arbitrary: s) (simp_all add: case_prod_beta)

lemma spec_success_run:
  "v_success_value (snd (run_calls spec_db_ops (map CUpdateSuccessTx txs) v))
     = v_success_value v + sum_list (map (\<lambda>t. ucast (db_amount t)) txs)"
  by (induction txs arbitrary: v)
    (simp_all add: reply_def run_simps spec_db_ops_def spec_update_success_tx_def case_prod_beta
      add.assoc)

lemma spec_increment_run:
  "v_nonce (snd (run_calls spec_db_ops (replicate n CIncrementNonce) v)) = v_nonce v + of_nat n"
  by (induction n arbitrary: v)
    (simp_all add: reply_def run_simps spec_db_ops_def case_prod_beta)

lemma sum_list_of_amounts:
  "sum_list (map (\<lambda>t. ucast (db_amount t)) txs) = (of_nat (sum_list (map (\<lambda>t. unat (db_amount t)) txs)) :: i64)"
  by (induction txs) (simp_all add: of_nat_unat)

lemma scast_small_nat:
  assumes "n < 2 ^ 63" shows "scast (of_nat n :: i64) = (of_nat n :: u128)"
proof -
  have "sint (of_nat n :: i64) = int n"
    using assms by (simp add: sint_uint signed_take_bit_int_eq_self unsigned_of_nat take_bit_nat_eq_self)
  then show ?thesis
    by (metis of_int_of_nat_eq of_int_sint)
qed

lemma scast_ucast_large:
  assumes "2 ^ 63 \<le> unat a" and "unat a < 2 ^ 127"
  shows "scast (ucast (a :: u128) :: i64) \<noteq> a"
proof
  define k where "k = sint (ucast a :: i64)"
  assume "scast (ucast a :: i64) = a"
  then have "a = word_of_int k" by (simp add: k_def)
  then have u: "uint a = k mod 2 ^ 128" by (simp add: uint_word_of_int)
  have lo: "- (2 ^ 63) \<le> k" and hi: "k < 2 ^ 63"
    using sint_ge [of "ucast a :: i64"] sint_less [of "ucast a :: i64"] by (simp_all add: k_def)
  have a: "2 ^ 63 \<le> uint a" "uint a < 2 ^ 127"
    using assms
    by (simp_all only: uint_nat numeral_power_le_of_nat_cancel_iff
        of_nat_less_numeral_power_cancel_iff)
  show False
  proof (cases "0 \<le> k")
    case True
    then have "k mod 2 ^ 128 = k" using hi by simp
    with u a hi show False by simp
  next
    case False
    then have "(k + 2 ^ 128) mod 2 ^ 128 = k + 2 ^ 128" using lo by (intro mod_pos_pos_trivial) auto
    then have "uint a = k + 2 ^ 128" using u by simp
    with a lo show False by simp
  qed
qed

lemma spec_total_run:
  "last (fst (run_calls spec_db_ops (map CUpdateSuccessTx txs @ [CGetTotalValueSuccess]) empty_view))
     = Ok (RValue (scast (of_nat (sum_list (map (\<lambda>t. unat (db_amount t)) txs)) :: i64)))"
  using spec_success_run [of txs empty_view]
  by (simp add: run_calls_append reply_def run_simps case_prod_beta sum_list_of_amounts)
    (simp add: spec_db_ops_def run_simps empty_view_def)

lemma spec_nonce_run:
  "last (fst (run_calls spec_db_ops (replicate n CIncrementNonce @ [CGetNonce]) empty_view))
     = Ok (RNonce (of_nat n))"
  using spec_increment_run [of n empty_view]
  by (simp add: run_calls_append reply_def run_simps case_prod_beta)
    (simp add: spec_db_ops_def run_simps empty_view_def)

text \<open>C19: a client of the in-memory database cannot tell it from the abstract database of the
  contract: for every sequence of trait calls on a fresh worker, the replies (results, errors and
  values read) are the abstract ones.\<close>

theorem in_memory_refines_spec:
  assumes "scale_codec C"
  shows "fst (run_calls (in_memory_db_ops C) cs mem_initialize_db_client)
           = fst (run_calls spec_db_ops cs empty_view)"
  by (rule scale_codec.fresh_run [OF assms])

theorem in_memory_refines_spec_witness:
  "fst (run_calls (in_memory_db_ops plain_codec)
      [CGetUserAccount, CRecordSavedUserPeers ''alice'' ''/ip4/1'', CGetSavedUserPeers ''alice'',
       CDeleteSavedPeer ''/ip4/1'', CGetSavedUserPeers ''alice''] mem_initialize_db_client)
   = [Err UserAccountNotFound, Ok RUnit, Ok (RAddr ''/ip4/1''), Ok RUnit, Err PeerNotFoundInDb]"
  unfolding in_memory_refines_spec [OF plain.scale_codec_axioms]
  by (simp add: spec_db_ops_def reply_def run_simps spec_get_user_account_def empty_view_def
      spec_get_saved_user_peers_def spec_delete_saved_peer_def find_peer_def)


definition sample_db_tx :: "u128 \<Rightarrow> db_tx_state_machine" where
  "sample_db_tx a = \<lparr>tx_hash = [1], db_amount = a, db_token = TokEthereum EthETH,
     db_sender = ''0xa'', db_receiver = ''0xb'', sender_network = Ethereum,
     receiver_network = Ethereum, success = True\<rparr>"


text \<open>A single recorded amount from \<open>2 ^ 63\<close> up is not read back: the running total is an
  \<open>i64\<close>, so the amount is truncated on the way in and sign-extended on the way out. Amounts are
  in the smallest unit of the chain, and 10 ETH are \<open>10 ^ 19\<close> wei.\<close>

theorem total_value_truncated:
  assumes "scale_codec C" and "2 ^ 63 \<le> unat (db_amount t)" and "unat (db_amount t) < 2 ^ 127"
  shows "last (fst (run_calls (in_memory_db_ops C) [CUpdateSuccessTx t, CGetTotalValueSuccess]
            mem_initialize_db_client)) \<noteq> Ok (RValue (db_amount t))"
  using spec_total_run [of "[t]"] scast_ucast_large [OF assms(2,3)]
  by (simp add: scale_codec.fresh_run [OF assms(1)] of_nat_unat del: run_calls.simps)

theorem total_value_truncated_witness:
  "last (fst (run_calls (in_memory_db_ops plain_codec)
      [CUpdateSuccessTx (sample_db_tx (10 ^ 19)), CGetTotalValueSuccess]
      mem_initialize_db_client)) \<noteq> Ok (RValue (10 ^ 19))"
  using total_value_truncated [OF plain.scale_codec_axioms, of "sample_db_tx (10 ^ 19)"]
  by (simp add: sample_db_tx_def)

text \<open>The nonce a fresh worker hands out after \<open>n\<close> increments is \<open>n\<close>, modulo \<open>2 ^ 32\<close>.\<close>

theorem nonce_counts:
  assumes "scale_codec C"
  shows "last (fst (run_calls (in_memory_db_ops C) (replicate n CIncrementNonce @ [CGetNonce])
            mem_initialize_db_client)) = Ok (RNonce (of_nat n))"
  unfolding scale_codec.fresh_run [OF assms] spec_nonce_run ..

theorem nonce_counts_witness:
  "last (fst (run_calls (in_memory_db_ops plain_codec) [CIncrementNonce, CIncrementNonce, CGetNonce]
      mem_initialize_db_client)) = Ok (RNonce 2)"
  using nonce_counts [OF plain.scale_codec_axioms, of 2]
  by (simp add: numeral_2_eq_2 del: run_calls.simps)

end
