(* ===== verification/Lru_Cache.thy ===== *)
theory Lru_Cache
  imports Vane_Prelude
begin

text \<open>
  The interface of the \<open>lru\<close> crate that the wasm node keeps its pending transactions in. The
  crate is not part of the repository: its operations are a record of functions that the node's
  definitions take as an argument, and the locale \<open>lru_cache\<close> states what its documentation
  promises about them, in terms of \<open>iter\<close>, which lists the entries from the most to the least
  recently used. \<open>get_mut k f\<close> stands for \<open>get_mut\<close> followed by the assignment of \<open>f v\<close> through
  the reference it returns.
\<close>

record ('c, 'k, 'v) lru_ops =
  lru_push :: "'k \<Rightarrow> 'v \<Rightarrow> 'c \<Rightarrow> 'c"
  lru_get :: "'k \<Rightarrow> 'c \<Rightarrow> 'v option \<times> 'c"
  lru_get_mut :: "'k \<Rightarrow> ('v \<Rightarrow> 'v) \<Rightarrow> 'c \<Rightarrow> 'v option \<times> 'c"
  lru_peek :: "'k \<Rightarrow> 'c \<Rightarrow> 'v option"
  lru_pop :: "'k \<Rightarrow> 'c \<Rightarrow> 'c"
  lru_demote :: "'k \<Rightarrow> 'c \<Rightarrow> 'c"
  lru_iter :: "'c \<Rightarrow> ('k \<times> 'v) list"

definition to_front :: "'k \<Rightarrow> 'v \<Rightarrow> ('k \<times> 'v) list \<Rightarrow> ('k \<times> 'v) list" where
  "to_front k v xs = (k, v) # AList.delete k xs"

definition to_back :: "'k \<Rightarrow> 'v \<Rightarrow> ('k \<times> 'v) list \<Rightarrow> ('k \<times> 'v) list" where
  "to_back k v xs = AList.delete k xs @ [(k, v)]"

locale lru_cache =
  fixes L :: "('c, 'k, 'v) lru_ops" and cap :: nat
  assumes cap_pos: "0 < cap"
    and iter_push: "lru_iter L (lru_push L k v c) = take cap (to_front k v (lru_iter L c))"
    and peek_iter: "lru_peek L k c = map_of (lru_iter L c) k"
    and get_result: "fst (lru_get L k c) = map_of (lru_iter L c) k"
    and iter_get: "lru_iter L (snd (lru_get L k c)) =
          (case map_of (lru_iter L c) k of None \<Rightarrow> lru_iter L c
             | Some v \<Rightarrow> to_front k v (lru_iter L c))"
    and get_mut_result: "fst (lru_get_mut L k f c) = map_option f (map_of (lru_iter L c) k)"
    and iter_get_mut: "lru_iter L (snd (lru_get_mut L k f c)) =
          (case map_of (lru_iter L c) k of None \<Rightarrow> lru_iter L c
             | Some v \<Rightarrow> to_front k (f v) (lru_iter L c))"
    and iter_pop: "lru_iter L (lru_pop L k c) = AList.delete k (lru_iter L c)"
    and iter_demote: "lru_iter L (lru_demote L k c) =
          (case map_of (lru_iter L c) k of None \<Rightarrow> lru_iter L c
             | Some v \<Rightarrow> to_back k v (lru_iter L c))"

text \<open>What a client sees: the value cached under a key, and the invariant of the list of entries.\<close>

definition cached :: "('c, 'k, 'v) lru_ops \<Rightarrow> 'c \<Rightarrow> 'k \<Rightarrow> 'v option" where
  "cached L c k = map_of (lru_iter L c) k"

definition cache_ok :: "('c, 'k, 'v) lru_ops \<Rightarrow> nat \<Rightarrow> 'c \<Rightarrow> bool" where
  "cache_ok L cap c \<longleftrightarrow> distinct_keys (lru_iter L c) \<and> length (lru_iter L c) \<le> cap"

lemma map_of_to_front: "map_of (to_front k v xs) = (map_of xs)(k \<mapsto> v)"
  by (auto simp: to_front_def)

lemma distinct_to_front: "distinct_keys xs \<Longrightarrow> distinct_keys (to_front k v xs)"
  by (auto simp: to_front_def AList.delete_eq dest: distinct_map_filter)

lemma distinct_to_back: "distinct_keys xs \<Longrightarrow> distinct_keys (to_back k v xs)"
  by (auto simp: to_back_def AList.delete_eq dest: distinct_map_filter)

lemma length_delete_present:
  "map_of xs k = Some v \<Longrightarrow> length (AList.delete k xs) < length xs"
  by (induction xs) (auto simp: less_Suc_eq_le length_delete_le split: if_splits)

lemma map_of_delete_back: "map_of (AList.delete k xs @ [(k, v)]) = (map_of xs)(k \<mapsto> v)"
  by (auto simp: map_add_def fun_eq_iff split: option.splits)

context lru_cache
begin

lemma cached_pop: "cached L (lru_pop L k c) = (cached L c)(k := None)"
  by (auto simp: cached_def iter_pop)

lemma cached_demote: "cached L (lru_demote L k c) = cached L c"
  by (auto simp: cached_def iter_demote to_back_def map_of_delete_back simp del: map_of_append
      split: option.splits)

lemma cached_get: "cached L (snd (lru_get L k c)) = cached L c"
  by (auto simp: cached_def iter_get map_of_to_front split: option.splits)

lemma cached_get_mut:
  "cached L (snd (lru_get_mut L k f c)) = (cached L c)(k := map_option f (cached L c k))"
  by (auto simp: cached_def iter_get_mut map_of_to_front split: option.splits)

lemma get_cached: "fst (lru_get L k c) = cached L c k"
  and get_mut_cached: "fst (lru_get_mut L k f c) = map_option f (cached L c k)"
  and peek_cached: "lru_peek L k c = cached L c k"
  by (simp_all add: cached_def get_result get_mut_result peek_iter)

lemma cached_push_same: "cached L (lru_push L k v c) k = Some v"
  using cap_pos by (simp add: cached_def iter_push to_front_def take_Cons')

text \<open>Pushing under a key never adds or changes another one: the others stay, or are evicted.\<close>

lemma cached_push_other:
  assumes "j \<noteq> k"
  shows "cached L (lru_push L k v c) j = None \<or> cached L (lru_push L k v c) j = cached L c j"
proof -
  let ?xs = "to_front k v (lru_iter L c)"
  have "map_of ?xs j = cached L c j"
    using assms by (simp add: cached_def map_of_to_front)
  moreover have "map_of (take cap ?xs) j = None \<or> map_of (take cap ?xs) j = map_of ?xs j"
    by (subst append_take_drop_id [of cap ?xs, symmetric], subst map_of_append)
       (auto simp: map_add_def split: option.splits)
  ultimately show ?thesis by (simp add: cached_def iter_push)
qed

text \<open>Nothing is evicted when the key is present or the cache has room.\<close>

lemma cached_push_room:
  assumes "cache_ok L cap c" and "cached L c k \<noteq> None \<or> length (lru_iter L c) < cap"
  shows "cached L (lru_push L k v c) = (cached L c)(k \<mapsto> v)"
proof -
  have "length (to_front k v (lru_iter L c)) \<le> cap"
    using assms length_delete_present [of "lru_iter L c" k] length_delete_le [of k "lru_iter L c"]
    by (fastforce simp: to_front_def cache_ok_def cached_def)
  then show ?thesis by (simp add: cached_def fun_eq_iff iter_push map_of_to_front)
qed

lemma cache_ok_push [wf_intros]: "cache_ok L cap c \<Longrightarrow> cache_ok L cap (lru_push L k v c)"
  using distinct_to_front [of "lru_iter L c" k v]
  by (auto simp: cache_ok_def iter_push take_map [symmetric])

lemma cache_ok_pop [wf_intros]: "cache_ok L cap c \<Longrightarrow> cache_ok L cap (lru_pop L k c)"
  using length_delete_le [of k "lru_iter L c"]
  by (simp add: cache_ok_def iter_pop)

lemma cache_ok_get [wf_intros]: "cache_ok L cap c \<Longrightarrow> cache_ok L cap (snd (lru_get L k c))"
  using length_delete_present [of "lru_iter L c" k] distinct_to_front [of "lru_iter L c" k]
  by (fastforce simp: cache_ok_def iter_get to_front_def split: option.splits)

lemma cache_ok_get_mut [wf_intros]:
  "cache_ok L cap c \<Longrightarrow> cache_ok L cap (snd (lru_get_mut L k f c))"
  using length_delete_present [of "lru_iter L c" k] distinct_to_front [of "lru_iter L c" k]
  by (fastforce simp: cache_ok_def iter_get_mut to_front_def split: option.splits)

lemma cache_ok_demote [wf_intros]: "cache_ok L cap c \<Longrightarrow> cache_ok L cap (lru_demote L k c)"
  using length_delete_present [of "lru_iter L c" k] distinct_to_back [of "lru_iter L c" k]
  by (fastforce simp: cache_ok_def iter_demote to_back_def split: option.splits)

end

section \<open>A reference cache\<close>

text \<open>The list of entries itself, with the behaviour the laws prescribe: it shows that the laws
  can hold together, and witnesses run on it.\<close>

definition list_lru :: "nat \<Rightarrow> (('k \<times> 'v) list, 'k, 'v) lru_ops" where
  "list_lru cap =
     \<lparr>lru_push = (\<lambda>k v c. take cap (to_front k v c)),
      lru_get = (\<lambda>k c. (map_of c k, case map_of c k of None \<Rightarrow> c | Some v \<Rightarrow> to_front k v c)),
      lru_get_mut = (\<lambda>k f c. (map_option f (map_of c k),
                       case map_of c k of None \<Rightarrow> c | Some v \<Rightarrow> to_front k (f v) c)),
      lru_peek = (\<lambda>k c. map_of c k),
      lru_pop = (\<lambda>k c. AList.delete k c),
      lru_demote = (\<lambda>k c. case map_of c k of None \<Rightarrow> c | Some v \<Rightarrow> to_back k v c),
      lru_iter = (\<lambda>c. c)\<rparr>"

lemma list_lru_sel [simp]:
  "lru_push (list_lru cap) = (\<lambda>k v c. take cap (to_front k v c))"
  "lru_get (list_lru cap) =
     (\<lambda>k c. (map_of c k, case map_of c k of None \<Rightarrow> c | Some v \<Rightarrow> to_front k v c))"
  "lru_get_mut (list_lru cap) = (\<lambda>k f c. (map_option f (map_of c k),
     case map_of c k of None \<Rightarrow> c | Some v \<Rightarrow> to_front k (f v) c))"
  "lru_peek (list_lru cap) = (\<lambda>k c. map_of c k)"
  "lru_pop (list_lru cap) = (\<lambda>k c. AList.delete k c)"
  "lru_demote (list_lru cap) = (\<lambda>k c. case map_of c k of None \<Rightarrow> c | Some v \<Rightarrow> to_back k v c)"
  "lru_iter (list_lru cap) = (\<lambda>c. c)"
  by (simp_all add: list_lru_def)

text \<open>The node's cache holds ten entries.\<close>

definition cache_capacity :: nat where
  "cache_capacity = 10"

interpretation list_cache: lru_cache "list_lru cache_capacity" cache_capacity
  by unfold_locales (simp_all add: cache_capacity_def split: option.split)

end
