(* ===== verification/Status_Json.thy ===== *)
theory Status_Json
  imports Data_Structure
begin

text \<open>
  The hand-written JSON conversions of \<open>primitives/src/data_structure.rs\<close>: the \<open>Deserialize\<close>
  instance of \<open>TxStatus\<close> with its five accepted shapes, and the two helpers that carry request ids
  as strings. A JSON document is the tree \<open>serde_json::Value\<close>; an object is the list of its
  members. \<open>ser_tx_status\<close> is what \<open>#[serde(tag = "type", content = "data")]\<close> on the enum
  prescribes, adjacent tagging. The number parsing of the standard library
  (\<open>u64::from_str_radix\<close>, \<open>str::parse\<close>) and printing (\<open>u64::to_string\<close>) are modelled with
  their checked arithmetic.
\<close>

section \<open>JSON values\<close>

datatype json_number = PosInt u64 | NegInt i64 | Float u64

datatype json =
    JNull
  | JBool bool
  | JNumber json_number
  | JString string
  | JArray "json list"
  | JObject "(string \<times> json) list"

fun as_str :: "json \<Rightarrow> string option" where
  "as_str (JString s) = Some s"
| "as_str _ = None"

fun as_u64 :: "json \<Rightarrow> u64 option" where
  "as_u64 (JNumber (PosInt n)) = Some n"
| "as_u64 _ = None"

fun as_array :: "json \<Rightarrow> json list option" where
  "as_array (JArray xs) = Some xs"
| "as_array _ = None"

fun json_get :: "string \<Rightarrow> json \<Rightarrow> json option" where
  "json_get k (JObject m) = map_of m k"
| "json_get k _ = None"

section \<open>\<open>TxStatus\<close>\<close>

definition str_or :: "string \<Rightarrow> json option \<Rightarrow> string" where
  "str_or dflt val = (case Option.bind val as_str of Some s \<Rightarrow> s | None \<Rightarrow> dflt)"

definition hash_of :: "json option \<Rightarrow> bytes" where
  "hash_of val =
     (case Option.bind (Option.bind val (json_get ''hash'')) as_array of
        Some arr \<Rightarrow> map ucast (List.map_filter as_u64 arr)
      | None \<Rightarrow> [])"

definition from_tag :: "string \<Rightarrow> json option \<Rightarrow> tx_status outcome" where
  "from_tag tag val =
     (if tag = ''Genesis'' then Ok Genesis
      else if tag = ''RecvAddrConfirmed'' then Ok RecvAddrConfirmed
      else if tag = ''RecvAddrConfirmationPassed'' then Ok RecvAddrConfirmationPassed
      else if tag = ''NetConfirmed'' then Ok NetConfirmed
      else if tag = ''SenderConfirmed'' then Ok SenderConfirmed
      else if tag = ''SenderConfirmationfailed'' then Ok SenderConfirmationfailed
      else if tag = ''RecvAddrFailed'' then Ok RecvAddrFailed
      else if tag = ''ReceiverNotRegistered'' then Ok ReceiverNotRegistered
      else if tag = ''FailedToSubmitTxn'' then
        Ok (FailedToSubmitTxn (str_or ''Submission failed'' val))
      else if tag = ''TxSubmissionPassed'' then Ok (TxSubmissionPassed (hash_of val))
      else if tag = ''TxError'' then Ok (TxError (str_or ''Transaction error'' val))
      else if tag = ''Reverted'' then Ok (Reverted (str_or ''Intended receiver not met'' val))
      else Err (SerdeCustom (''unknown TxStatus variant: '' @ tag)))"

definition deserialize_tx_status :: "json \<Rightarrow> tx_status outcome" where
  "deserialize_tx_status value =
     (case value of
        JString s \<Rightarrow> from_tag s None
      | JObject m \<Rightarrow>
          (case Option.bind (map_of m ''type'') as_str of
             Some t \<Rightarrow> from_tag t (map_of m ''data'')
           | None \<Rightarrow>
               (case m of
                  [(k, v)] \<Rightarrow> from_tag k (Some v)
                | _ \<Rightarrow> Err (SerdeCustom ''invalid object for TxStatus'')))
      | JArray arr \<Rightarrow>
          (case arr of
             [] \<Rightarrow> Err (SerdeCustom ''empty array for TxStatus'')
           | x # rest \<Rightarrow>
               (case as_str x of
                  None \<Rightarrow> Err (SerdeCustom ''first element must be string variant'')
                | Some tag \<Rightarrow> from_tag tag (case rest of [] \<Rightarrow> None | y # _ \<Rightarrow> Some y)))
      | _ \<Rightarrow> Err (SerdeCustom ''invalid type for TxStatus''))"

definition tagged :: "string \<Rightarrow> json" where
  "tagged t = JObject [(''type'', JString t)]"

definition tagged_with :: "string \<Rightarrow> json \<Rightarrow> json" where
  "tagged_with t d = JObject [(''type'', JString t), (''data'', d)]"

fun ser_tx_status :: "tx_status \<Rightarrow> json" where
  "ser_tx_status Genesis = tagged ''Genesis''"
| "ser_tx_status RecvAddrConfirmed = tagged ''RecvAddrConfirmed''"
| "ser_tx_status RecvAddrConfirmationPassed = tagged ''RecvAddrConfirmationPassed''"
| "ser_tx_status NetConfirmed = tagged ''NetConfirmed''"
| "ser_tx_status SenderConfirmed = tagged ''SenderConfirmed''"
| "ser_tx_status SenderConfirmationfailed = tagged ''SenderConfirmationfailed''"
| "ser_tx_status RecvAddrFailed = tagged ''RecvAddrFailed''"
| "ser_tx_status (FailedToSubmitTxn r) = tagged_with ''FailedToSubmitTxn'' (JString r)"
| "ser_tx_status (TxError r) = tagged_with ''TxError'' (JString r)"
| "ser_tx_status (TxSubmissionPassed h) =
     tagged_with ''TxSubmissionPassed''
       (JObject [(''hash'', JArray (map (\<lambda>b. JNumber (PosInt (ucast b))) h))])"
| "ser_tx_status ReceiverNotRegistered = tagged ''ReceiverNotRegistered''"
| "ser_tx_status (Reverted r) = tagged_with ''Reverted'' (JString r)"

lemma deserialize_tagged: "deserialize_tx_status (tagged t) = from_tag t None"
  by (simp add: deserialize_tx_status_def tagged_def)

lemma deserialize_tagged_with: "deserialize_tx_status (tagged_with t d) = from_tag t (Some d)"
  by (simp add: deserialize_tx_status_def tagged_with_def)

lemma ucast_byte_u64: "ucast (ucast b :: u64) = (b :: u8)"
  by (simp add: ucast_up_ucast_id is_up source_size target_size)

lemma hash_of_bytes:
  "hash_of (Some (JObject [(''hash'', JArray (map (\<lambda>b. JNumber (PosInt (ucast b))) h))])) = h"
  by (simp add: hash_of_def List.map_filter_def comp_def ucast_byte_u64)

lemma from_tag_data:
  "from_tag ''FailedToSubmitTxn'' v = Ok (FailedToSubmitTxn (str_or ''Submission failed'' v))"
  "from_tag ''TxSubmissionPassed'' v = Ok (TxSubmissionPassed (hash_of v))"
  "from_tag ''TxError'' v = Ok (TxError (str_or ''Transaction error'' v))"
  "from_tag ''Reverted'' v = Ok (Reverted (str_or ''Intended receiver not met'' v))"
  by (simp_all add: from_tag_def)

lemma str_or_JString [simp]: "str_or d (Some (JString s)) = s"
  by (simp add: str_or_def)

text \<open>
  C35: Reading back what a node or the backend wrote gives the status that was written: the
  hand-written \<open>Deserialize\<close> accepts the adjacently tagged form of every variant and recovers the
  reason or the transaction hash it carries.
\<close>

theorem tx_status_roundtrip: "deserialize_tx_status (ser_tx_status st) = Ok st"
  by (cases st)
     (simp_all add: deserialize_tagged deserialize_tagged_with from_tag_data hash_of_bytes
        from_tag_def)

text \<open>
  The three shapes that carry a payload are read alike: a pair in an array, a one-member
  object named after the variant, and a tagged object all give the variant of that tag with that
  payload, or all reject the tag. (A one-member object whose key is \<open>type\<close> is read as a tagged
  object, so that key is excluded.)
\<close>

theorem tx_status_shapes_agree:
  assumes "tag \<noteq> ''type''"
  shows "deserialize_tx_status (JArray [JString tag, v]) = from_tag tag (Some v)
       \<and> deserialize_tx_status (JObject [(tag, v)]) = from_tag tag (Some v)
       \<and> deserialize_tx_status (tagged_with tag v) = from_tag tag (Some v)"
  using assms by (simp add: deserialize_tx_status_def tagged_with_def)

theorem tx_status_shapes_agree_witness:
  "deserialize_tx_status (JArray [JString ''Reverted'', JString ''late''])
     = deserialize_tx_status (JObject [(''Reverted'', JString ''late'')])"
  using tx_status_shapes_agree [of "''Reverted''" "JString ''late''"] by simp

section \<open>Request ids as strings\<close>

definition to_digit :: "nat \<Rightarrow> char \<Rightarrow> nat option" where
  "to_digit radix c =
     (let n = of_char c :: nat;
          d = (if 48 \<le> n \<and> n \<le> 57 then Some (n - 48)
               else if 97 \<le> n \<and> n \<le> 122 then Some (n - 97 + 10)
               else if 65 \<le> n \<and> n \<le> 90 then Some (n - 65 + 10)
               else None)
      in case d of Some k \<Rightarrow> (if k < radix then Some k else None) | None \<Rightarrow> None)"

text \<open>The digit loop of \<open>from_str_radix\<close>: \<open>checked_mul\<close>, then \<open>checked_add\<close>, in \<open>u64\<close>.\<close>

fun parse_digits :: "nat \<Rightarrow> nat \<Rightarrow> string \<Rightarrow> nat option" where
  "parse_digits radix acc [] = Some acc"
| "parse_digits radix acc (c # cs) =
     (case to_digit radix c of
        None \<Rightarrow> None
      | Some d \<Rightarrow> if acc * radix + d < 2 ^ 64 then parse_digits radix (acc * radix + d) cs else None)"

definition u64_from_str_radix :: "nat \<Rightarrow> string \<Rightarrow> u64 option" where
  "u64_from_str_radix radix s =
     (case s of
        [] \<Rightarrow> None
      | c # cs \<Rightarrow>
          map_option word_of_nat
            (if c = CHR ''+'' \<and> cs \<noteq> [] then parse_digits radix 0 cs else parse_digits radix 0 s))"

definition dec_digit :: "nat \<Rightarrow> char" where
  "dec_digit d = char_of (48 + d)"

fun nat_to_dec :: "nat \<Rightarrow> string" where
  "nat_to_dec n = (if n < 10 then [dec_digit n] else nat_to_dec (n div 10) @ [dec_digit (n mod 10)])"

declare nat_to_dec.simps [simp del]

definition u64_to_string :: "u64 \<Rightarrow> string" where
  "u64_to_string v = nat_to_dec (unat v)"

definition serialize_u64_as_string :: "u64 option \<Rightarrow> json" where
  "serialize_u64_as_string v = (case v of Some n \<Rightarrow> JString (u64_to_string n) | None \<Rightarrow> JNull)"

fun strip_prefix :: "'a list \<Rightarrow> 'a list \<Rightarrow> 'a list option" where
  "strip_prefix [] ys = Some ys"
| "strip_prefix (x # xs) (y # ys) = (if x = y then strip_prefix xs ys else None)"
| "strip_prefix (x # xs) [] = None"

definition deserialize_u64_flexible :: "json \<Rightarrow> u64 option outcome" where
  "deserialize_u64_flexible value =
     (case value of
        JNumber n \<Rightarrow>
          (case as_u64 (JNumber n) of
             Some num \<Rightarrow> Ok (Some num)
           | None \<Rightarrow> Err (SerdeCustom ''Invalid number format for u64''))
      | JString s \<Rightarrow>
          (case (case strip_prefix ''0x'' s of
                   Some stripped \<Rightarrow> u64_from_str_radix 16 stripped
                 | None \<Rightarrow> u64_from_str_radix 10 s) of
             Some num \<Rightarrow> Ok (Some num)
           | None \<Rightarrow> Err (SerdeCustom ''invalid digit or number out of range''))
      | JNull \<Rightarrow> Ok None
      | _ \<Rightarrow> Err (SerdeCustom ''Expected string, number, or null''))"

lemma to_digit_dec_digit [simp]: "d < 10 \<Longrightarrow> to_digit 10 (dec_digit d) = Some d"
  by (simp add: to_digit_def dec_digit_def of_char_of take_bit_eq_mod Let_def)

lemma dec_digit_neq [simp]:
  assumes "d < 10"
  shows "dec_digit d \<noteq> CHR ''+''" "dec_digit d \<noteq> CHR ''x''"
proof -
  have "of_char (dec_digit d) = 48 + d"
    using assms by (simp add: dec_digit_def of_char_of take_bit_eq_mod)
  then show "dec_digit d \<noteq> CHR ''+''" "dec_digit d \<noteq> CHR ''x''"
    using assms by (auto dest: arg_cong [where f = "of_char :: char \<Rightarrow> nat"])
qed

lemma nat_to_dec_digits: "\<forall>c \<in> set (nat_to_dec n). \<exists>d < 10. c = dec_digit d"
proof (induction n rule: nat_to_dec.induct)
  case (1 n)
  have "\<exists>d < 10. dec_digit (n mod 10) = dec_digit d" by (rule exI [of _ "n mod 10"]) simp
  with 1 show ?case by (subst nat_to_dec.simps) auto
qed

lemma nat_to_dec_nonempty [simp]: "nat_to_dec n \<noteq> []"
  by (subst nat_to_dec.simps) simp

lemma parse_digits_append:
  "parse_digits r acc (xs @ ys) = Option.bind (parse_digits r acc xs) (\<lambda>a. parse_digits r a ys)"
  by (induction xs arbitrary: acc) (auto split: option.splits)

lemma parse_nat_to_dec: "n < 2 ^ 64 \<Longrightarrow> parse_digits 10 0 (nat_to_dec n) = Some n"
proof (induction n rule: nat_to_dec.induct)
  case (1 n)
  show ?case
  proof (cases "n < 10")
    case True
    with "1.prems" show ?thesis by (subst nat_to_dec.simps) simp
  next
    case False
    then have "parse_digits 10 0 (nat_to_dec (n div 10)) = Some (n div 10)"
      using "1.IH" "1.prems" by simp
    with False "1.prems" show ?thesis
      by (subst nat_to_dec.simps) (simp add: parse_digits_append)
  qed
qed

lemma nat_to_dec_head:
  obtains c cs where "nat_to_dec n = c # cs" "c \<noteq> CHR ''+''"
proof (cases "nat_to_dec n")
  case Nil
  then show ?thesis by simp
next
  case (Cons c cs)
  then have "\<exists>d < 10. c = dec_digit d" using nat_to_dec_digits [of n] by simp
  with that Cons show ?thesis by auto
qed

lemma u64_from_to_string: "u64_from_str_radix 10 (u64_to_string v) = Some v"
proof -
  obtain c cs where c: "nat_to_dec (unat v) = c # cs" "c \<noteq> CHR ''+''"
    by (rule nat_to_dec_head)
  have "unat v < 2 ^ 64" using unsigned_less [of v, where ?'a = nat] by simp
  then have "parse_digits 10 0 (c # cs) = Some (unat v)"
    using parse_nat_to_dec [of "unat v"] c by simp
  with c show ?thesis
    by (simp add: u64_from_str_radix_def u64_to_string_def del: parse_digits.simps)
qed

lemma strip_hex_prefix_dec: "strip_prefix ''0x'' (u64_to_string v) = None"
proof -
  have "CHR ''x'' \<notin> set (u64_to_string v)"
    using nat_to_dec_digits [of "unat v"] dec_digit_neq(2) unfolding u64_to_string_def by metis
  moreover have "CHR ''x'' \<in> set s" if "strip_prefix ''0x'' s = Some t" for s t
    using that by (cases s; cases "tl s") (auto split: if_splits)
  ultimately show ?thesis by (metis option.exhaust)
qed

text \<open>
  A request id survives the trip through JSON: the string \<open>serialize_u64_as_string\<close> writes is
  read back to the same id by \<open>deserialize_u64_flexible\<close>, for every 64-bit id and for the absent
  one.
\<close>

theorem request_id_roundtrip: "deserialize_u64_flexible (serialize_u64_as_string v) = Ok v"
  by (cases v)
     (simp_all add: serialize_u64_as_string_def deserialize_u64_flexible_def u64_from_to_string
        strip_hex_prefix_dec)

fun digits_value :: "nat \<Rightarrow> nat \<Rightarrow> nat list \<Rightarrow> nat" where
  "digits_value radix acc [] = acc"
| "digits_value radix acc (d # ds) = digits_value radix (acc * radix + d) ds"

lemma digits_value_ge: "1 \<le> radix \<Longrightarrow> acc \<le> digits_value radix acc ds"
proof (induction ds arbitrary: acc)
  case Nil
  show ?case by simp
next
  case (Cons d ds)
  have "acc \<le> acc * radix + d" using Cons.prems by (simp add: trans_le_add1)
  also have "\<dots> \<le> digits_value radix (acc * radix + d) ds" using Cons by simp
  finally show ?case by simp
qed

lemma parse_digits_spec:
  assumes "1 \<le> radix" and "acc < 2 ^ 64" and "map (to_digit radix) cs = map Some ds"
  shows "parse_digits radix acc cs =
     (if digits_value radix acc ds < 2 ^ 64 then Some (digits_value radix acc ds) else None)"
  using assms
proof (induction cs arbitrary: acc ds)
  case Nil
  then show ?case by simp
next
  case (Cons c cs)
  then obtain d ds' where ds: "ds = d # ds'" "to_digit radix c = Some d"
    "map (to_digit radix) cs = map Some ds'" by (cases ds) auto
  show ?case
  proof (cases "acc * radix + d < 2 ^ 64")
    case True
    with Cons.IH [OF Cons.prems(1) _ ds(3)] ds show ?thesis by simp
  next
    case False
    moreover have "acc * radix + d \<le> digits_value radix (acc * radix + d) ds'"
      by (rule digits_value_ge [OF Cons.prems(1)])
    ultimately show ?thesis using ds by (simp del: power_numeral)
  qed
qed

text \<open>
  Hexadecimal request ids never wrap: a string of hexadecimal digits after \<open>0x\<close> is accepted
  exactly when its value fits in 64 bits, and then it is that value; a longer number is an error.
\<close>

theorem hex_request_id_bounds:
  assumes "map (to_digit 16) (c # cs) = map Some ds"
  shows "deserialize_u64_flexible (JString (''0x'' @ c # cs)) =
     (if digits_value 16 0 ds < 2 ^ 64 then Ok (Some (word_of_nat (digits_value 16 0 ds)))
      else Err (SerdeCustom ''invalid digit or number out of range''))"
proof -
  have "c \<noteq> CHR ''+''" using assms by (auto simp: to_digit_def)
  then show ?thesis
    using parse_digits_spec [of 16 0 "c # cs" ds] assms
    by (simp add: deserialize_u64_flexible_def u64_from_str_radix_def del: parse_digits.simps)
qed

theorem hex_request_id_bounds_witness:
  "deserialize_u64_flexible (JString ''0x1F'') = Ok (Some 31)"
proof -
  have "map (to_digit 16) (CHR ''1'' # ''F'') = map Some [1, 15]"
    by (simp add: to_digit_def)
  from hex_request_id_bounds [OF this] show ?thesis by simp
qed

end
