(* ===== verification/Cryptography.thy ===== *)
theory Cryptography
  imports Status_Json
begin

text \<open>
  \<open>node/wasm/src/cryptography.rs\<close>: the address check and the route check a transaction passes before
  it is created. Address parsing, base58, curves and hashes are third-party code; \<open>crypto\<close> is the
  record of the functions the sources call. An EVM address is its bytes, a public key is the bytes
  of its encoding.
\<close>

record crypto =
  parse_address :: "string \<Rightarrow> bytes option"          \<comment> \<open>\<open>str::parse::<Address>\<close>, \<open>Address::from_str\<close>\<close>
  to_checksum :: "bytes \<Rightarrow> string"                   \<comment> \<open>\<open>Address::to_checksum\<close>\<close>
  parse_checksummed :: "string \<Rightarrow> bytes option"      \<comment> \<open>\<open>Address::parse_checksummed\<close>\<close>
  from_base58 :: "string \<Rightarrow> bytes option"
  ed25519_key :: "bytes \<Rightarrow> bytes option"             \<comment> \<open>\<open>Ed25519PublicKey::from_slice\<close>\<close>
  ed25519_signature :: "bytes \<Rightarrow> bytes option"       \<comment> \<open>\<open>Ed25519Signature::from_slice\<close>\<close>
  ed25519_verify :: "bytes \<Rightarrow> bytes \<Rightarrow> bytes \<Rightarrow> bool" \<comment> \<open>key, message, signature\<close>
  ecdsa_signature :: "bytes \<Rightarrow> bytes option"         \<comment> \<open>\<open>EcdsaSignature::try_from\<close>\<close>
  recover_from_prehash :: "bytes \<Rightarrow> bytes \<Rightarrow> bytes option" \<comment> \<open>signature, hash; the uncompressed point\<close>
  encoded_point :: "bytes \<Rightarrow> bytes option"           \<comment> \<open>\<open>k256::EncodedPoint::from_bytes\<close>\<close>
  affine_point :: "bytes \<Rightarrow> bool"                    \<comment> \<open>\<open>AffinePoint::from_encoded_point\<close> is some\<close>
  keccak_256 :: "bytes \<Rightarrow> bytes"
  blake2_256 :: "bytes \<Rightarrow> bytes"
  hex_bytes :: "bytes \<Rightarrow> string"                     \<comment> \<open>\<open>hex::encode\<close>\<close>

definition verify_evm_address :: "crypto \<Rightarrow> string \<Rightarrow> chain_supported \<Rightarrow> chain_supported outcome" where
  "verify_evm_address K account token_network = (case parse_address K account of
       None \<Rightarrow> Err InvalidEvmAddress
     | Some address \<Rightarrow>
         (case parse_checksummed K (to_checksum K address) of
            None \<Rightarrow> Err InvalidEvmAddress
          | Some returned_address \<Rightarrow>
              if returned_address = address then Ok token_network else Err InvalidEvmAddress))"

definition verify_solana_address :: "crypto \<Rightarrow> string \<Rightarrow> chain_supported \<Rightarrow> chain_supported outcome" where
  "verify_solana_address K account token_network = (case from_base58 K account of
       None \<Rightarrow> Err InvalidSolanaAddress
     | Some key_bytes_vec \<Rightarrow>
         (if length key_bytes_vec \<noteq> 32 then Err InvalidKeyLength
          else case ed25519_key K key_bytes_vec of
            Some _ \<Rightarrow> Ok token_network
          | None \<Rightarrow> Err InvalidSolanaAddress))"

definition check_network :: "token \<Rightarrow> chain_supported \<Rightarrow> (chain_supported \<Rightarrow> chain_supported outcome) \<Rightarrow> chain_supported outcome" where
  "check_network tok network rest =
     (let token_network = token_to_chain tok in
      if token_network \<noteq> network then Err TokenNetworkMismatch else rest token_network)"

definition verify_public_bytes :: "crypto \<Rightarrow> string \<Rightarrow> token \<Rightarrow> chain_supported \<Rightarrow> chain_supported outcome" where
  "verify_public_bytes K account tok network = (case tok of
       TokEthereum _ \<Rightarrow> check_network tok network (verify_evm_address K account)
     | TokBnb _ \<Rightarrow> check_network tok network (verify_evm_address K account)
     | TokOptimism _ \<Rightarrow> check_network tok network (verify_evm_address K account)
     | TokArbitrum _ \<Rightarrow> check_network tok network (verify_evm_address K account)
     | TokPolygon _ \<Rightarrow> check_network tok network (verify_evm_address K account)
     | TokBase _ \<Rightarrow> check_network tok network (verify_evm_address K account)
     | TokTron _ \<Rightarrow> Panic (NotImplemented ''TRON address verification not implemented yet'')
     | TokSolana _ \<Rightarrow> check_network tok network (verify_solana_address K account)
     | TokBitcoin _ \<Rightarrow> Panic (NotImplemented ''Bitcoin address verification not implemented yet'')
     | TokPolkadot _ \<Rightarrow> Panic (NotImplemented ''Polkadot address verification not implemented yet''))"

definition verify_route :: "chain_supported \<Rightarrow> chain_supported \<Rightarrow> unit outcome" where
  "verify_route sender_net receiver_net =
     (if sender_net = receiver_net then Ok () else Err RouteNotSupported)"

lemmas verify_defs = verify_public_bytes_def check_network_def verify_evm_address_def
  verify_solana_address_def Let_def

lemma verify_route_Ok [simp]: "verify_route a b = Ok u \<longleftrightarrow> a = b"
  by (simp add: verify_route_def)

lemma verify_public_bytes_network:
  "verify_public_bytes K account tok network = Ok n \<Longrightarrow> n = network \<and> token_to_chain tok = network"
  by (auto simp: verify_defs split: token.splits option.splits if_splits)

fun implemented_chain :: "chain_supported \<Rightarrow> bool" where
  "implemented_chain Tron = False"
| "implemented_chain Bitcoin = False"
| "implemented_chain Polkadot = False"
| "implemented_chain _ = True"

text \<open>What an accepted address looks like on its chain.\<close>

definition valid_address :: "crypto \<Rightarrow> chain_supported \<Rightarrow> string \<Rightarrow> bool" where
  "valid_address K net account =
     (if net = Solana
      then (\<exists>key. from_base58 K account = Some key \<and> length key = 32 \<and> ed25519_key K key \<noteq> None)
      else parse_address K account \<noteq> None)"


text \<open>A crypto record for concrete runs: an EVM address is a string that starts with \<open>0x\<close>, hashing
  pads to 32 bytes, a signature recovers the point it holds.\<close>

definition sample_crypto :: crypto where
  "sample_crypto = \<lparr>
     parse_address = (\<lambda>s. if take 2 s = ''0x'' then Some (as_bytes (drop 2 s)) else None),
     to_checksum = (\<lambda>b. ''0x'' @ map (\<lambda>x. char_of (unat x)) b),
     parse_checksummed = (\<lambda>s. if take 2 s = ''0x'' then Some (as_bytes (drop 2 s)) else None),
     from_base58 = (\<lambda>s. Some (as_bytes s)),
     ed25519_key = Some, ed25519_signature = Some, ed25519_verify = (\<lambda>_ _ _. True),
     ecdsa_signature = Some, recover_from_prehash = (\<lambda>sig _. Some (4 # sig)),
     encoded_point = Some, affine_point = (\<lambda>_. True),
     keccak_256 = (\<lambda>b. b), blake2_256 = (\<lambda>b. b),
     hex_bytes = map (\<lambda>x. char_of (unat x))\<rparr>"

lemma of_char_unat: "of_char (char_of (unat (x :: u8))) = x"
proof -
  have "unat x < 256" using unsigned_less [of x] by simp
  then have "of_nat (of_char (char_of (unat x)) :: nat) = x"
    by (simp add: of_char_of)
  then show ?thesis by (simp only: of_nat_of_char)
qed

lemma as_bytes_chars: "as_bytes (map (\<lambda>x. char_of (unat x)) b) = b"
  by (induction b) (simp_all add: as_bytes_def of_char_unat)

lemma sample_checksum: "parse_checksummed sample_crypto (to_checksum sample_crypto a) = Some a"
  by (simp add: sample_crypto_def as_bytes_chars)


end
