(* ===== verification/Tx_Processing.thy ===== *)
theory Tx_Processing
  imports Cryptography
begin

text \<open>
  \<open>WasmTxProcessingWorker\<close> of \<open>node/wasm/src/tx_processing.rs\<close>: the signature checks on the
  receiver's address and on the sender's call payload, the check of the multi id, and the two calls
  to the JavaScript host that create and submit the chain transaction. The host is the record
  \<open>js_host\<close>; its functions are the answers it gives at one point of a run.
\<close>

section \<open>Signatures\<close>

definition ETH_SIG_MSG_PREFIX :: string where
  "ETH_SIG_MSG_PREFIX = CHR 0x19 # ''Ethereum Signed Message:'' @ [CHR 0x0A]"

definition is_on_curve_sec1 :: "crypto \<Rightarrow> bytes \<Rightarrow> bool" where
  "is_on_curve_sec1 K sec1 = (case encoded_point K sec1 of
       Some ep \<Rightarrow> affine_point K ep
     | None \<Rightarrow> False)"

text \<open>The hash that is signed: an EIP-191 message for a receiver, the prepared hash for a sender,
  whose length must be that of a 256-bit word (\<open>try_into().unwrap()\<close>).\<close>

definition signed_hash :: "crypto \<Rightarrow> bytes \<Rightarrow> string \<Rightarrow> bytes outcome" where
  "signed_hash K msg who =
     (if who = ''Receiver''
      then Ok (keccak_256 K (as_bytes ETH_SIG_MSG_PREFIX @ as_bytes (nat_to_dec (length msg)) @ msg))
      else if length msg = 32 then Ok msg else Panic (ExpectFailed ''unwrap''))"

definition point_address :: "crypto \<Rightarrow> bytes \<Rightarrow> bytes option" where
  "point_address K pt =
     (let pub_key_hash = keccak_256 K (drop 1 pt) in
      parse_address K (''0x'' @ hex_bytes K (drop (length pub_key_hash - 20) pub_key_hash)))"

definition verify_evm_signature :: "crypto \<Rightarrow> string \<Rightarrow> bytes \<Rightarrow> bytes \<Rightarrow> string \<Rightarrow> unit outcome" where
  "verify_evm_signature K addr sig msg who = (case parse_address K addr of
       None \<Rightarrow> Panic (ExpectFailed ''Invalid address'')
     | Some address \<Rightarrow>
         (case signed_hash K msg who of
            Panic p \<Rightarrow> Panic p
          | Err e \<Rightarrow> Err e
          | Ok hashed_msg \<Rightarrow>
              (case ecdsa_signature K sig of
                 None \<Rightarrow> Err SignatureConversionFailed
               | Some signature \<Rightarrow>
                   (case recover_from_prehash K signature hashed_msg of
                      None \<Rightarrow> Err EcSignatureVerificationFailed
                    | Some pt \<Rightarrow>
                        (if \<not> is_on_curve_sec1 K pt then Err PointNotOnCurve
                         else case point_address K pt of
                           None \<Rightarrow> Err PubKeyHashConversionFailed
                         | Some recovered_addr \<Rightarrow>
                             if recovered_addr = address then Ok ()
                             else Err AddrRecoveryEqualityFailed)))))"

definition verify_tron_signature :: "string \<Rightarrow> bytes \<Rightarrow> bytes \<Rightarrow> string \<Rightarrow> unit outcome" where
  "verify_tron_signature addr sig msg who =
     Panic (NotImplemented ''TRON signature verification not implemented yet'')"

definition verify_solana_signature :: "crypto \<Rightarrow> string \<Rightarrow> bytes \<Rightarrow> bytes \<Rightarrow> string \<Rightarrow> unit outcome" where
  "verify_solana_signature K addr sig msg who = (case from_base58 K addr of
       None \<Rightarrow> Err InvalidSolanaAddress
     | Some key_bytes \<Rightarrow>
         (case ed25519_key K key_bytes of
            None \<Rightarrow> Err InvalidSolanaAddress
          | Some public_key \<Rightarrow>
              (case ed25519_signature K sig of
                 None \<Rightarrow> Err SignatureConversionFailed
               | Some signature \<Rightarrow>
                   if ed25519_verify K public_key msg signature then Ok ()
                   else Err SolanaSignatureVerificationFailed)))"

definition verify_bitcoin_signature :: "string \<Rightarrow> bytes \<Rightarrow> bytes \<Rightarrow> string \<Rightarrow> unit outcome" where
  "verify_bitcoin_signature addr sig msg who =
     Panic (NotImplemented ''Bitcoin signature verification not implemented yet'')"

definition verify_polkadot_signature :: "string \<Rightarrow> bytes \<Rightarrow> bytes \<Rightarrow> string \<Rightarrow> unit outcome" where
  "verify_polkadot_signature addr sig msg who =
     Panic (NotImplemented ''Polkadot signature verification not implemented yet'')"

section \<open>Validation\<close>

text \<open>Ethereum and Bnb sign the hash, the first element of the pair; Solana the raw transaction.\<close>

fun signable_payload :: "chain_transaction_type \<Rightarrow> bytes" where
  "signable_payload (TxEthereum _ call) = fst call"
| "signable_payload (TxBnb call _) = fst call"
| "signable_payload (TxSolana call _) = call"

definition signature_parts ::
    "tx_state_machine \<Rightarrow> string \<Rightarrow> (chain_supported \<times> bytes \<times> bytes \<times> string) outcome" where
  "signature_parts tx who =
     (if who = ''Receiver''
      then (case recv_signature tx of
              None \<Rightarrow> Err ReceiverDidntSign
            | Some signature \<Rightarrow>
                Ok (receiver_address_network tx, signature, as_bytes (receiver_address tx), receiver_address tx))
      else (case signed_call_payload tx of
              None \<Rightarrow> Err OriginalSenderDidntSign
            | Some signature \<Rightarrow>
                (case call_payload tx of
                   None \<Rightarrow> Panic (ExpectFailed ''unexpected error, call payload should be available'')
                 | Some call \<Rightarrow>
                     Ok (sender_address_network tx, signature, signable_payload call, sender_address tx))))"

definition verify_signature :: "crypto \<Rightarrow> chain_supported \<Rightarrow> string \<Rightarrow> bytes \<Rightarrow> bytes \<Rightarrow> string \<Rightarrow> unit outcome" where
  "verify_signature K network addr sig msg who = (case network of
       Ethereum \<Rightarrow> verify_evm_signature K addr sig msg who
     | Bnb \<Rightarrow> verify_evm_signature K addr sig msg who
     | Arbitrum \<Rightarrow> verify_evm_signature K addr sig msg who
     | Optimism \<Rightarrow> verify_evm_signature K addr sig msg who
     | Polygon \<Rightarrow> verify_evm_signature K addr sig msg who
     | Base \<Rightarrow> verify_evm_signature K addr sig msg who
     | Tron \<Rightarrow> verify_tron_signature addr sig msg who
     | Solana \<Rightarrow> verify_solana_signature K addr sig msg who
     | Bitcoin \<Rightarrow> verify_bitcoin_signature addr sig msg who
     | Polkadot \<Rightarrow> verify_polkadot_signature addr sig msg who)"

definition validate_receiver_and_sender_address :: "crypto \<Rightarrow> tx_state_machine \<Rightarrow> string \<Rightarrow> unit outcome" where
  "validate_receiver_and_sender_address K tx who = (case signature_parts tx who of
       Ok (network, signature, msg, addr) \<Rightarrow> verify_signature K network addr signature msg who
     | Err e \<Rightarrow> Err e
     | Panic p \<Rightarrow> Panic p)"

definition validate_multi_id :: "crypto \<Rightarrow> tx_state_machine \<Rightarrow> bool" where
  "validate_multi_id K txn =
     (blake2_256 K (as_bytes (sender_address txn) @ as_bytes (receiver_address txn)) = multi_id txn)"

section \<open>The JavaScript host\<close>

text \<open>What the host answers: an unsigned transaction in a transaction record, a transaction hash;
  \<open>None\<close> is a rejection or an answer that does not convert.\<close>

record js_host =
  create_tx_js :: "tx_state_machine \<Rightarrow> tx_state_machine option"
  submit_tx_js :: "tx_state_machine \<Rightarrow> bytes option"

definition submit_tx :: "js_host \<Rightarrow> tx_state_machine \<Rightarrow> bytes outcome" where
  "submit_tx H tx = (case submit_tx_js H tx of Some h \<Rightarrow> Ok h | None \<Rightarrow> Err SubmitTxFailed)"

definition create_tx :: "js_host \<Rightarrow> tx_state_machine \<Rightarrow> tx_state_machine outcome" where
  "create_tx H tx = (case create_tx_js H tx of Some tx' \<Rightarrow> Ok tx' | None \<Rightarrow> Err CreateTxFailed)"

section \<open>What a passed validation means\<close>

text \<open>The key behind a signature: the EVM address that the signature recovers, or an ed25519 key
  under which it verifies.\<close>

definition signed_by :: "crypto \<Rightarrow> chain_supported \<Rightarrow> string \<Rightarrow> bytes \<Rightarrow> bytes \<Rightarrow> bool" where
  "signed_by K net addr sig hash =
     (if net = Solana
      then (\<exists>kb pk sg. from_base58 K addr = Some kb \<and> ed25519_key K kb = Some pk
              \<and> ed25519_signature K sig = Some sg \<and> ed25519_verify K pk hash sg)
      else (\<exists>sg pt. ecdsa_signature K sig = Some sg \<and> recover_from_prehash K sg hash = Some pt
              \<and> is_on_curve_sec1 K pt \<and> point_address K pt \<noteq> None \<and> point_address K pt = parse_address K addr))"

definition eip191_hash :: "crypto \<Rightarrow> bytes \<Rightarrow> bytes" where
  "eip191_hash K msg =
     keccak_256 K (as_bytes ETH_SIG_MSG_PREFIX @ as_bytes (nat_to_dec (length msg)) @ msg)"

lemma verify_evm_signature_Ok:
  "verify_evm_signature K addr sig msg who = Ok () \<longleftrightarrow>
     (\<exists>h. signed_hash K msg who = Ok h \<and> signed_by K Ethereum addr sig h)"
  by (auto simp: verify_evm_signature_def signed_by_def split: option.splits outcome.splits)

lemma verify_solana_signature_Ok:
  "verify_solana_signature K addr sig msg who = Ok () \<longleftrightarrow> signed_by K Solana addr sig msg"
  by (auto simp: verify_solana_signature_def signed_by_def split: option.splits)

lemma signed_by_evm:
  "signed_by K Bnb = signed_by K Ethereum" "signed_by K Arbitrum = signed_by K Ethereum"
  "signed_by K Optimism = signed_by K Ethereum" "signed_by K Polygon = signed_by K Ethereum"
  "signed_by K Base = signed_by K Ethereum"
  by (simp_all add: signed_by_def fun_eq_iff)

lemma signed_hash_Ok:
  "signed_hash K msg who = Ok h \<longleftrightarrow>
     (if who = ''Receiver'' then h = eip191_hash K msg else length msg = 32 \<and> h = msg)"
  by (auto simp: signed_hash_def eip191_hash_def)

definition message_hash :: "crypto \<Rightarrow> chain_supported \<Rightarrow> string \<Rightarrow> bytes \<Rightarrow> bytes" where
  "message_hash K net who msg =
     (if net = Solana \<or> who \<noteq> ''Receiver'' then msg else eip191_hash K msg)"

lemma verify_signature_Ok:
  "verify_signature K net addr sig msg who = Ok () \<longleftrightarrow>
     implemented_chain net \<and> (net = Solana \<or> who = ''Receiver'' \<or> length msg = 32)
     \<and> signed_by K net addr sig (message_hash K net who msg)"
  by (cases net)
    (auto simp: verify_signature_def verify_evm_signature_Ok verify_solana_signature_Ok signed_hash_Ok
      message_hash_def signed_by_evm verify_tron_signature_def verify_bitcoin_signature_def
      verify_polkadot_signature_def)

lemma receiver_valid_iff:
  "validate_receiver_and_sender_address K tx ''Receiver'' = Ok () \<longleftrightarrow>
     implemented_chain (receiver_address_network tx)
     \<and> (\<exists>sig. recv_signature tx = Some sig \<and> signed_by K (receiver_address_network tx) (receiver_address tx) sig
          (if receiver_address_network tx = Solana then as_bytes (receiver_address tx)
           else eip191_hash K (as_bytes (receiver_address tx))))"
  by (auto simp: validate_receiver_and_sender_address_def signature_parts_def verify_signature_Ok
      message_hash_def split: option.splits outcome.splits)

lemma sender_valid_iff:
  "validate_receiver_and_sender_address K tx ''Sender'' = Ok () \<longleftrightarrow>
     implemented_chain (sender_address_network tx)
     \<and> (\<exists>sig call. signed_call_payload tx = Some sig \<and> call_payload tx = Some call
          \<and> (sender_address_network tx = Solana \<or> length (signable_payload call) = 32)
          \<and> signed_by K (sender_address_network tx) (sender_address tx) sig (signable_payload call))"
  by (auto simp: validate_receiver_and_sender_address_def signature_parts_def verify_signature_Ok
      message_hash_def split: option.splits outcome.splits)

text \<open>C27: the receiver check passes exactly when the receiver's chain is implemented and the
  transaction carries a signature of the receiver's own address, by the key of that address (over
  the EIP-191 message on the EVM chains, over the address itself on Solana).\<close>

theorem receiver_validation_exact:
  "validate_receiver_and_sender_address K tx ''Receiver'' = Ok () \<longleftrightarrow>
     implemented_chain (receiver_address_network tx)
     \<and> (\<exists>sig. recv_signature tx = Some sig \<and> signed_by K (receiver_address_network tx) (receiver_address tx) sig
          (if receiver_address_network tx = Solana then as_bytes (receiver_address tx)
           else eip191_hash K (as_bytes (receiver_address tx))))"
  by (rule receiver_valid_iff)

text \<open>C28: the sender check passes exactly when the sender's chain is implemented and the transaction
  carries a call payload and a signature of it by the key of the sender's address; on the EVM chains
  the payload hash is 32 bytes long.\<close>

theorem sender_validation_exact:
  "validate_receiver_and_sender_address K tx ''Sender'' = Ok () \<longleftrightarrow>
     implemented_chain (sender_address_network tx)
     \<and> (\<exists>sig call. signed_call_payload tx = Some sig \<and> call_payload tx = Some call
          \<and> (sender_address_network tx = Solana \<or> length (signable_payload call) = 32)
          \<and> signed_by K (sender_address_network tx) (sender_address tx) sig (signable_payload call))"
  by (rule sender_valid_iff)

end
