(* ===== verification/Backend_Metrics.thy ===== *)
theory Backend_Metrics
  imports Data_Structure
begin

text \<open>
  The metrics of the backend (\<open>node/vane-backend/src/server.rs\<close>): the counters and gauges that the
  server's handlers update, the store of what clients report about themselves, and the three HTTP
  handlers that read and write them. Counters are \<open>u64\<close> and gauges \<open>i64\<close>, as in the
  \<open>prometheus_client\<close> crate. The \<open>f64\<close> arithmetic behind the success rate is an argument \<open>rate\<close>.
\<close>

section \<open>Backend counters\<close>

record backend_metrics =
  sender_requests_total :: u64
  receiver_responses_total :: u64
  receiver_not_found_total :: u64
  peers_added_total :: u64
  peers_removed_total :: u64
  active_peers :: i64
  pending_requests :: i64
  new_clients_joined :: u64

definition backend_metrics_new :: backend_metrics where
  "backend_metrics_new = \<lparr>sender_requests_total = 0, receiver_responses_total = 0,
     receiver_not_found_total = 0, peers_added_total = 0, peers_removed_total = 0,
     active_peers = 0, pending_requests = 0, new_clients_joined = 0\<rparr>"

definition record_sender_request :: "backend_metrics \<Rightarrow> backend_metrics" where
  "record_sender_request m = m\<lparr>sender_requests_total := sender_requests_total m + 1\<rparr>"

definition record_receiver_response :: "backend_metrics \<Rightarrow> backend_metrics" where
  "record_receiver_response m = m\<lparr>receiver_responses_total := receiver_responses_total m + 1\<rparr>"

definition record_peer_added :: "backend_metrics \<Rightarrow> backend_metrics" where
  "record_peer_added m = m\<lparr>peers_added_total := peers_added_total m + 1,
     active_peers := active_peers m + 1\<rparr>"

definition record_peer_removed :: "backend_metrics \<Rightarrow> backend_metrics" where
  "record_peer_removed m = m\<lparr>peers_removed_total := peers_removed_total m + 1,
     active_peers := active_peers m - 1\<rparr>"

definition update_active_peers :: "i64 \<Rightarrow> backend_metrics \<Rightarrow> backend_metrics" where
  "update_active_peers n m = m\<lparr>active_peers := n\<rparr>"

definition update_pending_requests :: "i64 \<Rightarrow> backend_metrics \<Rightarrow> backend_metrics" where
  "update_pending_requests n m = m\<lparr>pending_requests := n\<rparr>"

definition record_new_client_joined :: "backend_metrics \<Rightarrow> backend_metrics" where
  "record_new_client_joined m = m\<lparr>new_clients_joined := new_clients_joined m + 1\<rparr>"

lemmas metric_defs =
  record_sender_request_def record_receiver_response_def record_peer_added_def
  record_peer_removed_def update_active_peers_def update_pending_requests_def
  record_new_client_joined_def

text \<open>\<open>get_metrics_summary\<close>: the numbers of the JSON answer, in its order.\<close>

record backend_events_summary =
  sum_sender_requests_total :: u64
  sum_receiver_responses_total :: u64
  sum_receiver_not_found_total :: u64
  sum_active_peers :: u64
  sum_pending_requests :: u64
  sum_new_clients_joined :: u64

definition get_metrics_summary :: "backend_metrics \<Rightarrow> backend_events_summary" where
  "get_metrics_summary m = \<lparr>sum_sender_requests_total = sender_requests_total m,
     sum_receiver_responses_total = receiver_responses_total m,
     sum_receiver_not_found_total = receiver_not_found_total m,
     sum_active_peers = active_peers m, sum_pending_requests = pending_requests m,
     sum_new_clients_joined = new_clients_joined m\<rparr>"

section \<open>Client reports\<close>

record client_metrics_payload =
  cmp_peer_id :: string
  client_type :: string
  timestamp :: u64
  cmp_storage_export :: storage_export

record client_snapshot =
  account_id :: string
  success_txs :: u64
  failed_txs :: u64
  cs_failed_transactions :: "db_tx_state_machine list"

record client_metrics_store =
  last_update_times :: "(string \<times> u64) list"
  last_totals :: "(string \<times> (u64 \<times> u64)) list"
  total_success_txs :: u64
  total_failed_txs :: u64
  tx_success_rate_percent :: i64
  per_client :: "(string \<times> client_snapshot) list"

definition client_metrics_new :: client_metrics_store where
  "client_metrics_new = \<lparr>last_update_times = [], last_totals = [], total_success_txs = 0,
     total_failed_txs = 0, tx_success_rate_percent = 0, per_client = []\<rparr>"

text \<open>The loop over the reported failed transactions: a hash that is already in the snapshot is
  skipped.\<close>

fun merge_failed :: "db_tx_state_machine list \<Rightarrow> db_tx_state_machine list \<Rightarrow> db_tx_state_machine list" where
  "merge_failed acc [] = acc"
| "merge_failed acc (new_tx # rest) =
     (if \<exists>existing_tx \<in> set acc. tx_hash existing_tx = tx_hash new_tx
      then merge_failed acc rest
      else merge_failed (acc @ [new_tx]) rest)"

definition update_aggregated_metrics ::
    "(u64 \<Rightarrow> u64 \<Rightarrow> i64) \<Rightarrow> string \<Rightarrow> storage_export \<Rightarrow> client_metrics_store \<Rightarrow> client_metrics_store" where
  "update_aggregated_metrics rate acc storage m =
     (let current = (of_nat (length (success_transactions storage)) :: u64,
                     of_nat (length (failed_transactions storage)) :: u64);
          last = (case map_of (last_totals m) acc of Some t \<Rightarrow> t | None \<Rightarrow> (0, 0));
          delta_success = saturating_sub (fst current) (fst last);
          delta_failed = saturating_sub (snd current) (snd last);
          m = (if 0 < delta_success
               then m\<lparr>total_success_txs := total_success_txs m + delta_success\<rparr> else m);
          m = (if 0 < delta_failed
               then m\<lparr>total_failed_txs := total_failed_txs m + delta_failed\<rparr> else m);
          total_tx = fst current + snd current;
          m = (if 0 < total_tx
               then m\<lparr>tx_success_rate_percent := rate (fst current) total_tx\<rparr> else m);
          m = m\<lparr>last_totals := AList.update acc current (last_totals m)\<rparr>;
          snapshot = (case map_of (per_client m) acc of Some s \<Rightarrow> s
             | None \<Rightarrow> \<lparr>account_id = acc, success_txs = 0, failed_txs = 0,
                        cs_failed_transactions = []\<rparr>);
          snapshot = snapshot\<lparr>success_txs := fst current, failed_txs := snd current,
             cs_failed_transactions :=
               merge_failed (cs_failed_transactions snapshot) (failed_transactions storage)\<rparr>
      in m\<lparr>per_client := AList.update acc snapshot (per_client m)\<rparr>)"

definition reported_account :: "storage_export \<Rightarrow> string" where
  "reported_account storage = (case se_user_account storage of
       Some ua \<Rightarrow> (case accounts ua of (acc, _) # _ \<Rightarrow> acc | [] \<Rightarrow> ''unknown'')
     | None \<Rightarrow> ''unknown'')"

definition update_from_exported_storage ::
    "(u64 \<Rightarrow> u64 \<Rightarrow> i64) \<Rightarrow> u64 \<Rightarrow> client_metrics_payload \<Rightarrow> client_metrics_store \<Rightarrow> client_metrics_store" where
  "update_from_exported_storage rate now payload m =
     (let storage = cmp_storage_export payload; acc = reported_account storage;
          m = m\<lparr>last_update_times := AList.update acc now (last_update_times m)\<rparr>
      in update_aggregated_metrics rate acc storage m)"

definition handle_client_metrics ::
    "(u64 \<Rightarrow> u64 \<Rightarrow> i64) \<Rightarrow> u64 \<Rightarrow> client_metrics_payload \<Rightarrow> client_metrics_store \<Rightarrow> client_metrics_store" where
  "handle_client_metrics rate now payload m = update_from_exported_storage rate now payload m"

definition get_client_metrics_summary :: "client_metrics_store \<Rightarrow> client_snapshot list" where
  "get_client_metrics_summary m = map snd (per_client m)"

text \<open>The reports a backend has handled, one after the other.\<close>

fun handle_reports ::
    "(u64 \<Rightarrow> u64 \<Rightarrow> i64) \<Rightarrow> (u64 \<times> client_metrics_payload) list \<Rightarrow> client_metrics_store \<Rightarrow> client_metrics_store" where
  "handle_reports rate [] m = m"
| "handle_reports rate ((now, p) # ps) m = handle_reports rate ps (handle_client_metrics rate now p m)"

section \<open>What the store keeps\<close>

lemma merge_failed_prefix: "\<exists>ys. merge_failed acc new = acc @ ys \<and> set ys \<subseteq> set new"
proof (induction new arbitrary: acc)
  case (Cons t new)
  from Cons.IH [of acc] Cons.IH [of "acc @ [t]"] show ?case by auto
qed simp

lemma merge_failed_distinct:
  "distinct (map tx_hash acc) \<Longrightarrow> distinct (map tx_hash (merge_failed acc new))"
proof (induction new arbitrary: acc)
  case (Cons t new)
  have "distinct (map tx_hash (acc @ [t]))" if "\<forall>x \<in> set acc. tx_hash x \<noteq> tx_hash t"
    using Cons.prems that by auto
  with Cons.IH [of "acc @ [t]"] Cons.IH [OF Cons.prems] show ?case by auto
qed simp

lemma merge_failed_hashes:
  "tx_hash ` set (merge_failed acc new) = tx_hash ` (set acc \<union> set new)"
proof (induction new arbitrary: acc)
  case (Cons t new)
  show ?case
  proof (cases "\<exists>x \<in> set acc. tx_hash x = tx_hash t")
    case True
    then have "tx_hash t \<in> tx_hash ` set acc" by (metis imageI)
    with True show ?thesis by (simp add: Cons.IH insert_absorb image_Un)
  next
    case False
    then show ?thesis by (simp add: Cons.IH image_Un)
  qed
qed simp

lemma merge_failed_idem: "set new \<subseteq> set acc \<Longrightarrow> merge_failed acc new = acc"
  by (induction new) auto

lemma per_client_update:
  "map_of (per_client (update_aggregated_metrics rate acc storage m)) a =
     (if a = acc then Some \<lparr>account_id = (case map_of (per_client m) acc of Some s \<Rightarrow> account_id s | None \<Rightarrow> acc),
            success_txs = of_nat (length (success_transactions storage)),
            failed_txs = of_nat (length (failed_transactions storage)),
            cs_failed_transactions = merge_failed
              (case map_of (per_client m) acc of Some s \<Rightarrow> cs_failed_transactions s | None \<Rightarrow> [])
              (failed_transactions storage)\<rparr>
      else map_of (per_client m) a)"
  by (simp add: update_aggregated_metrics_def Let_def split: option.splits)

lemma last_totals_update:
  "last_totals (update_aggregated_metrics rate acc storage m) = AList.update acc
     (of_nat (length (success_transactions storage)), of_nat (length (failed_transactions storage)))
     (last_totals m)"
  by (simp add: update_aggregated_metrics_def Let_def)

lemma total_success_update:
  "total_success_txs (update_aggregated_metrics rate acc storage m) = total_success_txs m +
     saturating_sub (of_nat (length (success_transactions storage)))
       (fst (case map_of (last_totals m) acc of Some t \<Rightarrow> t | None \<Rightarrow> (0, 0)))"
  using word_neq_0_conv by (fastforce simp: update_aggregated_metrics_def Let_def)

lemma sum_update:
  fixes f :: "'v \<Rightarrow> 'a::ab_group_add"
  assumes "distinct_keys m"
  shows "sum_list (map (\<lambda>(_, v). f v) (AList.update k v m)) =
     sum_list (map (\<lambda>(_, v). f v) m) - (case map_of m k of None \<Rightarrow> 0 | Some w \<Rightarrow> f w) + f v"
  using assms by (induction m) (auto simp: algebra_simps split: option.splits)

text \<open>The counts a report carries, and the last counts an account reported.\<close>

definition report_counts :: "client_metrics_payload \<Rightarrow> u64 \<times> u64" where
  "report_counts p = (of_nat (length (success_transactions (cmp_storage_export p))),
     of_nat (length (failed_transactions (cmp_storage_export p))))"

definition last_report :: "(u64 \<times> client_metrics_payload) list \<Rightarrow> string \<Rightarrow> (u64 \<times> u64) option" where
  "last_report rs = map_of (rev (map (\<lambda>(_, p).
     (reported_account (cmp_storage_export p), report_counts p)) rs))"

text \<open>No account ever reports fewer successful transactions than before.\<close>

definition growing_reports :: "(u64 \<times> client_metrics_payload) list \<Rightarrow> bool" where
  "growing_reports rs = sorted_wrt (\<lambda>(_, p) (_, q).
     reported_account (cmp_storage_export p) = reported_account (cmp_storage_export q)
       \<longrightarrow> fst (report_counts p) \<le> fst (report_counts q)) rs"

lemma handle_reports_snoc:
  "handle_reports rate (rs @ [(now, p)]) m = handle_client_metrics rate now p (handle_reports rate rs m)"
  by (induction rate rs m rule: handle_reports.induct) simp_all

lemma last_report_snoc:
  "last_report (rs @ [(now, p)]) =
     (last_report rs)(reported_account (cmp_storage_export p) \<mapsto> report_counts p)"
  by (simp add: last_report_def)

lemma last_report_in:
  "last_report rs acc = Some c \<Longrightarrow>
   \<exists>now p. (now, p) \<in> set rs \<and> reported_account (cmp_storage_export p) = acc \<and> report_counts p = c"
  unfolding last_report_def by (drule map_of_SomeD) auto

lemma handled_last_totals:
  "map_of (last_totals (handle_reports rate rs client_metrics_new)) = last_report rs"
proof (induction rs rule: rev_induct)
  case Nil
  show ?case by (simp add: client_metrics_new_def last_report_def)
next
  case (snoc r rs)
  then show ?case
    by (cases r) (simp add: handle_reports_snoc handle_client_metrics_def
        update_from_exported_storage_def last_totals_update last_report_snoc report_counts_def Let_def)
qed

lemma handled_distinct:
  "distinct_keys (last_totals (handle_reports rate rs client_metrics_new))"
proof (induction rs rule: rev_induct)
  case Nil
  show ?case by (simp add: client_metrics_new_def)
next
  case (snoc r rs)
  then show ?case
    by (cases r) (simp add: handle_reports_snoc handle_client_metrics_def
        update_from_exported_storage_def last_totals_update Let_def)
qed

lemma unreported_account:
  assumes "map_of (per_client (handle_reports rate rs client_metrics_new)) acc = None"
    and "(now, p) \<in> set rs"
  shows "reported_account (cmp_storage_export p) \<noteq> acc"
  using assms
proof (induction rs rule: rev_induct)
  case Nil
  then show ?case by simp
next
  case (snoc r rs)
  then show ?case
    by (cases r) (auto simp: handle_reports_snoc handle_client_metrics_def
        update_from_exported_storage_def per_client_update Let_def split: if_splits)
qed

text \<open>As long as no account reports fewer successful transactions than before, the backend's
  total counter is exactly the sum of the last count of each account.\<close>

theorem client_success_total_exact:
  assumes "growing_reports rs"
  shows "total_success_txs (handle_reports rate rs client_metrics_new) =
     sum_list (map (\<lambda>(_, c). fst c) (last_totals (handle_reports rate rs client_metrics_new)))
   \<and> map_of (last_totals (handle_reports rate rs client_metrics_new)) = last_report rs"
  using assms
proof (induction rs rule: rev_induct)
  case Nil
  show ?case by (simp add: client_metrics_new_def last_report_def)
next
  case (snoc r rs)
  obtain now p where r: "r = (now, p)" by (cases r)
  define m where "m = handle_reports rate rs client_metrics_new"
  define acc where "acc = reported_account (cmp_storage_export p)"
  have old: "fst c \<le> fst (report_counts p)" if "last_report rs acc = Some c" for c
    using last_report_in [OF that] snoc.prems
    by (auto simp: growing_reports_def sorted_wrt_append r acc_def)
  have m: "total_success_txs m = sum_list (map (\<lambda>(_, c). fst c) (last_totals m))"
    "map_of (last_totals m) = last_report rs" "distinct_keys (last_totals m)"
    using snoc handled_distinct by (simp_all add: m_def growing_reports_def sorted_wrt_append)
  have "saturating_sub (fst (report_counts p)) (fst (case last_report rs acc of Some t \<Rightarrow> t | None \<Rightarrow> (0, 0)))
      = fst (report_counts p) - (case last_report rs acc of None \<Rightarrow> 0 | Some w \<Rightarrow> fst w)"
    using old by (auto simp: saturating_sub_def split: option.splits dest: leD)
  then show ?case
    using m handled_last_totals [of rate "rs @ [r]"]
    by (simp add: r handle_reports_snoc handle_client_metrics_def update_from_exported_storage_def
        total_success_update last_totals_update sum_update Let_def flip: m_def acc_def)
      (simp add: report_counts_def)
qed

definition sample_report :: "string \<Rightarrow> db_tx_state_machine list \<Rightarrow> db_tx_state_machine list \<Rightarrow> client_metrics_payload" where
  "sample_report acc ok bad = \<lparr>cmp_peer_id = ''peer'', client_type = ''wasm'', timestamp = 0,
     cmp_storage_export = \<lparr>se_user_account = Some \<lparr>user_multi_addr = [], accounts = [(acc, Ethereum)]\<rparr>,
       se_nonce = 0, success_transactions = ok, failed_transactions = bad\<rparr>\<rparr>"

definition reported_tx :: "bytes \<Rightarrow> u128 \<Rightarrow> db_tx_state_machine" where
  "reported_tx h a = \<lparr>tx_hash = h, db_amount = a, db_token = default_token, db_sender = [],
     db_receiver = [], sender_network = Ethereum, receiver_network = Ethereum, success = False\<rparr>"

lemmas sample_report_simps = sample_report_def reported_tx_def handle_client_metrics_def
  update_from_exported_storage_def update_aggregated_metrics_def reported_account_def
  client_metrics_new_def saturating_sub_def Let_def

theorem client_success_total_exact_witness:
  "total_success_txs (handle_reports (\<lambda>_ _. 0)
     [(1, sample_report ''a'' [reported_tx [1] 5] []),
      (2, sample_report ''b'' [reported_tx [2] 5] []),
      (3, sample_report ''a'' [reported_tx [1] 5, reported_tx [3] 5] [])] client_metrics_new) = 3"
  using client_success_total_exact [of
    "[(1, sample_report ''a'' [reported_tx [1] 5] []), (2, sample_report ''b'' [reported_tx [2] 5] []),
      (3, sample_report ''a'' [reported_tx [1] 5, reported_tx [3] 5] [])]" "\<lambda>_ _. 0"]
  by (simp add: growing_reports_def report_counts_def sample_report_simps)

text \<open>A client's snapshot lists each reported hash of a failed transaction exactly once: the
  hashes are those reported for the account, without repetition. Failed transactions that carry the
  same hash (the wasm node records an empty one when a submission fails) are therefore kept once
  only.\<close>

theorem client_failed_once_per_hash:
  assumes "map_of (per_client (handle_reports rate rs client_metrics_new)) acc = Some snap"
  shows "distinct (map tx_hash (cs_failed_transactions snap))
    \<and> tx_hash ` set (cs_failed_transactions snap) =
      {tx_hash t | t now p. (now, p) \<in> set rs \<and> reported_account (cmp_storage_export p) = acc
         \<and> t \<in> set (failed_transactions (cmp_storage_export p))}"
  using assms
proof (induction rs arbitrary: snap rule: rev_induct)
  case Nil
  then show ?case by (simp add: client_metrics_new_def)
next
  case (snoc r rs)
  obtain now p where r: "r = (now, p)" by (cases r)
  define m where "m = handle_reports rate rs client_metrics_new"
  show ?case
  proof (cases "reported_account (cmp_storage_export p) = acc")
    case False
    then have "map_of (per_client m) acc = Some snap"
      using snoc.prems by (simp add: r handle_reports_snoc handle_client_metrics_def
          update_from_exported_storage_def per_client_update Let_def m_def)
    from snoc.IH [OF this [unfolded m_def]] False show ?thesis by (auto simp: r)
  next
    case True
    define acc0 where "acc0 = (case map_of (per_client m) acc of Some s \<Rightarrow> cs_failed_transactions s | None \<Rightarrow> [])"
    have snap: "cs_failed_transactions snap = merge_failed acc0 (failed_transactions (cmp_storage_export p))"
      using snoc.prems True by (auto simp: r handle_reports_snoc handle_client_metrics_def
          update_from_exported_storage_def per_client_update Let_def m_def acc0_def)
    have "distinct (map tx_hash acc0) \<and> tx_hash ` set acc0 =
      {tx_hash t | t now p. (now, p) \<in> set rs \<and> reported_account (cmp_storage_export p) = acc
         \<and> t \<in> set (failed_transactions (cmp_storage_export p))}"
    proof (cases "map_of (per_client m) acc")
      case None
      then show ?thesis
        using unreported_account [of rate rs acc] by (auto simp: acc0_def m_def)
    next
      case (Some s)
      with snoc.IH [of s] show ?thesis by (simp add: acc0_def m_def)
    qed
    then show ?thesis
      using True by (auto simp: snap merge_failed_distinct merge_failed_hashes image_Un r)
  qed
qed

theorem client_failed_once_per_hash_witness:
  "length (cs_failed_transactions (the (map_of (per_client (handle_reports (\<lambda>_ _. 0)
     [(1, sample_report ''a'' [] [reported_tx [] 5, reported_tx [] 7])] client_metrics_new)) ''a''))) = 1
   \<and> tx_hash ` set (cs_failed_transactions (the (map_of (per_client (handle_reports (\<lambda>_ _. 0)
     [(1, sample_report ''a'' [] [reported_tx [] 5, reported_tx [] 7])] client_metrics_new)) ''a''))) = {[]}"
  using client_failed_once_per_hash [of "\<lambda>_ _. 0"
      "[(1, sample_report ''a'' [] [reported_tx [] 5, reported_tx [] 7])]" "''a''"]
  by (simp add: sample_report_simps)

end
