(* ===== verification/Backend_Server.thy ===== *)
theory Backend_Server
  imports Backend_Metrics
begin

text \<open>
  \<open>VaneSwarmServer\<close> of \<open>node/vane-backend/src/server.rs\<close>: the store of pending requests behind the
  JSON-RPC methods. Its state is the peers map, the three request tables, the backend metrics, and
  the logs of what was sent on the broadcast channel (\<open>events\<close>) and handed to the notification
  channel (\<open>notifications\<close>). Every handler runs under the server's mutex, so a run of the server is
  a sequence of handler calls (\<open>backend_step\<close>, \<open>reachable_server\<close>).

  The JSON decoder and \<open>hex::encode\<close> are third-party code and are arguments. A handler reads the
  clock several times; it is given the reading of its first part (\<open>now\<close>) and, where an expiry check
  follows a cleanup, a second one (\<open>later\<close>). Logging is left out.
\<close>

section \<open>State\<close>

record backend_env =
  from_slice :: "bytes \<Rightarrow> tx_state_machine option"
  hex_encode :: "bytes \<Rightarrow> string"

definition REQUEST_TTL_SECONDS :: u64 where
  "REQUEST_TTL_SECONDS = 60 * 30"

record request_entry =
  data :: bytes
  created_at :: u64

definition request_entry_new :: "u64 \<Rightarrow> bytes \<Rightarrow> request_entry" where
  "request_entry_new now d = \<lparr>data = d, created_at = now\<rparr>"

definition request_is_expired :: "u64 \<Rightarrow> u64 \<Rightarrow> request_entry \<Rightarrow> bool" where
  "request_is_expired now ttl_seconds e = (ttl_seconds < saturating_sub now (created_at e))"

definition update_data :: "bytes \<Rightarrow> request_entry \<Rightarrow> request_entry" where
  "update_data d e = e\<lparr>data := d\<rparr>"

record request_list_entry =
  multi_ids :: "string list"
  list_created_at :: u64

definition request_list_new :: "u64 \<Rightarrow> request_list_entry" where
  "request_list_new now = \<lparr>multi_ids = [], list_created_at = now\<rparr>"

definition list_is_expired :: "u64 \<Rightarrow> u64 \<Rightarrow> request_list_entry \<Rightarrow> bool" where
  "list_is_expired now ttl_seconds e = (ttl_seconds < saturating_sub now (list_created_at e))"

definition list_push :: "string \<Rightarrow> request_list_entry \<Rightarrow> request_list_entry" where
  "list_push mid e = e\<lparr>multi_ids := multi_ids e @ [mid]\<rparr>"

record target_peer =
  tp_account_id :: string
  tp_network :: chain_supported
  times_requested :: u16

type_synonym target_peers = "(string \<times> target_peer) list"
type_synonym request_lists = "(string \<times> request_list_entry) list"

record swarm_server =
  peers :: "(string \<times> target_peers) list"
  requests :: "(string \<times> request_entry) list"
  sender_requests :: request_lists
  receiver_requests :: request_lists
  metrics :: backend_metrics
  events :: "backend_event list"
  notifications :: "system_notification list"

definition swarm_server_new :: swarm_server where
  "swarm_server_new = \<lparr>peers = [], requests = [], sender_requests = [], receiver_requests = [],
     metrics = backend_metrics_new, events = [], notifications = []\<rparr>"

definition send_event :: "backend_event \<Rightarrow> swarm_server \<Rightarrow> swarm_server" where
  "send_event ev s = s\<lparr>events := events s @ [ev]\<rparr>"

definition try_notify :: "system_notification \<Rightarrow> swarm_server \<Rightarrow> swarm_server" where
  "try_notify n s = s\<lparr>notifications := notifications s @ [n]\<rparr>"

section \<open>Expiry\<close>

definition expired_keys :: "u64 \<Rightarrow> swarm_server \<Rightarrow> string list" where
  "expired_keys now s =
     map fst (filter (\<lambda>(_, e). request_is_expired now REQUEST_TTL_SECONDS e) (requests s))"

definition cleanup_expired_requests :: "u64 \<Rightarrow> swarm_server \<Rightarrow> swarm_server" where
  "cleanup_expired_requests now s =
     s\<lparr>requests := fold AList.delete (expired_keys now s) (requests s)\<rparr>"

text \<open>One turn of the loop over the keys of a request-list table.\<close>

definition cleanup_list :: "u64 \<Rightarrow> string list \<Rightarrow> string \<Rightarrow> request_lists \<Rightarrow> request_lists" where
  "cleanup_list now expired_multi_ids key tbl = (case map_of tbl key of
       None \<Rightarrow> tbl
     | Some entry \<Rightarrow>
         (if list_is_expired now REQUEST_TTL_SECONDS entry then AList.delete key tbl
          else if expired_multi_ids \<noteq> [] then
            (let ids = filter (\<lambda>mid. mid \<notin> set expired_multi_ids) (multi_ids entry) in
             if ids = [] then AList.delete key tbl
             else AList.update key (entry\<lparr>multi_ids := ids\<rparr>) tbl)
          else tbl))"

definition cleanup_lists :: "u64 \<Rightarrow> string list \<Rightarrow> request_lists \<Rightarrow> request_lists" where
  "cleanup_lists now expired_multi_ids tbl =
     fold (cleanup_list now expired_multi_ids) (map fst tbl) tbl"

definition cleanup_expired_sender_receiver_requests :: "u64 \<Rightarrow> swarm_server \<Rightarrow> swarm_server" where
  "cleanup_expired_sender_receiver_requests now s =
     (let expired_multi_ids = expired_keys now s in
      s\<lparr>sender_requests := cleanup_lists now expired_multi_ids (sender_requests s),
        receiver_requests := cleanup_lists now expired_multi_ids (receiver_requests s)\<rparr>)"

definition cleanup :: "u64 \<Rightarrow> swarm_server \<Rightarrow> swarm_server" where
  "cleanup now s = cleanup_expired_sender_receiver_requests now (cleanup_expired_requests now s)"

definition insert_request :: "u64 \<Rightarrow> string \<Rightarrow> bytes \<Rightarrow> swarm_server \<Rightarrow> swarm_server" where
  "insert_request now mid d s =
     (let s = cleanup now s in s\<lparr>requests := AList.update mid (request_entry_new now d) (requests s)\<rparr>)"

definition update_request :: "u64 \<Rightarrow> u64 \<Rightarrow> string \<Rightarrow> bytes \<Rightarrow> swarm_server \<Rightarrow> bool \<times> swarm_server" where
  "update_request now later mid d s =
     (let s = cleanup now s in
      case map_of (requests s) mid of
        Some entry \<Rightarrow>
          (if request_is_expired later REQUEST_TTL_SECONDS entry then
             (False, send_event (EvDataExpired mid (data entry))
                       (s\<lparr>requests := AList.delete mid (requests s)\<rparr>))
           else (True, s\<lparr>requests := AList.update mid (update_data d entry) (requests s)\<rparr>))
      | None \<Rightarrow> (False, send_event (EvDataExpired mid []) s))"

definition update_metrics :: "u64 \<Rightarrow> swarm_server \<Rightarrow> swarm_server" where
  "update_metrics now s =
     (let s = cleanup now s in
      s\<lparr>metrics := update_pending_requests (of_nat (length (requests s)))
          (update_active_peers (of_nat (length (peers s))) (metrics s))\<rparr>)"

section \<open>Handlers\<close>

text \<open>The first part of \<open>handle_sender_request\<close>: the sender's target peers. Only the branch for a
  sender not seen before hands its notification to the channel.\<close>

definition register_peer ::
    "u64 \<Rightarrow> string \<Rightarrow> string \<Rightarrow> chain_supported \<Rightarrow> swarm_server \<Rightarrow> swarm_server" where
  "register_peer now address receiver network s = (case map_of (peers s) address of
       None \<Rightarrow>
         (let peer = \<lparr>tp_account_id = receiver, tp_network = network, times_requested = 1\<rparr>;
              s = s\<lparr>peers := AList.update address [(receiver, peer)] (peers s)\<rparr>;
              s = s\<lparr>metrics := record_peer_added (metrics s)\<rparr>;
              s = update_metrics now s
          in try_notify (PeerAdded address receiver network) s)
     | Some targets \<Rightarrow>
         (case map_of targets receiver of
            Some peer \<Rightarrow> s\<lparr>peers := AList.update address
               (AList.update receiver (peer\<lparr>times_requested := times_requested peer + 1\<rparr>) targets)
               (peers s)\<rparr>
          | None \<Rightarrow> s\<lparr>peers := AList.update address
               (AList.update receiver
                  \<lparr>tp_account_id = receiver, tp_network = network, times_requested = 1\<rparr> targets)
               (peers s)\<rparr>))"

definition push_list :: "u64 \<Rightarrow> string \<Rightarrow> string \<Rightarrow> request_lists \<Rightarrow> request_lists" where
  "push_list now key mid tbl = AList.update key
     (list_push mid (case map_of tbl key of Some e \<Rightarrow> e | None \<Rightarrow> request_list_new now)) tbl"

definition handle_sender_request ::
    "backend_env \<Rightarrow> u64 \<Rightarrow> string \<Rightarrow> bytes \<Rightarrow> (swarm_server, unit) action" where
  "handle_sender_request E now address d =
     and_then (modify (send_event (EvSenderRequestReceived address d))) (\<lambda>_.
     case from_slice E d of
       None \<Rightarrow> raise FailedToDecodeTxStateMachine
     | Some tx \<Rightarrow>
         (let receiver = receiver_address tx; mid = hex_encode E (multi_id tx) in
          and_then (modify (register_peer now address receiver (receiver_address_network tx))) (\<lambda>_.
          and_then (modify (try_notify (RequestQueued receiver))) (\<lambda>_.
          and_then (modify (insert_request now mid d)) (\<lambda>_.
          and_then (modify (\<lambda>s. s\<lparr>sender_requests := push_list now address mid (sender_requests s)\<rparr>)) (\<lambda>_.
          and_then (modify (\<lambda>s. s\<lparr>receiver_requests := push_list now receiver mid (receiver_requests s)\<rparr>)) (\<lambda>_.
          and_then (modify (cleanup_expired_sender_receiver_requests now)) (\<lambda>_.
          and_then (modify (\<lambda>s. s\<lparr>metrics := record_sender_request (metrics s)\<rparr>)) (\<lambda>_.
          and_then (modify (update_metrics now)) (\<lambda>_.
          modify (send_event (EvSenderRequestHandled receiver d))))))))))))"

text \<open>\<open>handle_sender_confirmation\<close>, \<open>handle_sender_revertation\<close> and
  \<open>handle_tx_submission_updates\<close> have the same body up to the event they emit.\<close>

definition sender_update ::
    "(string \<Rightarrow> bytes \<Rightarrow> backend_event) \<Rightarrow> backend_env \<Rightarrow> u64 \<Rightarrow> u64 \<Rightarrow> string \<Rightarrow> bytes
       \<Rightarrow> (swarm_server, unit) action" where
  "sender_update mk_event E now later address d = (case from_slice E d of
       None \<Rightarrow> raise FailedToDecodeTxStateMachine
     | Some tx \<Rightarrow>
         (let mid = hex_encode E (multi_id tx); receiver = receiver_address tx in
          and_then (gets peers) (\<lambda>ps.
          if \<not> (case map_of ps address of Some targets \<Rightarrow> contains_key receiver targets | None \<Rightarrow> False)
          then raise (PeerNotFound address receiver)
          else
            and_then (gets requests) (\<lambda>rs.
            if \<not> contains_key mid rs then raise (TransactionNotFound mid)
            else
              and_then (\<lambda>s. let (updated, s') = update_request now later mid d s in (Ok updated, s')) (\<lambda>updated.
              if updated then modify (send_event (mk_event address d))
              else raise (FailedToUpdateTransaction mid))))))"

definition handle_sender_confirmation ::
    "backend_env \<Rightarrow> u64 \<Rightarrow> u64 \<Rightarrow> string \<Rightarrow> bytes \<Rightarrow> (swarm_server, unit) action" where
  "handle_sender_confirmation = sender_update EvSenderConfirmed"

definition handle_sender_revertation ::
    "backend_env \<Rightarrow> u64 \<Rightarrow> u64 \<Rightarrow> string \<Rightarrow> bytes \<Rightarrow> (swarm_server, unit) action" where
  "handle_sender_revertation = sender_update EvSenderReverted"

definition handle_tx_submission_updates ::
    "backend_env \<Rightarrow> u64 \<Rightarrow> u64 \<Rightarrow> string \<Rightarrow> bytes \<Rightarrow> (swarm_server, unit) action" where
  "handle_tx_submission_updates = sender_update EvTxSubmitted"

definition handle_receiver_response ::
    "backend_env \<Rightarrow> u64 \<Rightarrow> u64 \<Rightarrow> string \<Rightarrow> bytes \<Rightarrow> (swarm_server, unit) action" where
  "handle_receiver_response E now later address d = (case from_slice E d of
       None \<Rightarrow> raise FailedToDecodeTxStateMachine
     | Some tx \<Rightarrow>
         (let mid = hex_encode E (multi_id tx) in
          and_then (modify (send_event (EvReceiverResponseReceived address d))) (\<lambda>_.
          and_then (\<lambda>s. let (updated, s') = update_request now later mid d s in (Ok updated, s')) (\<lambda>updated.
          and_then (if updated then ret () else modify (insert_request later mid d)) (\<lambda>_.
          and_then (modify (\<lambda>s. s\<lparr>metrics := record_receiver_response (metrics s)\<rparr>)) (\<lambda>_.
          and_then (modify (update_metrics later)) (\<lambda>_.
          and_then (modify (try_notify (RequestProcessed address))) (\<lambda>_.
          modify (send_event (EvReceiverResponseHandled address d))))))))))"

text \<open>The loop over the multi ids of one request list.\<close>

fun collect_pending ::
    "backend_env \<Rightarrow> (string \<times> request_entry) list \<Rightarrow> string list \<Rightarrow> tx_state_machine list outcome" where
  "collect_pending E rs [] = Ok []"
| "collect_pending E rs (mid # mids) = (case map_of rs mid of
       None \<Rightarrow> collect_pending E rs mids
     | Some request \<Rightarrow>
         (case from_slice E (data request) of
            None \<Rightarrow> Err FailedToDecodeTxStateMachine
          | Some tx \<Rightarrow>
              (case collect_pending E rs mids of
                 Ok txs \<Rightarrow> Ok (if is_reverted (status tx) then txs else tx # txs)
               | e \<Rightarrow> e)))"

definition list_of :: "string \<Rightarrow> request_lists \<Rightarrow> string list" where
  "list_of address tbl = (case map_of tbl address of Some e \<Rightarrow> multi_ids e | None \<Rightarrow> [])"

definition fetch_pending_transactions ::
    "backend_env \<Rightarrow> string \<Rightarrow> (swarm_server, tx_state_machine list) action" where
  "fetch_pending_transactions E address =
     and_then (gets (\<lambda>s. (requests s, list_of address (sender_requests s),
                          list_of address (receiver_requests s)))) (\<lambda>(rs, as_sender, as_receiver).
     and_then (lift_outcome (collect_pending E rs as_sender)) (\<lambda>sent.
     and_then (lift_outcome (collect_pending E rs as_receiver)) (\<lambda>received.
     ret (sent @ received))))"

definition remove_from_list :: "string \<Rightarrow> string \<Rightarrow> request_lists \<Rightarrow> request_lists" where
  "remove_from_list acc mid tbl = (case map_of tbl acc of
       None \<Rightarrow> tbl
     | Some entry \<Rightarrow>
         (let ids = filter (\<lambda>m. m \<noteq> mid) (multi_ids entry) in
          if ids = [] then AList.delete acc tbl
          else AList.update acc (entry\<lparr>multi_ids := ids\<rparr>) tbl))"

text \<open>The loop of \<open>disconnect_peer\<close> over the senders: it returns at the first sender that has the
  account among its targets.\<close>

definition first_sender_of :: "string \<Rightarrow> (string \<times> target_peers) list \<Rightarrow> (string \<times> target_peers) option" where
  "first_sender_of acc ps = List.find (\<lambda>(_, targets). contains_key acc targets) ps"

definition disconnect_peer ::
    "backend_env \<Rightarrow> u64 \<Rightarrow> string \<Rightarrow> bytes \<Rightarrow> (swarm_server, unit) action" where
  "disconnect_peer E now acc d = (case from_slice E d of
       None \<Rightarrow> raise FailedToDecodeTxStateMachine
     | Some tx \<Rightarrow>
         (let mid = hex_encode E (multi_id tx) in
          and_then (modify (\<lambda>s. s\<lparr>receiver_requests := remove_from_list acc mid (receiver_requests s)\<rparr>)) (\<lambda>_.
          and_then (gets peers) (\<lambda>ps.
          case first_sender_of acc ps of
            None \<Rightarrow> raise (PeerWithAccountIdNotFound acc)
          | Some (sender_key, targets) \<Rightarrow>
              (if map_option times_requested (map_of targets acc) = Some 1 then
                 (let targets' = AList.delete acc targets in
                  and_then (modify (\<lambda>s. s\<lparr>peers := AList.update sender_key targets' (peers s)\<rparr>)) (\<lambda>_.
                  and_then (modify (\<lambda>s. s\<lparr>metrics := record_peer_removed (metrics s)\<rparr>)) (\<lambda>_.
                  and_then (modify (try_notify (PeerRemoved sender_key))) (\<lambda>_.
                  and_then (modify (send_event (EvPeerDisconnected acc))) (\<lambda>_.
                  and_then (if targets' = [] then modify (\<lambda>s. s\<lparr>peers := AList.delete sender_key (peers s)\<rparr>)
                            else ret ()) (\<lambda>_.
                  modify (update_metrics now)))))))
               else ret ())))))"

section \<open>What the cleanup does\<close>

definition live_list :: "u64 \<Rightarrow> string list \<Rightarrow> request_list_entry \<Rightarrow> request_list_entry option" where
  "live_list now ids e =
     (if list_is_expired now REQUEST_TTL_SECONDS e then None
      else if ids = [] then Some e
      else (let ids' = filter (\<lambda>mid. mid \<notin> set ids) (multi_ids e) in
            if ids' = [] then None else Some (e\<lparr>multi_ids := ids'\<rparr>)))"

lemma map_of_cleanup_list:
  "map_of (cleanup_list now ids key tbl) =
     (map_of tbl)(key := Option.bind (map_of tbl key) (live_list now ids))"
  by (auto simp: cleanup_list_def live_list_def Let_def fun_eq_iff split: option.splits)

lemma map_of_fold_cleanup:
  "distinct ks \<Longrightarrow> map_of (fold (cleanup_list now ids) ks tbl) k =
     (if k \<in> set ks then Option.bind (map_of tbl k) (live_list now ids) else map_of tbl k)"
  by (induction ks arbitrary: tbl) (auto simp: map_of_cleanup_list)

lemma map_of_cleanup_lists:
  "distinct_keys tbl \<Longrightarrow>
   map_of (cleanup_lists now ids tbl) k = Option.bind (map_of tbl k) (live_list now ids)"
  by (simp add: cleanup_lists_def map_of_fold_cleanup)
    (metis bind.bind_lzero map_of_eq_None_iff)

lemma distinct_keys_cleanup_list [wf_intros]:
  "distinct_keys tbl \<Longrightarrow> distinct_keys (cleanup_list now ids k tbl)"
  by (auto simp: cleanup_list_def Let_def split: option.splits)

lemma distinct_keys_cleanup_lists [simp, wf_intros]:
  "distinct_keys tbl \<Longrightarrow> distinct_keys (cleanup_lists now ids tbl)"
proof -
  have "distinct_keys (fold (cleanup_list now ids) ks tbl)" if "distinct_keys tbl" for ks
    using that by (induction ks arbitrary: tbl) (simp_all add: distinct_keys_cleanup_list)
  then show "distinct_keys tbl \<Longrightarrow> distinct_keys (cleanup_lists now ids tbl)"
    by (simp add: cleanup_lists_def)
qed

lemma cleanup_requests:
  "distinct_keys (requests s) \<Longrightarrow> requests (cleanup_expired_requests now s) =
     filter (\<lambda>(_, e). \<not> request_is_expired now REQUEST_TTL_SECONDS e) (requests s)"
  by (simp add: cleanup_expired_requests_def expired_keys_def fold_delete_matching)
    (rule filter_cong, auto)

lemma expired_keys_cleanup [simp]:
  "distinct_keys (requests s) \<Longrightarrow> expired_keys now (cleanup_expired_requests now s) = []"
  by (simp add: expired_keys_def cleanup_requests filter_empty_conv)
    (auto simp: filter_empty_conv)

lemma frame_cleanup [frame_simps]:
  "peers (cleanup now s) = peers s" "metrics (cleanup now s) = metrics s"
  "events (cleanup now s) = events s" "notifications (cleanup now s) = notifications s"
  by (simp_all add: cleanup_def cleanup_expired_sender_receiver_requests_def
      cleanup_expired_requests_def Let_def)

lemma requests_cleanup:
  "distinct_keys (requests s) \<Longrightarrow> requests (cleanup now s) =
     filter (\<lambda>(_, e). \<not> request_is_expired now REQUEST_TTL_SECONDS e) (requests s)"
  by (simp add: cleanup_def cleanup_expired_sender_receiver_requests_def Let_def cleanup_requests)

lemma map_of_requests_cleanup:
  "distinct_keys (requests s) \<Longrightarrow> map_of (requests (cleanup now s)) mid =
     (case map_of (requests s) mid of None \<Rightarrow> None
      | Some e \<Rightarrow> if request_is_expired now REQUEST_TTL_SECONDS e then None else Some e)"
  by (simp add: requests_cleanup map_of_filter_keys split: option.splits)

text \<open>The first cleanup has removed every expired request before the second one looks for expired
  ids, so the second one never removes single ids: it only drops whole lists, by the age of the
  list.\<close>

lemma lists_cleanup:
  assumes "distinct_keys (requests s)"
  shows "sender_requests (cleanup now s) = cleanup_lists now [] (sender_requests s)"
    and "receiver_requests (cleanup now s) = cleanup_lists now [] (receiver_requests s)"
  using assms
  by (simp_all add: cleanup_def cleanup_expired_sender_receiver_requests_def Let_def)
    (simp_all add: cleanup_expired_requests_def)

lemma distinct_cleanup [wf_intros]:
  "distinct_keys (requests s) \<Longrightarrow> distinct_keys (requests (cleanup now s))"
  by (simp add: requests_cleanup)

section \<open>The well-formedness invariant\<close>

text \<open>Every sender has at least one target, recorded under its own account; every stored request
  decodes to a transaction whose multi id is its key; no request list is empty; the gauge of active
  peers is the number of senders.\<close>

definition peers_ok :: "(string \<times> target_peers) list \<Rightarrow> bool" where
  "peers_ok ps \<longleftrightarrow> distinct_keys ps \<and> (\<forall>(a, targets) \<in> set ps. targets \<noteq> [] \<and> distinct_keys targets
     \<and> (\<forall>(r, p) \<in> set targets. tp_account_id p = r))"

definition requests_ok :: "backend_env \<Rightarrow> (string \<times> request_entry) list \<Rightarrow> bool" where
  "requests_ok E rs \<longleftrightarrow> distinct_keys rs \<and> (\<forall>(mid, e) \<in> set rs.
     \<exists>tx. from_slice E (data e) = Some tx \<and> hex_encode E (multi_id tx) = mid)"

definition lists_ok :: "request_lists \<Rightarrow> bool" where
  "lists_ok tbl \<longleftrightarrow> distinct_keys tbl \<and> (\<forall>(k, e) \<in> set tbl. multi_ids e \<noteq> [])"

definition wf_server :: "backend_env \<Rightarrow> swarm_server \<Rightarrow> bool" where
  "wf_server E s \<longleftrightarrow> peers_ok (peers s) \<and> requests_ok E (requests s)
     \<and> lists_ok (sender_requests s) \<and> lists_ok (receiver_requests s)
     \<and> active_peers (metrics s) = of_nat (length (peers s))"

lemma set_alist_update:
  "set (AList.update k v m) \<subseteq> insert (k, v) (set m)"
  by (induction m) auto

lemma set_alist_delete: "set (AList.delete k m) \<subseteq> set m"
  by (auto simp: AList.delete_eq)

lemma peers_ok_update:
  "peers_ok ps \<Longrightarrow> targets \<noteq> [] \<Longrightarrow> distinct_keys targets \<Longrightarrow>
   \<forall>(r, p) \<in> set targets. tp_account_id p = r \<Longrightarrow> peers_ok (AList.update a targets ps)"
  using set_alist_update [of a targets ps] by (fastforce simp: peers_ok_def)

lemma peers_ok_delete: "peers_ok ps \<Longrightarrow> peers_ok (AList.delete a ps)"
  using set_alist_delete [of a ps] by (fastforce simp: peers_ok_def)

lemma peers_ok_lookup:
  "peers_ok ps \<Longrightarrow> map_of ps a = Some targets \<Longrightarrow> targets \<noteq> [] \<and> distinct_keys targets
     \<and> (\<forall>(r, p) \<in> set targets. tp_account_id p = r)"
  by (auto simp: peers_ok_def dest!: map_of_SomeD)

lemma targets_update:
  "\<forall>(r, p) \<in> set targets. tp_account_id p = r \<Longrightarrow> tp_account_id q = k \<Longrightarrow>
   \<forall>(r, p) \<in> set (AList.update k q targets). tp_account_id p = r"
  using set_alist_update [of k q targets] by fastforce

lemma requests_ok_filter: "requests_ok E rs \<Longrightarrow> requests_ok E (filter P rs)"
  by (auto simp: requests_ok_def)

lemma requests_ok_delete: "requests_ok E rs \<Longrightarrow> requests_ok E (AList.delete mid rs)"
  using set_alist_delete [of mid rs] by (fastforce simp: requests_ok_def)

lemma requests_ok_update:
  "requests_ok E rs \<Longrightarrow> from_slice E (data e) = Some tx \<Longrightarrow> hex_encode E (multi_id tx) = mid \<Longrightarrow>
   requests_ok E (AList.update mid e rs)"
  using set_alist_update [of mid e rs] by (fastforce simp: requests_ok_def)

lemma requests_ok_lookup:
  "requests_ok E rs \<Longrightarrow> map_of rs mid = Some e \<Longrightarrow>
   \<exists>tx. from_slice E (data e) = Some tx \<and> hex_encode E (multi_id tx) = mid"
  by (auto simp: requests_ok_def dest!: map_of_SomeD)

lemma lists_ok_update: "lists_ok tbl \<Longrightarrow> multi_ids e \<noteq> [] \<Longrightarrow> lists_ok (AList.update k e tbl)"
  using set_alist_update [of k e tbl] by (fastforce simp: lists_ok_def)

lemma lists_ok_delete: "lists_ok tbl \<Longrightarrow> lists_ok (AList.delete k tbl)"
  using set_alist_delete [of k tbl] by (fastforce simp: lists_ok_def)

lemma lists_ok_cleanup_lists [wf_intros]: "lists_ok tbl \<Longrightarrow> lists_ok (cleanup_lists now ids tbl)"
proof -
  have "lists_ok (cleanup_list now ids k t)" if "lists_ok t" for k t
    using that by (auto simp: cleanup_list_def Let_def lists_ok_update lists_ok_delete
        split: option.splits)
  then have "lists_ok (fold (cleanup_list now ids) ks t)" if "lists_ok t" for ks t
    using that by (induction ks arbitrary: t) simp_all
  then show "lists_ok tbl \<Longrightarrow> lists_ok (cleanup_lists now ids tbl)"
    by (simp add: cleanup_lists_def)
qed

lemma lists_ok_push [wf_intros]: "lists_ok tbl \<Longrightarrow> lists_ok (push_list now k mid tbl)"
  unfolding push_list_def by (rule lists_ok_update) (simp_all add: list_push_def)

lemma lists_ok_remove [wf_intros]: "lists_ok tbl \<Longrightarrow> lists_ok (remove_from_list acc mid tbl)"
  by (auto simp: remove_from_list_def Let_def lists_ok_update lists_ok_delete split: option.splits)

lemma wf_distinct: "wf_server E s \<Longrightarrow> distinct_keys (requests s)"
  by (simp add: wf_server_def requests_ok_def)

lemma wf_send_event [wf_intros]: "wf_server E s \<Longrightarrow> wf_server E (send_event ev s)"
  by (simp add: wf_server_def send_event_def)

lemma wf_try_notify [wf_intros]: "wf_server E s \<Longrightarrow> wf_server E (try_notify n s)"
  by (simp add: wf_server_def try_notify_def)

lemma wf_cleanup [wf_intros]: "wf_server E s \<Longrightarrow> wf_server E (cleanup now s)"
  using wf_distinct [of E s]
  by (simp add: wf_server_def frame_simps requests_cleanup lists_cleanup requests_ok_filter
      lists_ok_cleanup_lists)

lemma wf_cleanup_lists_only [wf_intros]:
  "wf_server E s \<Longrightarrow> wf_server E (cleanup_expired_sender_receiver_requests now s)"
  by (simp add: wf_server_def cleanup_expired_sender_receiver_requests_def Let_def
      lists_ok_cleanup_lists)

lemma wf_insert_request [wf_intros]:
  assumes "wf_server E s" "from_slice E d = Some tx" "hex_encode E (multi_id tx) = mid"
  shows "wf_server E (insert_request now mid d s)"
  using wf_cleanup [OF assms(1), of now] assms(2,3)
  by (simp add: wf_server_def insert_request_def Let_def)
    (auto intro: requests_ok_update simp: request_entry_new_def)

lemma wf_update_metrics [wf_intros]:
  assumes "peers_ok (peers s)" "requests_ok E (requests s)" "lists_ok (sender_requests s)"
    "lists_ok (receiver_requests s)"
  shows "wf_server E (update_metrics now s)"
proof -
  have "distinct_keys (requests s)" using assms(2) by (simp add: requests_ok_def)
  then show ?thesis using assms
    by (simp add: wf_server_def update_metrics_def Let_def frame_simps requests_cleanup lists_cleanup
        requests_ok_filter lists_ok_cleanup_lists metric_defs)
qed

lemma wf_parts:
  assumes "wf_server E s"
  shows "peers_ok (peers s)" "requests_ok E (requests s)" "lists_ok (sender_requests s)"
    "lists_ok (receiver_requests s)" "active_peers (metrics s) = of_nat (length (peers s))"
  using assms by (simp_all add: wf_server_def)

lemma wf_update_request:
  assumes "wf_server E s" "from_slice E d = Some tx" "hex_encode E (multi_id tx) = mid"
  shows "wf_server E (snd (update_request now later mid d s))"
  using wf_cleanup [OF assms(1), of now] assms(2,3)
  by (auto simp: update_request_def Let_def wf_server_def send_event_def update_data_def
      intro: requests_ok_update requests_ok_delete split: option.splits)

lemma length_update_existing:
  "contains_key k m \<Longrightarrow> length (AList.update k v m) = length m"
  by (induction m) auto

lemma wf_register_peer [wf_intros]:
  assumes "wf_server E s"
  shows "wf_server E (register_peer now address receiver network s)"
proof (cases "map_of (peers s) address")
  case None
  show ?thesis
    unfolding register_peer_def None option.case Let_def
    by (rule wf_try_notify, rule wf_update_metrics)
      (simp_all add: wf_parts [OF assms] peers_ok_update)
next
  case (Some targets)
  note t = peers_ok_lookup [OF wf_parts(1) [OF assms] Some]
  have "wf_server E (s\<lparr>peers := AList.update address (AList.update receiver p targets) (peers s)\<rparr>)"
    if "tp_account_id p = receiver" for p
  proof -
    have "peers_ok (AList.update address (AList.update receiver p targets) (peers s))"
      using t that by (intro peers_ok_update wf_parts(1) [OF assms] targets_update)
        (simp_all add: update_nonempty)
    then show ?thesis using assms Some by (simp add: wf_server_def length_update_existing)
  qed
  moreover have "tp_account_id p = receiver" if "map_of targets receiver = Some p" for p
    using t that by (auto dest!: map_of_SomeD)
  ultimately show ?thesis
    by (auto simp: register_peer_def Some split: option.splits)
qed

lemma wf_handle_sender_request [wf_intros]:
  assumes "wf_server E s"
  shows "wf_server E (snd (handle_sender_request E now address d s))"
proof (cases "from_slice E d")
  case None
  with assms show ?thesis by (simp add: handle_sender_request_def run_simps wf_send_event)
next
  case (Some tx)
  define mid where "mid = hex_encode E (multi_id tx)"
  define u where "u = insert_request now mid d (try_notify (RequestQueued (receiver_address tx))
    (register_peer now address (receiver_address tx) (receiver_address_network tx)
      (send_event (EvSenderRequestReceived address d) s)))"
  have u: "wf_server E u"
    unfolding u_def
    by (rule wf_insert_request [OF _ Some]) (simp_all add: mid_def wf_intros assms)
  show ?thesis
    by (simp add: handle_sender_request_def run_simps Some Let_def flip: mid_def)
      (intro wf_send_event wf_update_metrics; simp add: wf_parts [OF u] wf_intros
        cleanup_expired_sender_receiver_requests_def Let_def flip: u_def)
qed

lemma wf_sender_update [wf_intros]:
  assumes "wf_server E s"
  shows "wf_server E (snd (sender_update mk E now later address d s))"
  using assms wf_update_request [OF assms, of d _ _ now later]
  by (auto simp: sender_update_def run_simps Let_def wf_send_event case_prod_beta
      split: option.splits)

lemma wf_handle_receiver_response [wf_intros]:
  assumes "wf_server E s"
  shows "wf_server E (snd (handle_receiver_response E now later address d s))"
proof (cases "from_slice E d")
  case None
  with assms show ?thesis by (simp add: handle_receiver_response_def run_simps)
next
  case (Some tx)
  define mid where "mid = hex_encode E (multi_id tx)"
  define u where "u = update_request now later mid d (send_event (EvReceiverResponseReceived address d) s)"
  have u: "wf_server E (snd u)" "wf_server E (insert_request later mid d (snd u))"
    using wf_update_request [OF wf_send_event [OF assms] Some] wf_insert_request [OF _ Some]
    by (simp_all add: u_def mid_def)
  then show ?thesis
    by (simp add: handle_receiver_response_def run_simps Some Let_def case_prod_beta
        flip: mid_def u_def)
      (auto intro!: wf_send_event wf_try_notify wf_update_metrics simp: wf_parts)
qed

lemma wf_disconnect_peer [wf_intros]:
  assumes "wf_server E s"
  shows "wf_server E (snd (disconnect_peer E now acc d s))"
proof (cases "from_slice E d")
  case None
  with assms show ?thesis by (simp add: disconnect_peer_def run_simps)
next
  case (Some tx)
  have r: "lists_ok (remove_from_list acc mid (receiver_requests s))" for mid
    by (simp add: wf_intros wf_parts [OF assms])
  show ?thesis
  proof (cases "first_sender_of acc (peers s)")
    case None
    with Some assms r show ?thesis
      by (simp add: disconnect_peer_def run_simps Let_def wf_server_def)
  next
    case sk: (Some st)
    obtain sender targets where st: "st = (sender, targets)" by (cases st)
    have mem: "(sender, targets) \<in> set (peers s)"
      using sk by (auto simp: first_sender_of_def st find_Some_iff in_set_conv_nth)
    then have t: "targets \<noteq> []" "distinct_keys targets" "\<forall>(r, p) \<in> set targets. tp_account_id p = r"
      using wf_parts(1) [OF assms] by (auto simp: peers_ok_def)
    have d: "AList.delete acc targets \<noteq> [] \<Longrightarrow>
        peers_ok (AList.update sender (AList.delete acc targets) (peers s))"
      using set_alist_delete [of acc targets] t
      by (intro peers_ok_update wf_parts(1) [OF assms]) auto
    have e: "peers_ok (AList.delete sender (AList.update sender x (peers s)))" for x
      using peers_ok_delete [OF wf_parts(1) [OF assms], of sender] by (simp add: delete_update_same)
    have noop: "wf_server E (s\<lparr>receiver_requests := remove_from_list acc mid (receiver_requests s)\<rparr>)" for mid
      using assms r by (simp add: wf_server_def)
    show ?thesis
    proof (cases "map_option times_requested (map_of targets acc) = Some 1")
      case False
      with noop show ?thesis
        by (simp add: disconnect_peer_def run_simps Some sk st Let_def del: map_option_eq_Some)
    next
      case True
      then show ?thesis
        by (cases "AList.delete acc targets = []")
          (simp_all add: disconnect_peer_def run_simps Some sk st Let_def del: map_option_eq_Some,
           auto intro!: wf_update_metrics simp: r d e wf_parts [OF assms] send_event_def try_notify_def)
    qed
  qed
qed

end
