(* ===== verification/Backend_Rpc.thy ===== *)
theory Backend_Rpc
  imports Backend_Server
begin

text \<open>
  \<open>BackendRpcHandler\<close> of \<open>node/vane-backend/src/server.rs\<close>: the JSON-RPC methods over the server's
  handlers, the runs of the server as sequences of calls, and the subscription loop that filters
  the broadcast events by address. The properties of the backend are proved here: the invariant of
  every reachable state, what the handlers store and announce, and who is told what.
\<close>

section \<open>Methods\<close>

definition rpc_handle_sender_request ::
    "backend_env \<Rightarrow> u64 \<Rightarrow> string \<Rightarrow> bytes \<Rightarrow> (swarm_server, unit) action" where
  "rpc_handle_sender_request E now address d = handle_sender_request E now address d"

definition rpc_handle_receiver_response ::
    "backend_env \<Rightarrow> u64 \<Rightarrow> u64 \<Rightarrow> string \<Rightarrow> bytes \<Rightarrow> (swarm_server, unit) action" where
  "rpc_handle_receiver_response E now later address d = handle_receiver_response E now later address d"

definition rpc_handle_sender_confirmation ::
    "backend_env \<Rightarrow> u64 \<Rightarrow> u64 \<Rightarrow> string \<Rightarrow> bytes \<Rightarrow> (swarm_server, unit) action" where
  "rpc_handle_sender_confirmation E now later address d =
     handle_sender_confirmation E now later address d"

definition rpc_handle_sender_revertation ::
    "backend_env \<Rightarrow> u64 \<Rightarrow> u64 \<Rightarrow> string \<Rightarrow> bytes \<Rightarrow> (swarm_server, unit) action" where
  "rpc_handle_sender_revertation E now later address d =
     handle_sender_revertation E now later address d"

definition rpc_handle_tx_submission_updates ::
    "backend_env \<Rightarrow> u64 \<Rightarrow> u64 \<Rightarrow> string \<Rightarrow> bytes \<Rightarrow> (swarm_server, unit) action" where
  "rpc_handle_tx_submission_updates E now later address d =
     handle_tx_submission_updates E now later address d"

definition rpc_fetch_pending_transactions ::
    "backend_env \<Rightarrow> string \<Rightarrow> (swarm_server, unit) action" where
  "rpc_fetch_pending_transactions E address =
     and_then (fetch_pending_transactions E address) (\<lambda>txs.
     modify (send_event (EvPendingTransactionsFetched address txs)))"

definition rpc_disconnect_peer ::
    "backend_env \<Rightarrow> u64 \<Rightarrow> string \<Rightarrow> bytes \<Rightarrow> (swarm_server, unit) action" where
  "rpc_disconnect_peer E now acc d = disconnect_peer E now acc d"

text \<open>The part of \<open>subscribe_to_events\<close> that touches the server: it counts the client.\<close>

definition rpc_subscribe :: "(swarm_server, unit) action" where
  "rpc_subscribe = modify (\<lambda>s. s\<lparr>metrics := record_new_client_joined (metrics s)\<rparr>)"

datatype rpc_call =
    HandleSenderRequest string bytes
  | HandleReceiverResponse string bytes
  | HandleSenderConfirmation string bytes
  | HandleSenderRevertation string bytes
  | HandleTxSubmissionUpdates string bytes
  | FetchPending string
  | DisconnectPeer string bytes
  | SubscribeToEvents string

fun rpc_dispatch :: "backend_env \<Rightarrow> u64 \<Rightarrow> u64 \<Rightarrow> rpc_call \<Rightarrow> (swarm_server, unit) action" where
  "rpc_dispatch E now later (HandleSenderRequest a d) = rpc_handle_sender_request E now a d"
| "rpc_dispatch E now later (HandleReceiverResponse a d) = rpc_handle_receiver_response E now later a d"
| "rpc_dispatch E now later (HandleSenderConfirmation a d) = rpc_handle_sender_confirmation E now later a d"
| "rpc_dispatch E now later (HandleSenderRevertation a d) = rpc_handle_sender_revertation E now later a d"
| "rpc_dispatch E now later (HandleTxSubmissionUpdates a d) = rpc_handle_tx_submission_updates E now later a d"
| "rpc_dispatch E now later (FetchPending a) = rpc_fetch_pending_transactions E a"
| "rpc_dispatch E now later (DisconnectPeer a d) = rpc_disconnect_peer E now a d"
| "rpc_dispatch E now later (SubscribeToEvents a) = rpc_subscribe"

lemmas rpc_defs =
  rpc_handle_sender_request_def rpc_handle_receiver_response_def rpc_handle_sender_confirmation_def
  rpc_handle_sender_revertation_def rpc_handle_tx_submission_updates_def
  rpc_fetch_pending_transactions_def rpc_disconnect_peer_def rpc_subscribe_def
  handle_sender_confirmation_def handle_sender_revertation_def handle_tx_submission_updates_def

text \<open>A run of the server: calls one after the other, on a clock that does not go back.\<close>

inductive backend_step :: "backend_env \<Rightarrow> u64 \<times> swarm_server \<Rightarrow> u64 \<times> swarm_server \<Rightarrow> bool"
  for E :: backend_env where
  call: "t \<le> now \<Longrightarrow> now \<le> later \<Longrightarrow>
    backend_step E (t, s) (later, snd (rpc_dispatch E now later c s))"

inductive reachable_server :: "backend_env \<Rightarrow> u64 \<Rightarrow> swarm_server \<Rightarrow> bool" for E :: backend_env where
  init: "reachable_server E t swarm_server_new"
| step: "reachable_server E t s \<Longrightarrow> backend_step E (t, s) (t', s') \<Longrightarrow> reachable_server E t' s'"

inductive_cases backend_stepE: "backend_step E (t, s) (t', s')"

section \<open>Subscriptions\<close>

fun event_type :: "backend_event \<Rightarrow> string" where
  "event_type (EvSenderRequestReceived _ _) = ''SenderRequestReceived''"
| "event_type (EvSenderRequestHandled _ _) = ''SenderRequestHandled''"
| "event_type (EvSenderConfirmed _ _) = ''SenderConfirmed''"
| "event_type (EvSenderReverted _ _) = ''SenderReverted''"
| "event_type (EvReceiverResponseReceived _ _) = ''ReceiverResponseReceived''"
| "event_type (EvReceiverResponseHandled _ _) = ''ReceiverResponseHandled''"
| "event_type (EvPeerDisconnected _) = ''PeerDisconnected''"
| "event_type (EvDataExpired _ _) = ''DataExpired''"
| "event_type (EvPendingTransactionsFetched _ _) = ''PendingTransactionsFetched''"
| "event_type (EvTxSubmitted _ _) = ''TxSubmitted''"

definition matches_tx :: "backend_env \<Rightarrow> string \<Rightarrow> bytes \<Rightarrow> bool" where
  "matches_tx E address d = (case from_slice E d of
       Some tx \<Rightarrow>
         (if is_reverted (status tx) then False
          else sender_address tx = address \<or> receiver_address tx = address)
     | None \<Rightarrow> False)"

definition data_expired_matches :: "backend_env \<Rightarrow> string \<Rightarrow> bytes \<Rightarrow> bool" where
  "data_expired_matches E address d =
     (case map_option (\<lambda>tx. if is_reverted (status tx) then False
              else sender_address tx = address \<or> receiver_address tx = address) (from_slice E d) of
        Some b \<Rightarrow> b | None \<Rightarrow> False)"

fun should_send :: "backend_env \<Rightarrow> string \<Rightarrow> backend_event \<Rightarrow> bool" where
  "should_send E address (EvSenderRequestReceived a d) = (a = address \<or> matches_tx E address d)"
| "should_send E address (EvSenderRequestHandled a d) = (a = address \<or> matches_tx E address d)"
| "should_send E address (EvSenderConfirmed a d) = (a = address \<or> matches_tx E address d)"
| "should_send E address (EvSenderReverted a d) = (a = address \<or> matches_tx E address d)"
| "should_send E address (EvReceiverResponseReceived a d) = (a = address \<or> matches_tx E address d)"
| "should_send E address (EvReceiverResponseHandled a d) = (a = address \<or> matches_tx E address d)"
| "should_send E address (EvPeerDisconnected acc) = (acc = address)"
| "should_send E address (EvDataExpired mid d) = data_expired_matches E address d"
| "should_send E address (EvPendingTransactionsFetched a _) = (a = address)"
| "should_send E address (EvTxSubmitted a d) = (a = address \<or> matches_tx E address d)"

text \<open>The loop of \<open>subscribe_to_events\<close> over what \<open>receiver.recv()\<close> returns (an event, or an error when
  the receiver lagged behind the channel or the channel closed). The flag says whether the client
  still takes messages; the loop ends at the first failed receive or send. Serialising an event for
  the client does not fail.\<close>

datatype recv_result = Received backend_event | RecvError

fun subscription_loop :: "backend_env \<Rightarrow> string \<Rightarrow> (recv_result \<times> bool) list \<Rightarrow> backend_event list" where
  "subscription_loop E address [] = []"
| "subscription_loop E address ((RecvError, _) # _) = []"
| "subscription_loop E address ((Received ev, client_open) # rest) =
     (if should_send E address ev
      then (if client_open then ev # subscription_loop E address rest else [])
      else subscription_loop E address rest)"

section \<open>Invariant and totality\<close>

lemma wf_new: "wf_server E swarm_server_new"
  by (simp add: wf_server_def swarm_server_new_def peers_ok_def requests_ok_def lists_ok_def
      backend_metrics_new_def)

lemma wf_fetch: "snd (fetch_pending_transactions E a s) = s"
  by (auto simp: fetch_pending_transactions_def run_simps split: outcome.splits)

lemma wf_rpc_dispatch:
  assumes "wf_server E s" shows "wf_server E (snd (rpc_dispatch E now later c s))"
proof (cases c)
  case (FetchPending a)
  then show ?thesis
    using assms wf_fetch [of E a s]
    by (auto simp: rpc_defs run_simps wf_send_event split: prod.splits outcome.splits)
next
  case (SubscribeToEvents a)
  then show ?thesis using assms by (simp add: rpc_defs run_simps wf_server_def metric_defs)
qed (use assms in \<open>simp_all add: rpc_defs wf_intros\<close>)

lemma reachable_wf: "reachable_server E t s \<Longrightarrow> wf_server E s"
proof (induction rule: reachable_server.induct)
  case init
  show ?case by (rule wf_new)
next
  case (step t s t' s')
  then show ?case by (auto elim!: backend_stepE intro: wf_rpc_dispatch)
qed

definition pending_tx :: "backend_env \<Rightarrow> (string \<times> request_entry) list \<Rightarrow> string \<Rightarrow> tx_state_machine option" where
  "pending_tx E rs mid = (case map_of rs mid of None \<Rightarrow> None
     | Some e \<Rightarrow> (case from_slice E (data e) of None \<Rightarrow> None
        | Some tx \<Rightarrow> if is_reverted (status tx) then None else Some tx))"

lemma collect_pending_total:
  "requests_ok E rs \<Longrightarrow> collect_pending E rs mids = Ok (List.map_filter (pending_tx E rs) mids)"
  by (induction mids)
    (auto simp: List.map_filter_simps pending_tx_def split: option.splits dest: requests_ok_lookup)

lemma fetch_total:
  assumes "wf_server E s"
  shows "fetch_pending_transactions E a s =
     (Ok (List.map_filter (pending_tx E (requests s)) (list_of a (sender_requests s))
        @ List.map_filter (pending_tx E (requests s)) (list_of a (receiver_requests s))), s)"
  using wf_parts(2) [OF assms]
  by (simp add: fetch_pending_transactions_def run_simps collect_pending_total)

section \<open>What a sender request leaves behind\<close>

lemma fresh_not_expired [simp]: "\<not> request_is_expired now lim (request_entry_new now d)"
  by (simp add: request_is_expired_def request_entry_new_def saturating_sub_def)

lemma fresh_list_not_expired [simp]: "\<not> list_is_expired now lim (request_list_new now)"
  by (simp add: list_is_expired_def request_list_new_def saturating_sub_def)

lemma list_push_simps [simp]:
  "list_is_expired now lim (list_push mid e) = list_is_expired now lim e"
  "multi_ids (list_push mid e) = multi_ids e @ [mid]"
  by (simp_all add: list_push_def list_is_expired_def)

lemma live_list_nil: "live_list now [] e = (if list_is_expired now REQUEST_TTL_SECONDS e then None else Some e)"
  by (simp add: live_list_def)

lemma cleaned_requests:
  assumes "distinct_keys (requests s)" "(mid, e) \<in> set (requests (cleanup now s))"
  shows "\<not> request_is_expired now REQUEST_TTL_SECONDS e"
  using assms by (auto simp: requests_cleanup)

lemma insert_request_live:
  assumes "distinct_keys (requests s)" "(k, e) \<in> set (requests (insert_request now mid d s))"
  shows "\<not> request_is_expired now REQUEST_TTL_SECONDS e"
  using set_alist_update [of mid "request_entry_new now d" "requests (cleanup now s)"] assms
  by (auto simp: insert_request_def Let_def dest: cleaned_requests)

lemma expired_keys_insert [simp]:
  "distinct_keys (requests s) \<Longrightarrow> requests u = requests (insert_request now mid d s) \<Longrightarrow>
   expired_keys now u = []"
  by (auto simp: expired_keys_def filter_empty_conv dest: insert_request_live)

lemma lists_insert_request:
  assumes "distinct_keys (requests s)"
  shows "sender_requests (insert_request now mid d s) = cleanup_lists now [] (sender_requests s)"
    and "receiver_requests (insert_request now mid d s) = cleanup_lists now [] (receiver_requests s)"
  using assms by (simp_all add: insert_request_def Let_def lists_cleanup)

text \<open>A list that was just cleaned still has the pushed id after another cleanup at that time.\<close>

lemma push_survives:
  assumes "distinct_keys tbl"
  shows "mid \<in> set (list_of a (cleanup_lists now [] (cleanup_lists now []
     (push_list now a mid (cleanup_lists now [] tbl)))))"
  using assms
  by (auto simp: list_of_def map_of_cleanup_lists push_list_def live_list_nil bind_eq_Some_conv
      split: option.splits if_splits)

lemma requests_survive:
  assumes "distinct_keys (requests s)"
  shows "map_of (requests (insert_request now mid d s)) mid = Some (request_entry_new now d)"
  by (simp add: insert_request_def Let_def)

lemma lists_send_notify [simp]:
  "sender_requests (send_event ev s) = sender_requests s" "sender_requests (try_notify n s) = sender_requests s"
  "receiver_requests (send_event ev s) = receiver_requests s" "receiver_requests (try_notify n s) = receiver_requests s"
  by (simp_all add: send_event_def try_notify_def)

lemma stored_by_sender_request:
  assumes wf: "wf_server E s" and tx: "from_slice E d = Some tx"
    and mid: "mid = hex_encode E (multi_id tx)"
    and s': "s' = snd (handle_sender_request E now a d s)"
  shows "fst (handle_sender_request E now a d s) = Ok ()"
    and "map_of (requests s') mid = Some (request_entry_new now d)"
    and "\<exists>r. wf_server E r \<and> sender_requests s' = cleanup_lists now [] (cleanup_lists now []
             (push_list now a mid (cleanup_lists now [] (sender_requests r))))
         \<and> receiver_requests s' = cleanup_lists now [] (cleanup_lists now []
             (push_list now (receiver_address tx) mid (cleanup_lists now [] (receiver_requests r))))
         \<and> (contains_key a (peers s) \<longrightarrow> sender_requests r = sender_requests s
              \<and> receiver_requests r = receiver_requests s)
         \<and> (\<not> contains_key a (peers s) \<longrightarrow> sender_requests r = cleanup_lists now [] (sender_requests s)
              \<and> receiver_requests r = cleanup_lists now [] (receiver_requests s))"
    and "events s' = events s @ [EvSenderRequestReceived a d, EvSenderRequestHandled (receiver_address tx) d]"
proof -
  define r where "r = try_notify (RequestQueued (receiver_address tx))
    (register_peer now a (receiver_address tx) (receiver_address_network tx)
      (send_event (EvSenderRequestReceived a d) s))"
  have r: "wf_server E r" unfolding r_def by (intro wf_intros wf)
  note dk = wf_distinct [OF r]
  define u where "u = insert_request now mid d r"
  define v where "v = u\<lparr>sender_requests := push_list now a mid (sender_requests u),
    receiver_requests := push_list now (receiver_address tx) mid (receiver_requests u)\<rparr>"
  define w where "w = (cleanup_expired_sender_receiver_requests now v)
    \<lparr>metrics := record_sender_request (metrics v)\<rparr>"
  have run: "handle_sender_request E now a d s =
      (Ok (), send_event (EvSenderRequestHandled (receiver_address tx) d) (update_metrics now w))"
    by (simp add: handle_sender_request_def run_simps tx Let_def w_def v_def u_def r_def mid
        cleanup_expired_sender_receiver_requests_def)
  have rv: "requests v = requests u" "requests w = requests u"
    by (simp_all add: v_def w_def cleanup_expired_sender_receiver_requests_def Let_def)
  have ru: "distinct_keys (requests u)" "expired_keys now v = []"
    using dk by (simp_all add: u_def insert_request_def Let_def requests_cleanup rv)
  have lw: "sender_requests w = cleanup_lists now [] (push_list now a mid (sender_requests u))"
    "receiver_requests w = cleanup_lists now [] (push_list now (receiver_address tx) mid (receiver_requests u))"
    using ru by (simp_all add: w_def cleanup_expired_sender_receiver_requests_def Let_def v_def)
  show "fst (handle_sender_request E now a d s) = Ok ()" by (simp add: run)
  show "map_of (requests s') mid = Some (request_entry_new now d)"
    using ru requests_survive [OF dk, of now mid d]
    by (simp add: s' run send_event_def update_metrics_def Let_def map_of_requests_cleanup rv u_def)
  have "sender_requests s' = cleanup_lists now [] (sender_requests w)"
    "receiver_requests s' = cleanup_lists now [] (receiver_requests w)"
    using ru by (simp_all add: s' run update_metrics_def Let_def lists_cleanup rv)
  then show "\<exists>r. wf_server E r \<and> sender_requests s' = cleanup_lists now [] (cleanup_lists now []
             (push_list now a mid (cleanup_lists now [] (sender_requests r))))
         \<and> receiver_requests s' = cleanup_lists now [] (cleanup_lists now []
             (push_list now (receiver_address tx) mid (cleanup_lists now [] (receiver_requests r))))
         \<and> (contains_key a (peers s) \<longrightarrow> sender_requests r = sender_requests s
              \<and> receiver_requests r = receiver_requests s)
         \<and> (\<not> contains_key a (peers s) \<longrightarrow> sender_requests r = cleanup_lists now [] (sender_requests s)
              \<and> receiver_requests r = cleanup_lists now [] (receiver_requests s))"
    using r wf_distinct [OF wf]
    by (intro exI [of _ r] conjI)
      (simp_all add: lw u_def lists_insert_request [OF dk],
       auto simp: r_def register_peer_def Let_def update_metrics_def lists_cleanup send_event_def try_notify_def
         split: option.splits)
  show "events s' = events s @ [EvSenderRequestReceived a d, EvSenderRequestHandled (receiver_address tx) d]"
    by (simp add: s' run send_event_def update_metrics_def Let_def frame_simps w_def v_def u_def r_def
        cleanup_expired_sender_receiver_requests_def insert_request_def register_peer_def try_notify_def
        split: option.splits)
qed

lemma listed_by_sender_request:
  assumes "wf_server E s" "from_slice E d = Some tx"
  shows "hex_encode E (multi_id tx) \<in> set (list_of a (sender_requests (snd (handle_sender_request E now a d s))))"
    and "hex_encode E (multi_id tx) \<in>
           set (list_of (receiver_address tx) (receiver_requests (snd (handle_sender_request E now a d s))))"
proof -
  from stored_by_sender_request(3) [OF assms refl refl, of now a]
  obtain r where r: "wf_server E r"
    "sender_requests (snd (handle_sender_request E now a d s)) = cleanup_lists now [] (cleanup_lists now []
       (push_list now a (hex_encode E (multi_id tx)) (cleanup_lists now [] (sender_requests r))))"
    "receiver_requests (snd (handle_sender_request E now a d s)) = cleanup_lists now [] (cleanup_lists now []
       (push_list now (receiver_address tx) (hex_encode E (multi_id tx)) (cleanup_lists now [] (receiver_requests r))))"
    by blast
  then show "hex_encode E (multi_id tx) \<in> set (list_of a (sender_requests (snd (handle_sender_request E now a d s))))"
    "hex_encode E (multi_id tx) \<in>
       set (list_of (receiver_address tx) (receiver_requests (snd (handle_sender_request E now a d s))))"
    using wf_parts(3,4) [OF r(1)] by (simp_all add: push_survives lists_ok_def)
qed

lemma pending_in_fetch:
  assumes "wf_server E s" "pending_tx E (requests s) mid = Some tx"
    and "mid \<in> set (list_of a (sender_requests s)) \<or> mid \<in> set (list_of a (receiver_requests s))"
  shows "\<exists>txs. fetch_pending_transactions E a s = (Ok txs, s) \<and> tx \<in> set txs"
  using assms by (auto simp: fetch_total List.map_filter_def image_iff)

section \<open>Updates and expiry\<close>

text \<open>Lookups stay lookups.\<close>

declare map_of_eq_Some_iff [simp del] Some_eq_map_of_iff [simp del]

lemma request_is_expired_unat:
  "request_is_expired now lim e \<longleftrightarrow> unat lim < unat now - unat (created_at e)"
  by (simp add: request_is_expired_def word_less_nat_alt unat_saturating_sub)

lemma request_is_expired_mono:
  "now \<le> later \<Longrightarrow> request_is_expired now lim e \<Longrightarrow> request_is_expired later lim e"
  by (auto simp: request_is_expired_unat word_le_nat_alt)

lemma update_request_result:
  assumes "distinct_keys (requests s)"
  shows "update_request now later mid d s = (case map_of (requests s) mid of
      None \<Rightarrow> (False, send_event (EvDataExpired mid []) (cleanup now s))
    | Some e \<Rightarrow>
        (if request_is_expired now REQUEST_TTL_SECONDS e
         then (False, send_event (EvDataExpired mid []) (cleanup now s))
         else if request_is_expired later REQUEST_TTL_SECONDS e
         then (False, send_event (EvDataExpired mid (data e))
                 ((cleanup now s)\<lparr>requests := AList.delete mid (requests (cleanup now s))\<rparr>))
         else (True, (cleanup now s)\<lparr>requests :=
                 AList.update mid (update_data d e) (requests (cleanup now s))\<rparr>)))"
  using assms by (simp add: update_request_def Let_def map_of_requests_cleanup split: option.splits)

definition knows_peer :: "string \<Rightarrow> string \<Rightarrow> swarm_server \<Rightarrow> bool" where
  "knows_peer a r s = (case map_of (peers s) a of Some targets \<Rightarrow> contains_key r targets | None \<Rightarrow> False)"

lemma sender_update_result:
  assumes "wf_server E s" "from_slice E d = Some tx"
  shows "sender_update mk E now later a d s =
    (let mid = hex_encode E (multi_id tx) in
     if \<not> knows_peer a (receiver_address tx) s then (Err (PeerNotFound a (receiver_address tx)), s)
     else case map_of (requests s) mid of
       None \<Rightarrow> (Err (TransactionNotFound mid), s)
     | Some e \<Rightarrow>
         (if request_is_expired now REQUEST_TTL_SECONDS e
          then (Err (FailedToUpdateTransaction mid), send_event (EvDataExpired mid []) (cleanup now s))
          else if request_is_expired later REQUEST_TTL_SECONDS e
          then (Err (FailedToUpdateTransaction mid), send_event (EvDataExpired mid (data e))
                 ((cleanup now s)\<lparr>requests := AList.delete mid (requests (cleanup now s))\<rparr>))
          else (Ok (), send_event (mk a d) ((cleanup now s)\<lparr>requests :=
                 AList.update mid (update_data d e) (requests (cleanup now s))\<rparr>))))"
  using wf_distinct [OF assms(1)]
  by (simp add: sender_update_def assms(2) Let_def run_simps update_request_result
      flip: knows_peer_def split: option.split)

lemma keep_cleanup:
  "distinct_keys (requests s) \<Longrightarrow> \<not> request_is_expired now REQUEST_TTL_SECONDS e \<Longrightarrow>
   map_of (requests s) k = Some e \<Longrightarrow> map_of (requests (cleanup now s)) k = Some e"
  by (simp add: map_of_requests_cleanup)

lemma keep_update_metrics:
  "distinct_keys (requests s) \<Longrightarrow> \<not> request_is_expired now REQUEST_TTL_SECONDS e \<Longrightarrow>
   map_of (requests s) k = Some e \<Longrightarrow> map_of (requests (update_metrics now s)) k = Some e"
  by (simp add: update_metrics_def Let_def keep_cleanup)

lemma keep_register_peer:
  "distinct_keys (requests s) \<Longrightarrow> \<not> request_is_expired now REQUEST_TTL_SECONDS e \<Longrightarrow>
   map_of (requests s) k = Some e \<Longrightarrow>
   map_of (requests (register_peer now a r n s)) k = Some e"
  by (auto simp: register_peer_def Let_def try_notify_def keep_update_metrics split: option.splits)

lemma keep_insert_request:
  "distinct_keys (requests s) \<Longrightarrow> \<not> request_is_expired now REQUEST_TTL_SECONDS e \<Longrightarrow> mid \<noteq> k \<Longrightarrow>
   map_of (requests s) k = Some e \<Longrightarrow>
   map_of (requests (insert_request now mid d s)) k = Some e"
  by (simp add: insert_request_def Let_def keep_cleanup)

lemma keep_update_request:
  "distinct_keys (requests s) \<Longrightarrow> \<not> request_is_expired now REQUEST_TTL_SECONDS e \<Longrightarrow> mid \<noteq> k \<Longrightarrow>
   map_of (requests s) k = Some e \<Longrightarrow>
   map_of (requests (snd (update_request now later mid d s))) k = Some e"
  by (auto simp: update_request_result send_event_def keep_cleanup split: option.splits)

lemma requests_send_notify [simp]:
  "requests (send_event ev s) = requests s" "requests (try_notify n s) = requests s"
  by (simp_all add: send_event_def try_notify_def)

lemma distinct_update_request:
  "distinct_keys (requests s) \<Longrightarrow> distinct_keys (requests (snd (update_request now later mid d s)))"
  by (auto simp: update_request_result requests_cleanup split: option.splits)

lemma distinct_register_peer:
  "distinct_keys (requests s) \<Longrightarrow> distinct_keys (requests (register_peer now a r n s))"
  by (auto simp: register_peer_def update_metrics_def Let_def requests_cleanup split: option.splits)

lemma distinct_insert_request:
  "distinct_keys (requests s) \<Longrightarrow> distinct_keys (requests (insert_request now mid d s))"
  by (simp add: insert_request_def Let_def requests_cleanup)

lemma requests_lists_only [simp]:
  "requests (cleanup_expired_sender_receiver_requests now s) = requests s"
  by (simp add: cleanup_expired_sender_receiver_requests_def Let_def)

fun call_mid :: "backend_env \<Rightarrow> rpc_call \<Rightarrow> string option" where
  "call_mid E (FetchPending _) = None"
| "call_mid E (SubscribeToEvents _) = None"
| "call_mid E (DisconnectPeer _ _) = None"
| "call_mid E (HandleSenderRequest _ d) = map_option (\<lambda>tx. hex_encode E (multi_id tx)) (from_slice E d)"
| "call_mid E (HandleReceiverResponse _ d) = map_option (\<lambda>tx. hex_encode E (multi_id tx)) (from_slice E d)"
| "call_mid E (HandleSenderConfirmation _ d) = map_option (\<lambda>tx. hex_encode E (multi_id tx)) (from_slice E d)"
| "call_mid E (HandleSenderRevertation _ d) = map_option (\<lambda>tx. hex_encode E (multi_id tx)) (from_slice E d)"
| "call_mid E (HandleTxSubmissionUpdates _ d) = map_option (\<lambda>tx. hex_encode E (multi_id tx)) (from_slice E d)"

lemma keep_handle_sender_request:
  assumes "distinct_keys (requests s)" "\<not> request_is_expired now REQUEST_TTL_SECONDS e"
    "map_of (requests s) k = Some e" "call_mid E (HandleSenderRequest a d) \<noteq> Some k"
  shows "map_of (requests (snd (handle_sender_request E now a d s))) k = Some e"
  using assms
  by (auto simp: handle_sender_request_def run_simps Let_def keep_update_metrics keep_insert_request
      keep_register_peer distinct_register_peer distinct_insert_request split: option.splits)

lemma keep_sender_update:
  assumes "distinct_keys (requests s)" "\<not> request_is_expired now REQUEST_TTL_SECONDS e"
    "map_of (requests s) k = Some e"
    "map_option (\<lambda>tx. hex_encode E (multi_id tx)) (from_slice E d) \<noteq> Some k"
  shows "map_of (requests (snd (sender_update mk E now later a d s))) k = Some e"
  using assms keep_update_request [OF assms(1,2) _ assms(3)]
  by (auto simp: sender_update_def run_simps Let_def case_prod_beta split: option.splits)

lemma keep_handle_receiver_response:
  assumes "distinct_keys (requests s)" "\<not> request_is_expired later REQUEST_TTL_SECONDS e" "now \<le> later"
    "map_of (requests s) k = Some e" "call_mid E (HandleReceiverResponse a d) \<noteq> Some k"
  shows "map_of (requests (snd (handle_receiver_response E now later a d s))) k = Some e"
proof -
  have "\<not> request_is_expired now REQUEST_TTL_SECONDS e"
    using assms(2) request_is_expired_mono [OF assms(3)] by blast
  with assms show ?thesis
    by (auto simp: handle_receiver_response_def run_simps Let_def case_prod_beta keep_update_metrics
        keep_insert_request keep_update_request distinct_update_request distinct_insert_request
        split: option.splits)
qed

lemma stored_by_receiver_response:
  assumes wf: "wf_server E s" and tx: "from_slice E d = Some tx" and le: "now \<le> later"
    and s': "s' = snd (handle_receiver_response E now later a d s)"
  shows "fst (handle_receiver_response E now later a d s) = Ok ()"
    and "\<exists>e. map_of (requests s') (hex_encode E (multi_id tx)) = Some e \<and> data e = d"
    and "EvReceiverResponseHandled a d \<in> set (events s')"
proof -
  let ?mid = "hex_encode E (multi_id tx)"
  define r where "r = send_event (EvReceiverResponseReceived a d) s"
  define u where "u = update_request now later ?mid d r"
  define v where "v = (if fst u then snd u else insert_request later ?mid d (snd u))"
  have run: "handle_receiver_response E now later a d s =
    (Ok (), send_event (EvReceiverResponseHandled a d) (try_notify (RequestProcessed a)
       (update_metrics later (v\<lparr>metrics := record_receiver_response (metrics v)\<rparr>))))"
    by (simp add: handle_receiver_response_def tx run_simps Let_def case_prod_beta v_def u_def r_def)
  have r: "distinct_keys (requests r)" using wf_distinct [OF wf] by (simp add: r_def)
  have v: "distinct_keys (requests v)"
    by (simp add: v_def u_def distinct_update_request distinct_insert_request r)
  have "\<exists>e. map_of (requests v) ?mid = Some e \<and> data e = d \<and> \<not> request_is_expired later REQUEST_TTL_SECONDS e"
  proof (cases "fst u")
    case True
    then show ?thesis
      using request_is_expired_unat
      by (auto simp: v_def u_def update_request_result [OF r] update_data_def split: option.splits if_splits)
  next
    case False
    then show ?thesis
      by (simp add: v_def insert_request_def Let_def request_entry_new_def request_is_expired_unat)
  qed
  then show "\<exists>e. map_of (requests s') ?mid = Some e \<and> data e = d"
    using v by (auto simp: s' run intro!: keep_update_metrics)
  show "fst (handle_receiver_response E now later a d s) = Ok ()" by (simp add: run)
  show "EvReceiverResponseHandled a d \<in> set (events s')" by (simp add: s' run send_event_def)
qed

lemma keep_disconnect_peer:
  assumes "distinct_keys (requests s)" "\<not> request_is_expired now REQUEST_TTL_SECONDS e"
    "map_of (requests s) k = Some e"
  shows "map_of (requests (snd (disconnect_peer E now acc d s))) k = Some e"
  using assms
  by (auto simp: disconnect_peer_def run_simps Let_def keep_update_metrics split: option.splits prod.splits)

lemma mem_subscription_loop:
  "ev \<in> set (subscription_loop E a rs) \<Longrightarrow> should_send E a ev \<and> (\<exists>b. (Received ev, b) \<in> set rs)"
  by (induction E a rs rule: subscription_loop.induct) (auto split: if_splits)

lemma should_send_concerns:
  assumes "should_send E a ev"
  shows "get_address ev = a \<or> (\<exists>d tx. get_data ev = Ok d \<and> from_slice E d = Some tx
     \<and> \<not> is_reverted (status tx) \<and> a \<in> {sender_address tx, receiver_address tx})"
  using assms
  by (cases ev) (auto simp: matches_tx_def data_expired_matches_def split: option.splits if_splits)

section \<open>Properties of the backend\<close>

text \<open>A small world for the concrete runs: two-byte messages, the first byte the multi id, the
  second whether the transaction is reverted, all between Alice and Bob.\<close>

definition byte_string :: "bytes \<Rightarrow> string" where
  "byte_string bs = map (\<lambda>b. char_of (unat b)) bs"

definition sample_env :: backend_env where
  "sample_env = \<lparr>from_slice = (\<lambda>d. case d of
       [m, c] \<Rightarrow> Some (default_tx_state_machine\<lparr>sender_address := ''alice'', receiver_address := ''bob'',
          multi_id := [m], status := (if c = 0 then Genesis else Reverted ''no'')\<rparr>)
     | _ \<Rightarrow> None), hex_encode = byte_string\<rparr>"

definition sample_tx :: "u8 \<Rightarrow> tx_state_machine" where
  "sample_tx m = default_tx_state_machine\<lparr>sender_address := ''alice'', receiver_address := ''bob'',
     multi_id := [m], status := Genesis\<rparr>"

lemma sample_env_simps [simp]:
  "from_slice sample_env [m, 0] = Some (sample_tx m)"
  "from_slice sample_env [m, 1] = Some ((sample_tx m)\<lparr>status := Reverted ''no''\<rparr>)"
  "from_slice sample_env [] = None"
  "hex_encode sample_env = byte_string"
  by (simp_all add: sample_env_def sample_tx_def)

lemma sample_tx_simps [simp]:
  "receiver_address (sample_tx m) = ''bob''" "sender_address (sample_tx m) = ''alice''"
  "multi_id (sample_tx m) = [m]" "status (sample_tx m) = Genesis"
  by (simp_all add: sample_tx_def)

definition sample_server :: swarm_server where
  "sample_server = snd (rpc_dispatch sample_env 10 10 (HandleSenderRequest ''alice'' [7, 0]) swarm_server_new)"

lemma sample_reachable: "reachable_server sample_env 10 sample_server"
  unfolding sample_server_def
  by (rule reachable_server.step [OF reachable_server.init [of _ 10]], rule backend_step.call) simp_all

lemma sample_peers:
  "knows_peer ''alice'' ''bob'' sample_server" "\<not> knows_peer ''mallory'' ''bob'' sample_server"
  by (simp_all add: knows_peer_def sample_server_def rpc_defs handle_sender_request_def run_simps Let_def
      register_peer_def swarm_server_new_def send_event_def try_notify_def update_metrics_def frame_simps
      insert_request_def cleanup_expired_sender_receiver_requests_def)

lemma sample_stored:
  "map_of (requests sample_server) (byte_string [7]) = Some (request_entry_new 10 [7, 0])"
  using stored_by_sender_request(2) [OF wf_new [of sample_env], of "[7, 0]" "sample_tx 7" _ sample_server 10 "''alice''"]
  by (simp add: sample_server_def rpc_defs)

text \<open>C3: every state the server can reach is well formed: the maps have unique keys, every sender
  has a target, every stored request decodes and is stored under its own multi id, no request list
  is empty, and the active-peers gauge is the number of senders.\<close>

theorem server_invariant:
  assumes "reachable_server E t s"
  shows "wf_server E s"
  by (rule reachable_wf [OF assms])

theorem server_invariant_witness: "wf_server sample_env sample_server"
  by (rule server_invariant [OF sample_reachable])

text \<open>C24: \<open>fetchPendingTransactions\<close> never fails in a reachable state, and every transaction it
  returns is a stored one that is listed for the address and is not reverted.\<close>

theorem fetch_always_answers:
  assumes "reachable_server E t s"
  shows "\<exists>txs. fetch_pending_transactions E a s = (Ok txs, s)
    \<and> (\<forall>tx \<in> set txs. \<not> is_reverted (status tx) \<and> (\<exists>e. map_of (requests s) (hex_encode E (multi_id tx)) = Some e
         \<and> from_slice E (data e) = Some tx
         \<and> hex_encode E (multi_id tx) \<in> set (list_of a (sender_requests s) @ list_of a (receiver_requests s))))"
proof -
  note wf = reachable_wf [OF assms]
  have p: "\<not> is_reverted (status tx) \<and> mid = hex_encode E (multi_id tx)
      \<and> (\<exists>e. map_of (requests s) mid = Some e \<and> from_slice E (data e) = Some tx)"
    if "pending_tx E (requests s) mid = Some tx" for mid tx
    using that requests_ok_lookup [OF wf_parts(2) [OF wf]]
    by (fastforce simp: pending_tx_def split: option.splits if_splits)
  show ?thesis
    unfolding fetch_total [OF wf]
    by (auto simp: List.map_filter_def) (metis p option.sel)+
qed

theorem fetch_always_answers_witness:
  "\<exists>txs. fetch_pending_transactions sample_env ''bob'' sample_server = (Ok txs, sample_server)"
  using fetch_always_answers [OF sample_reachable, of "''bob''"] by blast



text \<open>C25: the outcome of \<open>handleSenderConfirmation\<close> on every branch. It succeeds exactly when the
  receiver is a known target of the caller, the transaction is stored and has not expired; then the
  stored data is replaced, its age is kept and \<open>SenderConfirmed\<close> is the only event. An unknown peer
  or transaction is an error that changes nothing.\<close>

theorem sender_confirmation_outcome:
  assumes "reachable_server E t s" and "from_slice E d = Some tx" and "now \<le> later"
    and "mid = hex_encode E (multi_id tx)"
  shows "(\<not> knows_peer a (receiver_address tx) s \<longrightarrow>
            handle_sender_confirmation E now later a d s = (Err (PeerNotFound a (receiver_address tx)), s))
    \<and> (knows_peer a (receiver_address tx) s \<and> map_of (requests s) mid = None \<longrightarrow>
            handle_sender_confirmation E now later a d s = (Err (TransactionNotFound mid), s))
    \<and> (\<forall>e. knows_peer a (receiver_address tx) s \<and> map_of (requests s) mid = Some e \<longrightarrow>
         (if request_is_expired later REQUEST_TTL_SECONDS e
          then fst (handle_sender_confirmation E now later a d s) = Err (FailedToUpdateTransaction mid)
            \<and> map_of (requests (snd (handle_sender_confirmation E now later a d s))) mid = None
          else fst (handle_sender_confirmation E now later a d s) = Ok ()
            \<and> map_of (requests (snd (handle_sender_confirmation E now later a d s))) mid
                = Some \<lparr>data = d, created_at = created_at e\<rparr>
            \<and> events (snd (handle_sender_confirmation E now later a d s)) = events s @ [EvSenderConfirmed a d]))"
proof -
  note wf = reachable_wf [OF assms(1)]
  have m: "request_is_expired later REQUEST_TTL_SECONDS e" if "request_is_expired now REQUEST_TTL_SECONDS e" for e
    using that assms(3) by (rule request_is_expired_mono [rotated])
  show ?thesis
    using wf_distinct [OF wf] m
    by (simp add: handle_sender_confirmation_def sender_update_result [OF wf assms(2)] Let_def
        map_of_requests_cleanup frame_simps update_data_def send_event_def flip: assms(4))
qed

theorem sender_confirmation_outcome_witness:
  "fst (handle_sender_confirmation sample_env 20 21 ''alice'' [7, 0] sample_server) = Ok ()
   \<and> fst (handle_sender_confirmation sample_env 20 21 ''mallory'' [7, 0] sample_server)
       = Err (PeerNotFound ''mallory'' ''bob'')"
proof -
  note sample_stored sample_peers
  then show ?thesis
    using sender_confirmation_outcome [OF sample_reachable, of "[7, 0]" "sample_tx 7" 20 21
        "byte_string [7]" "''alice''"]
      sender_confirmation_outcome [OF sample_reachable, of "[7, 0]" "sample_tx 7" 20 21
        "byte_string [7]" "''mallory''"]
    by (simp add: request_is_expired_def request_entry_new_def saturating_sub_def REQUEST_TTL_SECONDS_def)
qed

text \<open>C23: no call loses or alters a stored request of another transaction before it expires: a
  request younger than 30 minutes is left as it is by every call that is not about its multi id.\<close>

theorem live_requests_kept:
  assumes "reachable_server E t s" and "now \<le> later" and "map_of (requests s) k = Some e"
    and "unat later - unat (created_at e) \<le> 1800" and "call_mid E c \<noteq> Some k"
  shows "map_of (requests (snd (rpc_dispatch E now later c s))) k = Some e"
proof -
  note d = wf_distinct [OF reachable_wf [OF assms(1)]]
  have l: "\<not> request_is_expired later REQUEST_TTL_SECONDS e"
    using assms(4) by (simp add: request_is_expired_unat REQUEST_TTL_SECONDS_def)
  then have n: "\<not> request_is_expired now REQUEST_TTL_SECONDS e"
    using request_is_expired_mono [OF assms(2)] by blast
  show ?thesis
  proof (cases c)
    case (FetchPending a)
    then show ?thesis
      using assms(3) wf_fetch [of E a s]
      by (auto simp: rpc_defs run_simps split: prod.splits outcome.splits)
  qed (use assms(3,5) in \<open>simp_all add: rpc_defs run_simps keep_handle_sender_request [OF d n]
      keep_sender_update [OF d n] keep_handle_receiver_response [OF d l assms(2)]
      keep_disconnect_peer [OF d n]\<close>)
qed

theorem live_requests_kept_witness:
  "map_of (requests (snd (rpc_dispatch sample_env 30 31 (HandleSenderRequest ''carol'' [8, 0]) sample_server)))
     (byte_string [7]) = Some (request_entry_new 10 [7, 0])"
  using live_requests_kept [OF sample_reachable, of 30 31 "byte_string [7]" _ "HandleSenderRequest ''carol'' [8, 0]",
      OF _ sample_stored]
  by (simp add: request_entry_new_def byte_string_def char_of_eq_iff)

text \<open>C26: a subscriber is only told what concerns it: every event the subscription loop delivers
  was broadcast, and either carries the subscribed address itself or is about a transaction, not
  reverted, of which that address is the sender or the receiver.\<close>

theorem subscription_confidential:
  assumes "ev \<in> set (subscription_loop E a rs)"
  shows "(\<exists>b. (Received ev, b) \<in> set rs)
    \<and> (get_address ev = a \<or> (\<exists>d tx. get_data ev = Ok d \<and> from_slice E d = Some tx
         \<and> \<not> is_reverted (status tx) \<and> a \<in> {sender_address tx, receiver_address tx}))"
  using mem_subscription_loop [OF assms] should_send_concerns by blast

theorem subscription_confidential_witness:
  "EvSenderRequestHandled ''bob'' [7, 0] \<in> set (subscription_loop sample_env ''alice''
      [(Received (EvPeerDisconnected ''bob''), True), (Received (EvSenderRequestHandled ''bob'' [7, 0]), True)])
   \<and> from_slice sample_env [7, 0] = Some (sample_tx 7)"
  using subscription_confidential [of "EvSenderRequestHandled ''bob'' [7, 0]" sample_env "''alice''"
      "[(Received (EvPeerDisconnected ''bob''), True), (Received (EvSenderRequestHandled ''bob'' [7, 0]), True)]"]
  by (simp add: matches_tx_def)

text \<open>The receiver is not told of a reversal. When the sender reverts (the status of the data is
  \<open>Reverted\<close>), the only event is \<open>SenderReverted\<close> under the sender's address, every other subscriber
  filters it out because the transaction is reverted, and the transaction is no longer returned by
  a fetch.\<close>

theorem reversal_not_announced:
  assumes "reachable_server E t s" and "from_slice E d = Some tx" and "is_reverted (status tx)"
    and "handle_sender_revertation E now later a d s = (Ok (), s')" and "b \<noteq> a"
  shows "\<exists>ev. events s' = events s @ [ev] \<and> \<not> should_send E b ev
    \<and> (\<exists>txs. fetch_pending_transactions E b s' = (Ok txs, s') \<and> tx \<notin> set txs)"
proof -
  note wf = reachable_wf [OF assms(1)]
  have wf': "wf_server E s'"
    using wf_sender_update [OF wf, of EvSenderReverted now later a d] assms(4)
    by (simp add: handle_sender_revertation_def)
  have "events s' = events s @ [EvSenderReverted a d]"
    using assms(4) unfolding handle_sender_revertation_def sender_update_result [OF wf assms(2)]
    by (auto simp: Let_def send_event_def frame_simps split: if_splits option.splits)
  moreover have "\<not> should_send E b (EvSenderReverted a d)"
    using assms(2,3,5) by (simp add: matches_tx_def)
  moreover have "pending_tx E (requests s') mid \<noteq> Some tx" for mid
    using assms(3) by (auto simp: pending_tx_def split: option.splits if_splits)
  ultimately show ?thesis
    by (auto simp: fetch_total [OF wf'] List.map_filter_def image_iff)
qed

lemma sample_revert:
  "handle_sender_revertation sample_env 20 20 ''alice'' [7, 1] sample_server =
     (Ok (), snd (handle_sender_revertation sample_env 20 20 ''alice'' [7, 1] sample_server))"
proof -
  note sample_peers
  then show ?thesis
    using sample_stored
    by (simp add: handle_sender_revertation_def sender_update_result [OF reachable_wf [OF sample_reachable],
          of "[7, 1]" "(sample_tx 7)\<lparr>status := Reverted ''no''\<rparr>"] Let_def
        request_is_expired_def request_entry_new_def saturating_sub_def REQUEST_TTL_SECONDS_def)
qed

theorem reversal_not_announced_witness:
  "\<exists>ev. events (snd (handle_sender_revertation sample_env 20 20 ''alice'' [7, 1] sample_server))
      = events sample_server @ [ev] \<and> \<not> should_send sample_env ''bob'' ev"
  using reversal_not_announced [OF sample_reachable, of "[7, 1]" "(sample_tx 7)\<lparr>status := Reverted ''no''\<rparr>" 20 20 "''alice''"
      _ "''bob''", OF _ _ sample_revert]
  by auto

text \<open>Nobody is told that a request expired. When an update finds its request older than 30
  minutes, the cleanup has already removed it, so the \<open>DataExpired\<close> event carries no data; since
  empty data is not JSON, no subscription lets it through.\<close>

theorem expiry_not_announced:
  assumes "reachable_server E t s" and "from_slice E d = Some tx" and "from_slice E [] = None"
    and "knows_peer a (receiver_address tx) s"
    and "map_of (requests s) (hex_encode E (multi_id tx)) = Some e"
    and "request_is_expired now REQUEST_TTL_SECONDS e"
  shows "\<exists>s' ev. handle_sender_confirmation E now later a d s
       = (Err (FailedToUpdateTransaction (hex_encode E (multi_id tx))), s')
    \<and> events s' = events s @ [ev] \<and> ev = EvDataExpired (hex_encode E (multi_id tx)) []
    \<and> (\<forall>b. \<not> should_send E b ev)"
  using assms(3-6)
  by (simp add: handle_sender_confirmation_def sender_update_result [OF reachable_wf [OF assms(1)] assms(2)]
      Let_def send_event_def frame_simps data_expired_matches_def)

theorem expiry_not_announced_witness:
  "\<exists>s' ev. handle_sender_confirmation sample_env 5000 5000 ''alice'' [7, 0] sample_server
       = (Err (FailedToUpdateTransaction (byte_string [7])), s')
    \<and> events s' = events sample_server @ [ev] \<and> (\<forall>b. \<not> should_send sample_env b ev)"
proof -
  note sample_peers
  then show ?thesis
    using expiry_not_announced [OF sample_reachable, of "[7, 0]" "sample_tx 7" "''alice''" _ 5000 5000] sample_stored
    by (auto simp: request_is_expired_def request_entry_new_def saturating_sub_def REQUEST_TTL_SECONDS_def)
qed

lemma list_is_expired_mono:
  "now \<le> later \<Longrightarrow> list_is_expired now lim e \<Longrightarrow> list_is_expired later lim e"
  by (auto simp: list_is_expired_def word_less_nat_alt word_le_nat_alt unat_saturating_sub)

lemma list_gone_cleanup:
  assumes "wf_server E s"
    and "case map_of (sender_requests s) a of None \<Rightarrow> True | Some l \<Rightarrow> list_is_expired now REQUEST_TTL_SECONDS l"
  shows "map_of (sender_requests (cleanup now s)) a = None"
  using assms wf_distinct [OF assms(1)] wf_parts(3) [OF assms(1)]
  by (auto simp: lists_cleanup map_of_cleanup_lists live_list_nil lists_ok_def bind_eq_None_conv
      split: option.splits)

lemma receiver_none_cleanup:
  "wf_server E s \<Longrightarrow> map_of (receiver_requests s) a = None \<Longrightarrow>
   map_of (receiver_requests (cleanup now s)) a = None"
  using wf_distinct [of E s] wf_parts(4) [of E s]
  by (simp add: lists_cleanup map_of_cleanup_lists lists_ok_def)

definition unlisted :: "string \<Rightarrow> swarm_server \<Rightarrow> bool" where
  "unlisted a s \<longleftrightarrow> map_of (sender_requests s) a = None \<and> map_of (receiver_requests s) a = None"

lemma unlisted_fields:
  "unlisted a (s\<lparr>requests := rs\<rparr>) = unlisted a s" "unlisted a (s\<lparr>metrics := m\<rparr>) = unlisted a s"
  "unlisted a (send_event ev s) = unlisted a s" "unlisted a (try_notify n s) = unlisted a s"
  by (simp_all add: unlisted_def send_event_def try_notify_def)

lemma unlisted_cleanup: "wf_server E s \<Longrightarrow> unlisted a s \<Longrightarrow> unlisted a (cleanup now s)"
  using list_gone_cleanup [of E s now a] receiver_none_cleanup [of E s a now]
  by (simp add: unlisted_def)

lemma unlisted_update_request:
  assumes "wf_server E s" "unlisted a (cleanup now s)"
  shows "unlisted a (snd (update_request now later mid d s))"
  using assms wf_distinct [OF assms(1)]
  by (auto simp: update_request_result unlisted_fields split: option.splits)

lemma unlisted_fetch: "wf_server E s \<Longrightarrow> unlisted a s \<Longrightarrow> fetch_pending_transactions E a s = (Ok [], s)"
  by (simp add: fetch_total unlisted_def list_of_def List.map_filter_def)

text \<open>The list of an address expires as a whole, 30 minutes after its first request, and takes
  the newer requests with it. Once the list of \<open>a\<close> is that old, the next receiver response, about
  whatever transaction, drops it: a fetch by \<open>a\<close> then returns nothing, although a live request \<open>k\<close>
  of that list is still stored.\<close>

theorem live_request_forgotten:
  assumes "reachable_server E t s" and "now \<le> later" and "from_slice E d = Some tx"
    and "map_of (sender_requests s) a = Some l" and "list_is_expired now REQUEST_TTL_SECONDS l"
    and "map_of (receiver_requests s) a = None" and "k \<in> set (multi_ids l)"
    and "map_of (requests s) k = Some e" and "\<not> request_is_expired later REQUEST_TTL_SECONDS e"
    and "hex_encode E (multi_id tx) \<noteq> k" and "s' = snd (handle_receiver_response E now later b d s)"
  shows "map_of (requests s') k = Some e \<and> fetch_pending_transactions E a s' = (Ok [], s')"
proof
  note wf = reachable_wf [OF assms(1)]
  show "map_of (requests s') k = Some e"
    unfolding assms(11) using assms(3,10)
    by (intro keep_handle_receiver_response [OF wf_distinct [OF wf] assms(9,2,8)]) simp
  define r where "r = send_event (EvReceiverResponseReceived b d) s"
  define u where "u = update_request now later (hex_encode E (multi_id tx)) d r"
  have r: "wf_server E r" unfolding r_def by (rule wf_send_event [OF wf])
  have "unlisted a (cleanup now r)"
    using list_gone_cleanup [OF r, of now a] receiver_none_cleanup [OF r, of a now] assms(4,5,6)
    by (simp add: unlisted_def r_def send_event_def)
  then have u: "unlisted a (snd u)" unfolding u_def by (rule unlisted_update_request [OF r])
  have wu: "wf_server E (snd u)" unfolding u_def by (rule wf_update_request [OF r assms(3) refl])
  define v where "v = (if fst u then snd u else insert_request later (hex_encode E (multi_id tx)) d (snd u))"
  have v: "wf_server E v" "unlisted a v"
    using wu u unlisted_cleanup [OF wu u] wf_insert_request [OF wu assms(3) refl, of later]
    by (simp_all add: v_def) (simp add: insert_request_def Let_def unlisted_fields)
  define m where "m = v\<lparr>metrics := record_receiver_response (metrics v)\<rparr>"
  have m: "wf_server E m" "unlisted a m"
    using v by (simp_all add: m_def unlisted_fields wf_server_def metric_defs)
  have "s' = send_event (EvReceiverResponseHandled b d) (try_notify (RequestProcessed b) (update_metrics later m))"
    unfolding assms(11)
    by (simp add: handle_receiver_response_def assms(3) run_simps Let_def case_prod_beta m_def v_def u_def r_def)
  then have "unlisted a s'"
    using unlisted_cleanup [OF m, of later] by (simp add: unlisted_fields update_metrics_def Let_def)
  moreover have "wf_server E s'"
    unfolding assms(11) by (rule wf_handle_receiver_response [OF wf])
  ultimately show "fetch_pending_transactions E a s' = (Ok [], s')" by (intro unlisted_fetch)
qed

definition busy_server :: swarm_server where
  "busy_server = snd (rpc_dispatch sample_env 1800 1800 (HandleSenderRequest ''alice'' [8, 0]) sample_server)"

lemma busy_reachable: "reachable_server sample_env 1800 busy_server"
  unfolding busy_server_def
  by (rule reachable_server.step [OF sample_reachable], rule backend_step.call) simp_all

lemmas list_eval =
  cleanup_lists_def cleanup_list_def push_list_def list_push_def request_list_new_def
  list_is_expired_def saturating_sub_def REQUEST_TTL_SECONDS_def swarm_server_new_def

lemma sample_lists:
  "sender_requests sample_server = [(''alice'', \<lparr>multi_ids = [byte_string [7]], list_created_at = 10\<rparr>)]"
  "receiver_requests sample_server = [(''bob'', \<lparr>multi_ids = [byte_string [7]], list_created_at = 10\<rparr>)]"
  using stored_by_sender_request(3) [OF wf_new [of sample_env], of "[7, 0]" "sample_tx 7" _ sample_server 10 "''alice''"]
  by (auto simp: sample_server_def rpc_defs list_eval)

lemma busy_lists:
  "map_of (sender_requests busy_server) ''alice''
     = Some \<lparr>multi_ids = [byte_string [7], byte_string [8]], list_created_at = 10\<rparr>"
  "map_of (receiver_requests busy_server) ''alice'' = None"
  "map_of (requests busy_server) (byte_string [8]) = Some \<lparr>data = [8, 0], created_at = 1800\<rparr>"
proof -
  have k: "contains_key ''alice'' (peers sample_server)"
    using sample_peers by (auto simp: knows_peer_def split: option.splits)
  note st = stored_by_sender_request [OF reachable_wf [OF sample_reachable], of "[8, 0]" "sample_tx 8" _ busy_server 1800 "''alice''"]
  show "map_of (sender_requests busy_server) ''alice''
     = Some \<lparr>multi_ids = [byte_string [7], byte_string [8]], list_created_at = 10\<rparr>"
    "map_of (receiver_requests busy_server) ''alice'' = None"
    using st(3) k by (auto simp: busy_server_def rpc_defs sample_lists list_eval)
  show "map_of (requests busy_server) (byte_string [8]) = Some \<lparr>data = [8, 0], created_at = 1800\<rparr>"
    using st(2) by (simp add: busy_server_def rpc_defs request_entry_new_def)
qed

theorem live_request_forgotten_witness:
  "map_of (requests (snd (handle_receiver_response sample_env 1820 1820 ''bob'' [9, 0] busy_server)))
     (byte_string [8]) = Some \<lparr>data = [8, 0], created_at = 1800\<rparr>
   \<and> fst (fetch_pending_transactions sample_env ''alice''
       (snd (handle_receiver_response sample_env 1820 1820 ''bob'' [9, 0] busy_server))) = Ok []"
  using live_request_forgotten [OF busy_reachable, of 1820 1820 "[9, 0]" "sample_tx 9" "''alice''",
      OF _ _ busy_lists(1) _ busy_lists(2) _ busy_lists(3) _ _ refl, of "''bob''"]
  by (simp add: list_is_expired_def request_is_expired_def saturating_sub_def REQUEST_TTL_SECONDS_def
      byte_string_def char_of_eq_iff)

lemma list_of_remove: "list_of acc (remove_from_list acc mid tbl) = filter (\<lambda>m. m \<noteq> mid) (list_of acc tbl)"
  by (auto simp: list_of_def remove_from_list_def Let_def split: option.splits)

lemma list_of_cleanup_lists:
  assumes "distinct_keys tbl" shows "set (list_of a (cleanup_lists now ids tbl)) \<subseteq> set (list_of a tbl)"
proof (cases "map_of tbl a")
  case None
  then show ?thesis by (simp add: list_of_def map_of_cleanup_lists [OF assms])
next
  case (Some e)
  then show ?thesis by (simp add: list_of_def map_of_cleanup_lists [OF assms] live_list_def Let_def)
qed

lemma list_of_cleanup:
  "distinct_keys (receiver_requests s) \<Longrightarrow>
   set (list_of a (receiver_requests (cleanup now s))) \<subseteq> set (list_of a (receiver_requests s))"
  by (simp add: cleanup_def cleanup_expired_requests_def cleanup_expired_sender_receiver_requests_def Let_def
      list_of_cleanup_lists)

text \<open>\<open>disconnectPeer\<close> on every branch. The multi id leaves the receiver's list; then the first
  sender that targets the account is looked up. A target requested once is removed, with its sender
  when it was the last one, and the gauge follows; a target requested more often is kept, and its
  counter is not lowered, so no number of disconnections ever removes it; without a sender the call
  is an error.\<close>

theorem disconnect_outcome:
  assumes "reachable_server E t s" and "from_slice E d = Some tx"
    and "s' = snd (disconnect_peer E now acc d s)"
  shows "(first_sender_of acc (peers s) = None \<longrightarrow>
            fst (disconnect_peer E now acc d s) = Err (PeerWithAccountIdNotFound acc) \<and> peers s' = peers s)
    \<and> (\<forall>sk targets p. first_sender_of acc (peers s) = Some (sk, targets) \<and> map_of targets acc = Some p \<longrightarrow>
         fst (disconnect_peer E now acc d s) = Ok ()
         \<and> (times_requested p \<noteq> 1 \<longrightarrow> peers s' = peers s \<and> events s' = events s)
         \<and> (times_requested p = 1 \<longrightarrow>
              map_of (peers s') sk = (if AList.delete acc targets = [] then None else Some (AList.delete acc targets))
              \<and> events s' = events s @ [EvPeerDisconnected acc]
              \<and> active_peers (metrics s') = of_nat (length (peers s'))))
    \<and> hex_encode E (multi_id tx) \<notin> set (list_of acc (receiver_requests s'))"
proof -
  let ?rr = "remove_from_list acc (hex_encode E (multi_id tx)) (receiver_requests s)"
  have "distinct_keys (receiver_requests s)"
    using wf_parts [OF reachable_wf [OF assms(1)]] by (simp add: lists_ok_def)
  then have dk: "distinct_keys ?rr"
    by (simp add: remove_from_list_def Let_def split: option.split)
  have "hex_encode E (multi_id tx) \<notin> set (list_of acc ?rr)"
    by (simp add: list_of_remove)
  moreover have "hex_encode E (multi_id tx) \<notin> set (list_of acc (receiver_requests (cleanup now r)))"
    if "receiver_requests r = ?rr" for r
    using list_of_cleanup [of r acc now] calculation that dk by auto
  ultimately show ?thesis
    using assms(2,3)
    by (auto simp: disconnect_peer_def run_simps Let_def send_event_def try_notify_def update_metrics_def
        frame_simps metric_defs split: option.splits)
qed

theorem disconnect_outcome_witness:
  "fst (disconnect_peer sample_env 20 ''bob'' [7, 0] sample_server) = Ok ()
   \<and> map_of (peers (snd (disconnect_peer sample_env 20 ''bob'' [7, 0] sample_server))) ''alice'' = None"
proof -
  have "first_sender_of ''bob'' (peers sample_server) = Some (''alice'',
      [(''bob'', \<lparr>tp_account_id = ''bob'', tp_network = Ethereum, times_requested = 1\<rparr>)])"
    by (simp add: first_sender_of_def sample_server_def rpc_defs handle_sender_request_def run_simps Let_def
        register_peer_def swarm_server_new_def send_event_def try_notify_def update_metrics_def frame_simps
        insert_request_def cleanup_expired_sender_receiver_requests_def)
      (simp add: sample_tx_def default_tx_state_machine_def default_chain_def)
  then show ?thesis
    using disconnect_outcome [OF sample_reachable _ refl, of "[7, 0]" "sample_tx 7" "''bob''" 20] by simp
qed

end
