(* ===== verification/Wasm_P2p.thy ===== *)
theory Wasm_P2p
  imports Backend_Rpc
begin

text \<open>
  \<open>WasmP2pWorker\<close> and \<open>P2pNetworkService\<close> of \<open>node/wasm/src/p2p.rs\<close>: the loop of a node that takes the
  backend's events and the node's own commands, one at a time. An event is first put on the
  notification channel (20 places, read only by \<open>watch_p2p_notifications\<close>) and then routed to the
  node as a swarm message; a command becomes a call of the backend's RPC. The loop waits where a
  channel it sends to is full, and a step that waits is \<open>None\<close>. The JSON encoder is the argument
  \<open>to_vec\<close>; the calls are recorded in the order in which they are started.
\<close>

section \<open>The worker\<close>

record p2p_worker =
  live :: bool
  backend_url :: string
  user_account_id :: string

definition p2p_worker_new :: "bool \<Rightarrow> string \<Rightarrow> string \<Rightarrow> p2p_worker" where
  "p2p_worker_new lv relay_node_url account =
     (let ws_url = (if starts_with ''ws://'' relay_node_url \<or> starts_with ''wss://'' relay_node_url
                    then relay_node_url else ''ws://'' @ relay_node_url)
      in \<lparr>live = lv, backend_url = ws_url, user_account_id = account\<rparr>)"

section \<open>Routing\<close>

definition route_event :: "backend_env \<Rightarrow> string \<Rightarrow> backend_event \<Rightarrow> swarm_message option" where
  "route_event E account ev = (case ev of
       EvSenderRequestHandled _ d \<Rightarrow>
         (case from_slice E d of
            Some tx \<Rightarrow> if receiver_address tx = account then Some (WasmRequest tx) else None
          | None \<Rightarrow> None)
     | EvReceiverResponseHandled _ d \<Rightarrow>
         (case from_slice E d of
            Some tx \<Rightarrow> if sender_address tx = account then Some (WasmResponse tx) else None
          | None \<Rightarrow> None)
     | EvPendingTransactionsFetched a txs \<Rightarrow> Some (SwarmPendingTransactionsFetched a txs)
     | _ \<Rightarrow> None)"

definition unwrap_or_default :: "bytes option \<Rightarrow> bytes" where
  "unwrap_or_default d = (case d of Some b \<Rightarrow> b | None \<Rightarrow> [])"

definition route_command :: "(tx_state_machine \<Rightarrow> bytes option) \<Rightarrow> network_command \<Rightarrow> rpc_call option" where
  "route_command to_vec cmd = (case cmd of
       WasmSendRequest request \<Rightarrow>
         (case to_vec request of
            Some d \<Rightarrow> Some (HandleSenderRequest (sender_address request) d) | None \<Rightarrow> None)
     | WasmSendResponse response \<Rightarrow>
         (case response of
            Inr tx \<Rightarrow> (case to_vec tx of
               Some d \<Rightarrow> Some (HandleReceiverResponse (receiver_address tx) d) | None \<Rightarrow> None)
          | Inl _ \<Rightarrow> None)
     | FetchPendingTransactions acc \<Rightarrow> Some (FetchPending acc)
     | ConfirmTransaction acc tx \<Rightarrow> Some (HandleSenderConfirmation acc (unwrap_or_default (to_vec tx)))
     | TxSubmissionUpdate acc tx \<Rightarrow> Some (HandleTxSubmissionUpdates acc (unwrap_or_default (to_vec tx)))
     | CloseCommand acc tx \<Rightarrow> Some (DisconnectPeer acc (unwrap_or_default (to_vec tx)))
     | RevertTransaction acc tx \<Rightarrow> Some (HandleSenderRevertation acc (unwrap_or_default (to_vec tx)))
     | Libp2pCommand \<Rightarrow> None)"

definition wasm_send_request :: "tx_state_machine \<Rightarrow> network_command list \<Rightarrow> network_command list" where
  "wasm_send_request request cmds = cmds @ [WasmSendRequest request]"

definition wasm_send_response :: "tx_state_machine \<Rightarrow> network_command list \<Rightarrow> network_command list" where
  "wasm_send_response response cmds = cmds @ [WasmSendResponse (Inr response)]"

section \<open>The loop\<close>

datatype loop_input =
    SubscriptionEvent backend_event
  | SubscriptionError
  | SubscriptionEnded
  | Command network_command

record p2p_state =
  notif_channel :: "backend_event list"
  swarm_channel :: "swarm_message list"
  rpc_calls :: "rpc_call list"
  loop_ended :: bool

definition notif_capacity :: nat where "notif_capacity = 20"
definition swarm_capacity :: nat where "swarm_capacity = 256"

definition p2p_state_new :: p2p_state where
  "p2p_state_new = \<lparr>notif_channel = [], swarm_channel = [], rpc_calls = [], loop_ended = False\<rparr>"

text \<open>One turn of the loop on one input; \<open>None\<close> when a send has to wait for its reader.\<close>

definition p2p_turn ::
    "backend_env \<Rightarrow> (tx_state_machine \<Rightarrow> bytes option) \<Rightarrow> p2p_worker \<Rightarrow> loop_input \<Rightarrow> p2p_state \<Rightarrow> p2p_state option" where
  "p2p_turn E to_vec W inp s =
     (if loop_ended s then Some s
      else case inp of
        SubscriptionEvent ev \<Rightarrow>
          (if notif_capacity \<le> length (notif_channel s) then None
           else
             (let s = s\<lparr>notif_channel := notif_channel s @ [ev]\<rparr> in
              case route_event E (user_account_id W) ev of
                None \<Rightarrow> Some s
              | Some msg \<Rightarrow>
                  if swarm_capacity \<le> length (swarm_channel s) then None
                  else Some (s\<lparr>swarm_channel := swarm_channel s @ [msg]\<rparr>)))
      | SubscriptionError \<Rightarrow> Some s
      | SubscriptionEnded \<Rightarrow> Some (s\<lparr>loop_ended := True\<rparr>)
      | Command cmd \<Rightarrow>
          (case route_command to_vec cmd of
             None \<Rightarrow> Some s
           | Some c \<Rightarrow> Some (s\<lparr>rpc_calls := rpc_calls s @ [c]\<rparr>)))"

fun p2p_run ::
    "backend_env \<Rightarrow> (tx_state_machine \<Rightarrow> bytes option) \<Rightarrow> p2p_worker \<Rightarrow> loop_input list \<Rightarrow> p2p_state \<Rightarrow> p2p_state option" where
  "p2p_run E to_vec W [] s = Some s"
| "p2p_run E to_vec W (i # is) s = (case p2p_turn E to_vec W i s of
       None \<Rightarrow> None | Some s' \<Rightarrow> p2p_run E to_vec W is s')"

section \<open>Properties\<close>

lemma route_event_addressed:
  "route_event E acc ev = Some (WasmRequest tx) \<Longrightarrow> receiver_address tx = acc
     \<and> (\<exists>a d. ev = EvSenderRequestHandled a d \<and> from_slice E d = Some tx)"
  "route_event E acc ev = Some (WasmResponse tx) \<Longrightarrow> sender_address tx = acc
     \<and> (\<exists>a d. ev = EvReceiverResponseHandled a d \<and> from_slice E d = Some tx)"
  by (auto simp: route_event_def split: backend_event.splits option.splits if_splits)

lemma p2p_turn_notif:
  "p2p_turn E to_vec W i s = Some s' \<Longrightarrow> \<not> loop_ended s' \<Longrightarrow>
   length (notif_channel s') = length (notif_channel s)
     + (case i of SubscriptionEvent _ \<Rightarrow> 1 | _ \<Rightarrow> 0)"
  by (auto simp: p2p_turn_def Let_def split: if_splits loop_input.splits option.splits)

lemma p2p_turn_ended: "p2p_turn E to_vec W i s = Some s' \<Longrightarrow> loop_ended s \<Longrightarrow> s' = s"
  by (auto simp: p2p_turn_def)

lemma p2p_turn_bound:
  "p2p_turn E to_vec W i s = Some s' \<Longrightarrow> length (notif_channel s) \<le> notif_capacity \<Longrightarrow>
   length (notif_channel s') \<le> notif_capacity"
  by (auto simp: p2p_turn_def Let_def split: if_splits loop_input.splits option.splits)

definition is_event :: "loop_input \<Rightarrow> bool" where
  "is_event i = (case i of SubscriptionEvent _ \<Rightarrow> True | _ \<Rightarrow> False)"

lemma p2p_run_notif:
  "p2p_run E to_vec W is s = Some s' \<Longrightarrow> SubscriptionEnded \<notin> set is \<Longrightarrow> \<not> loop_ended s \<Longrightarrow>
   \<not> loop_ended s' \<and> length (notif_channel s') = length (notif_channel s) + length (filter is_event is)
   \<and> (length (notif_channel s) \<le> notif_capacity \<longrightarrow> length (notif_channel s') \<le> notif_capacity)"
proof (induction "is" arbitrary: s)
  case Nil
  then show ?case by simp
next
  case (Cons i "is")
  obtain u where u: "p2p_turn E to_vec W i s = Some u" and r: "p2p_run E to_vec W is u = Some s'"
    using Cons.prems(1) by (auto split: option.splits)
  have n: "\<not> loop_ended u"
    using u Cons.prems(2,3)
    by (auto simp: p2p_turn_def Let_def split: if_splits loop_input.splits option.splits)
  show ?case
    using Cons.IH [OF r _ n] Cons.prems(2) p2p_turn_notif [OF u n] p2p_turn_bound [OF u]
    by (auto simp: is_event_def split: loop_input.splits)
qed

text \<open>A node whose application does not read the P2P notifications stops after twenty backend
  events. The notification channel has twenty places and the loop waits for a free one before it
  routes an event, so no run of the loop, in which the subscription does not end, gets past the
  twenty-first event: later events and commands are not processed.\<close>

theorem p2p_loop_stalls:
  assumes "SubscriptionEnded \<notin> set is" and "20 < length (filter is_event is)"
  shows "p2p_run E to_vec W is p2p_state_new = None"
proof (rule ccontr)
  assume "p2p_run E to_vec W is p2p_state_new \<noteq> None"
  then obtain s' where "p2p_run E to_vec W is p2p_state_new = Some s'" by auto
  from p2p_run_notif [OF this assms(1)] assms(2) show False
    by (simp add: p2p_state_new_def notif_capacity_def)
qed

theorem p2p_loop_stalls_witness:
  "p2p_run sample_env (\<lambda>_. None) (p2p_worker_new True ''host'' ''bob'')
     (replicate 21 (SubscriptionEvent (EvPeerDisconnected ''bob'')) @ [Command (FetchPendingTransactions ''bob'')])
     p2p_state_new = None"
  by (rule p2p_loop_stalls) (simp_all add: is_event_def)

text \<open>What a node is handed as a request is addressed to it: a \<open>WasmRequest\<close> put on the swarm
  channel names the node's account as the receiver, a \<open>WasmResponse\<close> as the sender, and it is the
  transaction that the event carried.\<close>

theorem routed_to_addressee:
  assumes "p2p_turn E to_vec W (SubscriptionEvent ev) s = Some s'"
    and "\<not> loop_ended s" and "swarm_channel s' = swarm_channel s @ [msg]"
  shows "(\<forall>tx. msg = WasmRequest tx \<longrightarrow> receiver_address tx = user_account_id W
            \<and> (\<exists>a d. ev = EvSenderRequestHandled a d \<and> from_slice E d = Some tx))
       \<and> (\<forall>tx. msg = WasmResponse tx \<longrightarrow> sender_address tx = user_account_id W
            \<and> (\<exists>a d. ev = EvReceiverResponseHandled a d \<and> from_slice E d = Some tx))"
proof -
  have "route_event E (user_account_id W) ev = Some msg"
    using assms by (auto simp: p2p_turn_def Let_def split: if_splits option.splits)
  then show ?thesis by (auto dest: route_event_addressed)
qed

theorem routed_to_addressee_witness:
  "\<exists>s'. p2p_turn sample_env (\<lambda>_. None) (p2p_worker_new True ''host'' ''bob'')
      (SubscriptionEvent (EvSenderRequestHandled ''bob'' [7, 0])) p2p_state_new = Some s'
    \<and> swarm_channel s' = [WasmRequest (sample_tx 7)] \<and> receiver_address (sample_tx 7) = ''bob''"
  using routed_to_addressee [of sample_env "\<lambda>_. None" "p2p_worker_new True ''host'' ''bob''"
      "EvSenderRequestHandled ''bob'' [7, 0]" p2p_state_new
      "\<lparr>notif_channel = [EvSenderRequestHandled ''bob'' [7, 0]], swarm_channel = [WasmRequest (sample_tx 7)],
        rpc_calls = [], loop_ended = False\<rparr>" "WasmRequest (sample_tx 7)"]
  by (simp add: p2p_turn_def p2p_state_new_def notif_capacity_def swarm_capacity_def route_event_def
      p2p_worker_new_def Let_def)

end
