(* ===== verification/Wasm_Main.thy ===== *)
theory Wasm_Main
  imports Db_Wasm Lru_Cache Tx_Processing Wasm_P2p
begin

text \<open>
  \<open>WasmMainServiceWorker\<close> of \<open>node/wasm/src/lib.rs\<close>: the handlers of a node for messages from the
  backend (\<open>handle_swarm_message\<close>) and for the user's updates (one handler per transaction status).
  The state is what the handlers share: the cache of pending transactions, the database, the two
  channels to and from the user interface and the channel of commands to the P2P worker; \<open>submitted\<close>
  records the transactions handed to the host for submission.

  The cache is a \<open>RefCell\<close>: \<open>cache_borrowed\<close> is its mutable borrow. The crate is edition 2021, where
  the temporaries of an \<open>if let\<close> scrutinee live until the end of both branches, so
  \<open>if let Some(w) = cell.borrow_mut().get_mut(k) { .. } else { .. }\<close> holds the borrow in both
  branches, and a second \<open>borrow_mut\<close> inside them panics. On wasm a panic does not unwind: the
  borrow is never released.

  A handler runs without interleaving: the channel sends it awaits are taken to complete. Logging is
  left out.
\<close>

section \<open>State\<close>

type_synonym cache_entry = "tx_state_machine ttl_wrapper"

record ('c, 'd) node_env =
  lru :: "('c, u32, cache_entry) lru_ops"
  dbw :: "'d db_ops"
  kryptos :: crypto

record ('c, 'd) node_state =
  cache :: 'c
  cache_borrowed :: bool
  db :: 'd
  rpc_channel :: "tx_state_machine list"
  user_updates :: "tx_state_machine list"
  p2p_commands :: "network_command list"
  submitted :: "tx_state_machine list"

definition rpc_capacity :: nat where "rpc_capacity = 10"

definition on_db :: "('d, 'a) action \<Rightarrow> (('c, 'd) node_state, 'a) action" where
  "on_db m = (\<lambda>s. (fst (m (db s)), s\<lparr>db := snd (m (db s))\<rparr>))"

section \<open>The cache cell\<close>

text \<open>\<open>borrow_mut\<close> for the extent of \<open>m\<close>: released on return and on error, not by a panic.\<close>

definition with_borrow_mut :: "(('c, 'd) node_state, 'a) action \<Rightarrow> (('c, 'd) node_state, 'a) action" where
  "with_borrow_mut m = (\<lambda>s.
     if cache_borrowed s then (Panic BorrowMutError, s)
     else case m (s\<lparr>cache_borrowed := True\<rparr>) of
       (Panic p, s') \<Rightarrow> (Panic p, s')
     | (r, s') \<Rightarrow> (r, s'\<lparr>cache_borrowed := False\<rparr>))"

definition on_cache :: "('c \<Rightarrow> 'a \<times> 'c) \<Rightarrow> (('c, 'd) node_state, 'a) action" where
  "on_cache f = (\<lambda>s. (Ok (fst (f (cache s))), s\<lparr>cache := snd (f (cache s))\<rparr>))"

definition cache_push :: "('c, 'd) node_env \<Rightarrow> u32 \<Rightarrow> cache_entry \<Rightarrow> (('c, 'd) node_state, unit) action" where
  "cache_push N k w = with_borrow_mut (on_cache (\<lambda>c. ((), lru_push (lru N) k w c)))"

definition cache_get :: "('c, 'd) node_env \<Rightarrow> u32 \<Rightarrow> (('c, 'd) node_state, cache_entry option) action" where
  "cache_get N k = with_borrow_mut (on_cache (lru_get (lru N) k))"

definition cache_peek :: "('c, 'd) node_env \<Rightarrow> u32 \<Rightarrow> (('c, 'd) node_state, cache_entry option) action" where
  "cache_peek N k = (\<lambda>s. if cache_borrowed s then (Panic BorrowError, s)
                         else (Ok (lru_peek (lru N) k (cache s)), s))"

text \<open>\<open>if let Some(w) = cell.borrow_mut().get_mut(k) { w.update_value(v); yes(w) } else { no }\<close>.\<close>

definition if_let_get_mut ::
    "('c, 'd) node_env \<Rightarrow> u32 \<Rightarrow> tx_state_machine \<Rightarrow> (cache_entry \<Rightarrow> (('c, 'd) node_state, 'a) action)
       \<Rightarrow> (('c, 'd) node_state, 'a) action \<Rightarrow> (('c, 'd) node_state, 'a) action" where
  "if_let_get_mut N k v yes no = with_borrow_mut
     (and_then (on_cache (lru_get_mut (lru N) k (update_value v))) (\<lambda>r.
      case r of Some w \<Rightarrow> yes w | None \<Rightarrow> no))"

section \<open>Channels and records\<close>

definition rpc_try_send :: "tx_state_machine \<Rightarrow> (('c, 'd) node_state, unit) action" where
  "rpc_try_send tx = (\<lambda>s. if length (rpc_channel s) < rpc_capacity
     then (Ok (), s\<lparr>rpc_channel := rpc_channel s @ [tx]\<rparr>) else (Err ChannelFull, s))"

definition rpc_send :: "tx_state_machine \<Rightarrow> (('c, 'd) node_state, unit) action" where
  "rpc_send tx = modify (\<lambda>s. s\<lparr>rpc_channel := rpc_channel s @ [tx]\<rparr>)"

definition send_command :: "network_command \<Rightarrow> (('c, 'd) node_state, unit) action" where
  "send_command c = modify (\<lambda>s. s\<lparr>p2p_commands := p2p_commands s @ [c]\<rparr>)"

definition db_tx :: "bytes \<Rightarrow> bool \<Rightarrow> tx_state_machine \<Rightarrow> db_tx_state_machine" where
  "db_tx h ok tx = \<lparr>tx_hash = h, db_amount = amount tx, db_token = tx_token tx,
     db_sender = sender_address tx, db_receiver = receiver_address tx,
     sender_network = sender_address_network tx, receiver_network = receiver_address_network tx,
     success = ok\<rparr>"

definition in_profile :: "user_account \<Rightarrow> string \<Rightarrow> bool" where
  "in_profile u a = (\<exists>(acc, _) \<in> set (accounts u). acc = a)"

definition both_in_profile :: "user_account \<Rightarrow> tx_state_machine \<Rightarrow> bool" where
  "both_in_profile u tx = (in_profile u (receiver_address tx) \<and> in_profile u (sender_address tx))"

section \<open>Messages from the backend\<close>

definition swarm_wasm_request ::
    "('c, 'd) node_env \<Rightarrow> u32 \<Rightarrow> tx_state_machine \<Rightarrow> (('c, 'd) node_state, unit) action" where
  "swarm_wasm_request N now req =
     and_then (attempt (rpc_try_send req)) (\<lambda>_.
     cache_push N (tx_nonce req) (ttl_new req now))"

text \<open>\<open>WasmResponse\<close> when the host could not create the transaction (lines 258-296).\<close>

definition swarm_create_failed ::
    "('c, 'd) node_env \<Rightarrow> u32 \<Rightarrow> tx_state_machine \<Rightarrow> (('c, 'd) node_state, unit) action" where
  "swarm_create_failed N now resp =
     (let resp = resp\<lparr>status := TxError ''Failed to create transaction ''\<rparr> in
      if_let_get_mut N (tx_nonce resp) resp
        (\<lambda>w. and_then (cache_push N (tx_nonce resp) w) (\<lambda>_. rpc_send resp))
        (let resp = resp\<lparr>status := TxError ''Failed to create transaction''\<rparr> in
         and_then (cache_push N (tx_nonce resp) (ttl_new resp now)) (\<lambda>_. rpc_send resp)))"

text \<open>\<open>WasmResponse\<close> after the validation (lines 321-357). This block drops the borrow before it
  pushes.\<close>

definition swarm_store_response ::
    "('c, 'd) node_env \<Rightarrow> u32 \<Rightarrow> tx_state_machine \<Rightarrow> (('c, 'd) node_state, unit) action" where
  "swarm_store_response N now resp =
     and_then (rpc_try_send resp) (\<lambda>_.
     and_then (with_borrow_mut (on_cache (lru_get_mut (lru N) (tx_nonce resp) (update_value resp)))) (\<lambda>r.
     case r of
       Some w \<Rightarrow> cache_push N (tx_nonce resp) w
     | None \<Rightarrow>
         (let resp = resp\<lparr>status := TxError ''Transaction expired''\<rparr> in
          and_then (cache_push N (tx_nonce resp) (ttl_new resp now)) (\<lambda>_. rpc_send resp))))"

definition swarm_wasm_response ::
    "('c, 'd) node_env \<Rightarrow> js_host \<Rightarrow> u32 \<Rightarrow> tx_state_machine \<Rightarrow> (('c, 'd) node_state, unit) action" where
  "swarm_wasm_response N H now resp =
     and_then (cache_peek N (tx_nonce resp)) (\<lambda>existing.
     if (case existing of Some w \<Rightarrow> is_reverted (status (get_value w)) | None \<Rightarrow> False) then ret ()
     else if (case existing of Some w \<Rightarrow> tx_version resp < tx_version (get_value w) | None \<Rightarrow> False) then ret ()
     else case validate_receiver_and_sender_address (kryptos N) resp ''Receiver'' of
       Ok _ \<Rightarrow>
         (let resp = increment_version (recv_confirmation_passed resp) in
          case create_tx H resp of
            Ok resp' \<Rightarrow> swarm_store_response N now resp'
          | Err _ \<Rightarrow> swarm_create_failed N now resp
          | Panic p \<Rightarrow> panic p)
     | Err _ \<Rightarrow>
         (let resp = increment_version (recv_confirmation_failed resp) in
          and_then (on_db (op_update_failed_tx (dbw N) (db_tx [] False resp))) (\<lambda>_.
          swarm_store_response N now resp))
     | Panic p \<Rightarrow> panic p)"

text \<open>One turn of the loop over the fetched transactions; the whole loop runs under one borrow.\<close>

definition merge_call_payload :: "tx_state_machine \<Rightarrow> tx_state_machine \<Rightarrow> tx_state_machine" where
  "merge_call_payload existing tx =
     (if call_payload existing \<noteq> None \<and> call_payload tx = None
      then tx\<lparr>call_payload := call_payload existing\<rparr> else tx)"

definition cache_fetched :: "('c, 'd) node_env \<Rightarrow> u32 \<Rightarrow> tx_state_machine \<Rightarrow> 'c \<Rightarrow> 'c" where
  "cache_fetched N now tx c =
     (case lru_get_mut (lru N) (tx_nonce tx)
             (\<lambda>w. update_value (merge_call_payload (get_value w) tx) w) c of
        (Some w, c') \<Rightarrow> lru_push (lru N) (tx_nonce (get_value w)) w c'
      | (None, c') \<Rightarrow> lru_push (lru N) (tx_nonce tx) (ttl_new tx now) c')"

definition swarm_pending_fetched ::
    "('c, 'd) node_env \<Rightarrow> u32 \<Rightarrow> tx_state_machine list \<Rightarrow> (('c, 'd) node_state, unit) action" where
  "swarm_pending_fetched N now txs =
     with_borrow_mut (on_cache (\<lambda>c. ((), fold (cache_fetched N now) txs c)))"

fun handle_swarm_message ::
    "('c, 'd) node_env \<Rightarrow> js_host \<Rightarrow> u32 \<Rightarrow> string + swarm_message \<Rightarrow> (('c, 'd) node_state, unit) action" where
  "handle_swarm_message N H now (Inr (WasmRequest req)) = swarm_wasm_request N now req"
| "handle_swarm_message N H now (Inr (WasmResponse resp)) = swarm_wasm_response N H now resp"
| "handle_swarm_message N H now (Inr (SwarmPendingTransactionsFetched a txs)) = swarm_pending_fetched N now txs"
| "handle_swarm_message N H now (Inr Libp2pMessage) = ret ()"
| "handle_swarm_message N H now (Inl e) = ret ()"

section \<open>Updates by the user\<close>

definition handle_genesis_tx_state ::
    "('c, 'd) node_env \<Rightarrow> tx_state_machine \<Rightarrow> (('c, 'd) node_state, unit) action" where
  "handle_genesis_tx_state N txn =
     and_then (on_db (op_get_user_account (dbw N))) (\<lambda>profile.
     if both_in_profile profile txn then
       and_then (cache_get N (tx_nonce txn)) (\<lambda>r.
       case r of
         None \<Rightarrow> raise FailedGetTransactionFromCache
       | Some w \<Rightarrow>
           and_then (cache_push N (tx_nonce txn) (update_value txn w)) (\<lambda>_.
           rpc_send txn))
     else modify (\<lambda>s. s\<lparr>p2p_commands := wasm_send_request txn (p2p_commands s)\<rparr>))"

definition recv_create_failed ::
    "('c, 'd) node_env \<Rightarrow> tx_state_machine \<Rightarrow> (('c, 'd) node_state, unit) action" where
  "recv_create_failed N txn =
     (let txn = txn\<lparr>status := TxError ''Failed to create transaction''\<rparr> in
      if_let_get_mut N (tx_nonce txn) txn
        (\<lambda>w. and_then (cache_push N (tx_nonce txn) w) (\<lambda>_. rpc_send txn))
        (raise FailedGetTransactionFromCache))"

definition recv_store_local ::
    "('c, 'd) node_env \<Rightarrow> tx_state_machine \<Rightarrow> (('c, 'd) node_state, unit) action" where
  "recv_store_local N txn =
     and_then (rpc_try_send txn) (\<lambda>_.
     if_let_get_mut N (tx_nonce txn) txn (\<lambda>_. ret ()) (raise FailedGetTransactionFromCache))"

definition handle_recv_addr_confirmed_tx_state ::
    "('c, 'd) node_env \<Rightarrow> js_host \<Rightarrow> tx_state_machine \<Rightarrow> (('c, 'd) node_state, unit) action" where
  "handle_recv_addr_confirmed_tx_state N H txn =
     and_then (on_db (op_get_user_account (dbw N))) (\<lambda>profile.
     if both_in_profile profile txn then
       (case validate_receiver_and_sender_address (kryptos N) txn ''Receiver'' of
          Ok _ \<Rightarrow>
            (let txn = increment_version (recv_confirmation_passed txn) in
             case create_tx H txn of
               Ok txn' \<Rightarrow> recv_store_local N txn'
             | Err _ \<Rightarrow> recv_create_failed N txn
             | Panic p \<Rightarrow> panic p)
        | Err _ \<Rightarrow>
            (let txn = increment_version (recv_confirmation_failed txn) in
             and_then (on_db (op_update_failed_tx (dbw N) (db_tx [] False txn))) (\<lambda>_.
             recv_store_local N txn))
        | Panic p \<Rightarrow> panic p)
     else modify (\<lambda>s. s\<lparr>p2p_commands := wasm_send_response txn (p2p_commands s)\<rparr>))"

text \<open>The end of the two paths for a transaction that was submitted outside the node (lines 620-646
  and 664-684): both branches push while the borrow is held.\<close>

definition store_submitted_outside ::
    "('c, 'd) node_env \<Rightarrow> u32 \<Rightarrow> tx_state_machine \<Rightarrow> (('c, 'd) node_state, unit) action" where
  "store_submitted_outside N now txn =
     if_let_get_mut N (tx_nonce txn) txn
       (\<lambda>w. and_then (cache_push N (tx_nonce txn) w) (\<lambda>_. rpc_send txn))
       (and_then (cache_push N (tx_nonce txn) (ttl_new txn now)) (\<lambda>_. rpc_send txn))"

text \<open>The end of the paths inside the node: only the branch of a missing entry pushes.\<close>

definition store_after_submission ::
    "('c, 'd) node_env \<Rightarrow> u32 \<Rightarrow> tx_state_machine \<Rightarrow> (('c, 'd) node_state, unit) action" where
  "store_after_submission N now txn =
     if_let_get_mut N (tx_nonce txn) txn
       (\<lambda>_. rpc_send txn)
       (and_then (cache_push N (tx_nonce txn) (ttl_new txn now)) (\<lambda>_. rpc_send txn))"

definition sender_not_verified ::
    "('c, 'd) node_env \<Rightarrow> u32 \<Rightarrow> tx_state_machine \<Rightarrow> (('c, 'd) node_state, unit) action" where
  "sender_not_verified N now txn =
     (let txn = sender_confirmation_failed txn in
      and_then (send_command (ConfirmTransaction (sender_address txn) txn)) (\<lambda>_.
      and_then (cache_push N (tx_nonce txn) (ttl_new txn now)) (\<lambda>_.
      rpc_send txn)))"

text \<open>The two arms on the host's answer to a submission.\<close>

definition submission_result ::
    "('c, 'd) node_env \<Rightarrow> js_host \<Rightarrow> u32 \<Rightarrow> tx_state_machine \<Rightarrow> (('c, 'd) node_state, unit) action" where
  "submission_result N H now txn = (case submit_tx H txn of
       Ok h \<Rightarrow>
         (let txn = tx_submission_passed h txn in
          and_then (on_db (op_update_success_tx (dbw N) (db_tx h True txn))) (\<lambda>_.
          and_then (send_command (TxSubmissionUpdate (sender_address txn) txn)) (\<lambda>_.
          store_after_submission N now txn)))
     | Err _ \<Rightarrow>
         (let txn = tx_submission_failed ''Failed to submit transaction'' txn in
          and_then (send_command (TxSubmissionUpdate (sender_address txn) txn)) (\<lambda>_.
          store_after_submission N now txn))
     | Panic p \<Rightarrow> panic p)"

definition submit_verified ::
    "('c, 'd) node_env \<Rightarrow> js_host \<Rightarrow> u32 \<Rightarrow> tx_state_machine \<Rightarrow> (('c, 'd) node_state, unit) action" where
  "submit_verified N H now txn =
     and_then (modify (\<lambda>s. s\<lparr>submitted := submitted s @ [txn]\<rparr>)) (\<lambda>_. submission_result N H now txn)"

definition multi_id_mismatch ::
    "('c, 'd) node_env \<Rightarrow> u32 \<Rightarrow> tx_state_machine \<Rightarrow> (('c, 'd) node_state, unit) action" where
  "multi_id_mismatch N now txn =
     (let txn = txn\<lparr>status := TxError ''failed to match original sender and receiver''\<rparr> in
      and_then (send_command (ConfirmTransaction (sender_address txn) txn)) (\<lambda>_.
      and_then (store_after_submission N now txn) (\<lambda>_.
      on_db (op_update_failed_tx (dbw N) (db_tx [] False txn)))))"

definition handle_sender_confirmed_tx_state ::
    "('c, 'd) node_env \<Rightarrow> js_host \<Rightarrow> u32 \<Rightarrow> tx_state_machine \<Rightarrow> (('c, 'd) node_state, unit) action" where
  "handle_sender_confirmed_tx_state N H now txn =
     and_then (on_db (op_get_user_account (dbw N))) (\<lambda>_.
     case status txn of
       FailedToSubmitTxn _ \<Rightarrow>
         and_then (on_db (op_update_failed_tx (dbw N) (db_tx [] False txn))) (\<lambda>_.
         store_submitted_outside N now txn)
     | TxSubmissionPassed h \<Rightarrow>
         and_then (on_db (op_update_success_tx (dbw N) (db_tx h True txn))) (\<lambda>_.
         store_submitted_outside N now txn)
     | _ \<Rightarrow>
         and_then (lift_outcome (validate_receiver_and_sender_address (kryptos N) txn ''Receiver'')) (\<lambda>_.
         case validate_receiver_and_sender_address (kryptos N) txn ''Sender'' of
           Err _ \<Rightarrow> sender_not_verified N now txn
         | Panic p \<Rightarrow> panic p
         | Ok _ \<Rightarrow>
             if validate_multi_id (kryptos N) txn then submit_verified N H now txn
             else multi_id_mismatch N now txn))"

text \<open>The revert handler binds the borrow to \<open>cache\<close> and drops it only in the branch of a cached
  entry.\<close>

definition store_reverted ::
    "('c, 'd) node_env \<Rightarrow> u32 \<Rightarrow> tx_state_machine \<Rightarrow> (('c, 'd) node_state, unit) action" where
  "store_reverted N now txn = (\<lambda>s.
     if cache_borrowed s then (Panic BorrowMutError, s)
     else
       (let (r, c) = lru_get_mut (lru N) (tx_nonce txn) (update_value txn) (cache s);
            s = s\<lparr>cache := c, cache_borrowed := True\<rparr> in
        case r of
          Some w \<Rightarrow> cache_push N (tx_nonce txn) w (s\<lparr>cache_borrowed := False\<rparr>)
        | None \<Rightarrow> cache_push N (tx_nonce txn) (ttl_new txn now) s))"

definition handle_reverted_tx_state ::
    "('c, 'd) node_env \<Rightarrow> u32 \<Rightarrow> tx_state_machine \<Rightarrow> (('c, 'd) node_state, unit) action" where
  "handle_reverted_tx_state N now txn =
     and_then (on_db (op_get_user_account (dbw N))) (\<lambda>profile.
     and_then (if both_in_profile profile txn then ret ()
       else and_then (send_command (RevertTransaction (sender_address txn) txn)) (\<lambda>_.
            send_command (CloseCommand (receiver_address txn) txn))) (\<lambda>_.
     and_then (on_db (op_update_failed_tx (dbw N) (db_tx [] False txn))) (\<lambda>_.
     and_then (store_reverted N now txn) (\<lambda>_.
     rpc_send txn))))"

definition handle_user_update ::
    "('c, 'd) node_env \<Rightarrow> js_host \<Rightarrow> u32 \<Rightarrow> tx_state_machine \<Rightarrow> (('c, 'd) node_state, unit) action" where
  "handle_user_update N H now txn = (case status txn of
       Genesis \<Rightarrow> handle_genesis_tx_state N txn
     | RecvAddrConfirmed \<Rightarrow> handle_recv_addr_confirmed_tx_state N H txn
     | NetConfirmed \<Rightarrow> panic (NotImplemented [])
     | SenderConfirmed \<Rightarrow> handle_sender_confirmed_tx_state N H now txn
     | FailedToSubmitTxn _ \<Rightarrow> handle_sender_confirmed_tx_state N H now txn
     | TxSubmissionPassed _ \<Rightarrow> handle_sender_confirmed_tx_state N H now txn
     | Reverted _ \<Rightarrow> handle_reverted_tx_state N now txn
     | _ \<Rightarrow> ret ())"

text \<open>\<open>while let Some(txn) = receiver.recv().await\<close>: the updates are taken in order; the first error
  ends the loop for good. The list gives the host's answers and the clock of each turn.\<close>

fun handle_public_interface_tx_updates ::
    "('c, 'd) node_env \<Rightarrow> (js_host \<times> u32) list \<Rightarrow> (('c, 'd) node_state, unit) action" where
  "handle_public_interface_tx_updates N [] s = (Ok (), s)"
| "handle_public_interface_tx_updates N ((H, now) # turns) s = (case user_updates s of
       [] \<Rightarrow> (Ok (), s)
     | txn # rest \<Rightarrow>
         and_then (handle_user_update N H now txn) (\<lambda>_. handle_public_interface_tx_updates N turns)
           (s\<lparr>user_updates := rest\<rparr>))"

section \<open>Start and storage export\<close>

definition apply_storage_export :: "'d db_ops \<Rightarrow> storage_export \<Rightarrow> ('d, unit) action" where
  "apply_storage_export D x =
     and_then (case se_user_account x of Some u \<Rightarrow> op_set_user_account D u | None \<Rightarrow> ret ()) (\<lambda>_.
     and_then (op_set_nonce D (se_nonce x)) (\<lambda>_.
     and_then (for_each (op_update_success_tx D) (success_transactions x)) (\<lambda>_.
     for_each (op_update_failed_tx D) (failed_transactions x))))"

text \<open>\<open>WasmMainServiceWorker::new\<close>, on an empty database and cache: the account is recorded, then the
  exported storage is applied over it.\<close>

definition initial_state :: "'c \<Rightarrow> 'd \<Rightarrow> ('c, 'd) node_state" where
  "initial_state c d = \<lparr>cache = c, cache_borrowed = False, db = d, rpc_channel = [], user_updates = [],
     p2p_commands = [], submitted = []\<rparr>"

definition main_worker_new ::
    "('c, 'd) node_env \<Rightarrow> string \<Rightarrow> string \<Rightarrow> string \<Rightarrow> storage_export option \<Rightarrow> (('c, 'd) node_state, unit) action" where
  "main_worker_new N relay_node_multi_addr account network storage =
     and_then (on_db (op_set_user_account (dbw N)
        \<lparr>user_multi_addr = relay_node_multi_addr, accounts = [(account, chain_from_str network)]\<rparr>)) (\<lambda>_.
     case storage of
       Some x \<Rightarrow> on_db (apply_storage_export (dbw N) x)
     | None \<Rightarrow> ret ())"

section \<open>How the cell runs\<close>

lemma borrowed_id [simp]: "\<not> cache_borrowed s \<Longrightarrow> s\<lparr>cache_borrowed := False\<rparr> = s"
  by (cases s) simp

lemma run_on_db [run_simps]: "on_db m s = (fst (m (db s)), s\<lparr>db := snd (m (db s))\<rparr>)"
  by (simp add: on_db_def)

lemma cache_push_free [run_simps]:
  "\<not> cache_borrowed s \<Longrightarrow> cache_push N k w s = (Ok (), s\<lparr>cache := lru_push (lru N) k w (cache s)\<rparr>)"
  by (cases s) (simp add: cache_push_def with_borrow_mut_def on_cache_def)

lemma cache_push_busy [run_simps]: "cache_borrowed s \<Longrightarrow> cache_push N k w s = (Panic BorrowMutError, s)"
  by (simp add: cache_push_def with_borrow_mut_def)

lemma cache_get_free [run_simps]:
  "\<not> cache_borrowed s \<Longrightarrow> cache_get N k s =
     (Ok (fst (lru_get (lru N) k (cache s))), s\<lparr>cache := snd (lru_get (lru N) k (cache s))\<rparr>)"
  by (cases s) (simp add: cache_get_def with_borrow_mut_def on_cache_def)

lemma cache_get_busy [run_simps]: "cache_borrowed s \<Longrightarrow> cache_get N k s = (Panic BorrowMutError, s)"
  by (simp add: cache_get_def with_borrow_mut_def)

lemma run_cache_peek [run_simps]:
  "cache_peek N k s = (if cache_borrowed s then (Panic BorrowError, s)
     else (Ok (lru_peek (lru N) k (cache s)), s))"
  by (simp add: cache_peek_def)

lemma run_rpc_send [run_simps]: "rpc_send tx s = (Ok (), s\<lparr>rpc_channel := rpc_channel s @ [tx]\<rparr>)"
  by (simp add: rpc_send_def run_simps)

lemma run_rpc_try_send [run_simps]:
  "rpc_try_send tx s = (if length (rpc_channel s) < rpc_capacity
     then (Ok (), s\<lparr>rpc_channel := rpc_channel s @ [tx]\<rparr>) else (Err ChannelFull, s))"
  by (simp add: rpc_try_send_def)

lemma run_send_command [run_simps]:
  "send_command c s = (Ok (), s\<lparr>p2p_commands := p2p_commands s @ [c]\<rparr>)"
  by (simp add: send_command_def run_simps)

lemma with_borrow_busy [run_simps]: "cache_borrowed s \<Longrightarrow> with_borrow_mut m s = (Panic BorrowMutError, s)"
  by (simp add: with_borrow_mut_def)

lemma with_borrow_on_cache [run_simps]:
  "\<not> cache_borrowed s \<Longrightarrow> with_borrow_mut (on_cache f) s = (Ok (fst (f (cache s))), s\<lparr>cache := snd (f (cache s))\<rparr>)"
  by (cases s) (simp add: with_borrow_mut_def on_cache_def)

text \<open>Pushing inside an \<open>if let\<close> on the same cell panics and leaves the cell borrowed; a branch that
  does not touch the cell runs.\<close>

lemma if_let_push_panics:
  assumes "\<not> cache_borrowed s"
  shows "if_let_get_mut N k v (\<lambda>w. and_then (cache_push N k w) yes) (and_then (cache_push N j u) no) s
     = (Panic BorrowMutError, s\<lparr>cache_borrowed := True,
          cache := snd (lru_get_mut (lru N) k (update_value v) (cache s))\<rparr>)"
  using assms
  by (auto simp: if_let_get_mut_def with_borrow_mut_def and_then_def on_cache_def cache_push_busy
      split: option.splits)

lemma store_after_submission_present:
  assumes "\<not> cache_borrowed s" "fst (lru_get_mut (lru N) (tx_nonce txn) (update_value txn) (cache s)) = Some w"
  shows "store_after_submission N now txn s = (Ok (),
     s\<lparr>cache := snd (lru_get_mut (lru N) (tx_nonce txn) (update_value txn) (cache s)),
       rpc_channel := rpc_channel s @ [txn]\<rparr>)"
  using assms
  by (cases s) (simp add: store_after_submission_def if_let_get_mut_def with_borrow_mut_def and_then_def
      on_cache_def run_rpc_send)

lemma store_after_submission_absent:
  assumes "\<not> cache_borrowed s" "fst (lru_get_mut (lru N) (tx_nonce txn) (update_value txn) (cache s)) = None"
  shows "store_after_submission N now txn s = (Panic BorrowMutError, s\<lparr>cache_borrowed := True,
     cache := snd (lru_get_mut (lru N) (tx_nonce txn) (update_value txn) (cache s))\<rparr>)"
  using assms
  by (simp add: store_after_submission_def if_let_get_mut_def with_borrow_mut_def and_then_def
      on_cache_def cache_push_busy)

section \<open>The invariant of a node\<close>

text \<open>A transaction may be submitted when the receiver signed its address, the sender signed the call
  payload, and the multi id is the hash of the two addresses.\<close>

definition verified_tx :: "crypto \<Rightarrow> tx_state_machine \<Rightarrow> bool" where
  "verified_tx K tx \<longleftrightarrow> validate_receiver_and_sender_address K tx ''Receiver'' = Ok ()
     \<and> validate_receiver_and_sender_address K tx ''Sender'' = Ok () \<and> validate_multi_id K tx"

definition node_ok :: "('c, 'd) node_env \<Rightarrow> nat \<Rightarrow> ('c, 'd) node_state \<Rightarrow> bool" where
  "node_ok N cap s \<longleftrightarrow> (\<forall>tx \<in> set (submitted s). verified_tx (kryptos N) tx) \<and> cache_ok (lru N) cap (cache s)"

lemma node_ok_fields [simp]:
  "node_ok N cap (s\<lparr>cache_borrowed := b\<rparr>) = node_ok N cap s"
  "node_ok N cap (s\<lparr>db := d\<rparr>) = node_ok N cap s"
  "node_ok N cap (s\<lparr>rpc_channel := xs\<rparr>) = node_ok N cap s"
  "node_ok N cap (s\<lparr>user_updates := xs\<rparr>) = node_ok N cap s"
  "node_ok N cap (s\<lparr>p2p_commands := cs\<rparr>) = node_ok N cap s"
  by (simp_all add: node_ok_def)

lemma node_ok_cache: "node_ok N cap s \<Longrightarrow> cache_ok (lru N) cap c \<Longrightarrow> node_ok N cap (s\<lparr>cache := c\<rparr>)"
  by (simp add: node_ok_def)

lemma node_ok_cache_ok: "node_ok N cap s \<Longrightarrow> cache_ok (lru N) cap (cache s)"
  by (simp add: node_ok_def)

lemma preserves_with_borrow [preserves_intros]:
  "preserves (node_ok N cap) m \<Longrightarrow> preserves (node_ok N cap) (with_borrow_mut m)"
  unfolding preserves_def with_borrow_mut_def
  by (auto split: prod.splits outcome.splits) (metis node_ok_fields(1) snd_conv)+

lemma preserves_on_db [preserves_intros]: "preserves (node_ok N cap) (on_db m)"
  by (simp add: preserves_def run_simps)

lemma preserves_channels [preserves_intros]:
  "preserves (node_ok N cap) (rpc_send tx)" "preserves (node_ok N cap) (rpc_try_send tx)"
  "preserves (node_ok N cap) (send_command c)" "preserves (node_ok N cap) (cache_peek N k)"
  by (simp_all add: preserves_def run_simps)

lemma preserves_on_cache [preserves_intros]:
  "(\<And>c. cache_ok (lru N) cap c \<Longrightarrow> cache_ok (lru N) cap (snd (f c))) \<Longrightarrow> preserves (node_ok N cap) (on_cache f)"
  by (simp add: preserves_def on_cache_def node_ok_def)

text \<open>A node over a cache that keeps the promises of the \<open>lru\<close> crate.\<close>

locale wasm_node = lru_cache "lru N" cap for N :: "('c, 'd) node_env" and cap
begin

abbreviation keeps :: "(('c, 'd) node_state, 'a) action \<Rightarrow> bool" where
  "keeps \<equiv> preserves (node_ok N cap)"

lemma keeps_cache_push [preserves_intros]: "keeps (cache_push N k w)"
  unfolding cache_push_def by (intro preserves_intros) (simp add: cache_ok_push)

lemma keeps_cache_get [preserves_intros]: "keeps (cache_get N k)"
  unfolding cache_get_def by (intro preserves_intros) (simp add: cache_ok_get)

lemma keeps_get_mut [preserves_intros]: "keeps (on_cache (lru_get_mut (lru N) k f))"
  by (intro preserves_intros) (simp add: cache_ok_get_mut)

lemma keeps_if_let [preserves_intros]:
  "(\<And>w. keeps (yes w)) \<Longrightarrow> keeps no \<Longrightarrow> keeps (if_let_get_mut N k v yes no)"
  unfolding if_let_get_mut_def by (intro preserves_intros)

lemma cache_ok_fetched: "cache_ok (lru N) cap c \<Longrightarrow> cache_ok (lru N) cap (cache_fetched N now tx c)"
  using cache_ok_get_mut [of c "tx_nonce tx" "\<lambda>w. update_value (merge_call_payload (get_value w) tx) w"]
  by (auto simp: cache_fetched_def intro!: cache_ok_push split: prod.split option.split)

lemma cache_ok_fold_fetched:
  "cache_ok (lru N) cap c \<Longrightarrow> cache_ok (lru N) cap (fold (cache_fetched N now) txs c)"
  by (induction txs arbitrary: c) (simp_all add: cache_ok_fetched)

lemma keeps_handle_swarm_message: "keeps (handle_swarm_message N H now msg)"
proof (cases msg)
  case (Inr m)
  then show ?thesis
    by (cases m)
      (auto simp: swarm_wasm_request_def swarm_wasm_response_def swarm_store_response_def
        swarm_create_failed_def swarm_pending_fetched_def cache_ok_fold_fetched intro!: preserves_intros)
qed (auto intro!: preserves_intros)

lemma keeps_genesis: "keeps (handle_genesis_tx_state N txn)"
  by (auto simp: handle_genesis_tx_state_def intro!: preserves_intros)

lemma keeps_recv_addr_confirmed: "keeps (handle_recv_addr_confirmed_tx_state N H txn)"
  by (auto simp: handle_recv_addr_confirmed_tx_state_def recv_create_failed_def recv_store_local_def
      intro!: preserves_intros)

lemma keeps_store_after [preserves_intros]: "keeps (store_after_submission N now txn)"
  by (auto simp: store_after_submission_def intro!: preserves_intros)

lemma keeps_store_outside [preserves_intros]: "keeps (store_submitted_outside N now txn)"
  by (auto simp: store_submitted_outside_def intro!: preserves_intros)

lemma keeps_submission_result [preserves_intros]: "keeps (submission_result N H now txn)"
  by (auto simp: submission_result_def intro!: preserves_intros)

lemma keeps_submit_verified:
  "verified_tx (kryptos N) txn \<Longrightarrow> keeps (submit_verified N H now txn)"
  by (auto simp: submit_verified_def node_ok_def intro!: preserves_intros)

lemma keeps_multi_id_mismatch [preserves_intros]: "keeps (multi_id_mismatch N now txn)"
  by (auto simp: multi_id_mismatch_def intro!: preserves_intros)

lemma keeps_sender_not_verified [preserves_intros]: "keeps (sender_not_verified N now txn)"
  by (auto simp: sender_not_verified_def intro!: preserves_intros)

lemma keeps_sender_confirmed: "keeps (handle_sender_confirmed_tx_state N H now txn)"
proof -
  have normal: "keeps (and_then (lift_outcome (validate_receiver_and_sender_address (kryptos N) txn ''Receiver'')) (\<lambda>_.
      case validate_receiver_and_sender_address (kryptos N) txn ''Sender'' of
        Err _ \<Rightarrow> sender_not_verified N now txn
      | Panic p \<Rightarrow> panic p
      | Ok _ \<Rightarrow> if validate_multi_id (kryptos N) txn then submit_verified N H now txn
          else multi_id_mismatch N now txn))" (is "keeps (and_then ?v ?rest)")
  proof (cases "validate_receiver_and_sender_address (kryptos N) txn ''Receiver''")
    case (Ok u)
    have "keeps (?rest u)"
      using Ok by (auto intro!: preserves_intros keeps_submit_verified simp: verified_tx_def)
    then show ?thesis by (auto intro!: preserves_intros)
  qed (simp_all add: preserves_def run_simps)
  show ?thesis
    unfolding handle_sender_confirmed_tx_state_def
    by (rule preserves_and_then, rule preserves_on_db, cases "status txn")
      (simp_all add: normal, (intro preserves_intros)+)
qed

lemma keeps_reverted: "keeps (handle_reverted_tx_state N now txn)"
proof -
  have "keeps (store_reverted N now txn)"
    unfolding preserves_def store_reverted_def
    by (auto simp: Let_def case_prod_beta split: option.splits
        intro!: preservesD [OF keeps_cache_push] node_ok_cache cache_ok_get_mut dest: node_ok_cache_ok)
  then show ?thesis
    by (auto simp: handle_reverted_tx_state_def intro!: preserves_intros)
qed

lemma keeps_user_update: "keeps (handle_user_update N H now txn)"
  by (cases "status txn")
    (simp_all add: handle_user_update_def keeps_genesis keeps_recv_addr_confirmed keeps_sender_confirmed
      keeps_reverted preserves_ret preserves_panic)

lemma run_response:
  assumes "\<not> cache_borrowed s"
    and "case cached (lru N) (cache s) (tx_nonce resp) of None \<Rightarrow> True
           | Some w \<Rightarrow> \<not> is_reverted (status (get_value w)) \<and> tx_version (get_value w) \<le> tx_version resp"
  shows "swarm_wasm_response N H now resp s =
     (case validate_receiver_and_sender_address (kryptos N) resp ''Receiver'' of
       Ok _ \<Rightarrow>
         (let resp = increment_version (recv_confirmation_passed resp) in
          case create_tx H resp of
            Ok resp' \<Rightarrow> swarm_store_response N now resp'
          | Err _ \<Rightarrow> swarm_create_failed N now resp
          | Panic p \<Rightarrow> panic p)
     | Err _ \<Rightarrow>
         (let resp = increment_version (recv_confirmation_failed resp) in
          and_then (on_db (op_update_failed_tx (dbw N) (db_tx [] False resp))) (\<lambda>_.
          swarm_store_response N now resp))
     | Panic p \<Rightarrow> panic p) s"
  using assms
  by (cases "cached (lru N) (cache s) (tx_nonce resp)")
    (auto simp: swarm_wasm_response_def run_simps peek_cached dest: leD)

lemma push_after_get_mut:
  assumes "cache_ok (lru N) cap c" "cached (lru N) c k = Some w"
  shows "cached (lru N) (lru_push (lru N) k (f w) (snd (lru_get_mut (lru N) k f c))) = (cached (lru N) c)(k \<mapsto> f w)"
  using cached_push_room [OF cache_ok_get_mut [OF assms(1)], of k f k "f w"] assms(2)
  by (simp add: cached_get_mut fun_eq_iff)

lemma store_response_present:
  assumes "\<not> cache_borrowed s" "cache_ok (lru N) cap (cache s)" "length (rpc_channel s) < rpc_capacity"
    and "cached (lru N) (cache s) (tx_nonce resp) = Some w"
  shows "\<exists>c. swarm_store_response N now resp s = (Ok (), s\<lparr>rpc_channel := rpc_channel s @ [resp], cache := c\<rparr>)
     \<and> cached (lru N) c = (cached (lru N) (cache s))(tx_nonce resp \<mapsto> update_value resp w)"
  using assms push_after_get_mut [OF assms(2,4), of "update_value resp"]
  by (intro exI conjI) (simp_all add: swarm_store_response_def run_simps get_mut_cached)

lemma fetched_cached:
  assumes "cache_ok (lru N) cap c"
  shows "cached (lru N) (cache_fetched N now tx c) (tx_nonce tx) =
    Some (case cached (lru N) c (tx_nonce tx) of
            Some w \<Rightarrow> update_value (merge_call_payload (get_value w) tx) w
          | None \<Rightarrow> ttl_new tx now)"
proof -
  have n: "tx_nonce (merge_call_payload e tx) = tx_nonce tx" for e
    by (simp add: merge_call_payload_def)
  let ?f = "\<lambda>w. update_value (merge_call_payload (get_value w) tx) w"
  have r: "fst (lru_get_mut (lru N) (tx_nonce tx) ?f c) = map_option ?f (cached (lru N) c (tx_nonce tx))"
    by (rule get_mut_cached)
  show ?thesis
    using r by (auto simp: cache_fetched_def n cached_push_same split: prod.splits option.splits)
qed

end

section \<open>A node for concrete runs\<close>

text \<open>A node over the reference cache with the capacity of the source, any database and any
  cryptography.\<close>

type_synonym sample_cache = "(u32 \<times> cache_entry) list"

definition list_node :: "'d db_ops \<Rightarrow> crypto \<Rightarrow> (sample_cache, 'd) node_env" where
  "list_node D K = \<lparr>lru = list_lru cache_capacity, dbw = D, kryptos = K\<rparr>"

lemma list_node_simps [simp]:
  "lru (list_node D K) = list_lru cache_capacity" "dbw (list_node D K) = D" "kryptos (list_node D K) = K"
  by (simp_all add: list_node_def)

interpretation list_node: wasm_node "list_node D K" cache_capacity for D K
  unfolding wasm_node_def using list_cache.lru_cache_axioms by simp

definition sample_node :: "(sample_cache, plain_encoding in_memory_db_worker) node_env" where
  "sample_node = list_node (in_memory_db_ops plain_codec) sample_crypto"

lemma sample_lru: "lru_cache (lru sample_node) cache_capacity"
  unfolding sample_node_def by (rule list_node.lru_cache_axioms)

definition signed_tx :: tx_state_machine where
  "signed_tx = default_tx_state_machine\<lparr>sender_address := ''0xaa'', receiver_address := ''0xbb'',
     multi_id := as_bytes ''0xaa'' @ as_bytes ''0xbb'', recv_signature := Some (as_bytes ''bb''),
     signed_call_payload := Some (as_bytes ''aa''),
     call_payload := Some (TxEthereum \<lparr>eth_to = ''0xbb'', eth_value = 1, eth_chain_id = 1, eth_nonce = 0,
        eth_gas = 0, max_fee_per_gas = 0, max_priority_fee_per_gas = 0, eth_data = None,
        access_list = None, eth_tx_type = ''eip1559''\<rparr> (replicate 32 0, [])),
     tx_nonce := 1, status := SenderConfirmed\<rparr>"

lemma signed_tx_simps [simp]:
  "sender_address signed_tx = ''0xaa''" "receiver_address signed_tx = ''0xbb''"
  "sender_address_network signed_tx = Ethereum" "receiver_address_network signed_tx = Ethereum"
  "multi_id signed_tx = as_bytes ''0xaa'' @ as_bytes ''0xbb''" "recv_signature signed_tx = Some (as_bytes ''bb'')"
  "signed_call_payload signed_tx = Some (as_bytes ''aa'')" "tx_nonce signed_tx = 1" "tx_version signed_tx = 0"
  "status signed_tx = SenderConfirmed"
  by (simp_all add: signed_tx_def default_tx_state_machine_def default_chain_def)

lemma sample_signatures:
  "signed_by sample_crypto Ethereum ''0xaa'' (as_bytes ''aa'') h"
  "signed_by sample_crypto Ethereum ''0xbb'' (as_bytes ''bb'') h"
  using of_char_unat [of 97] of_char_unat [of 98]
  by (simp_all add: signed_by_def sample_crypto_def is_on_curve_sec1_def point_address_def as_bytes_def)

lemma signed_tx_verified: "verified_tx sample_crypto signed_tx"
  unfolding verified_tx_def receiver_valid_iff sender_valid_iff
  by (simp add: sample_signatures validate_multi_id_def)
    (simp add: sample_crypto_def signed_tx_def)

definition sample_user :: user_account where
  "sample_user = \<lparr>user_multi_addr = ''ws://h'', accounts = [(''0xaa'', Ethereum)]\<rparr>"

definition sample_db :: "plain_encoding in_memory_db_worker" where
  "sample_db = mem_initialize_db_client\<lparr>user_accounts := [(USER_ACC_KEY, PlainUser sample_user)]\<rparr>"

lemma sample_node_simps [simp]:
  "lru sample_node = list_lru cache_capacity" "dbw sample_node = in_memory_db_ops plain_codec"
  "kryptos sample_node = sample_crypto"
  by (simp_all add: sample_node_def)

lemma sample_get_user [simp]:
  "op_get_user_account (in_memory_db_ops plain_codec) sample_db = (Ok sample_user, sample_db)"
  by (simp add: in_memory_db_ops_def mem_get_user_account_def run_simps decode_expect_def sample_db_def
      plain_codec_def mem_initialize_db_client_def)

lemma fst_update_tx [simp]:
  "fst (op_update_success_tx (in_memory_db_ops plain_codec) t sample_db) = Ok ()"
  "fst (op_update_failed_tx (in_memory_db_ops plain_codec) t sample_db) = Ok ()"
  by (simp_all add: in_memory_db_ops_def mem_update_success_tx_def mem_update_failed_tx_def mem_push_tx_def
      mem_totals_def run_simps decode_expect_def sample_db_def mem_initialize_db_client_def)

definition sample_state :: "tx_state_machine \<Rightarrow> (sample_cache, plain_encoding in_memory_db_worker) node_state" where
  "sample_state tx = initial_state [(1, ttl_new tx 0)] sample_db"

lemma sample_state_simps [simp]:
  "cache (sample_state tx) = [(1, ttl_new tx 0)]" "\<not> cache_borrowed (sample_state tx)"
  "db (sample_state tx) = sample_db" "rpc_channel (sample_state tx) = []"
  "p2p_commands (sample_state tx) = []" "submitted (sample_state tx) = []"
  by (simp_all add: sample_state_def initial_state_def)

lemma sample_cached [simp]:
  "cached (list_lru n) [(1 :: u32, ttl_new tx 0)] k = (if k = 1 then Some (ttl_new tx 0) else None)"
  by (simp add: cached_def)

definition echo_host :: js_host where
  "echo_host = \<lparr>create_tx_js = Some, submit_tx_js = (\<lambda>_. Some [9])\<rparr>"

definition failing_host :: js_host where
  "failing_host = \<lparr>create_tx_js = (\<lambda>_. None), submit_tx_js = (\<lambda>_. None)\<rparr>"

section \<open>Properties of the handlers\<close>

text \<open>C16: a response for a transaction that is cached as reverted, or with an older version than the
  cached one, changes nothing at all.\<close>

theorem response_gated:
  assumes "lru_cache (lru N) cap" and "\<not> cache_borrowed s"
    and "cached (lru N) (cache s) (tx_nonce resp) = Some w"
    and "is_reverted (status (get_value w)) \<or> tx_version resp < tx_version (get_value w)"
  shows "handle_swarm_message N H now (Inr (WasmResponse resp)) s = (Ok (), s)"
  using assms by (auto simp: swarm_wasm_response_def run_simps lru_cache.peek_cached)

theorem response_gated_witness:
  "handle_swarm_message sample_node echo_host 5 (Inr (WasmResponse signed_tx))
     (sample_state (signed_tx\<lparr>status := Reverted ''no''\<rparr>)) = (Ok (), sample_state (signed_tx\<lparr>status := Reverted ''no''\<rparr>))"
  using response_gated [OF sample_lru, of "sample_state (signed_tx\<lparr>status := Reverted ''no''\<rparr>)" signed_tx] by simp

text \<open>C14: a response with a valid receiver signature, for a cached transaction that is neither
  reverted nor newer, is accepted: the transaction as completed by the host is announced to the user
  and replaces the cached value, keeping the entry's age; the database and the other entries are
  untouched.\<close>

theorem response_accepted:
  assumes "lru_cache (lru N) cap" and "\<not> cache_borrowed s" and "cache_ok (lru N) cap (cache s)"
    and "cached (lru N) (cache s) (tx_nonce resp) = Some w"
    and "\<not> is_reverted (status (get_value w))" and "tx_version (get_value w) \<le> tx_version resp"
    and "validate_receiver_and_sender_address (kryptos N) resp ''Receiver'' = Ok ()"
    and "create_tx_js H (increment_version (resp\<lparr>status := RecvAddrConfirmationPassed\<rparr>)) = Some resp'"
    and "tx_nonce resp' = tx_nonce resp" and "length (rpc_channel s) < rpc_capacity"
  shows "\<exists>s'. handle_swarm_message N H now (Inr (WasmResponse resp)) s = (Ok (), s')
    \<and> rpc_channel s' = rpc_channel s @ [resp'] \<and> db s' = db s \<and> submitted s' = submitted s
    \<and> cached (lru N) (cache s') = (cached (lru N) (cache s))(tx_nonce resp \<mapsto> update_value resp' w)"
proof -
  have wn: "wasm_node N cap" using assms(1) by (simp add: wasm_node_def)
  have "handle_swarm_message N H now (Inr (WasmResponse resp)) s = swarm_store_response N now resp' s"
    using assms(4-8)
    by (simp add: wasm_node.run_response [OF wn assms(2)] create_tx_def recv_confirmation_passed_def Let_def)
  with wasm_node.store_response_present [OF wn assms(2,3,10), of resp' w now] assms(4,9)
  show ?thesis by auto
qed

lemma signed_tx_receiver [simp]: "validate_receiver_and_sender_address sample_crypto signed_tx ''Receiver'' = Ok ()"
  using signed_tx_verified by (simp add: verified_tx_def)

theorem response_accepted_witness:
  "\<exists>s'. handle_swarm_message sample_node echo_host 5 (Inr (WasmResponse signed_tx)) (sample_state signed_tx) = (Ok (), s')
    \<and> rpc_channel s' = [signed_tx\<lparr>status := RecvAddrConfirmationPassed, tx_version := 1\<rparr>]"
  using response_accepted [OF sample_lru, of "sample_state signed_tx" signed_tx "ttl_new signed_tx 0" echo_host
      "signed_tx\<lparr>status := RecvAddrConfirmationPassed, tx_version := 1\<rparr>" 5]
  by (simp add: echo_host_def cache_ok_def cache_capacity_def rpc_capacity_def increment_version_def saturating_add_def)
    blast


definition unsigned_tx :: tx_state_machine where
  "unsigned_tx = signed_tx\<lparr>recv_signature := None\<rparr>"

lemma unsigned_invalid:
  "validate_receiver_and_sender_address sample_crypto unsigned_tx ''Receiver'' = Err ReceiverDidntSign"
  by (simp add: validate_receiver_and_sender_address_def signature_parts_def unsigned_tx_def)




text \<open>When the entry of a verified transaction is no longer cached (the cache holds ten), its
  submission goes through on the chain and is recorded, but then the node panics: the \<open>else\<close> branch
  pushes into the cell that the \<open>if let\<close> still borrows. The user is not told, and the cell stays
  borrowed.\<close>

theorem submission_of_evicted_panics:
  assumes "lru_cache (lru N) cap" and "\<not> cache_borrowed s" and "status txn = SenderConfirmed"
    and "verified_tx (kryptos N) txn" and "submit_tx_js H txn = Some h"
    and "cached (lru N) (cache s) (tx_nonce txn) = None"
    and "op_get_user_account (dbw N) (db s) = (Ok u, d)"
    and "op_update_success_tx (dbw N) (db_tx h True (txn\<lparr>status := TxSubmissionPassed h\<rparr>)) d = (Ok (), d')"
  shows "\<exists>s'. handle_user_update N H now txn s = (Panic BorrowMutError, s')
    \<and> submitted s' = submitted s @ [txn] \<and> db s' = d' \<and> rpc_channel s' = rpc_channel s \<and> cache_borrowed s'"
proof -
  let ?t = "txn\<lparr>status := TxSubmissionPassed h\<rparr>"
  let ?s = "s\<lparr>submitted := submitted s @ [txn], db := d',
    p2p_commands := p2p_commands s @ [TxSubmissionUpdate (sender_address txn) ?t]\<rparr>"
  have g: "fst (lru_get_mut (lru N) (tx_nonce ?t) (update_value ?t) (cache ?s)) = None"
    using assms(6) by (simp add: lru_cache.get_mut_cached [OF assms(1)])
  have "handle_user_update N H now txn s = store_after_submission N now ?t ?s"
    using assms(3-5,7,8)
    by (simp add: handle_user_update_def handle_sender_confirmed_tx_state_def run_simps verified_tx_def
        submit_verified_def submission_result_def submit_tx_def Let_def tx_submission_passed_def)
  with store_after_submission_absent [OF _ g, of now] assms(2) show ?thesis by simp
qed

theorem submission_of_evicted_panics_witness:
  "\<exists>s'. handle_user_update sample_node echo_host 5 signed_tx (initial_state [] sample_db) = (Panic BorrowMutError, s')
    \<and> submitted s' = [signed_tx] \<and> rpc_channel s' = [] \<and> cache_borrowed s'"
  using submission_of_evicted_panics [OF sample_lru, of "initial_state [] sample_db" signed_tx echo_host "[9]" sample_user sample_db _ 5]
    signed_tx_verified
  by (simp add: echo_host_def prod_eq_iff initial_state_def cached_def)

text \<open>A transaction that the user's wallet has already submitted (status \<open>TxSubmissionPassed\<close>) is
  recorded in the database and then makes the node panic, whether or not it is cached: both branches
  push into the cell that is still borrowed. The user is not told.\<close>

theorem external_submission_panics:
  assumes "\<not> cache_borrowed s" and "status txn = TxSubmissionPassed h"
    and "op_get_user_account (dbw N) (db s) = (Ok u, d)"
    and "op_update_success_tx (dbw N) (db_tx h True txn) d = (Ok (), d')"
  shows "\<exists>s'. handle_user_update N H now txn s = (Panic BorrowMutError, s')
    \<and> db s' = d' \<and> rpc_channel s' = rpc_channel s \<and> cache_borrowed s'"
  using assms
  by (simp add: handle_user_update_def handle_sender_confirmed_tx_state_def run_simps
      store_submitted_outside_def if_let_push_panics)

theorem external_submission_panics_witness:
  "\<exists>s'. handle_user_update sample_node echo_host 5 (signed_tx\<lparr>status := TxSubmissionPassed [9]\<rparr>) (sample_state signed_tx)
     = (Panic BorrowMutError, s') \<and> cache_borrowed s'"
  using external_submission_panics [of "sample_state signed_tx" "signed_tx\<lparr>status := TxSubmissionPassed [9]\<rparr>" "[9]"
      sample_node sample_user sample_db _ echo_host 5]
  by (simp add: prod_eq_iff)

text \<open>When the host fails to create the transaction of a valid response, the node panics in both
  branches instead of reporting \<open>TxError\<close> to the user.\<close>

theorem create_failure_panics:
  assumes "lru_cache (lru N) cap" and "\<not> cache_borrowed s"
    and "case cached (lru N) (cache s) (tx_nonce resp) of None \<Rightarrow> True
           | Some w \<Rightarrow> \<not> is_reverted (status (get_value w)) \<and> tx_version (get_value w) \<le> tx_version resp"
    and "validate_receiver_and_sender_address (kryptos N) resp ''Receiver'' = Ok ()"
    and "create_tx_js H (increment_version (resp\<lparr>status := RecvAddrConfirmationPassed\<rparr>)) = None"
  shows "\<exists>s'. handle_swarm_message N H now (Inr (WasmResponse resp)) s = (Panic BorrowMutError, s')
    \<and> rpc_channel s' = rpc_channel s \<and> cache_borrowed s'"
proof -
  have wn: "wasm_node N cap" using assms(1) by (simp add: wasm_node_def)
  have n: "tx_nonce (increment_version (resp\<lparr>status := st\<rparr>)) = tx_nonce resp" for st
    by (simp add: increment_version_def)
  have "handle_swarm_message N H now (Inr (WasmResponse resp)) s =
      swarm_create_failed N now (increment_version (resp\<lparr>status := RecvAddrConfirmationPassed\<rparr>)) s"
    using assms(4,5)
    by (simp add: wasm_node.run_response [OF wn assms(2,3)] create_tx_def recv_confirmation_passed_def Let_def)
  then show ?thesis
    using assms(2) by (simp add: swarm_create_failed_def Let_def if_let_push_panics)
qed

theorem create_failure_panics_witness:
  "\<exists>s'. handle_swarm_message sample_node failing_host 5 (Inr (WasmResponse signed_tx)) (sample_state signed_tx)
     = (Panic BorrowMutError, s') \<and> cache_borrowed s'"
  using create_failure_panics [OF sample_lru, of "sample_state signed_tx" signed_tx failing_host 5]
  by (simp add: failing_host_def) blast

text \<open>After such a panic the node does not recover: with the cell borrowed, each of the three messages
  from the backend panics again, and so do the ends of the submission and of the revert handler,
  which store the transaction; the cell stays borrowed.\<close>

theorem poisoned_cell_stays:
  assumes "cache_borrowed s"
  shows "(\<exists>s'. handle_swarm_message N H now (Inr (WasmRequest req)) s = (Panic BorrowMutError, s') \<and> cache_borrowed s')
    \<and> (\<exists>s'. handle_swarm_message N H now (Inr (WasmResponse req)) s = (Panic BorrowError, s') \<and> cache_borrowed s')
    \<and> (\<exists>s'. handle_swarm_message N H now (Inr (SwarmPendingTransactionsFetched a txs)) s
          = (Panic BorrowMutError, s') \<and> cache_borrowed s')
    \<and> (\<exists>s'. store_after_submission N now req s = (Panic BorrowMutError, s') \<and> cache_borrowed s')
    \<and> (\<exists>s'. store_reverted N now req s = (Panic BorrowMutError, s') \<and> cache_borrowed s')"
  using assms
  by (simp add: swarm_wasm_request_def swarm_wasm_response_def swarm_pending_fetched_def
      store_after_submission_def if_let_get_mut_def store_reverted_def run_simps)

theorem poisoned_cell_stays_witness:
  "\<exists>s'. handle_swarm_message sample_node echo_host 5 (Inr (WasmRequest signed_tx))
      ((sample_state signed_tx)\<lparr>cache_borrowed := True\<rparr>) = (Panic BorrowMutError, s') \<and> cache_borrowed s'"
  using poisoned_cell_stays [of "(sample_state signed_tx)\<lparr>cache_borrowed := True\<rparr>" sample_node echo_host 5 signed_tx
      "[]" "[]"] by simp

text \<open>A fetch of pending transactions overwrites the cached entry unconditionally: a transaction
  that the sender has reverted locally, or that is newer than the backend's copy, takes the status
  and version of the backend's copy. (Responses are gated against both.)\<close>

theorem fetch_overwrites_cached:
  assumes "lru_cache (lru N) cap" and "\<not> cache_borrowed s" and "cache_ok (lru N) cap (cache s)"
    and "cached (lru N) (cache s) (tx_nonce tx) = Some w"
  shows "\<exists>s' w'. handle_swarm_message N H now (Inr (SwarmPendingTransactionsFetched a [tx])) s = (Ok (), s')
    \<and> cached (lru N) (cache s') (tx_nonce tx) = Some w'
    \<and> status (get_value w') = status tx \<and> tx_version (get_value w') = tx_version tx"
proof -
  have wn: "wasm_node N cap" using assms(1) by (simp add: wasm_node_def)
  show ?thesis
    using wasm_node.fetched_cached [OF wn assms(3), of now tx] assms(2,4)
    by (simp add: swarm_pending_fetched_def run_simps merge_call_payload_def)
qed

theorem fetch_overwrites_cached_witness:
  "\<exists>s' w'. handle_swarm_message sample_node echo_host 5 (Inr (SwarmPendingTransactionsFetched ''0xaa'' [signed_tx]))
      (sample_state (signed_tx\<lparr>status := Reverted ''no'', tx_version := 7\<rparr>)) = (Ok (), s')
    \<and> cached (lru sample_node) (cache s') 1 = Some w' \<and> status (get_value w') = SenderConfirmed
    \<and> tx_version (get_value w') = 0"
  using fetch_overwrites_cached [OF sample_lru, of "sample_state (signed_tx\<lparr>status := Reverted ''no'', tx_version := 7\<rparr>)"
      signed_tx _ echo_host 5 "''0xaa''"]
  by (simp add: cache_ok_def cache_capacity_def)

text \<open>Requests of different senders are told apart by their nonce only, and every sender counts
  from its own database: when a second request arrives with the nonce of the first, the receiver's
  cache holds the second alone, whatever its sender, although both were shown to the user.\<close>

theorem nonce_collision_overwrites:
  assumes "lru_cache (lru N) cap" and "\<not> cache_borrowed s" and "tx_nonce tx2 = tx_nonce tx1"
    and "length (rpc_channel s) + 2 \<le> rpc_capacity"
  shows "\<exists>s1 s2. handle_swarm_message N H now (Inr (WasmRequest tx1)) s = (Ok (), s1)
    \<and> handle_swarm_message N H later (Inr (WasmRequest tx2)) s1 = (Ok (), s2)
    \<and> rpc_channel s2 = rpc_channel s @ [tx1, tx2]
    \<and> cached (lru N) (cache s1) (tx_nonce tx1) = Some (ttl_new tx1 now)
    \<and> cached (lru N) (cache s2) (tx_nonce tx1) = Some (ttl_new tx2 later)"
  using assms
  by (simp add: swarm_wasm_request_def run_simps lru_cache.cached_push_same
      lru_cache.cached_push_same [OF assms(1), of "tx_nonce tx2", unfolded assms(3)])

theorem nonce_collision_overwrites_witness:
  "\<exists>s1 s2. handle_swarm_message sample_node echo_host 5 (Inr (WasmRequest signed_tx)) (sample_state signed_tx) = (Ok (), s1)
    \<and> handle_swarm_message sample_node echo_host 6 (Inr (WasmRequest (signed_tx\<lparr>sender_address := ''0xcc''\<rparr>))) s1 = (Ok (), s2)
    \<and> cached (lru sample_node) (cache s2) 1 = Some (ttl_new (signed_tx\<lparr>sender_address := ''0xcc''\<rparr>) 6)"
  using nonce_collision_overwrites [OF sample_lru, of "sample_state signed_tx" "signed_tx\<lparr>sender_address := ''0xcc''\<rparr>"
      signed_tx echo_host 5 6]
  by (auto simp: rpc_capacity_def)

end
