(* ===== verification/Wasm_Interface.thy ===== *)
theory Wasm_Interface
  imports Wasm_Main
begin

text \<open>
  \<open>PublicInterfaceWorker\<close> of \<open>node/wasm/src/interface.rs\<close>: what the application calls. It shares the
  node's state and keeps, besides, the integrity hashes of the transactions it has shown and the two
  watchers with their callbacks. A value that comes from JavaScript is an option, \<open>None\<close> when it does
  not convert; a callback is its number, and \<open>delivered\<close> and \<open>notified\<close> record the calls made. The
  SCALE encoding under the integrity hash is the argument \<open>integrity_encode\<close>.

  The wrappers of \<open>PublicInterfaceWorkerJs\<close> only convert their arguments and call these operations.
\<close>

section \<open>State\<close>

type_synonym integrity_data =
  "string \<times> string \<times> chain_supported \<times> chain_supported \<times> bytes \<times> token \<times> u128"

record ('c, 'd) iface_env =
  nenv :: "('c, 'd) node_env"
  integrity_encode :: "integrity_data \<Rightarrow> bytes"
  account :: string

record ('c, 'd) iface_state =
  node :: "('c, 'd) node_state"
  tx_integrity :: "(u32 \<times> bytes) list"
  watcher_active :: bool
  rpc_recv_borrowed :: bool
  tx_callbacks :: "nat list"
  delivered :: "(nat \<times> tx_state_machine) list"
  p2p_watcher_active :: bool
  notif_recv_borrowed :: bool
  p2p_callbacks :: "nat list"
  notified :: "(nat \<times> backend_event) list"

definition iface_new :: "('c, 'd) node_state \<Rightarrow> ('c, 'd) iface_state" where
  "iface_new n = \<lparr>node = n, tx_integrity = [], watcher_active = False, rpc_recv_borrowed = False,
     tx_callbacks = [], delivered = [], p2p_watcher_active = False, notif_recv_borrowed = False,
     p2p_callbacks = [], notified = []\<rparr>"

definition on_node :: "(('c, 'd) node_state, 'a) action \<Rightarrow> (('c, 'd) iface_state, 'a) action" where
  "on_node m = (\<lambda>s. (fst (m (node s)), s\<lparr>node := snd (m (node s))\<rparr>))"

definition conversion_error :: vane_error where
  "conversion_error = SerdeCustom ''failed to convert from JsValue''"

definition from_js :: "'a option \<Rightarrow> ('s, 'a) action" where
  "from_js v = (case v of Some x \<Rightarrow> ret x | None \<Rightarrow> raise conversion_error)"

definition send_update :: "tx_state_machine \<Rightarrow> (('c, 'd) iface_state, unit) action" where
  "send_update tx = on_node (modify (\<lambda>n. n\<lparr>user_updates := user_updates n @ [tx]\<rparr>))"

definition compute_tx_integrity_hash :: "('c, 'd) iface_env \<Rightarrow> tx_state_machine \<Rightarrow> bytes" where
  "compute_tx_integrity_hash I tx =
     blake2_256 (kryptos (nenv I)) (integrity_encode I
       (sender_address tx, receiver_address tx, sender_address_network tx, receiver_address_network tx,
        multi_id tx, tx_token tx, amount tx))"

definition record_integrity :: "('c, 'd) iface_env \<Rightarrow> tx_state_machine \<Rightarrow> (u32 \<times> bytes) list \<Rightarrow> (u32 \<times> bytes) list" where
  "record_integrity I tx m = AList.update (tx_nonce tx) (compute_tx_integrity_hash I tx) m"

section \<open>Initiating and confirming\<close>

definition initiate_transaction ::
    "('c, 'd) iface_env \<Rightarrow> u32 \<Rightarrow> string \<Rightarrow> string \<Rightarrow> u128 \<Rightarrow> token \<Rightarrow> string \<Rightarrow> chain_supported \<Rightarrow> chain_supported
       \<Rightarrow> (('c, 'd) iface_state, tx_state_machine) action" where
  "initiate_transaction I now sender receiver amt tok code sender_net receiver_net =
     and_then (lift_outcome (verify_public_bytes (kryptos (nenv I)) sender tok sender_net)) (\<lambda>_.
     and_then (lift_outcome (verify_public_bytes (kryptos (nenv I)) receiver tok receiver_net)) (\<lambda>_.
     and_then (lift_outcome (verify_route sender_net receiver_net)) (\<lambda>_.
     (let multi_addr = blake2_256 (kryptos (nenv I)) (as_bytes sender @ as_bytes receiver) in
      and_then (on_node (on_db (op_get_nonce (dbw (nenv I))))) (\<lambda>n.
      (let nonce = n + 1 in
       and_then (on_node (on_db (op_increment_nonce (dbw (nenv I))))) (\<lambda>_.
       (let tx = \<lparr>sender_address = sender, sender_public_key = None, receiver_address = receiver,
              receiver_public_key = None, multi_id = multi_addr, recv_signature = None, tx_token = tok,
              status = default_tx_status, code_word = code, amount = amt, fees_amount = 0,
              signed_call_payload = None, call_payload = None, inbound_req_id = None,
              outbound_req_id = None, tx_nonce = nonce, tx_version = 0,
              sender_address_network = sender_net, receiver_address_network = receiver_net\<rparr> in
        and_then (modify (\<lambda>s. s\<lparr>tx_integrity := record_integrity I tx (tx_integrity s)\<rparr>)) (\<lambda>_.
        and_then (send_update tx) (\<lambda>_.
        and_then (on_node (cache_push (nenv I) (tx_nonce tx) (ttl_new tx now))) (\<lambda>_.
        ret tx)))))))))))"

definition check_integrity :: "('c, 'd) iface_env \<Rightarrow> tx_state_machine \<Rightarrow> (('c, 'd) iface_state, unit) action" where
  "check_integrity I tx =
     and_then (gets (\<lambda>s. map_of (tx_integrity s) (tx_nonce tx))) (\<lambda>r.
     case r of
       None \<Rightarrow> raise FailedGetTransactionIntegrity
     | Some h \<Rightarrow> if compute_tx_integrity_hash I tx \<noteq> h then raise TransactionIntegrityFailed else ret ())"

definition is_submission_result :: "tx_status \<Rightarrow> bool" where
  "is_submission_result st = (case st of TxSubmissionPassed _ \<Rightarrow> True | FailedToSubmitTxn _ \<Rightarrow> True | _ \<Rightarrow> False)"

definition sender_confirm ::
    "('c, 'd) iface_env \<Rightarrow> tx_state_machine option \<Rightarrow> (('c, 'd) iface_state, unit) action" where
  "sender_confirm I js =
     and_then (from_js js) (\<lambda>tx.
     and_then (check_integrity I tx) (\<lambda>_.
     if is_reverted (status tx) then raise TransactionAlreadyReverted
     else if status tx = ReceiverNotRegistered then raise ReceiverNotRegisteredErr
     else if status tx = RecvAddrFailed then raise ReceiverAddressFailed
     else if signed_call_payload tx = None \<and> status tx \<noteq> RecvAddrConfirmationPassed
     then raise WaitForReceiverToConfirm
     else
       (let tx = (if \<not> is_submission_result (status tx) then sender_confirmation tx else tx);
            tx = increment_version tx in
        and_then (on_node (cache_get (nenv I) (tx_nonce tx))) (\<lambda>r.
        case r of
          None \<Rightarrow> raise FailedGetTransactionFromCache
        | Some w \<Rightarrow>
            and_then (on_node (cache_push (nenv I) (tx_nonce tx) (update_value tx w))) (\<lambda>_.
            send_update tx)))))"

definition receiver_confirm ::
    "('c, 'd) iface_env \<Rightarrow> tx_state_machine option \<Rightarrow> (('c, 'd) iface_state, unit) action" where
  "receiver_confirm I js =
     and_then (from_js js) (\<lambda>tx.
     if status tx \<noteq> Genesis then raise TransactionNotInInitialState
     else if is_reverted (status tx) then raise TransactionAlreadyReverted
     else if status tx = ReceiverNotRegistered then raise ReceiverNotRegisteredErr
     else if status tx = RecvAddrFailed then raise ReceiverAddressFailed
     else
       and_then (check_integrity I tx) (\<lambda>_.
       if recv_signature tx = None then raise ReceiverDidNotConfirm
       else
         and_then (on_node (with_borrow_mut (on_cache (\<lambda>c. ((), lru_demote (lru (nenv I)) (tx_nonce tx) c))))) (\<lambda>_.
         send_update (increment_version (recv_confirmed tx)))))"

definition revert_transaction ::
    "('c, 'd) iface_env \<Rightarrow> u32 \<Rightarrow> tx_state_machine option \<Rightarrow> string option \<Rightarrow> (('c, 'd) iface_state, unit) action" where
  "revert_transaction I now js reason =
     and_then (from_js js) (\<lambda>tx.
     if is_reverted (status tx) then
       and_then (on_node (cache_push (nenv I) (tx_nonce tx) (ttl_new tx 600))) (\<lambda>_.
       send_update tx)
     else
       (let tx = tx\<lparr>status := Reverted (case reason of Some r \<Rightarrow> r | None \<Rightarrow> ''Intended receiver not met'')\<rparr> in
        and_then (on_node (with_borrow_mut
          (on_cache (lru_get_mut (lru (nenv I)) (tx_nonce tx) (update_value tx))))) (\<lambda>r.
        and_then (on_node (case r of
            Some w \<Rightarrow> cache_push (nenv I) (tx_nonce tx) w
          | None \<Rightarrow> cache_push (nenv I) (tx_nonce tx) (ttl_new tx now))) (\<lambda>_.
        send_update tx))))"

section \<open>Reading and maintenance\<close>

definition peek_entries :: "('c, 'd) iface_env \<Rightarrow> (('c, 'd) iface_state, (u32 \<times> cache_entry) list) action" where
  "peek_entries I = on_node (\<lambda>n. if cache_borrowed n then (Panic BorrowError, n)
                               else (Ok (lru_iter (lru (nenv I)) (cache n)), n))"

definition pop_keys :: "('c, 'd) iface_env \<Rightarrow> u32 list \<Rightarrow> (('c, 'd) iface_state, unit) action" where
  "pop_keys I ks = on_node (with_borrow_mut (on_cache (\<lambda>c. ((), fold (lru_pop (lru (nenv I))) ks c))))"

text \<open>\<open>fetch_pending_tx_updates\<close> in its two halves: the request to the backend, and what follows the
  two-second wait, in which the answer may have reached the cache.\<close>

definition fetch_pending_request :: "('c, 'd) iface_env \<Rightarrow> (('c, 'd) iface_state, unit) action" where
  "fetch_pending_request I = on_node (send_command (FetchPendingTransactions (account I)))"

definition pending_time_to_live :: u32 where
  "pending_time_to_live = 60 * 40"

definition fetch_pending_collect ::
    "('c, 'd) iface_env \<Rightarrow> u32 \<Rightarrow> (('c, 'd) iface_state, tx_state_machine list) action" where
  "fetch_pending_collect I now =
     and_then (peek_entries I) (\<lambda>es.
     (let expired_keys = map fst (filter (\<lambda>(_, v). ttl_is_expired v now pending_time_to_live) es) in
      and_then (pop_keys I expired_keys) (\<lambda>_.
      and_then (peek_entries I) (\<lambda>live_entries.
      and_then (modify (\<lambda>s. s\<lparr>tx_integrity :=
          fold (\<lambda>(_, v). record_integrity I (get_value v)) live_entries (tx_integrity s)\<rparr>)) (\<lambda>_.
      ret (map (\<lambda>(_, v). get_value v) live_entries))))))"

definition iface_add_account ::
    "('c, 'd) iface_env \<Rightarrow> string \<Rightarrow> chain_supported \<Rightarrow> (('c, 'd) iface_state, unit) action" where
  "iface_add_account I acc net =
     and_then (on_node (on_db (op_update_user_account (dbw (nenv I)) acc net))) (\<lambda>_. ret ())"

definition ok_or :: "'a \<Rightarrow> vane_error + 'a \<Rightarrow> 'a" where
  "ok_or dflt r = (case r of Inr x \<Rightarrow> x | Inl _ \<Rightarrow> dflt)"

definition export_storage :: "'d db_ops \<Rightarrow> ('d, storage_export) action" where
  "export_storage D =
     and_then (attempt (op_get_user_account D)) (\<lambda>u.
     and_then (attempt (op_get_nonce D)) (\<lambda>n.
     and_then (attempt (op_get_success_txs D)) (\<lambda>ok.
     and_then (attempt (op_get_failed_txs D)) (\<lambda>bad.
     ret \<lparr>se_user_account = (case u of Inr x \<Rightarrow> Some x | Inl _ \<Rightarrow> None), se_nonce = ok_or 0 n,
          success_transactions = ok_or [] ok, failed_transactions = ok_or [] bad\<rparr>))))"

definition delete_tx_in_cache :: "('c, 'd) iface_env \<Rightarrow> tx_state_machine option \<Rightarrow> (('c, 'd) iface_state, unit) action" where
  "delete_tx_in_cache I js = and_then (from_js js) (\<lambda>tx. pop_keys I [tx_nonce tx])"

definition clear_reverted_from_cache :: "('c, 'd) iface_env \<Rightarrow> (('c, 'd) iface_state, unit) action" where
  "clear_reverted_from_cache I =
     and_then (peek_entries I) (\<lambda>es.
     pop_keys I (map fst (filter (\<lambda>(_, v). is_reverted (status (get_value v))) es)))"

definition is_finalized :: "tx_status \<Rightarrow> bool" where
  "is_finalized st = (case st of Reverted _ \<Rightarrow> True | TxSubmissionPassed _ \<Rightarrow> True | _ \<Rightarrow> False)"

definition clear_finalized_from_cache :: "('c, 'd) iface_env \<Rightarrow> (('c, 'd) iface_state, unit) action" where
  "clear_finalized_from_cache I =
     and_then (peek_entries I) (\<lambda>es.
     pop_keys I (map fst (filter (\<lambda>(_, v). is_finalized (status (get_value v))) es)))"

section \<open>Watchers\<close>

text \<open>A watcher is a task of its own. Starting it sets the flag and spawns the task; the task begins
  with \<open>borrow_mut\<close> on the receiver, which it holds as long as it runs, and it ends only when the
  channel closes. \<open>start_background_watcher\<close> returns whether a task was spawned.\<close>

definition start_background_watcher :: "(('c, 'd) iface_state, bool) action" where
  "start_background_watcher =
     and_then (gets watcher_active) (\<lambda>active.
     if active then ret False
     else and_then (modify (\<lambda>s. s\<lparr>watcher_active := True\<rparr>)) (\<lambda>_. ret True))"

definition watch_tx_updates :: "nat \<Rightarrow> (('c, 'd) iface_state, bool) action" where
  "watch_tx_updates callback =
     and_then (modify (\<lambda>s. s\<lparr>tx_callbacks := tx_callbacks s @ [callback]\<rparr>)) (\<lambda>_.
     and_then (gets watcher_active) (\<lambda>active.
     if \<not> active then start_background_watcher else ret False))"

definition watcher_begin :: "(('c, 'd) iface_state, unit) action" where
  "watcher_begin = (\<lambda>s. if rpc_recv_borrowed s then (Panic BorrowMutError, s)
     else (Ok (), s\<lparr>rpc_recv_borrowed := True\<rparr>))"

text \<open>One turn of the watcher's loop: the next update, if there is one.\<close>

definition watcher_turn :: "('c, 'd) iface_env \<Rightarrow> (('c, 'd) iface_state, unit) action" where
  "watcher_turn I = (\<lambda>s. case rpc_channel (node s) of
       [] \<Rightarrow> (Ok (), s)
     | tx # rest \<Rightarrow>
         (Ok (), s\<lparr>node := (node s)\<lparr>rpc_channel := rest\<rparr>,
            tx_integrity := record_integrity I tx (tx_integrity s),
            delivered := delivered s @ map (\<lambda>cb. (cb, tx)) (tx_callbacks s)\<rparr>))"

definition unsubscribe_watch_tx_updates :: "(('c, 'd) iface_state, unit) action" where
  "unsubscribe_watch_tx_updates = modify (\<lambda>s. s\<lparr>watcher_active := False, tx_callbacks := []\<rparr>)"

definition start_p2p_notifications_watcher :: "(('c, 'd) iface_state, bool) action" where
  "start_p2p_notifications_watcher =
     and_then (gets p2p_watcher_active) (\<lambda>active.
     if active then ret False
     else and_then (modify (\<lambda>s. s\<lparr>p2p_watcher_active := True\<rparr>)) (\<lambda>_. ret True))"

definition watch_p2p_notifications :: "nat \<Rightarrow> (('c, 'd) iface_state, bool) action" where
  "watch_p2p_notifications callback =
     and_then (modify (\<lambda>s. s\<lparr>p2p_callbacks := p2p_callbacks s @ [callback]\<rparr>)) (\<lambda>_.
     and_then (gets p2p_watcher_active) (\<lambda>active.
     if \<not> active then start_p2p_notifications_watcher else ret False))"

definition p2p_watcher_begin :: "(('c, 'd) iface_state, unit) action" where
  "p2p_watcher_begin = (\<lambda>s. if notif_recv_borrowed s then (Panic BorrowMutError, s)
     else (Ok (), s\<lparr>notif_recv_borrowed := True\<rparr>))"

definition p2p_watcher_turn :: "backend_event \<Rightarrow> (('c, 'd) iface_state, unit) action" where
  "p2p_watcher_turn ev = modify (\<lambda>s. s\<lparr>notified := notified s @ map (\<lambda>cb. (cb, ev)) (p2p_callbacks s)\<rparr>)"

definition unsubscribe_watch_p2p_notifications :: "(('c, 'd) iface_state, unit) action" where
  "unsubscribe_watch_p2p_notifications = modify (\<lambda>s. s\<lparr>p2p_watcher_active := False, p2p_callbacks := []\<rparr>)"

section \<open>Runs of a node\<close>

datatype iface_call =
    Initiate string string u128 token string chain_supported chain_supported
  | SenderConfirm "tx_state_machine option"
  | ReceiverConfirm "tx_state_machine option"
  | Revert "tx_state_machine option" "string option"
  | FetchRequest
  | FetchCollect
  | AddAccount string chain_supported
  | DeleteTx "tx_state_machine option"
  | ClearReverted
  | ClearFinalized
  | WatchTx nat
  | WatcherBegin
  | WatcherTurn
  | UnwatchTx
  | WatchP2p nat
  | P2pWatcherBegin
  | P2pWatcherTurn backend_event
  | UnwatchP2p
  | ExportStorage

definition discard :: "('s, 'a) action \<Rightarrow> ('s, unit) action" where
  "discard m = and_then m (\<lambda>_. ret ())"

fun run_iface_call ::
    "('c, 'd) iface_env \<Rightarrow> u32 \<Rightarrow> iface_call \<Rightarrow> (('c, 'd) iface_state, unit) action" where
  "run_iface_call I now (Initiate sn rc amt tok cw snet rnet) =
     discard (initiate_transaction I now sn rc amt tok cw snet rnet)"
| "run_iface_call I now (SenderConfirm js) = sender_confirm I js"
| "run_iface_call I now (ReceiverConfirm js) = receiver_confirm I js"
| "run_iface_call I now (Revert js r) = revert_transaction I now js r"
| "run_iface_call I now FetchRequest = fetch_pending_request I"
| "run_iface_call I now FetchCollect = discard (fetch_pending_collect I now)"
| "run_iface_call I now (AddAccount acc net) = iface_add_account I acc net"
| "run_iface_call I now (DeleteTx js) = delete_tx_in_cache I js"
| "run_iface_call I now ClearReverted = clear_reverted_from_cache I"
| "run_iface_call I now ClearFinalized = clear_finalized_from_cache I"
| "run_iface_call I now (WatchTx cb) = discard (watch_tx_updates cb)"
| "run_iface_call I now WatcherBegin = watcher_begin"
| "run_iface_call I now WatcherTurn = watcher_turn I"
| "run_iface_call I now UnwatchTx = unsubscribe_watch_tx_updates"
| "run_iface_call I now (WatchP2p cb) = discard (watch_p2p_notifications cb)"
| "run_iface_call I now P2pWatcherBegin = p2p_watcher_begin"
| "run_iface_call I now (P2pWatcherTurn ev) = p2p_watcher_turn ev"
| "run_iface_call I now UnwatchP2p = unsubscribe_watch_p2p_notifications"
| "run_iface_call I now ExportStorage = discard (on_node (on_db (export_storage (dbw (nenv I)))))"

text \<open>A node takes messages from the backend, updates from its own queue, and calls of the
  application, in any order, and its P2P worker takes commands; the host answers as it likes at each step.\<close>

inductive node_step :: "('c, 'd) iface_env \<Rightarrow> ('c, 'd) iface_state \<Rightarrow> ('c, 'd) iface_state \<Rightarrow> bool"
  for I :: "('c, 'd) iface_env" where
  swarm: "node_step I s (s\<lparr>node := snd (handle_swarm_message (nenv I) H now msg (node s))\<rparr>)"
| update: "user_updates (node s) = txn # rest \<Longrightarrow>
    node_step I s (s\<lparr>node := snd (handle_user_update (nenv I) H now txn ((node s)\<lparr>user_updates := rest\<rparr>))\<rparr>)"
| call: "node_step I s (snd (run_iface_call I now c s))"
| command: "p2p_commands (node s) = c # rest \<Longrightarrow>
    node_step I s (s\<lparr>node := (node s)\<lparr>p2p_commands := rest\<rparr>\<rparr>)"

inductive reachable_node :: "('c, 'd) iface_env \<Rightarrow> ('c, 'd) iface_state \<Rightarrow> bool"
  for I :: "('c, 'd) iface_env" where
  start: "lru_iter (lru (nenv I)) c = [] \<Longrightarrow> reachable_node I (iface_new (initial_state c d))"
| step: "reachable_node I s \<Longrightarrow> node_step I s s' \<Longrightarrow> reachable_node I s'"

inductive_cases node_stepE: "node_step I s s'"

lemma run_on_node [run_simps]: "on_node m s = (fst (m (node s)), s\<lparr>node := snd (m (node s))\<rparr>)"
  by (simp add: on_node_def)

lemma run_send_update [run_simps]:
  "send_update tx s = (Ok (), s\<lparr>node := (node s)\<lparr>user_updates := user_updates (node s) @ [tx]\<rparr>\<rparr>)"
  by (simp add: send_update_def run_simps)

lemma run_from_js [run_simps]: "from_js (Some x) s = (Ok x, s)" "from_js None s = (Err conversion_error, s)"
  by (simp_all add: from_js_def run_simps)

definition iface_ok :: "('c, 'd) iface_env \<Rightarrow> nat \<Rightarrow> ('c, 'd) iface_state \<Rightarrow> bool" where
  "iface_ok I cap s = node_ok (nenv I) cap (node s)"

locale wasm_iface = wasm_node "nenv I" cap for I :: "('c, 'd) iface_env" and cap
begin

abbreviation inv_ok :: "('c, 'd) iface_state \<Rightarrow> bool" where
  "inv_ok \<equiv> iface_ok I cap"

lemma inv_on_node [preserves_intros]: "keeps m \<Longrightarrow> preserves inv_ok (on_node m)"
  by (simp add: preserves_def iface_ok_def run_simps)

lemma inv_send_update [preserves_intros]: "preserves inv_ok (send_update tx)"
  by (simp add: preserves_def iface_ok_def run_simps)

lemma inv_from_js [preserves_intros]: "preserves inv_ok (from_js v)"
  by (cases v) (simp_all add: preserves_def run_simps)

lemma inv_fields [simp]: "inv_ok (s\<lparr>tx_integrity := m\<rparr>) = inv_ok s" "inv_ok (s\<lparr>watcher_active := b\<rparr>) = inv_ok s"
  "inv_ok (s\<lparr>tx_callbacks := cs\<rparr>) = inv_ok s" "inv_ok (s\<lparr>rpc_recv_borrowed := b\<rparr>) = inv_ok s"
  by (simp_all add: iface_ok_def)

lemma inv_peek_entries [preserves_intros]: "preserves inv_ok (peek_entries I)"
  by (simp add: preserves_def peek_entries_def run_simps iface_ok_def)

lemma cache_ok_pops: "cache_ok (lru (nenv I)) cap c \<Longrightarrow> cache_ok (lru (nenv I)) cap (fold (lru_pop (lru (nenv I))) ks c)"
  by (induction ks arbitrary: c) (simp_all add: cache_ok_pop)

lemma inv_pop_keys [preserves_intros]: "preserves inv_ok (pop_keys I ks)"
  unfolding pop_keys_def by (intro preserves_intros) (simp add: cache_ok_pops)

lemma inv_discard [preserves_intros]: "preserves inv_ok m \<Longrightarrow> preserves inv_ok (discard m)"
  unfolding discard_def by (intro preserves_intros)

lemma inv_check_integrity [preserves_intros]: "preserves inv_ok (check_integrity I tx)"
  by (auto simp: check_integrity_def intro!: preserves_intros)

lemma inv_initiate: "preserves inv_ok (initiate_transaction I now sn rc amt tok cw snet rnet)"
  by (auto simp: initiate_transaction_def intro!: preserves_intros)

lemma inv_sender_confirm: "preserves inv_ok (sender_confirm I js)"
  by (auto simp: sender_confirm_def intro!: preserves_intros)

lemma inv_receiver_confirm: "preserves inv_ok (receiver_confirm I js)"
  by (auto simp: receiver_confirm_def cache_ok_demote intro!: preserves_intros)

lemma inv_revert: "preserves inv_ok (revert_transaction I now js r)"
  by (auto simp: revert_transaction_def intro!: preserves_intros)

lemma inv_watchers:
  "preserves inv_ok (watch_tx_updates cb)" "preserves inv_ok watcher_begin" "preserves inv_ok (watcher_turn I)"
  "preserves inv_ok unsubscribe_watch_tx_updates"
  by (auto simp: watch_tx_updates_def start_background_watcher_def watcher_begin_def watcher_turn_def
      unsubscribe_watch_tx_updates_def preserves_def run_simps iface_ok_def split: list.splits)

lemma inv_p2p_watchers:
  "preserves inv_ok (watch_p2p_notifications cb)" "preserves inv_ok p2p_watcher_begin"
  "preserves inv_ok (p2p_watcher_turn ev)" "preserves inv_ok unsubscribe_watch_p2p_notifications"
  by (auto simp: watch_p2p_notifications_def start_p2p_notifications_watcher_def p2p_watcher_begin_def
      p2p_watcher_turn_def unsubscribe_watch_p2p_notifications_def preserves_def run_simps iface_ok_def)

lemma inv_run_iface_call: "preserves inv_ok (run_iface_call I now c)"
  by (cases c)
    (auto simp: inv_initiate inv_sender_confirm inv_receiver_confirm inv_revert inv_watchers inv_p2p_watchers
      fetch_pending_request_def fetch_pending_collect_def iface_add_account_def delete_tx_in_cache_def
      clear_reverted_from_cache_def clear_finalized_from_cache_def intro!: preserves_intros)

lemma inv_node_step: "node_step I s s' \<Longrightarrow> inv_ok s \<Longrightarrow> inv_ok s'"
  by (erule node_stepE)
    (use preservesD [OF keeps_handle_swarm_message] preservesD [OF keeps_user_update]
       preservesD [OF inv_run_iface_call] in \<open>auto simp: iface_ok_def\<close>)

lemma inv_reachable: "reachable_node I s \<Longrightarrow> inv_ok s"
proof (induction rule: reachable_node.induct)
  case (start c d)
  then show ?case by (simp add: iface_ok_def iface_new_def initial_state_def node_ok_def cache_ok_def)
next
  case (step s s')
  then show ?case using inv_node_step by blast
qed

end

section \<open>Properties of a node\<close>

definition sample_iface :: "(sample_cache, plain_encoding in_memory_db_worker) iface_env" where
  "sample_iface = \<lparr>nenv = sample_node, integrity_encode = (\<lambda>(a, b, _). as_bytes a @ as_bytes b), account = ''0xaa''\<rparr>"

lemma sample_iface_simps [simp]:
  "nenv sample_iface = sample_node" "account sample_iface = ''0xaa''"
  by (simp_all add: sample_iface_def)

interpretation list_iface: wasm_iface "\<lparr>nenv = list_node D K, integrity_encode = enc, account = acc\<rparr>" cache_capacity
  for D K enc acc
  unfolding wasm_iface_def using list_node.wasm_node_axioms by simp

text \<open>C1: in every run of a node, whatever the application, the backend and the host do, each
  transaction handed to the host for submission carries a signature of the receiver's address by the
  receiver's key and a signature of its call payload by the sender's key, and its multi id is the
  hash of the two addresses; and the cache never holds more than its capacity.\<close>

theorem submitted_only_verified:
  assumes "lru_cache (lru (nenv I)) cap" and "reachable_node I s"
  shows "length (lru_iter (lru (nenv I)) (cache (node s))) \<le> cap
    \<and> (\<forall>tx \<in> set (submitted (node s)).
        (\<exists>sig. recv_signature tx = Some sig
           \<and> signed_by (kryptos (nenv I)) (receiver_address_network tx) (receiver_address tx) sig
               (if receiver_address_network tx = Solana then as_bytes (receiver_address tx)
                else eip191_hash (kryptos (nenv I)) (as_bytes (receiver_address tx))))
      \<and> (\<exists>sig call. signed_call_payload tx = Some sig \<and> call_payload tx = Some call
           \<and> signed_by (kryptos (nenv I)) (sender_address_network tx) (sender_address tx) sig (signable_payload call))
      \<and> multi_id tx = blake2_256 (kryptos (nenv I)) (as_bytes (sender_address tx) @ as_bytes (receiver_address tx)))"
proof -
  have "wasm_iface I cap" using assms(1) by (simp add: wasm_iface_def wasm_node_def)
  from wasm_iface.inv_reachable [OF this assms(2)] show ?thesis
    by (auto simp: iface_ok_def node_ok_def cache_ok_def verified_tx_def receiver_valid_iff sender_valid_iff
        validate_multi_id_def)
qed

lemma sample_reachable_node: "reachable_node sample_iface (iface_new (initial_state [] sample_db))"
  by (rule reachable_node.start) simp

definition confirmed_tx :: tx_state_machine where
  "confirmed_tx = signed_tx\<lparr>tx_version := 1\<rparr>"

lemma confirmed_tx_simps [simp]:
  "increment_version (sender_confirmation signed_tx) = confirmed_tx" "tx_nonce confirmed_tx = 1"
  "status confirmed_tx = SenderConfirmed"
  by (simp_all add: confirmed_tx_def increment_version_def sender_confirmation_def saturating_add_def)

lemma confirmed_verified: "verified_tx sample_crypto confirmed_tx"
  using signed_tx_verified
  by (simp add: verified_tx_def receiver_valid_iff sender_valid_iff validate_multi_id_def confirmed_tx_def
      sample_signatures)

text \<open>A run in which a signed transaction is received, shown, confirmed by the sender and submitted.\<close>

lemma sample_submission: "\<exists>s. reachable_node sample_iface s \<and> submitted (node s) = [confirmed_tx]"
proof -
  define s1 :: "(sample_cache, plain_encoding in_memory_db_worker) iface_state" where
    "s1 = iface_new ((initial_state [(1, ttl_new signed_tx 5)] sample_db)\<lparr>rpc_channel := [signed_tx]\<rparr>)"
  define s2 where "s2 = s1\<lparr>node := (node s1)\<lparr>rpc_channel := []\<rparr>,
    tx_integrity := [(1, compute_tx_integrity_hash sample_iface signed_tx)]\<rparr>"
  define s3 where "s3 = s2\<lparr>node := (node s2)\<lparr>cache := [(1, ttl_new confirmed_tx 5)], user_updates := [confirmed_tx]\<rparr>\<rparr>"
  have "node_step sample_iface (iface_new (initial_state [] sample_db)) s1"
    using node_step.swarm [of sample_iface "iface_new (initial_state [] sample_db)" echo_host 5 "Inr (WasmRequest signed_tx)"]
    by (simp add: s1_def iface_new_def initial_state_def swarm_wasm_request_def run_simps rpc_capacity_def
        to_front_def cache_capacity_def)
  moreover have "node_step sample_iface s1 s2"
    using node_step.call [of sample_iface s1 5 WatcherTurn]
    by (simp add: s1_def s2_def iface_new_def initial_state_def watcher_turn_def record_integrity_def)
  moreover have "node_step sample_iface s2 s3"
    using node_step.call [of sample_iface s2 5 "SenderConfirm (Some signed_tx)"]
    by (simp add: s1_def s2_def s3_def iface_new_def initial_state_def sender_confirm_def run_simps
        check_integrity_def is_submission_result_def Let_def to_front_def cache_capacity_def
        update_value_def ttl_new_def)
  moreover have "\<exists>s4. node_step sample_iface s3 s4 \<and> submitted (node s4) = [confirmed_tx]"
    using node_step.update [of s3 confirmed_tx "[]" sample_iface echo_host 5] confirmed_verified
    by (intro exI conjI, assumption?)
      (auto simp: s1_def s2_def s3_def iface_new_def initial_state_def handle_user_update_def
        handle_sender_confirmed_tx_state_def run_simps verified_tx_def submit_verified_def submission_result_def submit_tx_def echo_host_def
        Let_def store_after_submission_def if_let_get_mut_def with_borrow_mut_def on_cache_def to_front_def
        tx_submission_passed_def)
  ultimately show ?thesis
    by (meson reachable_node.step sample_reachable_node)
qed

theorem submitted_only_verified_witness:
  "\<exists>s. reachable_node sample_iface s \<and> submitted (node s) = [confirmed_tx]
     \<and> multi_id confirmed_tx = blake2_256 sample_crypto (as_bytes ''0xaa'' @ as_bytes ''0xbb'')"
proof -
  obtain s where s: "reachable_node sample_iface s" "submitted (node s) = [confirmed_tx]"
    using sample_submission by blast
  from submitted_only_verified [OF sample_lru [folded sample_iface_simps(1)] s(1)] s
  show ?thesis by (intro exI [of _ s]) (simp add: confirmed_tx_def)
qed

text \<open>C18: initiating a transaction succeeds exactly on the checked inputs: both addresses are accepted
  for the token on the given networks and the networks agree, hence equal the token's chain. Then the
  new transaction has status \<open>Genesis\<close>, the next nonce and the hash of the two addresses; it is
  queued for the main worker, cached with the current time, and its integrity hash is recorded. A
  failed check changes nothing.\<close>

theorem initiate_outcome:
  assumes "lru_cache (lru (nenv I)) cap" and "\<not> cache_borrowed (node s)"
    and "op_get_nonce (dbw (nenv I)) (db (node s)) = (Ok n, d)" and "op_increment_nonce (dbw (nenv I)) d = (Ok (), d')"
    and "run = initiate_transaction I now sn rc amt tok cw snet rnet s"
  shows "((\<exists>tx. fst run = Ok tx) \<longleftrightarrow> snet = rnet
           \<and> verify_public_bytes (kryptos (nenv I)) sn tok snet = Ok snet
           \<and> verify_public_bytes (kryptos (nenv I)) rc tok snet = Ok snet)
    \<and> (\<forall>e. fst run = Err e \<longrightarrow> snd run = s)
    \<and> (\<forall>tx. fst run = Ok tx \<longrightarrow>
         token_to_chain tok = snet
       \<and> tx_nonce tx = n + 1 \<and> status tx = Genesis \<and> amount tx = amt
       \<and> sender_address tx = sn \<and> receiver_address tx = rc \<and> validate_multi_id (kryptos (nenv I)) tx
       \<and> db (node (snd run)) = d' \<and> user_updates (node (snd run)) = user_updates (node s) @ [tx]
       \<and> cached (lru (nenv I)) (cache (node (snd run))) (n + 1) = Some (ttl_new tx now)
       \<and> map_of (tx_integrity (snd run)) (n + 1) = Some (compute_tx_integrity_hash I tx))"
proof (cases "verify_public_bytes (kryptos (nenv I)) sn tok snet")
  case (Ok a)
  note vs = this
  note n1 = verify_public_bytes_network [OF Ok]
  show ?thesis
  proof (cases "verify_public_bytes (kryptos (nenv I)) rc tok rnet")
    case (Ok b)
    note vr = this
    note n2 = verify_public_bytes_network [OF Ok]
    show ?thesis
    proof (cases "snet = rnet")
      case True
      then show ?thesis
        using assms vs vr n1 n2
        by (auto simp: initiate_transaction_def run_simps Let_def verify_route_def lru_cache.cached_push_same
            record_integrity_def compute_tx_integrity_hash_def validate_multi_id_def default_tx_status_def)
    next
      case False
      then show ?thesis
        using assms(5) vs vr by (simp add: initiate_transaction_def run_simps verify_route_def)
    qed
  qed (use assms(5) vs n1 in \<open>auto simp: initiate_transaction_def run_simps\<close>)
qed (use assms(5) in \<open>auto simp: initiate_transaction_def run_simps\<close>)
lemma sample_nonce:
  "op_get_nonce (in_memory_db_ops plain_codec) sample_db = (Ok 0, sample_db)"
  "fst (op_increment_nonce (in_memory_db_ops plain_codec) sample_db) = Ok ()"
  by (simp_all add: in_memory_db_ops_def mem_get_nonce_def mem_increment_nonce_def run_simps sample_db_def
      mem_initialize_db_client_def)

theorem initiate_outcome_witness:
  "\<exists>tx. fst (initiate_transaction sample_iface 5 ''0xaa'' ''0xbb'' 3 (TokEthereum EthETH) [] Ethereum Ethereum
       (iface_new (initial_state [] sample_db))) = Ok tx \<and> tx_nonce tx = 1"
proof -
  let ?s = "iface_new (initial_state [] sample_db) :: (sample_cache, plain_encoding in_memory_db_worker) iface_state"
  let ?d = "snd (op_increment_nonce (in_memory_db_ops plain_codec) sample_db)"
  have c: "parse_checksummed sample_crypto (to_checksum sample_crypto a) = Some a" for a
    by (rule sample_checksum)
  have v: "verify_public_bytes sample_crypto ''0xaa'' (TokEthereum EthETH) Ethereum = Ok Ethereum"
    "verify_public_bytes sample_crypto ''0xbb'' (TokEthereum EthETH) Ethereum = Ok Ethereum"
    by (simp_all add: verify_defs c) (simp_all add: sample_crypto_def as_bytes_chars)
  have d: "op_increment_nonce (dbw (nenv sample_iface)) sample_db = (Ok (), ?d)"
    using sample_nonce by (simp add: prod_eq_iff)
  show ?thesis
    using initiate_outcome [OF sample_lru [folded sample_iface_simps(1)] _ _ d refl, where s = ?s and n = 0 and now = 5
        and sn = "''0xaa''" and rc = "''0xbb''" and amt = 3 and tok = "TokEthereum EthETH" and cw = "[]"
        and snet = Ethereum and rnet = Ethereum] v sample_nonce(1)
    by (auto simp: iface_new_def initial_state_def)
qed

lemma check_integrity_Ok:
  "check_integrity I tx s = (Ok u, s') \<longleftrightarrow>
     map_of (tx_integrity s) (tx_nonce tx) = Some (compute_tx_integrity_hash I tx) \<and> s' = s"
  by (auto simp: check_integrity_def run_simps split: option.splits)

lemma confirm_queues:
  assumes "sender_confirm I (Some tx) s = (Ok (), s')"
  shows "\<exists>st v. user_updates (node s') = user_updates (node s) @ [tx\<lparr>status := st, tx_version := v\<rparr>]"
proof -
  obtain s1 where c: "check_integrity I tx s = (Ok (), s1)"
    using assms by (auto simp: sender_confirm_def run_simps split: prod.splits outcome.splits)
  then have s1: "s1 = s" by (simp add: check_integrity_Ok)
  define t where "t = increment_version (if \<not> is_submission_result (status tx) then sender_confirmation tx else tx)"
  have t: "\<exists>st v. t = tx\<lparr>status := st, tx_version := v\<rparr>"
    by (cases tx) (auto simp: t_def increment_version_def sender_confirmation_def)
  have nb: "\<not> cache_borrowed (node s)"
    using assms c s1
    by (auto simp: sender_confirm_def run_simps Let_def cache_get_def with_borrow_mut_def split: if_splits)
  have "user_updates (node s') = user_updates (node s) @ [t]"
    using assms c s1 nb
    by (auto simp: sender_confirm_def run_simps Let_def t_def split: if_splits option.splits)
  with t show ?thesis by auto
qed


lemma integrity_sample: "map_of (tx_integrity s) 1 = Some (compute_tx_integrity_hash sample_iface signed_tx) \<Longrightarrow>
  \<not> cache_borrowed (node s) \<Longrightarrow> cache (node s) = [(1, ttl_new signed_tx 0)] \<Longrightarrow>
  sender_confirm sample_iface (Some signed_tx) s = (Ok (), snd (sender_confirm sample_iface (Some signed_tx) s))"
  by (simp add: sender_confirm_def run_simps check_integrity_def is_submission_result_def Let_def)

definition shown_state :: "(sample_cache, plain_encoding in_memory_db_worker) iface_state" where
  "shown_state = (iface_new (sample_state signed_tx))\<lparr>tx_integrity :=
     [(1, compute_tx_integrity_hash sample_iface signed_tx)]\<rparr>"

lemma shown_state_simps [simp]:
  "node shown_state = sample_state signed_tx"
  "tx_integrity shown_state = [(1, compute_tx_integrity_hash sample_iface signed_tx)]"
  by (simp_all add: shown_state_def iface_new_def)


text \<open>The guard against confirming a reverted transaction looks at the caller's copy only. With an
  older copy, a transaction that is cached as reverted is confirmed all the same: the cached entry
  becomes \<open>SenderConfirmed\<close> and the confirmation is queued for submission.\<close>

theorem stale_confirmation_unreverts:
  assumes "lru_cache (lru (nenv I)) cap" and "\<not> cache_borrowed (node s)"
    and "map_of (tx_integrity s) (tx_nonce tx) = Some (compute_tx_integrity_hash I tx)"
    and "status tx = RecvAddrConfirmationPassed"
    and "cached (lru (nenv I)) (cache (node s)) (tx_nonce tx) = Some w" and "is_reverted (status (get_value w))"
  shows "\<exists>s' w'. sender_confirm I (Some tx) s = (Ok (), s')
    \<and> cached (lru (nenv I)) (cache (node s')) (tx_nonce tx) = Some w' \<and> status (get_value w') = SenderConfirmed
    \<and> (\<exists>t. user_updates (node s') = user_updates (node s) @ [t] \<and> status t = SenderConfirmed)"
  using assms
  by (simp add: sender_confirm_def run_simps check_integrity_def is_submission_result_def Let_def
      lru_cache.get_cached lru_cache.cached_push_same increment_version_def sender_confirmation_def)

theorem stale_confirmation_unreverts_witness:
  "\<exists>s' w'. sender_confirm sample_iface (Some (signed_tx\<lparr>status := RecvAddrConfirmationPassed\<rparr>))
      (shown_state\<lparr>node := sample_state (signed_tx\<lparr>status := Reverted ''no''\<rparr>)\<rparr>) = (Ok (), s')
    \<and> cached (lru sample_node) (cache (node s')) 1 = Some w' \<and> status (get_value w') = SenderConfirmed"
  using stale_confirmation_unreverts [OF sample_lru [folded sample_iface_simps(1)],
      of "shown_state\<lparr>node := sample_state (signed_tx\<lparr>status := Reverted ''no''\<rparr>)\<rparr>"
        "signed_tx\<lparr>status := RecvAddrConfirmationPassed\<rparr>" "ttl_new (signed_tx\<lparr>status := Reverted ''no''\<rparr>) 0"]
  by (simp add: compute_tx_integrity_hash_def) blast

lemma peeked_entries [run_simps]:
  "\<not> cache_borrowed (node s) \<Longrightarrow> peek_entries I s = (Ok (lru_iter (lru (nenv I)) (cache (node s))), s)"
  by (cases s) (simp add: peek_entries_def run_simps)

lemma run_pop_keys [run_simps]:
  "\<not> cache_borrowed (node s) \<Longrightarrow> pop_keys I ks s =
     (Ok (), s\<lparr>node := (node s)\<lparr>cache := fold (lru_pop (lru (nenv I))) ks (cache (node s))\<rparr>\<rparr>)"
  by (simp add: pop_keys_def run_simps)

context lru_cache
begin

lemma iter_pops: "lru_iter L (fold (lru_pop L) ks c) = fold AList.delete ks (lru_iter L c)"
  by (induction ks arbitrary: c) (simp_all add: iter_pop)

lemma iter_pops_matching:
  assumes "cache_ok L cap c"
  shows "lru_iter L (fold (lru_pop L) (map fst (filter P (lru_iter L c))) c) = filter (\<lambda>kv. \<not> P kv) (lru_iter L c)"
  using assms by (simp add: iter_pops cache_ok_def fold_delete_matching)

end



section \<open>Storage export and import\<close>

context db_worker_interface
begin

lemma apply_simulates:
  "simulates view good (apply_storage_export D x) (apply_storage_export spec_db_ops x)"
  unfolding apply_storage_export_def
  by (cases "se_user_account x") (auto intro!: simulates_and_then simulates_for_each op_simulations)

lemma export_simulates: "simulates view good (export_storage D) (export_storage spec_db_ops)"
  unfolding export_storage_def
  by (intro simulates_and_then simulates_attempt simulates_ret op_simulations)

text \<open>What a node exports after it has set its account and imported \<open>x\<close>.\<close>

lemma import_export_simulates:
  assumes "good s"
  shows "fst (and_then (op_set_user_account D u) (\<lambda>_. and_then (apply_storage_export D x) (\<lambda>_. export_storage D)) s)
    = fst (and_then (op_set_user_account spec_db_ops u)
        (\<lambda>_. and_then (apply_storage_export spec_db_ops x) (\<lambda>_. export_storage spec_db_ops)) (view s))"
proof -
  have "simulates view good
      (and_then (op_set_user_account D u) (\<lambda>_. and_then (apply_storage_export D x) (\<lambda>_. export_storage D)))
      (and_then (op_set_user_account spec_db_ops u)
        (\<lambda>_. and_then (apply_storage_export spec_db_ops x) (\<lambda>_. export_storage spec_db_ops)))"
    by (intro simulates_and_then set_user_account apply_simulates export_simulates)
  then show ?thesis using assms by (simp add: simulates_def)
qed

end

lemma spec_for_each_success:
  "\<exists>i. for_each (op_update_success_tx spec_db_ops) txs v = (Ok (), v\<lparr>v_success := v_success v @ txs, v_success_value := i\<rparr>)"
proof (induction txs arbitrary: v)
  case Nil
  show ?case by (cases v) (simp add: run_simps)
next
  case (Cons t txs)
  from Cons.IH [of "v\<lparr>v_success := v_success v @ [t], v_success_value := v_success_value v + ucast (db_amount t)\<rparr>"]
  show ?case by (auto simp: spec_db_ops_def spec_update_success_tx_def run_simps)
qed

lemma spec_for_each_failed:
  "\<exists>i. for_each (op_update_failed_tx spec_db_ops) txs v = (Ok (), v\<lparr>v_failed := v_failed v @ txs, v_failed_value := i\<rparr>)"
proof (induction txs arbitrary: v)
  case Nil
  show ?case by (cases v) (simp add: run_simps)
next
  case (Cons t txs)
  from Cons.IH [of "v\<lparr>v_failed := v_failed v @ [t], v_failed_value := v_failed_value v + ucast (db_amount t)\<rparr>"]
  show ?case by (auto simp: spec_db_ops_def spec_update_failed_tx_def run_simps)
qed

lemma spec_import_export:
  assumes "se_user_account x = Some u'"
  shows "fst (and_then (op_set_user_account spec_db_ops u)
     (\<lambda>_. and_then (apply_storage_export spec_db_ops x) (\<lambda>_. export_storage spec_db_ops)) empty_view) = Ok x"
proof -
  let ?v = "empty_view\<lparr>v_user := Some u', v_nonce := se_nonce x\<rparr>"
  obtain i where i: "for_each (op_update_success_tx spec_db_ops) (success_transactions x) ?v
      = (Ok (), ?v\<lparr>v_success := success_transactions x, v_success_value := i\<rparr>)"
    using spec_for_each_success [of "success_transactions x" ?v] by (auto simp: empty_view_def)
  obtain j where j: "for_each (op_update_failed_tx spec_db_ops) (failed_transactions x)
      (?v\<lparr>v_success := success_transactions x, v_success_value := i\<rparr>)
      = (Ok (), ?v\<lparr>v_success := success_transactions x, v_success_value := i,
          v_failed := failed_transactions x, v_failed_value := j\<rparr>)"
    using spec_for_each_failed [of "failed_transactions x" "?v\<lparr>v_success := success_transactions x, v_success_value := i\<rparr>"]
    by (auto simp: empty_view_def)
  have "and_then (op_set_user_account spec_db_ops u) (\<lambda>_. apply_storage_export spec_db_ops x) empty_view
      = (Ok (), ?v\<lparr>v_success := success_transactions x, v_success_value := i,
          v_failed := failed_transactions x, v_failed_value := j\<rparr>)"
    using i j assms
    by (simp add: apply_storage_export_def run_and_then)
      (simp add: spec_db_ops_def run_simps)
  then show ?thesis
    using assms
    by (simp add: run_and_then export_storage_def split: prod.splits outcome.splits)
      (auto simp: spec_db_ops_def spec_get_user_account_def run_simps ok_or_def)
qed

context scale_codec
begin

lemma mem_import_export:
  "se_user_account x = Some u' \<Longrightarrow>
   fst (and_then (op_set_user_account (in_memory_db_ops C) u)
     (\<lambda>_. and_then (apply_storage_export (in_memory_db_ops C) x) (\<lambda>_. export_storage (in_memory_db_ops C)))
     mem_initialize_db_client) = Ok x"
  using mem.import_export_simulates [OF good_fresh [of C], of u x] by (simp add: view_fresh spec_import_export)

end

lemma on_db_and_then: "and_then (on_db m) (\<lambda>x. on_db (f x)) = on_db (and_then m f)"
  by (rule ext) (simp add: run_simps split: prod.splits outcome.splits)

text \<open>C22: a node that starts on an empty database with an exported storage exports the same storage
  again: the account, the nonce and the two lists of transactions survive the round trip.\<close>

theorem storage_roundtrip:
  assumes "scale_codec C" and "dbw N = in_memory_db_ops C" and "se_user_account x = Some u"
  shows "fst (and_then (main_worker_new N relay acc net (Some x)) (\<lambda>_. on_db (export_storage (dbw N)))
           (initial_state c mem_initialize_db_client)) = Ok x"
  using scale_codec.mem_import_export [OF assms(1,3)]
  by (simp add: main_worker_new_def assms(2) and_then_assoc on_db_and_then run_on_db initial_state_def)

theorem storage_roundtrip_witness:
  "fst (and_then (main_worker_new sample_node ''ws://h'' ''0xaa'' ''Base'' (Some \<lparr>se_user_account = Some sample_user,
       se_nonce = 7, success_transactions = [sample_db_tx 5], failed_transactions = []\<rparr>))
     (\<lambda>_. on_db (export_storage (dbw sample_node))) (initial_state [] mem_initialize_db_client))
   = Ok \<lparr>se_user_account = Some sample_user, se_nonce = 7, success_transactions = [sample_db_tx 5],
       failed_transactions = []\<rparr>"
  by (rule storage_roundtrip [OF plain.scale_codec_axioms]) simp_all

end
