(* ===== verification/Wasm_Await.thy ===== *)
theory Wasm_Await
  imports Wasm_Interface
begin

text \<open>
  The interleaving of a node's handlers (\<open>node/wasm/src/lib.rs\<close>). A node has one thread; a handler gives it up
  where it awaits the JavaScript host, which is asked to create or to submit a transaction
  (\<open>create_tx\<close>, \<open>submit_tx\<close>). Each handler is therefore cut into the part before such a call and the part after its
  answer, and between the two parts the other tasks of the node and the calls of the application run.
  The awaits of the database and of the channels are taken to complete at once, as in \<open>Wasm_Main\<close>.

  What the parts share besides the state of the node is the \<open>RefCell\<close> around the transaction worker: it is
  mutably borrowed while the host is asked, and in the arms of the \<open>match\<close> on the answer to a submission; a handler
  that needs the worker in the meantime panics. The swarm task validates with a clone of the worker, outside of
  the cell.

  Shown: cut handlers that are not interleaved compute what the handlers of \<open>Wasm_Main\<close> compute; in every
  interleaving only verified transactions are submitted and the host is asked by one task at a time; and two
  things go wrong: a revert that arrives while a response waits for the host is overwritten, and a
  confirmation that arrives then panics.
\<close>

section \<open>The cell of the transaction worker\<close>

record ('c, 'd) cells =
  shared :: "('c, 'd) node_state"
  worker_borrowed :: bool

definition on_shared :: "(('c, 'd) node_state, 'a) action \<Rightarrow> (('c, 'd) cells, 'a) action" where
  "on_shared m = (\<lambda>s. (fst (m (shared s)), s\<lparr>shared := snd (m (shared s))\<rparr>))"

definition worker_borrow :: "(('c, 'd) cells, unit) action" where
  "worker_borrow = (\<lambda>s. (if worker_borrowed s then Panic BorrowError else Ok (), s))"

definition worker_borrow_mut :: "(('c, 'd) cells, unit) action" where
  "worker_borrow_mut = (\<lambda>s. if worker_borrowed s then (Panic BorrowMutError, s)
     else (Ok (), s\<lparr>worker_borrowed := True\<rparr>))"

definition worker_drop :: "(('c, 'd) cells, unit) action" where
  "worker_drop = modify (\<lambda>s. s\<lparr>worker_borrowed := False\<rparr>)"

text \<open>The borrow that is held for the extent of \<open>m\<close> ends when \<open>m\<close> returns, not when it panics.\<close>

definition holding :: "(('c, 'd) cells, 'a) action \<Rightarrow> (('c, 'd) cells, 'a) action" where
  "holding m = (\<lambda>s. case m s of
       (Panic p, s') \<Rightarrow> (Panic p, s')
     | (r, s') \<Rightarrow> (r, s'\<lparr>worker_borrowed := False\<rparr>))"

section \<open>Handlers cut at the calls of the host\<close>

text \<open>What a suspended handler waits for, with the transaction it keeps.\<close>

datatype host_call =
    CreateForResponse tx_state_machine
  | CreateForReceiver tx_state_machine
  | SubmitTx tx_state_machine

definition response_begin ::
    "('c, 'd) node_env \<Rightarrow> u32 \<Rightarrow> tx_state_machine \<Rightarrow> (('c, 'd) cells, host_call option) action" where
  "response_begin N now resp =
     and_then (on_shared (cache_peek N (tx_nonce resp))) (\<lambda>existing.
     if (case existing of Some w \<Rightarrow> is_reverted (status (get_value w)) | None \<Rightarrow> False) then ret None
     else if (case existing of Some w \<Rightarrow> tx_version resp < tx_version (get_value w) | None \<Rightarrow> False) then ret None
     else case validate_receiver_and_sender_address (kryptos N) resp ''Receiver'' of
       Ok _ \<Rightarrow> and_then worker_borrow_mut (\<lambda>_.
          ret (Some (CreateForResponse (increment_version (recv_confirmation_passed resp)))))
     | Err _ \<Rightarrow>
         (let resp = increment_version (recv_confirmation_failed resp) in
          and_then (on_shared (on_db (op_update_failed_tx (dbw N) (db_tx [] False resp)))) (\<lambda>_.
          and_then (on_shared (swarm_store_response N now resp)) (\<lambda>_. ret None)))
     | Panic p \<Rightarrow> panic p)"

fun swarm_begin ::
    "('c, 'd) node_env \<Rightarrow> u32 \<Rightarrow> string + swarm_message \<Rightarrow> (('c, 'd) cells, host_call option) action" where
  "swarm_begin N now (Inr (WasmRequest req)) = and_then (on_shared (swarm_wasm_request N now req)) (\<lambda>_. ret None)"
| "swarm_begin N now (Inr (WasmResponse resp)) = response_begin N now resp"
| "swarm_begin N now (Inr (SwarmPendingTransactionsFetched a txs)) =
     and_then (on_shared (swarm_pending_fetched N now txs)) (\<lambda>_. ret None)"
| "swarm_begin N now (Inr Libp2pMessage) = ret None"
| "swarm_begin N now (Inl e) = ret None"

definition recv_addr_confirmed_begin ::
    "('c, 'd) node_env \<Rightarrow> tx_state_machine \<Rightarrow> (('c, 'd) cells, host_call option) action" where
  "recv_addr_confirmed_begin N txn =
     and_then (on_shared (on_db (op_get_user_account (dbw N)))) (\<lambda>profile.
     if both_in_profile profile txn then
       and_then worker_borrow (\<lambda>_.
       case validate_receiver_and_sender_address (kryptos N) txn ''Receiver'' of
          Ok _ \<Rightarrow> and_then worker_borrow_mut (\<lambda>_.
            ret (Some (CreateForReceiver (increment_version (recv_confirmation_passed txn)))))
        | Err _ \<Rightarrow>
            (let txn = increment_version (recv_confirmation_failed txn) in
             and_then (on_shared (on_db (op_update_failed_tx (dbw N) (db_tx [] False txn)))) (\<lambda>_.
             and_then (on_shared (recv_store_local N txn)) (\<lambda>_. ret None)))
        | Panic p \<Rightarrow> panic p)
     else and_then (on_shared (modify (\<lambda>s. s\<lparr>p2p_commands := wasm_send_response txn (p2p_commands s)\<rparr>)))
       (\<lambda>_. ret None))"

text \<open>The call of the host is made before the handler waits: the transaction is submitted from then on.\<close>

definition sender_confirmed_begin ::
    "('c, 'd) node_env \<Rightarrow> u32 \<Rightarrow> tx_state_machine \<Rightarrow> (('c, 'd) cells, host_call option) action" where
  "sender_confirmed_begin N now txn =
     and_then (on_shared (on_db (op_get_user_account (dbw N)))) (\<lambda>_.
     case status txn of
       FailedToSubmitTxn _ \<Rightarrow>
         and_then (on_shared (on_db (op_update_failed_tx (dbw N) (db_tx [] False txn)))) (\<lambda>_.
         and_then (on_shared (store_submitted_outside N now txn)) (\<lambda>_. ret None))
     | TxSubmissionPassed h \<Rightarrow>
         and_then (on_shared (on_db (op_update_success_tx (dbw N) (db_tx h True txn)))) (\<lambda>_.
         and_then (on_shared (store_submitted_outside N now txn)) (\<lambda>_. ret None))
     | _ \<Rightarrow>
         and_then worker_borrow (\<lambda>_.
         and_then (lift_outcome (validate_receiver_and_sender_address (kryptos N) txn ''Receiver'')) (\<lambda>_.
         case validate_receiver_and_sender_address (kryptos N) txn ''Sender'' of
           Err _ \<Rightarrow> and_then (on_shared (sender_not_verified N now txn)) (\<lambda>_. ret None)
         | Panic p \<Rightarrow> panic p
         | Ok _ \<Rightarrow>
             if validate_multi_id (kryptos N) txn then
               and_then worker_borrow_mut (\<lambda>_.
               and_then (on_shared (modify (\<lambda>s. s\<lparr>submitted := submitted s @ [txn]\<rparr>))) (\<lambda>_.
               ret (Some (SubmitTx txn))))
             else and_then (on_shared (multi_id_mismatch N now txn)) (\<lambda>_. ret None))))"

definition user_begin ::
    "('c, 'd) node_env \<Rightarrow> u32 \<Rightarrow> tx_state_machine \<Rightarrow> (('c, 'd) cells, host_call option) action" where
  "user_begin N now txn = (case status txn of
       Genesis \<Rightarrow> and_then (on_shared (handle_genesis_tx_state N txn)) (\<lambda>_. ret None)
     | RecvAddrConfirmed \<Rightarrow> recv_addr_confirmed_begin N txn
     | NetConfirmed \<Rightarrow> panic (NotImplemented [])
     | SenderConfirmed \<Rightarrow> sender_confirmed_begin N now txn
     | FailedToSubmitTxn _ \<Rightarrow> sender_confirmed_begin N now txn
     | TxSubmissionPassed _ \<Rightarrow> sender_confirmed_begin N now txn
     | Reverted _ \<Rightarrow> and_then (on_shared (handle_reverted_tx_state N now txn)) (\<lambda>_. ret None)
     | _ \<Rightarrow> ret None)"

text \<open>After a created transaction the borrow ends with its arm, before the response is stored; a creation
  that failed and a submission are finished under the borrow.\<close>

fun resume ::
    "('c, 'd) node_env \<Rightarrow> js_host \<Rightarrow> u32 \<Rightarrow> host_call \<Rightarrow> (('c, 'd) cells, unit) action" where
  "resume N H now (CreateForResponse resp) = (case create_tx H resp of
       Ok resp' \<Rightarrow> and_then worker_drop (\<lambda>_. on_shared (swarm_store_response N now resp'))
     | Err _ \<Rightarrow> holding (on_shared (swarm_create_failed N now resp))
     | Panic p \<Rightarrow> panic p)"
| "resume N H now (CreateForReceiver txn) = (case create_tx H txn of
       Ok txn' \<Rightarrow> and_then worker_drop (\<lambda>_. on_shared (recv_store_local N txn'))
     | Err _ \<Rightarrow> holding (on_shared (recv_create_failed N txn))
     | Panic p \<Rightarrow> panic p)"
| "resume N H now (SubmitTx txn) = holding (on_shared (submission_result N H now txn))"

section \<open>Interleaved runs\<close>

record ('c, 'd) async_node =
  app_side :: "('c, 'd) iface_state"
  tx_worker_borrowed :: bool
  swarm_waits :: "host_call option"
  user_waits :: "host_call option"
  swarm_gone :: bool
  user_gone :: bool

definition async_new :: "('c, 'd) iface_state \<Rightarrow> ('c, 'd) async_node" where
  "async_new f = \<lparr>app_side = f, tx_worker_borrowed = False, swarm_waits = None, user_waits = None,
     swarm_gone = False, user_gone = False\<rparr>"

definition on_cells :: "(('c, 'd) cells, 'a) action \<Rightarrow> (('c, 'd) async_node, 'a) action" where
  "on_cells m = (\<lambda>a.
     case m \<lparr>shared = node (app_side a), worker_borrowed = tx_worker_borrowed a\<rparr> of
       (r, s) \<Rightarrow> (r, a\<lparr>app_side := (app_side a)\<lparr>node := shared s\<rparr>, tx_worker_borrowed := worker_borrowed s\<rparr>))"

text \<open>How a task goes on after a part of a handler. An error of a swarm message is logged and the loop goes on; an
  error of an update ends the loop over the updates; a panic ends either.\<close>

fun swarm_after :: "host_call option outcome \<times> ('c, 'd) async_node \<Rightarrow> ('c, 'd) async_node" where
  "swarm_after (Ok w, a) = a\<lparr>swarm_waits := w\<rparr>"
| "swarm_after (Err _, a) = a\<lparr>swarm_waits := None\<rparr>"
| "swarm_after (Panic _, a) = a\<lparr>swarm_waits := None, swarm_gone := True\<rparr>"

fun user_after :: "host_call option outcome \<times> ('c, 'd) async_node \<Rightarrow> ('c, 'd) async_node" where
  "user_after (Ok w, a) = a\<lparr>user_waits := w\<rparr>"
| "user_after (Err _, a) = a\<lparr>user_waits := None, user_gone := True\<rparr>"
| "user_after (Panic _, a) = a\<lparr>user_waits := None, user_gone := True\<rparr>"

definition finish ::
    "('c, 'd) node_env \<Rightarrow> js_host \<Rightarrow> u32 \<Rightarrow> host_call \<Rightarrow> (('c, 'd) cells, host_call option) action" where
  "finish N H now h = and_then (resume N H now h) (\<lambda>_. ret None)"

inductive async_step :: "('c, 'd) iface_env \<Rightarrow> ('c, 'd) async_node \<Rightarrow> ('c, 'd) async_node \<Rightarrow> bool"
  for I :: "('c, 'd) iface_env" where
  message: "\<not> swarm_gone a \<Longrightarrow> swarm_waits a = None \<Longrightarrow>
    async_step I a (swarm_after (on_cells (swarm_begin (nenv I) now msg) a))"
| message_answer: "swarm_waits a = Some h \<Longrightarrow>
    async_step I a (swarm_after (on_cells (finish (nenv I) H now h) a))"
| update: "\<not> user_gone a \<Longrightarrow> user_waits a = None \<Longrightarrow> user_updates (node (app_side a)) = txn # rest \<Longrightarrow>
    async_step I a (user_after (on_cells (user_begin (nenv I) now txn)
      (a\<lparr>app_side := (app_side a)\<lparr>node := (node (app_side a))\<lparr>user_updates := rest\<rparr>\<rparr>\<rparr>)))"
| update_answer: "user_waits a = Some h \<Longrightarrow>
    async_step I a (user_after (on_cells (finish (nenv I) H now h) a))"
| call: "async_step I a (a\<lparr>app_side := snd (run_iface_call I now c (app_side a))\<rparr>)"
| command: "p2p_commands (node (app_side a)) = c # rest \<Longrightarrow>
    async_step I a (a\<lparr>app_side := (app_side a)\<lparr>node := (node (app_side a))\<lparr>p2p_commands := rest\<rparr>\<rparr>\<rparr>)"

inductive reachable_async :: "('c, 'd) iface_env \<Rightarrow> ('c, 'd) async_node \<Rightarrow> bool" for I :: "('c, 'd) iface_env" where
  start: "lru_iter (lru (nenv I)) c = [] \<Longrightarrow> reachable_async I (async_new (iface_new (initial_state c d)))"
| step: "reachable_async I a \<Longrightarrow> async_step I a a' \<Longrightarrow> reachable_async I a'"

inductive_cases async_stepE: "async_step I a a'"

section \<open>Parts that are not interleaved\<close>

lemma run_on_shared [run_simps]: "on_shared m s = (fst (m (shared s)), s\<lparr>shared := snd (m (shared s))\<rparr>)"
  by (simp add: on_shared_def)

lemma run_worker [run_simps]:
  "worker_borrow s = (if worker_borrowed s then Panic BorrowError else Ok (), s)"
  "worker_borrow_mut s = (if worker_borrowed s then (Panic BorrowMutError, s) else (Ok (), s\<lparr>worker_borrowed := True\<rparr>))"
  "worker_drop s = (Ok (), s\<lparr>worker_borrowed := False\<rparr>)"
  by (simp_all add: worker_borrow_def worker_borrow_mut_def worker_drop_def run_simps)

text \<open>A part does what an action on the shared state does, the borrow aside: \<open>does m f\<close> when \<open>m\<close>, started
  with the worker free, ends as \<open>f\<close> does and frees the worker unless it panics.\<close>

definition does :: "(('c, 'd) cells, unit) action \<Rightarrow> (('c, 'd) node_state, unit) action \<Rightarrow> bool" where
  "does m f \<longleftrightarrow> (\<forall>s. \<not> worker_borrowed s \<longrightarrow>
     fst (m s) = fst (f (shared s)) \<and> shared (snd (m s)) = snd (f (shared s))
     \<and> ((\<forall>p. fst (m s) \<noteq> Panic p) \<longrightarrow> \<not> worker_borrowed (snd (m s))))"

definition run_to_end ::
    "('c, 'd) node_env \<Rightarrow> js_host \<Rightarrow> u32 \<Rightarrow> (('c, 'd) cells, host_call option) action \<Rightarrow> (('c, 'd) cells, unit) action" where
  "run_to_end N H now m = and_then m (\<lambda>w. case w of None \<Rightarrow> ret () | Some h \<Rightarrow> resume N H now h)"

named_theorems does_intros \<open>parts of a handler that do what the handler does\<close>

lemma does_shared [does_intros]: "does (run_to_end N H now (and_then (on_shared f) (\<lambda>_. ret None))) f"
  by (simp add: does_def run_to_end_def run_simps split: prod.split outcome.split)

lemma does_ret [does_intros]: "does (run_to_end N H now (ret None)) (ret ())"
  by (simp add: does_def run_to_end_def run_simps)

lemma does_panic [does_intros]: "does (run_to_end N H now (panic p)) (panic p)"
  by (simp add: does_def run_to_end_def run_simps)

lemma does_then [does_intros]:
  fixes m :: "(('c, 'd) node_state, 'x) action"
  assumes "\<And>x. does (run_to_end N H now (g x)) (f x)"
  shows "does (run_to_end N H now (and_then (on_shared m) g)) (and_then m f)"
  unfolding does_def
proof (intro allI impI)
  fix s :: "('c, 'd) cells" assume s: "\<not> worker_borrowed s"
  obtain r n where m: "m (shared s) = (r, n)" by (cases "m (shared s)")
  show "fst (run_to_end N H now (and_then (on_shared m) g) s) = fst (and_then m f (shared s))
    \<and> shared (snd (run_to_end N H now (and_then (on_shared m) g) s)) = snd (and_then m f (shared s))
    \<and> ((\<forall>p. fst (run_to_end N H now (and_then (on_shared m) g) s) \<noteq> Panic p)
       \<longrightarrow> \<not> worker_borrowed (snd (run_to_end N H now (and_then (on_shared m) g) s)))"
  proof (cases r)
    case (Ok x)
    from assms [of x, unfolded does_def, rule_format, of "s\<lparr>shared := n\<rparr>"] s m Ok
    show ?thesis by (simp add: run_to_end_def run_simps)
  qed (use s m in \<open>simp_all add: run_to_end_def run_simps\<close>)
qed

lemma does_free [does_intros]:
  "does (run_to_end N H now m) f \<Longrightarrow> does (run_to_end N H now (and_then worker_borrow (\<lambda>_. m))) f"
  by (simp add: does_def run_to_end_def run_simps)

lemma does_lift [does_intros]:
  "(\<And>x. does (run_to_end N H now (g x)) (f x)) \<Longrightarrow>
   does (run_to_end N H now (and_then (lift_outcome r) g)) (and_then (lift_outcome r) f)"
  by (cases r) (simp_all add: does_def run_to_end_def run_simps)

lemma does_created [does_intros]:
  "does (run_to_end N H now (and_then worker_borrow_mut (\<lambda>_. ret (Some (CreateForResponse tx)))))
     (case create_tx H tx of Ok tx' \<Rightarrow> swarm_store_response N now tx' | Err _ \<Rightarrow> swarm_create_failed N now tx
      | Panic p \<Rightarrow> panic p)"
  "does (run_to_end N H now (and_then worker_borrow_mut (\<lambda>_. ret (Some (CreateForReceiver tx)))))
     (case create_tx H tx of Ok tx' \<Rightarrow> recv_store_local N tx' | Err _ \<Rightarrow> recv_create_failed N tx | Panic p \<Rightarrow> panic p)"
  by (simp_all add: does_def run_to_end_def run_simps holding_def split: outcome.split prod.split)

lemma does_submit [does_intros]:
  "does (run_to_end N H now (and_then worker_borrow_mut (\<lambda>_.
      and_then (on_shared (modify (\<lambda>s. s\<lparr>submitted := submitted s @ [tx]\<rparr>))) (\<lambda>_. ret (Some (SubmitTx tx))))))
     (submit_verified N H now tx)"
  by (simp add: does_def run_to_end_def run_simps submit_verified_def holding_def split: outcome.split prod.split)

lemma does_if [does_intros]:
  "does (run_to_end N H now m) f \<Longrightarrow> does (run_to_end N H now m') f' \<Longrightarrow>
   does (run_to_end N H now (if b then m else m')) (if b then f else f')"
  by simp

lemma does_outcome [does_intros]:
  "(\<And>x. does (run_to_end N H now (g x)) (f x)) \<Longrightarrow> (\<And>e. does (run_to_end N H now (g' e)) (f' e)) \<Longrightarrow>
   (\<And>p. does (run_to_end N H now (g'' p)) (f'' p)) \<Longrightarrow>
   does (run_to_end N H now (case r of Ok x \<Rightarrow> g x | Err e \<Rightarrow> g' e | Panic p \<Rightarrow> g'' p))
     (case r of Ok x \<Rightarrow> f x | Err e \<Rightarrow> f' e | Panic p \<Rightarrow> f'' p)"
  by (cases r) simp_all

lemma does_response: "does (run_to_end N H now (response_begin N now resp)) (swarm_wasm_response N H now resp)"
  unfolding response_begin_def swarm_wasm_response_def Let_def by (intro does_intros)

lemma does_swarm: "does (run_to_end N H now (swarm_begin N now msg)) (handle_swarm_message N H now msg)"
proof (cases msg)
  case (Inr m)
  then show ?thesis by (cases m) (simp_all add: does_response does_intros)
qed (simp add: does_intros)

lemma does_recv_addr_confirmed:
  "does (run_to_end N H now (recv_addr_confirmed_begin N txn)) (handle_recv_addr_confirmed_tx_state N H txn)"
  unfolding recv_addr_confirmed_begin_def handle_recv_addr_confirmed_tx_state_def Let_def by (intro does_intros)

lemma does_sender_confirmed:
  "does (run_to_end N H now (sender_confirmed_begin N now txn)) (handle_sender_confirmed_tx_state N H now txn)"
  unfolding sender_confirmed_begin_def handle_sender_confirmed_tx_state_def
  by (rule does_then, cases "status txn") (simp_all add: does_intros)

lemma does_update: "does (run_to_end N H now (user_begin N now txn)) (handle_user_update N H now txn)"
  by (cases "status txn")
    (simp_all add: user_begin_def handle_user_update_def does_recv_addr_confirmed does_sender_confirmed does_intros)

section \<open>What every interleaving keeps\<close>

definition cells_ok :: "('c, 'd) node_env \<Rightarrow> nat \<Rightarrow> ('c, 'd) cells \<Rightarrow> bool" where
  "cells_ok N cap s = node_ok N cap (shared s)"

lemma preserves_on_shared [preserves_intros]:
  "preserves (node_ok N cap) m \<Longrightarrow> preserves (cells_ok N cap) (on_shared m)"
  by (simp add: preserves_def cells_ok_def run_simps)

lemma preserves_worker [preserves_intros]:
  "preserves (cells_ok N cap) worker_borrow" "preserves (cells_ok N cap) worker_borrow_mut"
  "preserves (cells_ok N cap) worker_drop"
  by (simp_all add: preserves_def cells_ok_def run_simps)

lemma preserves_holding [preserves_intros]:
  "preserves (cells_ok N cap) m \<Longrightarrow> preserves (cells_ok N cap) (holding m)"
  unfolding preserves_def holding_def cells_ok_def
  by (auto split: prod.splits outcome.splits)

context wasm_node
begin

abbreviation keeps_cells :: "(('c, 'd) cells, 'a) action \<Rightarrow> bool" where
  "keeps_cells \<equiv> preserves (cells_ok N cap)"

lemma keeps_swarm_parts [preserves_intros]:
  "keeps (swarm_store_response N now resp)" "keeps (swarm_create_failed N now resp)"
  "keeps (swarm_wasm_request N now resp)" "keeps (swarm_pending_fetched N now txs)"
  "keeps (recv_store_local N resp)" "keeps (recv_create_failed N resp)"
  by (auto simp: swarm_store_response_def swarm_create_failed_def swarm_wasm_request_def swarm_pending_fetched_def
      recv_store_local_def recv_create_failed_def cache_ok_fold_fetched intro!: preserves_intros)

lemma keeps_swarm_begin: "keeps_cells (swarm_begin N now msg)"
proof (cases msg)
  case (Inr m)
  then show ?thesis by (cases m) (auto simp: response_begin_def intro!: preserves_intros)
qed (simp add: preserves_intros)

lemma keeps_submit_begin:
  "verified_tx (kryptos N) txn \<Longrightarrow> keeps (modify (\<lambda>s. s\<lparr>submitted := submitted s @ [txn]\<rparr>))"
  by (auto simp: node_ok_def intro!: preserves_intros)

lemma keeps_sender_confirmed_begin: "keeps_cells (sender_confirmed_begin N now txn)"
proof -
  have "keeps_cells (and_then (lift_outcome (validate_receiver_and_sender_address (kryptos N) txn ''Receiver'')) (\<lambda>_.
      case validate_receiver_and_sender_address (kryptos N) txn ''Sender'' of
        Err _ \<Rightarrow> and_then (on_shared (sender_not_verified N now txn)) (\<lambda>_. ret None)
      | Panic p \<Rightarrow> panic p
      | Ok _ \<Rightarrow> if validate_multi_id (kryptos N) txn then
            and_then worker_borrow_mut (\<lambda>_.
            and_then (on_shared (modify (\<lambda>s. s\<lparr>submitted := submitted s @ [txn]\<rparr>))) (\<lambda>_. ret (Some (SubmitTx txn))))
          else and_then (on_shared (multi_id_mismatch N now txn)) (\<lambda>_. ret None)))" (is "keeps_cells (and_then ?v ?rest)")
  proof (cases "validate_receiver_and_sender_address (kryptos N) txn ''Receiver''")
    case (Ok u)
    have "keeps_cells (?rest u)"
      using Ok by (auto intro!: preserves_intros keeps_submit_begin simp: verified_tx_def)
    then show ?thesis by (intro preserves_and_then [OF preserves_lift_outcome])
  qed (simp_all add: preserves_def run_simps)
  then have "keeps_cells (and_then worker_borrow (\<lambda>_. and_then ?v ?rest))"
    by (rule preserves_and_then [OF preserves_worker(1)])
  then show ?thesis
    unfolding sender_confirmed_begin_def
    by (intro preserves_and_then [OF preserves_on_shared [OF preserves_on_db]], cases "status txn")
      (simp_all, (intro preserves_intros)+)
qed

lemma keeps_user_begin: "keeps_cells (user_begin N now txn)"
  by (cases "status txn")
    (auto simp: user_begin_def recv_addr_confirmed_begin_def keeps_genesis keeps_reverted keeps_sender_confirmed_begin
      intro!: preserves_intros)

lemma keeps_finish: "keeps_cells (finish N H now h)"
  unfolding finish_def by (cases h) (auto intro!: preserves_intros)

end

lemma swarm_after_side [simp]: "app_side (swarm_after (r, a)) = app_side a" "tx_worker_borrowed (swarm_after (r, a)) = tx_worker_borrowed a"
  "user_waits (swarm_after (r, a)) = user_waits a" "user_gone (swarm_after (r, a)) = user_gone a"
  by (cases r; simp)+

lemma user_after_side [simp]: "app_side (user_after (r, a)) = app_side a" "tx_worker_borrowed (user_after (r, a)) = tx_worker_borrowed a"
  "swarm_waits (user_after (r, a)) = swarm_waits a" "swarm_gone (user_after (r, a)) = swarm_gone a"
  by (cases r; simp)+

lemma on_cells_keeps:
  assumes "preserves (cells_ok N cap) m" and "node_ok N cap (node (app_side a))" and "on_cells m a = (r, a')"
  shows "node_ok N cap (node (app_side a'))"
  using assms preservesD [OF assms(1), of "\<lparr>shared = node (app_side a), worker_borrowed = tx_worker_borrowed a\<rparr>"]
  by (auto simp: on_cells_def cells_ok_def split: prod.splits)

context wasm_iface
begin

lemma async_step_ok: "async_step I a a' \<Longrightarrow> inv_ok (app_side a) \<Longrightarrow> inv_ok (app_side a')"
proof (induction rule: async_step.induct)
  case (message a now msg)
  then show ?case using on_cells_keeps [OF keeps_swarm_begin, of a now msg]
    by (cases "on_cells (swarm_begin (nenv I) now msg) a") (simp add: iface_ok_def)
next
  case (message_answer a h H now)
  then show ?case using on_cells_keeps [OF keeps_finish, of a H now h]
    by (cases "on_cells (finish (nenv I) H now h) a") (simp add: iface_ok_def)
next
  case (update a txn rest now)
  define b where "b = a\<lparr>app_side := (app_side a)\<lparr>node := (node (app_side a))\<lparr>user_updates := rest\<rparr>\<rparr>\<rparr>"
  have "node_ok (nenv I) cap (node (app_side b))" using update by (simp add: b_def iface_ok_def)
  then show ?case using on_cells_keeps [OF keeps_user_begin, of b now txn]
    by (cases "on_cells (user_begin (nenv I) now txn) b") (simp add: iface_ok_def flip: b_def)
next
  case (update_answer a h H now)
  then show ?case using on_cells_keeps [OF keeps_finish, of a H now h]
    by (cases "on_cells (finish (nenv I) H now h) a") (simp add: iface_ok_def)
qed (simp_all add: preservesD [OF inv_run_iface_call], simp add: iface_ok_def)

lemma async_reachable_ok: "reachable_async I a \<Longrightarrow> inv_ok (app_side a)"
proof (induction rule: reachable_async.induct)
  case (start c d)
  then show ?case by (simp add: async_new_def iface_ok_def iface_new_def initial_state_def node_ok_def cache_ok_def)
qed (rule async_step_ok)

end

section \<open>One task at a time asks the host\<close>

definition takes :: "(('c, 'd) cells, host_call option) action \<Rightarrow> bool" where
  "takes m \<longleftrightarrow> (\<forall>s. ((\<exists>h. fst (m s) = Ok (Some h)) \<longrightarrow> \<not> worker_borrowed s \<and> worker_borrowed (snd (m s)))
     \<and> ((\<forall>h. fst (m s) \<noteq> Ok (Some h)) \<longrightarrow> worker_borrowed (snd (m s)) = worker_borrowed s))"

named_theorems takes_intros \<open>parts that borrow the worker exactly when they wait\<close>

lemma takes_basic [takes_intros]: "takes (ret None)" "takes (panic p)"
  "takes (and_then worker_borrow_mut (\<lambda>_. ret (Some h)))"
  "takes (and_then worker_borrow_mut (\<lambda>_. and_then (on_shared (modify f)) (\<lambda>_. ret (Some h))))"
  by (simp_all add: takes_def run_simps)

lemma takes_then [takes_intros]:
  assumes "\<And>x. takes (g x)" shows "takes (and_then (on_shared m) g)"
proof -
  have g: "(\<exists>h. fst (g x (s\<lparr>shared := n\<rparr>)) = Ok (Some h)) \<Longrightarrow>
      \<not> worker_borrowed s \<and> worker_borrowed (snd (g x (s\<lparr>shared := n\<rparr>)))"
    "(\<forall>h. fst (g x (s\<lparr>shared := n\<rparr>)) \<noteq> Ok (Some h)) \<Longrightarrow>
      worker_borrowed (snd (g x (s\<lparr>shared := n\<rparr>))) = worker_borrowed s" for x s n
    using assms [of x, unfolded takes_def, THEN spec, of "s\<lparr>shared := n\<rparr>"] by simp_all
  show ?thesis
    unfolding takes_def run_and_then run_on_shared by (auto simp: g split: outcome.split dest: g(1) [OF exI])
qed

lemma takes_worker_borrow [takes_intros]: "takes m \<Longrightarrow> takes (and_then worker_borrow (\<lambda>_. m))"
  by (simp add: takes_def run_simps)

lemma takes_lift [takes_intros]: "(\<And>x. takes (g x)) \<Longrightarrow> takes (and_then (lift_outcome r) g)"
  by (cases r) (simp_all add: takes_def run_simps)

lemma takes_if [takes_intros]: "takes m \<Longrightarrow> takes m' \<Longrightarrow> takes (if b then m else m')"
  by simp

lemma takes_outcome [takes_intros]:
  "(\<And>x. takes (g x)) \<Longrightarrow> (\<And>e. takes (g' e)) \<Longrightarrow> (\<And>p. takes (g'' p)) \<Longrightarrow>
   takes (case r of Ok x \<Rightarrow> g x | Err e \<Rightarrow> g' e | Panic p \<Rightarrow> g'' p)"
  by (cases r) simp_all

lemma takes_swarm: "takes (swarm_begin N now msg)"
proof (cases msg)
  case (Inr m)
  then show ?thesis by (cases m) (simp_all add: response_begin_def Let_def takes_intros)
qed (simp add: takes_intros)

lemma takes_user: "takes (user_begin N now txn)"
  by (cases "status txn")
    (simp_all add: user_begin_def recv_addr_confirmed_begin_def sender_confirmed_begin_def Let_def takes_intros)

lemma finish_frees:
  "fst (finish N H now h s) \<noteq> Ok (Some h')"
  "(\<forall>p. fst (finish N H now h s) \<noteq> Panic p) \<Longrightarrow> \<not> worker_borrowed (snd (finish N H now h s))"
  by (cases h,
      auto simp: finish_def run_simps holding_def create_tx_def split: outcome.splits option.splits prod.splits)+

definition exclusive :: "('c, 'd) async_node \<Rightarrow> bool" where
  "exclusive a \<longleftrightarrow> (swarm_waits a \<noteq> None \<or> user_waits a \<noteq> None \<longrightarrow> tx_worker_borrowed a)
     \<and> (swarm_waits a = None \<or> user_waits a = None)
     \<and> (tx_worker_borrowed a \<longrightarrow> swarm_waits a \<noteq> None \<or> user_waits a \<noteq> None \<or> swarm_gone a \<or> user_gone a)"

lemma exclusive_part:
  assumes "takes m" and "exclusive a"
  shows "swarm_waits a = None \<Longrightarrow> exclusive (swarm_after (on_cells m a))"
    and "user_waits a = None \<Longrightarrow> exclusive (user_after (on_cells m a))"
proof -
  obtain r s where m: "m \<lparr>shared = node (app_side a), worker_borrowed = tx_worker_borrowed a\<rparr> = (r, s)"
    by (metis surj_pair)
  then have c: "on_cells m a = (r, a\<lparr>app_side := (app_side a)\<lparr>node := shared s\<rparr>, tx_worker_borrowed := worker_borrowed s\<rparr>)"
    by (simp add: on_cells_def)
  have t: "(\<exists>h. r = Ok (Some h)) \<longrightarrow> \<not> tx_worker_borrowed a \<and> worker_borrowed s"
    "(\<forall>h. r \<noteq> Ok (Some h)) \<longrightarrow> worker_borrowed s = tx_worker_borrowed a"
    using assms(1) m unfolding takes_def by (metis fst_conv snd_conv cells.select_convs(2))+
  show "swarm_waits a = None \<Longrightarrow> exclusive (swarm_after (on_cells m a))"
    using assms(2) t by (cases r) (auto simp: c exclusive_def)
  show "user_waits a = None \<Longrightarrow> exclusive (user_after (on_cells m a))"
    using assms(2) t by (cases r) (auto simp: c exclusive_def)
qed

lemma exclusive_finish:
  assumes "exclusive a"
  shows "swarm_waits a = Some h \<Longrightarrow> exclusive (swarm_after (on_cells (finish N H now h) a))"
    and "user_waits a = Some h \<Longrightarrow> exclusive (user_after (on_cells (finish N H now h) a))"
proof -
  obtain r s where m: "finish N H now h \<lparr>shared = node (app_side a), worker_borrowed = tx_worker_borrowed a\<rparr> = (r, s)"
    by (metis surj_pair)
  then have c: "on_cells (finish N H now h) a =
      (r, a\<lparr>app_side := (app_side a)\<lparr>node := shared s\<rparr>, tx_worker_borrowed := worker_borrowed s\<rparr>)"
    by (simp add: on_cells_def)
  have f: "r \<noteq> Ok (Some h')" "(\<forall>p. r \<noteq> Panic p) \<longrightarrow> \<not> worker_borrowed s" for h'
    using finish_frees [of N H now h "\<lparr>shared = node (app_side a), worker_borrowed = tx_worker_borrowed a\<rparr>"]
    by (simp_all add: m)
  have r: "r = Ok None \<or> (\<exists>e. r = Err e) \<or> (\<exists>p. r = Panic p)"
    using f(1) by (cases r) auto
  show "swarm_waits a = Some h \<Longrightarrow> exclusive (swarm_after (on_cells (finish N H now h) a))"
    using assms f(2) r by (auto simp: c exclusive_def)
  show "user_waits a = Some h \<Longrightarrow> exclusive (user_after (on_cells (finish N H now h) a))"
    using assms f(2) r by (auto simp: c exclusive_def)
qed

lemma exclusive_step: "async_step I a a' \<Longrightarrow> exclusive a \<Longrightarrow> exclusive a'"
proof (induction rule: async_step.induct)
  case (message a now msg)
  then show ?case by (intro exclusive_part(1) takes_swarm)
next
  case (message_answer a h H now)
  then show ?case by (intro exclusive_finish(1))
next
  case (update a txn rest now)
  then show ?case by (intro exclusive_part(2) takes_user) (simp_all add: exclusive_def)
next
  case (update_answer a h H now)
  then show ?case by (intro exclusive_finish(2))
qed (simp_all add: exclusive_def)

lemma exclusive_reachable: "reachable_async I a \<Longrightarrow> exclusive a"
  by (induction rule: reachable_async.induct) (simp add: async_new_def exclusive_def, rule exclusive_step)

section \<open>Theorems\<close>

text \<open>C13: a handler that is not interleaved does what the handler of \<open>Wasm_Main\<close> does. Started while the worker is free,
  its parts, run one after the other with the host's answer in between, give the same outcome and leave the node in
  the same state, and they free the worker unless they panic.\<close>

theorem uninterleaved_atomic:
  assumes "\<not> worker_borrowed s"
  shows "fst (run_to_end N H now (swarm_begin N now msg) s) = fst (handle_swarm_message N H now msg (shared s))
    \<and> shared (snd (run_to_end N H now (swarm_begin N now msg) s)) = snd (handle_swarm_message N H now msg (shared s))
    \<and> ((\<forall>p. fst (handle_swarm_message N H now msg (shared s)) \<noteq> Panic p)
        \<longrightarrow> \<not> worker_borrowed (snd (run_to_end N H now (swarm_begin N now msg) s)))
    \<and> fst (run_to_end N H now (user_begin N now txn) s) = fst (handle_user_update N H now txn (shared s))
    \<and> shared (snd (run_to_end N H now (user_begin N now txn) s)) = snd (handle_user_update N H now txn (shared s))
    \<and> ((\<forall>p. fst (handle_user_update N H now txn (shared s)) \<noteq> Panic p)
        \<longrightarrow> \<not> worker_borrowed (snd (run_to_end N H now (user_begin N now txn) s)))"
  using does_swarm [of N H now msg, unfolded does_def, rule_format, OF assms]
    does_update [of N H now txn, unfolded does_def, rule_format, OF assms] by simp

text \<open>C2: however the tasks of a node are interleaved at the calls of the host, whatever the application, the backend and the
  host do, every transaction handed to the host for submission carries the receiver's signature of its address and the
  sender's signature of its call payload, and its multi id is the hash of the two addresses; the cache stays within its
  capacity; and at most one task at a time has a call of the host open.\<close>

theorem interleaved_submitted_only_verified:
  assumes "lru_cache (lru (nenv I)) cap" and "reachable_async I a"
  shows "(\<forall>tx \<in> set (submitted (node (app_side a))).
        (\<exists>sig. recv_signature tx = Some sig
           \<and> signed_by (kryptos (nenv I)) (receiver_address_network tx) (receiver_address tx) sig
               (if receiver_address_network tx = Solana then as_bytes (receiver_address tx)
                else eip191_hash (kryptos (nenv I)) (as_bytes (receiver_address tx))))
      \<and> (\<exists>sig call. signed_call_payload tx = Some sig \<and> call_payload tx = Some call
           \<and> signed_by (kryptos (nenv I)) (sender_address_network tx) (sender_address tx) sig (signable_payload call))
      \<and> multi_id tx = blake2_256 (kryptos (nenv I)) (as_bytes (sender_address tx) @ as_bytes (receiver_address tx)))
    \<and> length (lru_iter (lru (nenv I)) (cache (node (app_side a)))) \<le> cap
    \<and> (swarm_waits a = None \<or> user_waits a = None)"
proof -
  have "wasm_iface I cap" using assms(1) by (simp add: wasm_iface_def wasm_node_def)
  from wasm_iface.async_reachable_ok [OF this assms(2)] exclusive_reachable [OF assms(2)] show ?thesis
    by (auto simp: iface_ok_def node_ok_def cache_ok_def verified_tx_def receiver_valid_iff sender_valid_iff
        validate_multi_id_def exclusive_def)
qed

text \<open>The gate of \<open>handle_swarm_message\<close> is passed before the host is asked and not again after its answer: a transaction
  that the user has reverted in between is stored over, announced to the user as confirmed by its receiver, and no
  longer reverted in the cache.\<close>

theorem revert_overwritten:
  assumes "lru_cache (lru N) cap" and "\<not> cache_borrowed (shared s)" and "cache_ok (lru N) cap (cache (shared s))"
    and "length (rpc_channel (shared s)) < rpc_capacity" and "create_tx_js H resp = Some resp'"
    and "cached (lru N) (cache (shared s)) (tx_nonce resp') = Some w" and "is_reverted (status (get_value w))"
  shows "\<exists>s'. resume N H now (CreateForResponse resp) s = (Ok (), s')
    \<and> cached (lru N) (cache (shared s')) (tx_nonce resp') = Some (update_value resp' w)
    \<and> rpc_channel (shared s') = rpc_channel (shared s) @ [resp']"
proof -
  have "wasm_node N cap" using assms(1) by (simp add: wasm_node_def)
  from wasm_node.store_response_present [OF this assms(2,3,4,6), of now] assms(5)
  show ?thesis by (auto simp: create_tx_def run_simps)
qed

text \<open>A confirmation of the sender that is taken up while a response waits for the host finds the worker
  borrowed: the handler panics, and the loop over the updates of the user is gone for good.\<close>

theorem confirmation_panics_while_host_asked:
  assumes "tx_worker_borrowed a" and "\<not> user_gone a" and "user_waits a = None"
    and "user_updates (node (app_side a)) = txn # rest" and "status txn = SenderConfirmed"
    and "op_get_user_account (dbw (nenv I)) (db (node (app_side a))) = (Ok profile, d)"
  shows "\<exists>a'. async_step I a a' \<and> user_gone a' \<and> submitted (node (app_side a')) = submitted (node (app_side a))"
proof -
  define b where "b = a\<lparr>app_side := (app_side a)\<lparr>node := (node (app_side a))\<lparr>user_updates := rest\<rparr>\<rparr>\<rparr>"
  have "async_step I a (user_after (on_cells (user_begin (nenv I) 0 txn) b))"
    unfolding b_def using assms(2,3,4) by (rule async_step.update)
  moreover have "\<exists>c. on_cells (user_begin (nenv I) 0 txn) b = (Panic BorrowError, c)
      \<and> submitted (node (app_side c)) = submitted (node (app_side a))"
    using assms(1,5,6) by (simp add: b_def on_cells_def user_begin_def sender_confirmed_begin_def run_simps)
  ultimately show ?thesis by auto
qed

section \<open>A run in which the revert is lost\<close>

definition passed_tx :: tx_state_machine where
  "passed_tx = increment_version (recv_confirmation_passed signed_tx)"

definition race0 :: "(sample_cache, plain_encoding in_memory_db_worker) async_node" where
  "race0 = async_new (iface_new (initial_state [] sample_db))"

definition race1 where
  "race1 = race0\<lparr>app_side := iface_new ((initial_state [(1, ttl_new signed_tx 5)] sample_db)\<lparr>rpc_channel := [signed_tx]\<rparr>)\<rparr>"

definition race2 where
  "race2 = race1\<lparr>tx_worker_borrowed := True, swarm_waits := Some (CreateForResponse passed_tx)\<rparr>"

definition reverted_tx :: tx_state_machine where
  "reverted_tx = signed_tx\<lparr>status := Reverted ''no''\<rparr>"

definition race3 where
  "race3 = race2\<lparr>app_side := iface_new ((initial_state [(1, ttl_new reverted_tx 5)] sample_db)
     \<lparr>rpc_channel := [signed_tx], user_updates := [reverted_tx]\<rparr>)\<rparr>"

lemmas race_defs = race0_def race1_def race2_def race3_def async_new_def iface_new_def initial_state_def

lemma race_steps:
  "async_step sample_iface race0 race1" "async_step sample_iface race1 race2" "async_step sample_iface race2 race3"
proof -
  show "async_step sample_iface race0 race1"
    using async_step.message [of race0 sample_iface 5 "Inr (WasmRequest signed_tx)"]
    by (simp add: race_defs on_cells_def run_simps swarm_wasm_request_def rpc_capacity_def to_front_def cache_capacity_def)
  show "async_step sample_iface race1 race2"
    using async_step.message [of race1 sample_iface 5 "Inr (WasmResponse signed_tx)"]
    by (simp add: race_defs on_cells_def run_simps response_begin_def passed_tx_def)
  show "async_step sample_iface race2 race3"
    using async_step.call [of sample_iface race2 5 "Revert (Some signed_tx) (Some ''no'')"]
    by (simp add: race_defs reverted_tx_def revert_transaction_def run_simps Let_def update_value_def ttl_new_def
        to_front_def cache_capacity_def)
qed

lemma race3_reachable: "reachable_async sample_iface race3"
  by (rule reachable_async.step [OF reachable_async.step [OF reachable_async.step [OF _ race_steps(1)] race_steps(2)] race_steps(3)])
    (simp add: race0_def reachable_async.start)

theorem revert_overwritten_witness:
  "\<exists>a. reachable_async sample_iface a \<and> swarm_waits a = None
     \<and> cached (lru sample_node) (cache (node (app_side race3))) 1 = Some (ttl_new reverted_tx 5)
     \<and> cached (lru sample_node) (cache (node (app_side a))) 1 = Some (update_value passed_tx (ttl_new reverted_tx 5))
     \<and> status passed_tx = RecvAddrConfirmationPassed"
proof -
  have cached: "cached (lru sample_node) (cache (node (app_side race3))) 1 = Some (ttl_new reverted_tx 5)"
    by (simp add: race_defs cached_def)
  have nonce: "tx_nonce passed_tx = 1" "status passed_tx = RecvAddrConfirmationPassed"
    by (simp_all add: passed_tx_def increment_version_def recv_confirmation_passed_def)
  define s where "s = \<lparr>shared = node (app_side race3), worker_borrowed = tx_worker_borrowed race3\<rparr>"
  obtain s' where s': "resume sample_node echo_host 5 (CreateForResponse passed_tx) s = (Ok (), s')"
    "cached (lru sample_node) (cache (shared s')) 1 = Some (update_value passed_tx (ttl_new reverted_tx 5))"
    using revert_overwritten [OF sample_lru, of s echo_host passed_tx passed_tx "ttl_new reverted_tx 5" 5] cached nonce
    by (auto simp: s_def race_defs rpc_capacity_def echo_host_def reverted_tx_def cache_ok_def cache_capacity_def)
  define a where "a = swarm_after (on_cells (finish sample_node echo_host 5 (CreateForResponse passed_tx)) race3)"
  have "async_step sample_iface race3 a"
    using async_step.message_answer [of race3 "CreateForResponse passed_tx" sample_iface echo_host 5]
    by (simp add: a_def race2_def race3_def)
  then have "reachable_async sample_iface a" by (rule reachable_async.step [OF race3_reachable])
  moreover have "a = race3\<lparr>app_side := (app_side race3)\<lparr>node := shared s'\<rparr>, tx_worker_borrowed := worker_borrowed s',
      swarm_waits := None\<rparr>"
    using s'(1) by (simp add: a_def on_cells_def finish_def run_simps s_def)
  ultimately show ?thesis using s'(2) cached nonce by (intro exI [of _ a]) simp
qed

text \<open>A run in which a signed transaction is confirmed and the host is asked to submit it.\<close>

definition conf2 where
  "conf2 = race1\<lparr>app_side := (app_side race1)\<lparr>node := (node (app_side race1))\<lparr>rpc_channel := []\<rparr>,
     tx_integrity := [(1, compute_tx_integrity_hash sample_iface signed_tx)]\<rparr>\<rparr>"

definition conf3 where
  "conf3 = conf2\<lparr>app_side := (app_side conf2)\<lparr>node := (node (app_side conf2))
     \<lparr>cache := [(1, ttl_new confirmed_tx 5)], user_updates := [confirmed_tx]\<rparr>\<rparr>\<rparr>"

definition conf4 where
  "conf4 = conf3\<lparr>app_side := (app_side conf3)\<lparr>node := (node (app_side conf3))
     \<lparr>user_updates := [], submitted := [confirmed_tx]\<rparr>\<rparr>, tx_worker_borrowed := True, user_waits := Some (SubmitTx confirmed_tx)\<rparr>"

lemma conf_steps:
  "async_step sample_iface race1 conf2" "async_step sample_iface conf2 conf3" "async_step sample_iface conf3 conf4"
proof -
  show "async_step sample_iface race1 conf2"
    using async_step.call [of sample_iface race1 5 WatcherTurn]
    by (simp add: race_defs conf2_def watcher_turn_def record_integrity_def)
  show "async_step sample_iface conf2 conf3"
    using async_step.call [of sample_iface conf2 5 "SenderConfirm (Some signed_tx)"]
    by (simp add: race_defs conf2_def conf3_def sender_confirm_def run_simps check_integrity_def is_submission_result_def
        Let_def to_front_def cache_capacity_def update_value_def ttl_new_def)
  show "async_step sample_iface conf3 conf4"
    using async_step.update [of conf3 confirmed_tx "[]" sample_iface 5] confirmed_verified
    by (simp add: race_defs conf2_def conf3_def conf4_def on_cells_def user_begin_def sender_confirmed_begin_def run_simps
        verified_tx_def)
qed

lemma conf4_reachable: "reachable_async sample_iface conf4"
  by (rule reachable_async.step [OF reachable_async.step [OF reachable_async.step [OF reachable_async.step
        [OF _ race_steps(1)] conf_steps(1)] conf_steps(2)] conf_steps(3)])
    (simp add: race0_def reachable_async.start)

theorem interleaved_submitted_only_verified_witness:
  "reachable_async sample_iface conf4 \<and> submitted (node (app_side conf4)) = [confirmed_tx]
     \<and> user_waits conf4 = Some (SubmitTx confirmed_tx) \<and> swarm_waits conf4 = None
     \<and> multi_id confirmed_tx = blake2_256 sample_crypto (as_bytes ''0xaa'' @ as_bytes ''0xbb'')"
  using interleaved_submitted_only_verified [OF sample_lru [folded sample_iface_simps(1)] conf4_reachable] conf4_reachable
  by (simp add: conf4_def confirmed_tx_def)

theorem uninterleaved_atomic_witness:
  "fst (run_to_end sample_node echo_host 5 (swarm_begin sample_node 5 (Inr (WasmResponse signed_tx)))
       \<lparr>shared = sample_state signed_tx, worker_borrowed = False\<rparr>)
     = fst (handle_swarm_message sample_node echo_host 5 (Inr (WasmResponse signed_tx)) (sample_state signed_tx))
   \<and> fst (swarm_begin sample_node 5 (Inr (WasmResponse signed_tx)) \<lparr>shared = sample_state signed_tx, worker_borrowed = False\<rparr>)
     = Ok (Some (CreateForResponse passed_tx))"
  using uninterleaved_atomic [of "\<lparr>shared = sample_state signed_tx, worker_borrowed = False\<rparr>" sample_node echo_host 5
      "Inr (WasmResponse signed_tx)" signed_tx]
  by (simp add: response_begin_def run_simps passed_tx_def)

theorem confirmation_panics_while_host_asked_witness:
  "\<exists>a'. async_step sample_iface (conf3\<lparr>tx_worker_borrowed := True, swarm_waits := Some (CreateForResponse passed_tx)\<rparr>) a'
     \<and> user_gone a'"
  using confirmation_panics_while_host_asked
    [of "conf3\<lparr>tx_worker_borrowed := True, swarm_waits := Some (CreateForResponse passed_tx)\<rparr>" confirmed_tx "[]"
      sample_iface sample_user sample_db]
  by (simp add: race_defs conf2_def conf3_def) blast

end
