(* ===== verification/Native_Codec.thy ===== *)
theory Native_Codec
  imports Vane_Prelude
begin

text \<open>
  \<open>GenericCodec\<close> of \<open>node/native/src/p2p.rs\<close>: a message on a substream is its length as an unsigned varint,
  followed by its bytes. The varint comes from the \<open>unsigned_varint\<close> crate and is an argument; the locale
  \<open>varint\<close> states what its documentation promises, and the interpretation at the end is the encoding that
  the crate implements (LEB128). A substream that is read is the list of its remaining bytes; one that is
  written is any state with a \<open>write_all\<close> and a \<open>close\<close> that may fail.

  Shown: what one side writes the other reads back, with nothing lost of what follows; a message over the
  limit, a truncated message and a missing response are told apart.
\<close>

section \<open>Substreams\<close>

datatype io_error_kind = InvalidInput | UnexpectedEof | OtherIo string

type_synonym 'a io_result = "io_error_kind + 'a"

datatype varint_read =
    VarintOk nat bytes
  | VarintEof
  | VarintError

record varint_codec =
  read_usize :: "bytes \<Rightarrow> varint_read"
  encode_usize :: "nat \<Rightarrow> bytes"

record 'w async_write =
  write_all :: "bytes \<Rightarrow> 'w \<Rightarrow> io_error_kind option \<times> 'w"
  close :: "'w \<Rightarrow> io_error_kind option \<times> 'w"

text \<open>\<open>AsyncReadExt::read_exact\<close>\<close>

definition read_exact :: "nat \<Rightarrow> bytes \<Rightarrow> (bytes \<times> bytes) io_result" where
  "read_exact n io = (if length io < n then Inl UnexpectedEof else Inr (take n io, drop n io))"

section \<open>The codec\<close>

record generic_codec =
  max_request_size :: u64
  max_response_size :: u64

definition generic_codec_default :: generic_codec where
  "generic_codec_default = \<lparr>max_request_size = - 1, max_response_size = - 1\<rparr>"

text \<open>\<open>usize::try_from(limit).unwrap_or(usize::MAX)\<close> is the limit itself on a 64-bit target.\<close>

definition read_request :: "varint_codec \<Rightarrow> generic_codec \<Rightarrow> bytes \<Rightarrow> (bytes \<times> bytes) io_result" where
  "read_request V c io = (case read_usize V io of
       VarintOk len rest \<Rightarrow>
         (if unat (max_request_size c) < len then Inl InvalidInput else read_exact len rest)
     | VarintEof \<Rightarrow> Inl InvalidInput
     | VarintError \<Rightarrow> Inl InvalidInput)"

text \<open>The outer result is a protocol error, which closes the connection; the inner one is the answer.\<close>

definition read_response ::
    "varint_codec \<Rightarrow> generic_codec \<Rightarrow> bytes \<Rightarrow> ((string + bytes) \<times> bytes) io_result" where
  "read_response V c io = (case read_usize V io of
       VarintOk len rest \<Rightarrow>
         (if unat (max_response_size c) < len then Inl InvalidInput
          else case read_exact len rest of
            Inl e \<Rightarrow> Inl e | Inr (buffer, rest') \<Rightarrow> Inr (Inr buffer, rest'))
     | VarintEof \<Rightarrow> Inr (Inl ''failed to get response length'', [])
     | VarintError \<Rightarrow> Inl InvalidInput)"

definition write_frame :: "varint_codec \<Rightarrow> 'w async_write \<Rightarrow> bytes \<Rightarrow> 'w \<Rightarrow> io_error_kind option \<times> 'w" where
  "write_frame V W msg w = (case write_all W (encode_usize V (length msg)) w of
       (Some e, w') \<Rightarrow> (Some e, w')
     | (None, w') \<Rightarrow> write_all W msg w')"

definition write_request :: "varint_codec \<Rightarrow> 'w async_write \<Rightarrow> bytes \<Rightarrow> 'w \<Rightarrow> io_error_kind option \<times> 'w" where
  "write_request V W req w = (case write_frame V W req w of
       (Some e, w') \<Rightarrow> (Some e, w') | (None, w') \<Rightarrow> close W w')"

definition write_response ::
    "varint_codec \<Rightarrow> 'w async_write \<Rightarrow> string + bytes \<Rightarrow> 'w \<Rightarrow> io_error_kind option \<times> 'w" where
  "write_response V W res w = (case res of
       Inr msg \<Rightarrow> (case write_frame V W msg w of
          (Some e, w') \<Rightarrow> (Some e, w') | (None, w') \<Rightarrow> close W w')
     | Inl _ \<Rightarrow> close W w)"

section \<open>Varints\<close>

locale varint =
  fixes V :: varint_codec
  assumes read_encode: "n < 2 ^ 64 \<Longrightarrow> read_usize V (encode_usize V n @ rest) = VarintOk n rest"
    and read_empty: "read_usize V [] = VarintEof"
begin

lemma request_roundtrip:
  assumes "length req < 2 ^ 64"
  shows "read_request V c (encode_usize V (length req) @ req @ rest) =
     (if unat (max_request_size c) < length req then Inl InvalidInput else Inr (req, rest))"
  by (simp add: read_request_def read_encode [OF assms] read_exact_def)

lemma response_roundtrip:
  assumes "length msg < 2 ^ 64"
  shows "read_response V c (encode_usize V (length msg) @ msg @ rest) =
     (if unat (max_response_size c) < length msg then Inl InvalidInput else Inr (Inr msg, rest))"
  by (simp add: read_response_def read_encode [OF assms] read_exact_def)

lemma truncated:
  assumes "length req < 2 ^ 64" "length part < length req" "length req \<le> unat (max_request_size c)"
  shows "read_request V c (encode_usize V (length req) @ part) = Inl UnexpectedEof"
  using assms(2,3) by (simp add: read_request_def read_encode [OF assms(1)] read_exact_def)

end

text \<open>A substream that keeps what is written to it.\<close>

locale appending =
  fixes W :: "'w async_write" and written :: "'w \<Rightarrow> bytes"
  assumes write_appends: "fst (write_all W bs w) = None \<Longrightarrow> written (snd (write_all W bs w)) = written w @ bs"
    and close_keeps: "written (snd (close W w)) = written w"
begin

lemma frame_written:
  assumes "fst (write_frame V W msg w) = None"
  shows "written (snd (write_frame V W msg w)) = written w @ encode_usize V (length msg) @ msg"
proof -
  obtain e w' where h: "write_all W (encode_usize V (length msg)) w = (e, w')" by fastforce
  with assms have e: "e = None" by (cases e) (simp_all add: write_frame_def)
  have "written w' = written w @ encode_usize V (length msg)"
    using write_appends [of "encode_usize V (length msg)" w] h e by simp
  with assms h e write_appends [of msg w'] show ?thesis by (simp add: write_frame_def)
qed

lemma request_written:
  assumes "fst (write_request V W req w) = None"
  shows "written (snd (write_request V W req w)) = written w @ encode_usize V (length req) @ req"
proof -
  obtain e w' where h: "write_frame V W req w = (e, w')" by fastforce
  with assms have "e = None" by (cases e) (simp_all add: write_request_def)
  with assms h frame_written [of V req w] close_keeps [of w'] show ?thesis
    by (simp add: write_request_def)
qed

lemma response_written:
  assumes "fst (write_response V W res w) = None"
  shows "written (snd (write_response V W res w)) = written w @
     (case res of Inr msg \<Rightarrow> encode_usize V (length msg) @ msg | Inl _ \<Rightarrow> [])"
proof (cases res)
  case (Inl e)
  then show ?thesis by (simp add: write_response_def close_keeps)
next
  case (Inr msg)
  obtain e w' where h: "write_frame V W msg w = (e, w')" by fastforce
  with assms Inr have "e = None" by (cases e) (simp_all add: write_response_def)
  with assms h Inr frame_written [of V msg w] close_keeps [of w'] show ?thesis
    by (simp add: write_response_def)
qed

end

section \<open>The encoding of the crate\<close>

text \<open>Seven bits per byte, least significant group first; a set top bit says that more follow. A 64-bit
  length has at most ten bytes.\<close>

fun leb128 :: "nat \<Rightarrow> bytes" where
  "leb128 n = (if n < 128 then [of_nat n] else of_nat (n mod 128 + 128) # leb128 (n div 128))"

declare leb128.simps [simp del]

fun read_leb128 :: "nat \<Rightarrow> bytes \<Rightarrow> varint_read" where
  "read_leb128 0 bs = VarintError"
| "read_leb128 (Suc k) [] = VarintEof"
| "read_leb128 (Suc k) (b # bs) =
     (if unat b < 128 then VarintOk (unat b) bs
      else case read_leb128 k bs of
        VarintOk n rest \<Rightarrow> VarintOk (unat b - 128 + 128 * n) rest
      | r \<Rightarrow> r)"

definition leb128_codec :: varint_codec where
  "leb128_codec = \<lparr>read_usize = read_leb128 10, encode_usize = leb128\<rparr>"

lemma read_leb128_leb128:
  "n < 128 ^ k \<Longrightarrow> 0 < k \<Longrightarrow> read_leb128 k (leb128 n @ rest) = VarintOk n rest"
proof (induction n arbitrary: k rule: leb128.induct)
  case (1 n)
  obtain j where k: "k = Suc j" using 1(3) by (cases k) auto
  show ?case
  proof (cases "n < 128")
    case True
    then show ?thesis by (subst leb128.simps) (simp add: k unat_of_nat)
  next
    case False
    have j: "0 < j" using False 1(2) k by (cases j) auto
    have byte: "unat (of_nat (n mod 128 + 128) :: u8) = n mod 128 + 128"
      by (subst unat_of_nat) (simp add: take_bit_nat_eq_self less_le_trans [of _ 256])
    have "n div 128 < 128 ^ j" using 1(2) k by (simp add: less_mult_imp_div_less mult.commute)
    from 1(1) [OF False this j]
    show ?thesis using False
      by (subst leb128.simps) (simp add: k byte del: of_nat_add)
  qed
qed

interpretation leb: varint leb128_codec
proof
  show "read_usize leb128_codec (encode_usize leb128_codec n @ rest) = VarintOk n rest"
    if "n < 2 ^ 64" for n rest
  proof -
    have "(2::nat) ^ 64 \<le> 128 ^ 10" by simp
    with that have "n < 128 ^ 10" by linarith
    then show ?thesis by (simp add: leb128_codec_def read_leb128_leb128)
  qed
  show "read_usize leb128_codec [] = VarintEof"
    by (simp add: leb128_codec_def numeral_eq_Suc)
qed

text \<open>A buffer with room for a number of bytes.\<close>

definition buffer_write :: "(bytes \<times> nat) async_write" where
  "buffer_write = \<lparr>write_all = (\<lambda>bs (b, room). if length bs \<le> room then (None, (b @ bs, room - length bs))
       else (Some (OtherIo ''full''), (b @ take room bs, 0))),
     close = (\<lambda>w. (None, w))\<rparr>"

interpretation buffer: appending buffer_write fst
  by unfold_locales (auto simp: buffer_write_def split: if_splits)

section \<open>Theorems\<close>

text \<open>C31: framing round trip: a request that was written without an I/O error to an empty substream is read
  back unchanged, and so is a response; what follows on the stream is left for the next read. A message over the
  reader's limit is refused, and a response that is an error travels as an empty substream, which the other side
  reads as an error answer, not as a broken connection.\<close>

theorem codec_roundtrip:
  assumes "varint V" "appending W written" "written w = []" "length msg < 2 ^ 64"
  shows "(fst (write_request V W msg w) = None \<longrightarrow>
      read_request V c (written (snd (write_request V W msg w)) @ rest) =
        (if unat (max_request_size c) < length msg then Inl InvalidInput else Inr (msg, rest)))
    \<and> (fst (write_response V W (Inr msg) w) = None \<longrightarrow>
      read_response V c (written (snd (write_response V W (Inr msg) w)) @ rest) =
        (if unat (max_response_size c) < length msg then Inl InvalidInput else Inr (Inr msg, rest)))
    \<and> (fst (write_response V W (Inl e) w) = None \<longrightarrow>
      read_response V c (written (snd (write_response V W (Inl e) w))) =
        Inr (Inl ''failed to get response length'', []))"
  using appending.request_written [OF assms(2), of V msg w]
    appending.response_written [OF assms(2), of V _ w]
    varint.request_roundtrip [OF assms(1,4)] varint.response_roundtrip [OF assms(1,4)]
    varint.read_empty [OF assms(1)] assms(3)
  by (simp add: read_response_def)

theorem codec_roundtrip_witness:
  "read_request leb128_codec generic_codec_default
      (fst (snd (write_request leb128_codec buffer_write (replicate 300 7) ([], 400))) @ [9, 9])
     = Inr (replicate 300 7, [9, 9])
   \<and> read_request leb128_codec \<lparr>max_request_size = 299, max_response_size = 0\<rparr>
      (fst (snd (write_request leb128_codec buffer_write (replicate 300 7) ([], 400))) @ [9, 9])
     = Inl InvalidInput"
proof -
  have len: "length (leb128 300) = 2" by (simp add: leb128.simps)
  have ok: "fst (write_request leb128_codec buffer_write (replicate 300 7) ([], 400)) = None"
    by (simp add: write_request_def write_frame_def buffer_write_def leb128_codec_def len)
  have "unat (max_request_size generic_codec_default) = 2 ^ 64 - 1"
    by (simp add: generic_codec_default_def unat_max_word)
  then show ?thesis
    using ok codec_roundtrip [OF leb.varint_axioms buffer.appending_axioms, of "([], 400)" "replicate 300 7"
        generic_codec_default "[9, 9]" "''e''"]
      codec_roundtrip [OF leb.varint_axioms buffer.appending_axioms, of "([], 400)" "replicate 300 7"
        "\<lparr>max_request_size = 299, max_response_size = 0\<rparr>" "[9, 9]" "''e''"]
    by simp
qed

end
