(* ===== verification/Native_P2p.thy ===== *)
theory Native_P2p
  imports Status_Json Native_Codec
begin

text \<open>
  \<open>P2pWorker\<close> and \<open>P2pNetworkService\<close> of \<open>node/native/src/p2p.rs\<close>: the swarm loop of the native node, which
  turns inbound requests and responses into messages for the main worker and commands into swarm actions.
  The libp2p swarm is a record of operations (\<open>native_swarm\<close>) on a state of its own; peer ids and multiaddresses
  are strings, and a response channel is known by a number. \<open>get_hash_id\<close> hashes a request id with
  \<open>XxHash64\<close>; the hash is an argument. A bounded \<open>mpsc\<close> channel is the list of the values in it; a
  send that has to wait is not distinguished from one that succeeds, and a send fails only when the receiver
  is gone.

  Shown: a response travels on the channel of the request with its id, and on no other; the loop stops at
  the first dial that the swarm refuses; closing a connection never reaches the swarm.
\<close>

section \<open>Messages and commands\<close>

datatype native_swarm_message =
    SwarmRequest bytes nat
  | SwarmResponse bytes nat

datatype native_command =
    SendResponse bytes nat
  | SendRequest bytes string string
  | Dial string string
  | Close string

record 's native_swarm =
  sw_listen_on :: "string \<Rightarrow> 's \<Rightarrow> string option \<times> 's"
  sw_is_connected :: "string \<Rightarrow> 's \<Rightarrow> bool"
  sw_dial :: "string \<Rightarrow> 's \<Rightarrow> string option \<times> 's"
  sw_send_request :: "string \<Rightarrow> bytes \<Rightarrow> 's \<Rightarrow> 's"
  sw_send_response :: "nat \<Rightarrow> bytes \<Rightarrow> 's \<Rightarrow> bool \<times> 's"
  sw_disconnect :: "string \<Rightarrow> 's \<Rightarrow> 's"
  sw_channel_open :: "nat \<Rightarrow> 's \<Rightarrow> bool"

record native_worker =
  nw_node_id :: string
  nw_url :: string
  nw_pending_request :: "(u64 \<times> nat) list"
  nw_messages :: "native_swarm_message list"

section \<open>Start-up\<close>

record account_info =
  ai_account :: string
  ai_network :: chain_supported

record redis_account_profile =
  rap_accounts :: "account_info list"
  rap_multi_addr :: string
  rap_peer_id :: string
  rap_rpc :: string

record peer_record =
  pr_peer_id :: "string option"
  pr_accounts :: "account_info list"
  pr_multi_addr :: "string option"
  pr_keypair :: "bytes option"

datatype native_error =
    LocalIpFailed string
  | RedisFailed string
  | KeypairEncode
  | KeypairDecode
  | DbFailed string
  | MultiAddrParse string
  | PeerIdParse string
  | SwarmBuild string

text \<open>The outside world of \<open>P2pWorker::new\<close>: the fresh key's peer id and encoding, the address of the host,
  the two stores and the parsers.\<close>

record 'e native_boot =
  nb_peer_id :: string
  nb_local_ip :: "string + bool \<times> string"
  nb_hset :: "string \<Rightarrow> string \<Rightarrow> redis_account_profile \<Rightarrow> 'e \<Rightarrow> string option \<times> 'e"
  nb_keypair :: "bytes option"
  nb_record_user_peer_id :: "peer_record \<Rightarrow> 'e \<Rightarrow> string option \<times> 'e"
  nb_parse_multi_addr :: "string \<Rightarrow> string option"
  nb_parse_peer_id :: "string \<Rightarrow> string option"
  nb_decode_keypair :: "bytes \<Rightarrow> bool"
  nb_build_swarm :: "string option"

definition p2p_url :: "bool \<times> string \<Rightarrow> u16 \<Rightarrow> string \<Rightarrow> string" where
  "p2p_url ip port peer =
     (if fst ip then ''/ip4/'' else ''/ip6/'') @ snd ip @ ''/tcp/'' @ nat_to_dec (unat port) @ ''/p2p/'' @ peer"

definition native_p2p_new ::
    "'e native_boot \<Rightarrow> u16 \<Rightarrow> string \<Rightarrow> (string \<times> string) list \<Rightarrow> 'e \<Rightarrow> (native_error + native_worker) \<times> 'e" where
  "native_p2p_new B port account_profile_hash accs e =
     (case nb_local_ip B of
        Inl err \<Rightarrow> (Inl (LocalIpFailed err), e)
      | Inr ip \<Rightarrow>
          (let peer = nb_peer_id B;
               url = p2p_url ip port peer;
               infos = map (\<lambda>(a, n). \<lparr>ai_account = a, ai_network = chain_from_str n\<rparr>) accs;
               profile = \<lparr>rap_accounts = infos, rap_multi_addr = url, rap_peer_id = peer, rap_rpc = []\<rparr>
           in case nb_hset B ''ACCOUNT_PROFILE'' account_profile_hash profile e of
             (Some err, e1) \<Rightarrow> (Inl (RedisFailed err), e1)
           | (None, e1) \<Rightarrow>
               (case nb_keypair B of
                  None \<Rightarrow> (Inl KeypairEncode, e1)
                | Some secret_bytes \<Rightarrow>
                    (case nb_record_user_peer_id B \<lparr>pr_peer_id = Some peer, pr_accounts = infos,
                        pr_multi_addr = Some url, pr_keypair = Some secret_bytes\<rparr> e1 of
                       (Some err, e2) \<Rightarrow> (Inl (DbFailed err), e2)
                     | (None, e2) \<Rightarrow>
                         (case nb_parse_multi_addr B url of
                            Some err \<Rightarrow> (Inl (MultiAddrParse err), e2)
                          | None \<Rightarrow>
                              (case nb_parse_peer_id B peer of
                                 Some err \<Rightarrow> (Inl (PeerIdParse err), e2)
                               | None \<Rightarrow>
                                   if \<not> nb_decode_keypair B secret_bytes then (Inl KeypairDecode, e2)
                                   else (case nb_build_swarm B of
                                      Some err \<Rightarrow> (Inl (SwarmBuild err), e2)
                                    | None \<Rightarrow> (Inr \<lparr>nw_node_id = peer, nw_url = url,
                                         nw_pending_request = [], nw_messages = []\<rparr>, e2))))))))"

section \<open>Swarm events\<close>

datatype native_event =
    MessageRequest nat nat bytes       \<comment> \<open>channel, request id, request\<close>
  | MessageResponse nat "string + bytes"
  | OutboundFailure nat
  | InboundFailure nat
  | ResponseSent nat
  | OtherNativeEvent

definition handle_swarm_events :: "(nat \<Rightarrow> u64) \<Rightarrow> native_event \<Rightarrow> native_worker \<Rightarrow> native_worker" where
  "handle_swarm_events hash ev w = (case ev of
       MessageRequest channel request_id request \<Rightarrow>
         w\<lparr>nw_pending_request := AList.update (hash request_id) channel (nw_pending_request w),
           nw_messages := nw_messages w @ [SwarmRequest request request_id]\<rparr>
     | MessageResponse request_id response \<Rightarrow>
         (case response of
            Inr d \<Rightarrow> w\<lparr>nw_messages := nw_messages w @ [SwarmResponse d request_id]\<rparr>
          | Inl _ \<Rightarrow> w)
     | _ \<Rightarrow> w)"

definition run_command :: "'s native_swarm \<Rightarrow> native_command \<Rightarrow> 's \<Rightarrow> string option \<times> 's" where
  "run_command N cmd s = (case cmd of
       SendResponse response channel \<Rightarrow>
         (if sw_channel_open N channel s
          then (case sw_send_response N channel response s of
                  (True, s') \<Rightarrow> (None, s') | (False, s') \<Rightarrow> (Some ''failed to send response'', s'))
          else (None, s))
     | SendRequest request peer addr \<Rightarrow>
         (if sw_is_connected N peer s then (None, sw_send_request N peer request s)
          else (case sw_dial N addr s of
                  (Some err, s') \<Rightarrow> (Some (''failed to re dial: '' @ err), s')
                | (None, s') \<Rightarrow> (None, sw_send_request N peer request s')))
     | Dial addr peer \<Rightarrow>
         (if sw_is_connected N peer s then (None, s)
          else (case sw_dial N addr s of
                  (Some err, s') \<Rightarrow> (Some (''failed to dial: '' @ err), s')
                | (None, s') \<Rightarrow> (None, s')))
     | Close peer \<Rightarrow> (None, sw_disconnect N peer s))"

text \<open>What \<open>select!\<close> picks: an event or the end of the swarm's stream, a command or the end of the command
  channel. The loop returns only when \<open>?\<close> propagates an error, and then handles nothing more.\<close>

datatype native_input = NEvent "native_event option" | NCommand "native_command option"

record 's native_loop =
  nl_worker :: native_worker
  nl_swarm :: 's
  nl_failed :: "string option"

definition native_turn :: "'s native_swarm \<Rightarrow> (nat \<Rightarrow> u64) \<Rightarrow> native_input \<Rightarrow> 's native_loop \<Rightarrow> 's native_loop" where
  "native_turn N hash inp L =
     (if nl_failed L \<noteq> None then L
      else case inp of
        NEvent (Some ev) \<Rightarrow> L\<lparr>nl_worker := handle_swarm_events hash ev (nl_worker L)\<rparr>
      | NEvent None \<Rightarrow> L
      | NCommand (Some cmd) \<Rightarrow>
          (case run_command N cmd (nl_swarm L) of
             (err, s') \<Rightarrow> L\<lparr>nl_swarm := s', nl_failed := err\<rparr>)
      | NCommand None \<Rightarrow> L)"

definition native_start_swarm ::
    "'s native_swarm \<Rightarrow> (nat \<Rightarrow> u64) \<Rightarrow> native_input list \<Rightarrow> native_worker \<Rightarrow> 's \<Rightarrow> 's native_loop" where
  "native_start_swarm N hash inps w s = (case sw_listen_on N (nw_url w) s of
       (Some err, s') \<Rightarrow> \<lparr>nl_worker = w, nl_swarm = s', nl_failed = Some err\<rparr>
     | (None, s') \<Rightarrow> fold (native_turn N hash) inps \<lparr>nl_worker = w, nl_swarm = s', nl_failed = None\<rparr>)"

section \<open>The network service\<close>

text \<open>The service holds the sending end of the command channel and the worker's map of channels.\<close>

record network_service =
  ns_commands :: "native_command list"
  ns_receiver_gone :: bool
  ns_pending :: "(u64 \<times> nat) list"

definition ns_send :: "string \<Rightarrow> native_command \<Rightarrow> network_service \<Rightarrow> (string + unit) \<times> network_service" where
  "ns_send err cmd n = (if ns_receiver_gone n then (Inl err, n)
     else (Inr (), n\<lparr>ns_commands := ns_commands n @ [cmd]\<rparr>))"

definition dial_to_peer_id :: "string \<Rightarrow> string \<Rightarrow> network_service \<Rightarrow> (string + unit) \<times> network_service" where
  "dial_to_peer_id target_url peer = ns_send ''failed to send dial command'' (Dial target_url peer)"

text \<open>\<open>self.p2p_command_tx.send(close_command);\<close> builds the future of the send and drops it: nothing is sent.\<close>

definition disconnect_from_peer_id :: "string \<Rightarrow> network_service \<Rightarrow> (string + unit) \<times> network_service" where
  "disconnect_from_peer_id peer n = (Inr (), n)"

definition native_send_request ::
    "('t \<Rightarrow> bytes) \<Rightarrow> 't \<Rightarrow> string \<Rightarrow> string \<Rightarrow> network_service \<Rightarrow> (string + unit) \<times> network_service" where
  "native_send_request encode request peer addr =
     ns_send ''failed to send req command'' (SendRequest (encode request) peer addr)"

definition native_send_response ::
    "('t \<Rightarrow> bytes) \<Rightarrow> u64 \<Rightarrow> 't \<Rightarrow> network_service \<Rightarrow> (string + unit) \<times> network_service" where
  "native_send_response encode outbound_id response n = (case map_of (ns_pending n) outbound_id of
       None \<Rightarrow> (Inl ''failed to get response channel'', n)
     | Some channel \<Rightarrow>
         ns_send ''channel closed'' (SendResponse (encode response) channel)
           (n\<lparr>ns_pending := AList.delete outbound_id (ns_pending n)\<rparr>))"

section \<open>Theorems\<close>

lemma native_turn_failed: "nl_failed L \<noteq> None \<Longrightarrow> fold (native_turn N hash) inps L = L"
  by (induction inps) (simp_all add: native_turn_def)

lemma native_loop_append:
  "nl_failed (fold (native_turn N hash) xs L) = None \<Longrightarrow>
   fold (native_turn N hash) (xs @ NCommand (Some cmd) # ys) L =
     fold (native_turn N hash) ys
       ((fold (native_turn N hash) xs L)\<lparr>
          nl_swarm := snd (run_command N cmd (nl_swarm (fold (native_turn N hash) xs L))),
          nl_failed := fst (run_command N cmd (nl_swarm (fold (native_turn N hash) xs L)))\<rparr>)"
  by (simp add: native_turn_def case_prod_beta)

text \<open>The channels in use: the last request that was recorded under a key.\<close>

fun channel_log :: "(nat \<Rightarrow> u64) \<Rightarrow> native_event list \<Rightarrow> (u64 \<times> nat) list" where
  "channel_log hash [] = []"
| "channel_log hash (MessageRequest ch i req # evs) = channel_log hash evs @ [(hash i, ch)]"
| "channel_log hash (_ # evs) = channel_log hash evs"

lemma pending_after:
  "map_of (nw_pending_request (fold (handle_swarm_events hash) evs w)) =
     map_of (nw_pending_request w) ++ map_of (channel_log hash evs)"
proof (induction evs arbitrary: w)
  case Nil
  then show ?case by simp
next
  case (Cons ev evs)
  have "map_of (nw_pending_request (handle_swarm_events hash ev w)) ++ map_of (channel_log hash evs)
      = map_of (nw_pending_request w) ++ map_of (channel_log hash (ev # evs))"
    by (cases ev) (simp_all add: handle_swarm_events_def map_add_assoc split: sum.splits)
  with Cons.IH show ?case by simp
qed

lemma channel_log_unique:
  assumes "MessageRequest ch i req \<in> set evs"
    and "\<And>ch' i' req'. MessageRequest ch' i' req' \<in> set evs \<Longrightarrow> hash i' = hash i \<Longrightarrow> ch' = ch"
  shows "map_of (channel_log hash evs) (hash i) = Some ch"
  using assms
proof (induction evs)
  case Nil
  then show ?case by simp
next
  case (Cons ev evs)
  show ?case
  proof (cases "MessageRequest ch i req \<in> set evs")
    case True
    have "map_of (channel_log hash evs) (hash i) = Some ch"
      by (rule Cons.IH [OF True], erule Cons.prems(2) [OF list.set_intros(2)])
    then show ?thesis by (cases ev) auto
  next
    case False
    then have ev: "ev = MessageRequest ch i req" using Cons.prems(1) by simp
    have "map_of (channel_log hash evs) (hash i) = Some ch \<or> map_of (channel_log hash evs) (hash i) = None"
    proof (cases "map_of (channel_log hash evs) (hash i)")
      case (Some c)
      have "(k, c) \<in> set (channel_log hash evs) \<Longrightarrow> \<exists>i' req'. k = hash i' \<and> MessageRequest c i' req' \<in> set evs" for k
        by (induction hash evs rule: channel_log.induct) auto
      with map_of_SomeD [OF Some] Cons.prems(2) Some show ?thesis by (metis list.set_intros(2))
    qed simp
    then show ?thesis by (auto simp: ev map_add_def)
  qed
qed

text \<open>C32: the answer to a request goes out on that request's own channel, whatever other events the
  swarm delivered before and after it, and only once: a second answer finds no channel. This holds when no
  other request id has the same 64-bit hash.\<close>

theorem native_response_channel:
  assumes "MessageRequest ch i req \<in> set evs"
    and "\<forall>ch' i' req'. MessageRequest ch' i' req' \<in> set evs \<and> hash i' = hash i \<longrightarrow> ch' = ch"
    and "nw_pending_request w = []"
    and "n = \<lparr>ns_commands = [], ns_receiver_gone = False,
             ns_pending = nw_pending_request (fold (handle_swarm_events hash) evs w)\<rparr>"
  shows "fst (native_send_response encode (hash i) tx n) = Inr ()
    \<and> ns_commands (snd (native_send_response encode (hash i) tx n)) = [SendResponse (encode tx) ch]
    \<and> fst (native_send_response encode (hash i) tx' (snd (native_send_response encode (hash i) tx n)))
        = Inl ''failed to get response channel''"
proof -
  have "map_of (ns_pending n) (hash i) = Some ch"
    using channel_log_unique [OF assms(1), of hash] assms(2,3) by (auto simp: assms(4) pending_after)
  then show ?thesis
    by (simp add: native_send_response_def ns_send_def assms(4))
qed

theorem native_response_channel_witness:
  "ns_commands (snd (native_send_response id (of_nat 4) [1]
     \<lparr>ns_commands = [], ns_receiver_gone = False,
      ns_pending = nw_pending_request (fold (handle_swarm_events of_nat)
        [MessageRequest 10 3 [], MessageRequest 11 4 [], ResponseSent 3]
        \<lparr>nw_node_id = ''p'', nw_url = ''u'', nw_pending_request = [], nw_messages = []\<rparr>)\<rparr>))
   = [SendResponse [1] 11]"
proof -
  let ?evs = "[MessageRequest 10 3 [], MessageRequest 11 4 [], ResponseSent 3]"
  have "\<forall>ch' i' req'. MessageRequest ch' i' req' \<in> set ?evs \<and> (of_nat i' :: u64) = of_nat 4 \<longrightarrow> ch' = 11"
    by auto
  from native_response_channel [where encode = id and tx = "[1]" and w = "\<lparr>nw_node_id = ''p'',
      nw_url = ''u'', nw_pending_request = [], nw_messages = []\<rparr>", OF _ this _ refl]
  show ?thesis by (simp del: fold_simps)
qed

text \<open>One refused dial ends the networking of the node: after a command whose dial the swarm refuses
  the loop has returned, so later events and commands, of any peer, have no effect.\<close>

theorem native_dial_failure_stops:
  assumes "nl_failed (fold (native_turn N hash) before L) = None"
    and "\<not> sw_is_connected N peer (nl_swarm (fold (native_turn N hash) before L))"
    and "sw_dial N addr (nl_swarm (fold (native_turn N hash) before L)) = (Some err, s')"
  shows "fold (native_turn N hash) (before @ NCommand (Some (Dial addr peer)) # later) L =
     (fold (native_turn N hash) before L)\<lparr>nl_swarm := s', nl_failed := Some (''failed to dial: '' @ err)\<rparr>"
  using assms by (subst native_loop_append) (simp_all add: run_command_def native_turn_failed)

definition refusing_swarm :: "string list native_swarm" where
  "refusing_swarm = \<lparr>sw_listen_on = (\<lambda>_ s. (None, s)), sw_is_connected = (\<lambda>p s. p \<in> set s),
     sw_dial = (\<lambda>a s. (Some ''no route'', s)), sw_send_request = (\<lambda>p r s. s),
     sw_send_response = (\<lambda>c r s. (True, s)), sw_disconnect = (\<lambda>p s. removeAll p s),
     sw_channel_open = (\<lambda>_ _. True)\<rparr>"

theorem native_dial_failure_stops_witness:
  "nl_failed (native_start_swarm refusing_swarm of_nat
      ([NEvent None] @ NCommand (Some (Dial ''/ip4/1'' ''bob'')) # [NCommand (Some (Close ''eve''))])
      \<lparr>nw_node_id = ''p'', nw_url = ''u'', nw_pending_request = [], nw_messages = []\<rparr> [''eve''])
     = Some ''failed to dial: no route''
   \<and> nl_swarm (native_start_swarm refusing_swarm of_nat
      ([NEvent None] @ NCommand (Some (Dial ''/ip4/1'' ''bob'')) # [NCommand (Some (Close ''eve''))])
      \<lparr>nw_node_id = ''p'', nw_url = ''u'', nw_pending_request = [], nw_messages = []\<rparr> [''eve'']) = [''eve'']"
proof -
  let ?L = "\<lparr>nl_worker = \<lparr>nw_node_id = ''p'', nw_url = ''u'', nw_pending_request = [], nw_messages = []\<rparr>,
      nl_swarm = [''eve''], nl_failed = None\<rparr>"
  have start: "native_start_swarm refusing_swarm of_nat inps
      \<lparr>nw_node_id = ''p'', nw_url = ''u'', nw_pending_request = [], nw_messages = []\<rparr> [''eve'']
      = fold (native_turn refusing_swarm of_nat) inps ?L" for inps
    by (simp add: native_start_swarm_def refusing_swarm_def)
  show ?thesis
    unfolding start
    by (subst (1 2) native_dial_failure_stops [where err = "''no route''" and s' = "[''eve'']"])
      (simp_all add: native_turn_def refusing_swarm_def)
qed

text \<open>The command to close a connection is never sent: whatever the peer, \<open>disconnect_from_peer_id\<close> reports
  success and leaves the command channel as it was, so no \<open>Close\<close> enters it by this way.\<close>

theorem native_disconnect_not_sent:
  "disconnect_from_peer_id peer n = (Inr (), n)
   \<and> set (ns_commands (snd (disconnect_from_peer_id peer n))) = set (ns_commands n)"
  by (simp add: disconnect_from_peer_id_def)

end
