(* ===== verification/Native_Processing.thy ===== *)
theory Native_Processing
  imports Tx_Processing
begin

text \<open>
  The native node's transaction record, its address checks (\<open>node/native/src/cryptography.rs\<close>) and
  \<open>TxProcessingWorker\<close> (\<open>node/native/src/tx_processing.rs\<close>): signature validation, the multi id, building the
  payload to sign and submission. The crate was written against an earlier version of \<open>primitives\<close> (the
  workspace excludes it), so its enums are those of its exhaustive matches and its transaction record has
  the fields of its struct literal in \<open>rpc.rs\<close>; statuses and status changes are those of \<open>primitives\<close>.

  The \<open>alloy\<close> and \<open>sp_core\<close> primitives and the two providers are arguments (\<open>native_env\<close>). A provider's answer
  may change from call to call, so creation and submission take an environment each. A match arm that is
  \<open>todo!()\<close> panics.
\<close>

section \<open>Data\<close>

datatype native_chain = NPolkadot | NEthereum | NBnb | NSolana

datatype native_token =
    TokDot | TokUsdtDot | TokBnb | TokSol | TokUsdcSol | TokUsdtSol | TokEth | TokUsdtEth | TokUsdcEth

record native_tx =
  nt_sender_address :: string
  nt_receiver_address :: string
  nt_multi_id :: bytes
  nt_recv_signature :: "bytes option"
  nt_network :: native_chain
  nt_token :: native_token
  nt_status :: tx_status
  nt_code_word :: string
  nt_amount :: u128
  nt_signed_call_payload :: "bytes option"
  nt_call_payload :: "bytes option"
  nt_inbound_req_id :: "u64 option"
  nt_outbound_req_id :: "u64 option"
  nt_tx_nonce :: u32

datatype 'a native_result = NOk 'a | NErr string | NPanic

record tx_request =
  rq_to :: bytes
  rq_value :: u128
  rq_chain_id :: u64
  rq_nonce :: "u64 option"
  rq_gas_limit :: "u128 option"
  rq_max_fee :: "u128 option"
  rq_priority_fee :: "u128 option"

datatype typed_tx = Eip1559 tx_request | Eip7702 tx_request | OtherTyped

record native_env =
  ne_parse_address :: "string \<Rightarrow> bytes option"
  ne_keccak_256 :: "bytes \<Rightarrow> bytes"
  ne_blake2 :: "bytes \<Rightarrow> bytes"
  ne_ecdsa_signature :: "bytes \<Rightarrow> bool"
  ne_recover_address :: "bytes \<Rightarrow> bytes \<Rightarrow> bytes option"
  ne_ed_public :: "string \<Rightarrow> bytes option"
  ne_ed_signature :: "bytes \<Rightarrow> bool"
  ne_ed_verify :: "bytes \<Rightarrow> bytes \<Rightarrow> bytes \<Rightarrow> bool"
  ne_from_base58 :: "string \<Rightarrow> bytes option"
  ne_decompress :: "bytes \<Rightarrow> bool"
  ne_get_transaction_count :: "bytes \<Rightarrow> string + u64"
  ne_estimate_eip1559_fees :: "string + u128 \<times> u128"
  ne_build_unsigned :: "tx_request \<Rightarrow> string + typed_tx"
  ne_signature_hash :: "typed_tx \<Rightarrow> bytes"
  ne_send_transaction :: "tx_request \<Rightarrow> string + bytes"
  ne_decode_7702 :: "bytes \<Rightarrow> string + typed_tx"
  ne_encode_with_signature :: "typed_tx \<Rightarrow> bytes \<Rightarrow> bytes"
  ne_send_raw_transaction :: "bytes \<Rightarrow> string + bytes"

section \<open>Address checks\<close>

definition native_verify_public_bytes ::
    "native_env \<Rightarrow> string \<Rightarrow> native_token \<Rightarrow> native_chain \<Rightarrow> native_chain native_result" where
  "native_verify_public_bytes E account tok network =
     (if tok \<in> {TokDot, TokUsdtDot} then NPanic
      else if tok = TokBnb then
        (if length (as_bytes account) = 20 then NOk NEthereum else NErr ''Not ethereum address'')
      else if tok \<in> {TokSol, TokUsdcSol, TokUsdtSol} then
        (case ne_from_base58 E account of
           None \<Rightarrow> NErr ''failed addr from base58''
         | Some bs \<Rightarrow>
             if length bs \<noteq> 32 then NErr ''accounts bytes not 32''
             else if ne_decompress E bs then NOk NSolana
             else NErr ''not a valid ed25519 curve point'')
      else
        (if length (as_bytes account) = 42 then NOk NEthereum else NErr ''Not ethereum address''))"

section \<open>Validation\<close>

definition native_signed_parts ::
    "native_tx \<Rightarrow> string \<Rightarrow> (bytes \<times> bytes \<times> string) native_result" where
  "native_signed_parts tx who =
     (if who = ''Receiver'' then
        (case nt_recv_signature tx of
           None \<Rightarrow> NErr ''receiver didnt signed''
         | Some sig \<Rightarrow> NOk (sig, as_bytes (nt_receiver_address tx), nt_receiver_address tx))
      else
        (case nt_signed_call_payload tx of
           None \<Rightarrow> NErr ''original sender didnt signed''
         | Some sig \<Rightarrow>
             (case nt_call_payload tx of
                None \<Rightarrow> NPanic
              | Some msg \<Rightarrow> NOk (sig, msg, nt_sender_address tx))))"

definition native_verify_ethereum ::
    "native_env \<Rightarrow> string \<Rightarrow> bytes \<Rightarrow> bytes \<Rightarrow> string \<Rightarrow> unit native_result" where
  "native_verify_ethereum E who sig msg address =
     (case ne_parse_address E address of
        None \<Rightarrow> NPanic
      | Some addr \<Rightarrow>
          (let hashed_msg = (if who = ''Receiver''
                 then ne_keccak_256 E (as_bytes ETH_SIG_MSG_PREFIX
                        @ as_bytes (nat_to_dec (length msg)) @ msg)
                 else msg)
           in if who \<noteq> ''Receiver'' \<and> length msg \<noteq> 32 then NPanic
              else if \<not> ne_ecdsa_signature E sig then NErr ''failed to convert ecdsa signature''
              else case ne_recover_address E sig hashed_msg of
                Some recovered_addr \<Rightarrow>
                  (if recovered_addr = addr then NOk ()
                   else NErr ''addr recovery equality failed hence account invalid'')
              | None \<Rightarrow> NErr ''ec signature verification failed''))"

text \<open>The Solana arm takes the public key from the receiver's address, whoever signed.\<close>

definition native_verify_solana ::
    "native_env \<Rightarrow> native_tx \<Rightarrow> bytes \<Rightarrow> bytes \<Rightarrow> unit native_result" where
  "native_verify_solana E tx sig msg =
     (case ne_ed_public E (nt_receiver_address tx) of
        None \<Rightarrow> NErr ''failed to convert ed25519 recv addr bytes''
      | Some public \<Rightarrow>
          if \<not> ne_ed_signature E sig then NErr ''failed to convert ed25519_signature''
          else if ne_ed_verify E sig msg public then NOk ()
          else NErr ''ed25519 signature verification failed hence recv failed'')"

definition native_validate_address :: "native_env \<Rightarrow> native_tx \<Rightarrow> string \<Rightarrow> unit native_result" where
  "native_validate_address E tx who =
     (case native_signed_parts tx who of
        NErr e \<Rightarrow> NErr e
      | NPanic \<Rightarrow> NPanic
      | NOk (sig, msg, address) \<Rightarrow>
          (case nt_network tx of
             NPolkadot \<Rightarrow> NPanic
           | NEthereum \<Rightarrow> native_verify_ethereum E who sig msg address
           | NBnb \<Rightarrow> NPanic
           | NSolana \<Rightarrow> native_verify_solana E tx sig msg))"

definition native_multi_id :: "native_env \<Rightarrow> string \<Rightarrow> string \<Rightarrow> bytes" where
  "native_multi_id E sender receiver = ne_blake2 E (as_bytes sender @ as_bytes receiver)"

definition native_validate_multi_id :: "native_env \<Rightarrow> native_tx \<Rightarrow> bool" where
  "native_validate_multi_id E tx =
     (native_multi_id E (nt_sender_address tx) (nt_receiver_address tx) = nt_multi_id tx)"

section \<open>Creation and submission\<close>

text \<open>The request that creation and submission build for Ethereum, with the nonce and fees of the moment.\<close>

definition eth_request :: "native_env \<Rightarrow> u64 \<Rightarrow> native_tx \<Rightarrow> tx_request native_result" where
  "eth_request E chain_id tx =
     (case ne_parse_address E (nt_sender_address tx) of
        None \<Rightarrow> NPanic
      | Some sender \<Rightarrow>
          (case ne_parse_address E (nt_receiver_address tx) of
             None \<Rightarrow> NPanic
           | Some to_address \<Rightarrow>
               (case ne_get_transaction_count E sender of
                  Inl _ \<Rightarrow> NErr ''Ethereum RPC unavailable - cannot get nonce''
                | Inr nonce \<Rightarrow>
                    (case ne_estimate_eip1559_fees E of
                       Inl _ \<Rightarrow> NErr ''Ethereum RPC unavailable - cannot get fee estimates''
                     | Inr (max_fee, priority_fee) \<Rightarrow>
                         NOk \<lparr>rq_to = to_address, rq_value = nt_amount tx, rq_chain_id = chain_id,
                           rq_nonce = Some nonce, rq_gas_limit = Some 21000, rq_max_fee = Some max_fee,
                           rq_priority_fee = Some priority_fee\<rparr>))))"

definition native_create_tx :: "native_env \<Rightarrow> native_tx \<Rightarrow> native_tx native_result" where
  "native_create_tx E tx =
     (case nt_network tx of
        NPolkadot \<Rightarrow> NPanic
      | NSolana \<Rightarrow> NPanic
      | NEthereum \<Rightarrow>
          (case eth_request E 56 tx of
             NErr e \<Rightarrow> NErr e
           | NPanic \<Rightarrow> NPanic
           | NOk rq \<Rightarrow>
               (case ne_build_unsigned E rq of
                  Inl _ \<Rightarrow> NErr ''cannot build tx to be signed by EOA''
                | Inr t \<Rightarrow>
                    (case t of
                       Eip1559 _ \<Rightarrow> NOk (tx\<lparr>nt_call_payload := Some (ne_signature_hash E t)\<rparr>)
                     | _ \<Rightarrow> NErr ''failed to convert to EIP 1559'')))
      | NBnb \<Rightarrow>
          (if length (as_bytes (nt_receiver_address tx)) \<noteq> 20 then NPanic
           else
             (case ne_build_unsigned E \<lparr>rq_to = as_bytes (nt_receiver_address tx), rq_value = nt_amount tx,
                 rq_chain_id = 31337, rq_nonce = None, rq_gas_limit = None, rq_max_fee = None,
                 rq_priority_fee = None\<rparr> of
                Inl _ \<Rightarrow> NErr ''cannot build unsigned tx to be signed by EOA''
              | Inr t \<Rightarrow>
                  (case t of
                     Eip7702 _ \<Rightarrow> NOk (tx\<lparr>nt_call_payload := Some (ne_signature_hash E t)\<rparr>)
                   | _ \<Rightarrow> NErr ''failed to convert to EIP 7702''))))"

text \<open>Submission returns the hash with what went to the providers.\<close>

datatype sent = SentRequest tx_request | SentRaw bytes

definition native_submit_bnb :: "native_env \<Rightarrow> native_tx \<Rightarrow> bytes native_result \<times> sent list" where
  "native_submit_bnb E tx =
     (case nt_signed_call_payload tx of
        None \<Rightarrow> (NErr ''sender did not signed the tx payload'', [])
      | Some sig \<Rightarrow>
          (case nt_call_payload tx of
             None \<Rightarrow> (NErr ''call payload not found'', [])
           | Some payload \<Rightarrow>
               (case ne_decode_7702 E payload of
                  Inl _ \<Rightarrow> (NErr ''failed to decode eth EIP7702 tx payload'', [])
                | Inr t \<Rightarrow>
                    if \<not> ne_ecdsa_signature E sig then (NErr ''failed to decode tx siganture'', [])
                    else
                      (let raw = ne_encode_with_signature E t sig in
                       case ne_send_raw_transaction E raw of
                         Inl _ \<Rightarrow> (NErr ''failed to submit eth raw tx'', [SentRaw raw])
                       | Inr h \<Rightarrow> (NOk h, [SentRaw raw])))))"

definition native_submit_tx :: "native_env \<Rightarrow> native_tx \<Rightarrow> bytes native_result \<times> sent list" where
  "native_submit_tx E tx =
     (case nt_network tx of
        NPolkadot \<Rightarrow> (NPanic, [])
      | NSolana \<Rightarrow> (NPanic, [])
      | NEthereum \<Rightarrow>
          (case nt_signed_call_payload tx of
             None \<Rightarrow> (NErr ''sender did not signed the tx payload'', [])
           | Some sig \<Rightarrow>
               if \<not> ne_ecdsa_signature E sig then (NErr ''failed to parse signature'', [])
               else (case eth_request E 31337 tx of
                  NErr e \<Rightarrow> (NErr e, [])
                | NPanic \<Rightarrow> (NPanic, [])
                | NOk rq \<Rightarrow>
                    (case ne_build_unsigned E rq of
                       Inl _ \<Rightarrow> (NErr ''cannot build tx to be submitted'', [])
                     | Inr t \<Rightarrow>
                         (case t of
                            Eip1559 q \<Rightarrow>
                              (case ne_send_transaction E q of
                                 Inl _ \<Rightarrow> (NErr ''Failed to submit transaction to Ethereum RPC'', [SentRequest q])
                               | Inr h \<Rightarrow> (NOk h, [SentRequest q]))
                          | _ \<Rightarrow> (NPanic, [])))))
      | NBnb \<Rightarrow> native_submit_bnb E tx)"

section \<open>Theorems\<close>

lemmas native_validate_defs = native_validate_address_def native_signed_parts_def
  native_verify_ethereum_def native_verify_solana_def

text \<open>On Ethereum the receiver's check passes exactly when the receiver has signed the prefixed bytes of its own
  address with the key of that address.\<close>

theorem native_receiver_validation_exact:
  assumes "nt_network tx = NEthereum"
  shows "native_validate_address E tx ''Receiver'' = NOk () \<longleftrightarrow>
    (\<exists>sig addr. nt_recv_signature tx = Some sig \<and> ne_parse_address E (nt_receiver_address tx) = Some addr
       \<and> ne_ecdsa_signature E sig
       \<and> ne_recover_address E sig (ne_keccak_256 E (as_bytes ETH_SIG_MSG_PREFIX
            @ as_bytes (nat_to_dec (length (nt_receiver_address tx))) @ as_bytes (nt_receiver_address tx)))
          = Some addr)"
  using assms
  by (auto simp: native_validate_defs Let_def as_bytes_def split: option.splits if_splits)

definition sample_native_env :: native_env where
  "sample_native_env = \<lparr>ne_parse_address = (\<lambda>a. Some (as_bytes a)), ne_keccak_256 = (\<lambda>_. [7]), ne_blake2 = (\<lambda>bs. bs),
     ne_ecdsa_signature = (\<lambda>_. True), ne_recover_address = (\<lambda>s h. if h = [7] then Some s else None),
     ne_ed_public = (\<lambda>a. Some (as_bytes a)), ne_ed_signature = (\<lambda>_. True),
     ne_ed_verify = (\<lambda>s m p. s = p), ne_from_base58 = (\<lambda>_. None), ne_decompress = (\<lambda>_. True),
     ne_get_transaction_count = (\<lambda>_. Inr 3), ne_estimate_eip1559_fees = Inr (9, 1),
     ne_build_unsigned = (\<lambda>rq. Inr (Eip1559 rq)), ne_signature_hash = (\<lambda>_. replicate 32 1),
     ne_send_transaction = (\<lambda>_. Inr [5]), ne_decode_7702 = (\<lambda>_. Inl ''short''),
     ne_encode_with_signature = (\<lambda>_ s. s), ne_send_raw_transaction = (\<lambda>_. Inl ''down'')\<rparr>"

definition sample_native_tx :: native_tx where
  "sample_native_tx = \<lparr>nt_sender_address = ''alice'', nt_receiver_address = ''bob'', nt_multi_id = as_bytes ''alicebob'',
     nt_recv_signature = Some (as_bytes ''bob''), nt_network = NEthereum, nt_token = TokEth, nt_status = Genesis,
     nt_code_word = '''', nt_amount = 10, nt_signed_call_payload = Some [2], nt_call_payload = None,
     nt_inbound_req_id = None, nt_outbound_req_id = None, nt_tx_nonce = 1\<rparr>"

theorem native_receiver_validation_exact_witness:
  "native_validate_address sample_native_env sample_native_tx ''Receiver'' = NOk ()"
  using native_receiver_validation_exact [of sample_native_tx sample_native_env]
  by (simp add: sample_native_tx_def sample_native_env_def)

text \<open>On Solana the sender's signature is checked against the receiver's key: the outcome of the sender's
  check does not depend on the sender's address at all.\<close>

theorem native_solana_sender_unchecked:
  "native_validate_address E (tx\<lparr>nt_network := NSolana, nt_sender_address := a\<rparr>) ''Sender'' =
   native_validate_address E (tx\<lparr>nt_network := NSolana, nt_sender_address := b\<rparr>) ''Sender''"
  by (simp add: native_validate_defs split: option.splits)

text \<open>\<open>alloy\<close>'s builder keeps the fields it was given.\<close>

definition faithful_builder :: "native_env \<Rightarrow> bool" where
  "faithful_builder E \<longleftrightarrow> (\<forall>rq q. ne_build_unsigned E rq = Inr (Eip1559 q) \<longrightarrow> q = rq)"

lemma eth_request_chain: "eth_request E c tx = NOk rq \<Longrightarrow> rq_chain_id rq = c"
  by (auto simp: eth_request_def split: option.splits sum.splits)

lemma created_request:
  assumes "faithful_builder E" "nt_network tx = NEthereum" "native_create_tx E tx = NOk tx'"
  shows "\<exists>q. nt_call_payload tx' = Some (ne_signature_hash E (Eip1559 q)) \<and> rq_chain_id q = 56"
  using assms
  by (auto simp: native_create_tx_def faithful_builder_def
      split: native_result.splits sum.splits typed_tx.splits) (metis eth_request_chain)

lemma submitted_request:
  assumes "faithful_builder E" "nt_network tx = NEthereum" "snd (native_submit_tx E tx) = [SentRequest q]"
  shows "rq_chain_id q = 31337"
  using assms
  by (auto simp: native_submit_tx_def faithful_builder_def dest: eth_request_chain
      split: native_result.splits sum.splits typed_tx.splits option.splits if_splits)

text \<open>The Ethereum transaction that is submitted is never the one whose hash the sender signed: the payload
  is built for chain 56 and the submission for chain 31337.\<close>

theorem native_submits_other_tx:
  assumes "faithful_builder E" "nt_network tx = NEthereum" "native_create_tx E tx = NOk tx'"
    and "faithful_builder E'" "nt_network stx = NEthereum"
    and "snd (native_submit_tx E' stx) = [SentRequest q']"
  shows "\<exists>q. nt_call_payload tx' = Some (ne_signature_hash E (Eip1559 q)) \<and> rq_chain_id q \<noteq> rq_chain_id q'"
  using created_request [OF assms(1-3)] submitted_request [OF assms(4-6)] by force

theorem native_submits_other_tx_witness:
  "\<exists>q q'. snd (native_submit_tx sample_native_env
        (sample_native_tx\<lparr>nt_call_payload := Some (replicate 32 1)\<rparr>)) = [SentRequest q']
     \<and> native_create_tx sample_native_env sample_native_tx
        = NOk (sample_native_tx\<lparr>nt_call_payload := Some (ne_signature_hash sample_native_env (Eip1559 q))\<rparr>)
     \<and> rq_chain_id q \<noteq> rq_chain_id q'"
proof -
  have b: "faithful_builder sample_native_env"
    by (simp add: faithful_builder_def sample_native_env_def)
  have c: "native_create_tx sample_native_env sample_native_tx
      = NOk (sample_native_tx\<lparr>nt_call_payload := Some (replicate 32 1)\<rparr>)"
    by (simp add: native_create_tx_def eth_request_def sample_native_env_def sample_native_tx_def)
  have s: "snd (native_submit_tx sample_native_env (sample_native_tx\<lparr>nt_call_payload := Some (replicate 32 1)\<rparr>))
      = [SentRequest \<lparr>rq_to = as_bytes ''bob'', rq_value = 10, rq_chain_id = 31337, rq_nonce = Some 3,
           rq_gas_limit = Some 21000, rq_max_fee = Some 9, rq_priority_fee = Some 1\<rparr>]"
    by (simp add: native_submit_tx_def eth_request_def sample_native_env_def sample_native_tx_def)
  have "nt_network sample_native_tx = NEthereum"
    "nt_network (sample_native_tx\<lparr>nt_call_payload := Some (replicate 32 1)\<rparr>) = NEthereum"
    by (simp_all add: sample_native_tx_def)
  from native_submits_other_tx [OF b this(1) c b this(2) s] c s show ?thesis by force
qed

end
