(* ===== verification/Native_Node.thy ===== *)
theory Native_Node
  imports Native_P2p Native_Processing
begin

text \<open>
  The native node: \<open>TransactionRpcWorker\<close> (\<open>node/native/src/rpc.rs\<close>), through which the user starts, confirms and
  reverts transactions, and \<open>MainServiceWorker\<close> (\<open>node/native/src/lib.rs\<close>), which handles what arrives from the
  user and from the swarm. The local database (Prisma), Redis, the parsers of libp2p and the SCALE codec are
  arguments (\<open>native_world\<close>), and so is the chain environment of \<open>Native_Processing\<close>. The \<open>moka\<close> cache is
  an association list; that it may evict an entry at any time is an input of the node. Channels are
  lists, as in \<open>Native_P2p\<close>.

  The error channel is the one whose receiving end \<open>TransactionRpcWorker::new\<close> drops, and a subscription makes a
  channel of its own, so a report reaches nobody.
\<close>

section \<open>State and environment\<close>

record native_db_tx =
  nd_tx_hash :: bytes
  nd_amount :: u128
  nd_network :: native_chain
  nd_success :: bool

record 'd native_world =
  w_get_saved_user_peers :: "string \<Rightarrow> 'd \<Rightarrow> (string + string option \<times> string option) \<times> 'd"
    \<comment> \<open>multiaddress and peer id\<close>
  w_record_saved_user_peers :: "string \<Rightarrow> string \<Rightarrow> 'd \<Rightarrow> (string + unit) \<times> 'd"
  w_update_failed_tx :: "native_db_tx \<Rightarrow> 'd \<Rightarrow> (string + unit) \<times> 'd"
  w_update_success_tx :: "native_db_tx \<Rightarrow> 'd \<Rightarrow> (string + unit) \<times> 'd"
  w_get_nonce :: "'d \<Rightarrow> (string + u32) \<times> 'd"
  w_increment_nonce :: "'d \<Rightarrow> (string + unit) \<times> 'd"
  w_redis_connect :: "string option"
  w_hget :: "string \<Rightarrow> string \<Rightarrow> string + string"
  w_parse_profile :: "string \<Rightarrow> string + redis_account_profile"
  w_parse_multi_addr :: "string \<Rightarrow> string option"
  w_parse_peer_id :: "string \<Rightarrow> string option"
  w_encode :: "native_tx \<Rightarrow> bytes"
  w_decode :: "bytes \<Rightarrow> native_tx option"
  w_hash_id :: "nat \<Rightarrow> u64"
  w_get_tx_hash :: "native_tx \<Rightarrow> bytes"
  w_token_from :: "string \<Rightarrow> native_token"
  w_chain_from :: "string \<Rightarrow> native_chain"
  w_chain_env :: native_env

record 'd native_node =
  nn_db :: 'd
  nn_worker :: native_worker
  nn_commands :: "native_command list"
  nn_cache :: "(u64 \<times> native_tx) list"
  nn_rpc :: "native_tx list"
  nn_user :: "native_tx list"
  nn_error_receiver :: bool
  nn_errors :: "(string \<times> string) list"
  nn_sent :: "sent list"

text \<open>A node as \<open>MainServiceWorker::new\<close> leaves it.\<close>

definition native_node_new :: "'d \<Rightarrow> native_worker \<Rightarrow> 'd native_node" where
  "native_node_new d w = \<lparr>nn_db = d, nn_worker = w, nn_commands = [], nn_cache = [], nn_rpc = [], nn_user = [],
     nn_error_receiver = False, nn_errors = [], nn_sent = []\<rparr>"

type_synonym ('d, 'a) native_action = "'d native_node \<Rightarrow> 'a native_result \<times> 'd native_node"

definition nret :: "'a \<Rightarrow> ('d, 'a) native_action" where "nret x = (\<lambda>n. (NOk x, n))"
definition nerr :: "string \<Rightarrow> ('d, 'a) native_action" where "nerr e = (\<lambda>n. (NErr e, n))"
definition npanic :: "('d, 'a) native_action" where "npanic = (\<lambda>n. (NPanic, n))"
definition nmod :: "('d native_node \<Rightarrow> 'd native_node) \<Rightarrow> ('d, unit) native_action" where
  "nmod f = (\<lambda>n. (NOk (), f n))"

definition nbind :: "('d, 'a) native_action \<Rightarrow> ('a \<Rightarrow> ('d, 'b) native_action) \<Rightarrow> ('d, 'b) native_action" where
  "nbind m f = (\<lambda>n. case m n of
       (NOk x, n') \<Rightarrow> f x n' | (NErr e, n') \<Rightarrow> (NErr e, n') | (NPanic, n') \<Rightarrow> (NPanic, n'))"

definition ncatch :: "('d, 'a) native_action \<Rightarrow> (string \<Rightarrow> ('d, unit) native_action) \<Rightarrow> ('d, unit) native_action" where
  "ncatch m h = (\<lambda>n. case m n of
       (NOk _, n') \<Rightarrow> (NOk (), n') | (NErr e, n') \<Rightarrow> h e n' | (NPanic, n') \<Rightarrow> (NPanic, n'))"

definition npure :: "'a native_result \<Rightarrow> ('d, 'a) native_action" where "npure r = (\<lambda>n. (r, n))"

definition on_db :: "('d \<Rightarrow> (string + 'a) \<times> 'd) \<Rightarrow> ('d, 'a) native_action" where
  "on_db f = (\<lambda>n. case f (nn_db n) of
       (Inr x, d) \<Rightarrow> (NOk x, n\<lparr>nn_db := d\<rparr>) | (Inl e, d) \<Rightarrow> (NErr e, n\<lparr>nn_db := d\<rparr>))"

text \<open>The network service shares the worker's map of response channels.\<close>

definition on_net :: "(network_service \<Rightarrow> (string + unit) \<times> network_service) \<Rightarrow> ('d, unit) native_action" where
  "on_net f = (\<lambda>n.
     (let (r, s) = f \<lparr>ns_commands = nn_commands n, ns_receiver_gone = False,
            ns_pending = nw_pending_request (nn_worker n)\<rparr>
      in ((case r of Inr _ \<Rightarrow> NOk () | Inl e \<Rightarrow> NErr e),
          n\<lparr>nn_commands := ns_commands s, nn_worker := (nn_worker n)\<lparr>nw_pending_request := ns_pending s\<rparr>\<rparr>)))"

definition send_error :: "string \<Rightarrow> string \<Rightarrow> ('d, unit) native_action" where
  "send_error kind msg = nmod (\<lambda>n.
     if nn_error_receiver n then n\<lparr>nn_errors := nn_errors n @ [(kind, msg)]\<rparr> else n)"

text \<open>\<open>rpc_sender_channel.send(tx)\<close>; its receiver lives in the RPC worker, so the send succeeds.\<close>

definition rpc_announce :: "native_tx \<Rightarrow> ('d, unit) native_action" where
  "rpc_announce tx = nmod (\<lambda>n. n\<lparr>nn_rpc := nn_rpc n @ [tx]\<rparr>)"

definition cache_insert :: "native_tx \<Rightarrow> ('d, unit) native_action" where
  "cache_insert tx = nmod (\<lambda>n. n\<lparr>nn_cache := AList.update (ucast (nt_tx_nonce tx)) tx (nn_cache n)\<rparr>)"

definition cache_remove :: "native_tx \<Rightarrow> ('d, native_tx option) native_action" where
  "cache_remove tx = (\<lambda>n. (NOk (map_of (nn_cache n) (ucast (nt_tx_nonce tx))),
     n\<lparr>nn_cache := AList.delete (ucast (nt_tx_nonce tx)) (nn_cache n)\<rparr>))"

definition user_update :: "native_tx \<Rightarrow> ('d, unit) native_action" where
  "user_update tx = nmod (\<lambda>n. n\<lparr>nn_user := nn_user n @ [tx]\<rparr>)"

section \<open>Start-up\<close>

text \<open>The RPC and the P2P port of \<open>MainServiceWorker::new\<close>: the stored ones, else the given or a random port and
  541 below it; the subtraction on \<open>u16\<close> wraps in a release build.\<close>

definition native_ports :: "(u16 \<times> u16) option \<Rightarrow> u16 option \<Rightarrow> u16 \<Rightarrow> u16 \<times> u16" where
  "native_ports stored port random = (case stored of
       Some ports \<Rightarrow> ports
     | None \<Rightarrow> (case port of Some p \<Rightarrow> (p, p - 541) | None \<Rightarrow> (random, random - 541)))"

lemma native_ports_wrap:
  "unat (snd (native_ports None (Some p) r)) = (if 541 \<le> unat p then unat p - 541 else unat p + 64995)"
  by (simp add: native_ports_def unat_sub_if')

section \<open>The RPC worker\<close>

text \<open>\<open>addAccount\<close> is \<open>todo!()\<close>.\<close>

definition native_add_account :: "string \<Rightarrow> (string \<times> native_chain) list \<Rightarrow> ('d, unit) native_action" where
  "native_add_account name accs = npanic"

definition native_initial_tx ::
    "native_env \<Rightarrow> string \<Rightarrow> string \<Rightarrow> native_chain \<Rightarrow> native_token \<Rightarrow> string \<Rightarrow> u128 \<Rightarrow> u32 \<Rightarrow> native_tx" where
  "native_initial_tx E sender receiver net tok code amt nonce =
     \<lparr>nt_sender_address = sender, nt_receiver_address = receiver,
      nt_multi_id = native_multi_id E sender receiver, nt_recv_signature = None,
      nt_network = net, nt_token = tok, nt_status = default_tx_status,
      nt_code_word = code, nt_amount = amt, nt_signed_call_payload = None,
      nt_call_payload = None, nt_inbound_req_id = None, nt_outbound_req_id = None,
      nt_tx_nonce = nonce\<rparr>"

definition native_initiate_transaction ::
    "'d native_world \<Rightarrow> string \<Rightarrow> string \<Rightarrow> u128 \<Rightarrow> string \<Rightarrow> string \<Rightarrow> string \<Rightarrow> ('d, unit) native_action" where
  "native_initiate_transaction W sender receiver amt token_name network_name code =
     (let tok = w_token_from W token_name; net = w_chain_from W network_name; E = w_chain_env W in
      case native_verify_public_bytes E sender tok net of
        NPanic \<Rightarrow> npanic
      | r1 \<Rightarrow>
          (case native_verify_public_bytes E receiver tok net of
             NPanic \<Rightarrow> npanic
           | r2 \<Rightarrow>
               (case (r1, r2) of
                  (NOk net_sender, NOk net_recv) \<Rightarrow>
                    (if net_sender \<noteq> net_recv then nerr ''sender and receiver should be same network''
                     else
                       nbind (on_db (w_get_nonce W)) (\<lambda>current.
                       nbind (on_db (w_increment_nonce W)) (\<lambda>_.
                       (let tx = native_initial_tx E sender receiver net_sender tok code amt (current + 1)
                        in nbind (cache_insert tx) (\<lambda>_. user_update tx)))))
                | _ \<Rightarrow> nerr ''sender and receiver should be correct accounts for the specified token'')))"

definition native_revert_transaction :: "'d native_world \<Rightarrow> native_tx \<Rightarrow> ('d, unit) native_action" where
  "native_revert_transaction W tx =
     nbind (cache_remove tx) (\<lambda>removed.
     if removed = None then nerr ''tx not found in cache''
     else
       nbind (on_db (w_update_failed_tx W \<lparr>nd_tx_hash = w_get_tx_hash W tx, nd_amount = nt_amount tx,
           nd_network = nt_network tx, nd_success = False\<rparr>)) (\<lambda>_.
       user_update tx))"

definition native_sender_confirm :: "native_tx \<Rightarrow> ('d, unit) native_action" where
  "native_sender_confirm tx =
     (if nt_signed_call_payload tx = None \<and> nt_status tx \<noteq> RecvAddrConfirmationPassed
      then nerr ''Wait for Receiver to confirm or sender should confirm''
      else nbind (cache_remove tx) (\<lambda>_. user_update (tx\<lparr>nt_status := SenderConfirmed\<rparr>)))"

definition native_receiver_confirm :: "native_tx \<Rightarrow> ('d, unit) native_action" where
  "native_receiver_confirm tx =
     (if nt_recv_signature tx = None then nerr ''Receiver did not confirm''
      else nbind (cache_remove tx) (\<lambda>_. user_update (tx\<lparr>nt_status := RecvAddrConfirmed\<rparr>)))"

definition native_fetch_pending_tx_updates :: "('d, native_tx list) native_action" where
  "native_fetch_pending_tx_updates = (\<lambda>n. (NOk (map snd (nn_cache n)), n))"

text \<open>\<open>watch_tx_updates\<close> sends what is queued, in order, until an update does not serialize or the sink refuses one;
  that update has left the queue.\<close>

fun watch_updates :: "(native_tx \<Rightarrow> bool) \<Rightarrow> (native_tx \<Rightarrow> bool) \<Rightarrow> native_tx list \<Rightarrow> unit native_result \<times> native_tx list \<times> native_tx list" where
  "watch_updates to_json sink [] = (NOk (), [], [])"
| "watch_updates to_json sink (tx # txs) =
     (if \<not> to_json tx then (NErr ''failed to convert tx update to json'', [], txs)
      else if \<not> sink tx then (NErr ''failed to send msg to rpc ws channel'', [], txs)
      else (case watch_updates to_json sink txs of (r, sent, rest) \<Rightarrow> (r, tx # sent, rest)))"

definition native_watch_tx_updates ::
    "(native_tx \<Rightarrow> bool) \<Rightarrow> (native_tx \<Rightarrow> bool) \<Rightarrow> 'd native_node \<Rightarrow> unit native_result \<times> native_tx list \<times> 'd native_node" where
  "native_watch_tx_updates to_json sink n = (case watch_updates to_json sink (nn_rpc n) of
     (r, sent, rest) \<Rightarrow> (r, sent, n\<lparr>nn_rpc := rest\<rparr>))"

section \<open>The main worker: swarm messages\<close>

definition native_swarm_request :: "'d native_world \<Rightarrow> bytes \<Rightarrow> nat \<Rightarrow> ('d, unit) native_action" where
  "native_swarm_request W d inbound_id = (case w_decode W d of
       None \<Rightarrow> npanic
     | Some req \<Rightarrow>
         (let req = req\<lparr>nt_inbound_req_id := Some (w_hash_id W inbound_id)\<rparr> in
          nbind (rpc_announce req) (\<lambda>_. cache_insert req)))"

definition native_swarm_response :: "'d native_world \<Rightarrow> bytes \<Rightarrow> nat \<Rightarrow> ('d, unit) native_action" where
  "native_swarm_response W d outbound_id = (case w_decode W d of
       None \<Rightarrow> npanic
     | Some resp \<Rightarrow>
         (let resp = resp\<lparr>nt_outbound_req_id := Some (w_hash_id W outbound_id)\<rparr> in
          nbind
            (case native_validate_address (w_chain_env W) resp ''Receiver'' of
               NPanic \<Rightarrow> npanic
             | NOk _ \<Rightarrow>
                 (let resp = resp\<lparr>nt_status := RecvAddrConfirmationPassed\<rparr> in
                  case native_create_tx (w_chain_env W) resp of
                    NOk created \<Rightarrow> nret created
                  | NErr e \<Rightarrow> nbind (send_error ''execution'' ''Failed to create transaction'') (\<lambda>_. nret resp)
                  | NPanic \<Rightarrow> npanic)
             | NErr e \<Rightarrow>
                 (let resp = resp\<lparr>nt_status := Reverted ''Receiver address failed''\<rparr> in
                  nbind (send_error ''execution'' ''Receiver confirmation failed'') (\<lambda>_.
                  nbind (on_db (w_update_failed_tx W \<lparr>nd_tx_hash = [], nd_amount = nt_amount resp,
                      nd_network = nt_network resp, nd_success = False\<rparr>)) (\<lambda>_.
                  nret resp))))
            (\<lambda>resp. nbind (rpc_announce resp) (\<lambda>_. cache_insert resp))))"

definition native_swarm_message :: "'d native_world \<Rightarrow> native_swarm_message \<Rightarrow> ('d, unit) native_action" where
  "native_swarm_message W msg = (case msg of
       SwarmRequest d i \<Rightarrow> native_swarm_request W d i
     | SwarmResponse d i \<Rightarrow> native_swarm_response W d i)"

section \<open>The main worker: user updates\<close>

text \<open>Dial, wait three seconds, send the request; a failure of either is reported.\<close>

definition native_contact :: "'d native_world \<Rightarrow> native_tx \<Rightarrow> string \<Rightarrow> string \<Rightarrow> ('d, unit) native_action" where
  "native_contact W tx addr peer =
     nbind (ncatch (on_net (dial_to_peer_id addr peer))
       (\<lambda>_. send_error ''p2p network service'' ''Failed to dial to peer id'')) (\<lambda>_.
     ncatch (on_net (native_send_request (w_encode W) tx peer addr))
       (\<lambda>_. send_error ''p2p network service'' ''Failed to send request to peer id''))"

definition parse_or :: "(string \<Rightarrow> string option) \<Rightarrow> string \<Rightarrow> ('d, unit) native_action" where
  "parse_or parse s = (case parse s of Some e \<Rightarrow> nerr e | None \<Rightarrow> nret ())"

definition native_remote_profile :: "'d native_world \<Rightarrow> string \<Rightarrow> ('d, redis_account_profile option) native_action" where
  "native_remote_profile W target = (case w_redis_connect W of
       Some e \<Rightarrow> nbind (send_error ''database'' ''Failed to connect to Redis'') (\<lambda>_. nerr ''failed to connect to redis'')
     | None \<Rightarrow>
         (case w_hget W ''ACCOUNT_LINK'' target of
            Inl e \<Rightarrow> nbind (send_error ''database'' ''Failed to get user hash ID from Redis'') (\<lambda>_. nret None)
          | Inr hash_id \<Rightarrow>
              (case w_hget W ''ACCOUNT_PROFILE'' hash_id of
                 Inl e \<Rightarrow> nbind (send_error ''database'' ''Failed to get user profile from Redis'') (\<lambda>_. nret None)
               | Inr profile \<Rightarrow>
                   (case w_parse_profile W profile of
                      Inr p \<Rightarrow> nret (Some p)
                    | Inl e \<Rightarrow> nbind (send_error ''database'' ''Failed to parse Redis user profile'') (\<lambda>_.
                        nerr ''failed to parse target user profile'')))))"

definition native_contact_remote :: "'d native_world \<Rightarrow> native_tx \<Rightarrow> redis_account_profile \<Rightarrow> ('d, unit) native_action" where
  "native_contact_remote W tx p =
     nbind (parse_or (w_parse_multi_addr W) (rap_multi_addr p)) (\<lambda>_.
     nbind (parse_or (w_parse_peer_id W) (rap_peer_id p)) (\<lambda>_.
     nbind (on_db (w_record_saved_user_peers W (nt_receiver_address tx) (rap_multi_addr p))) (\<lambda>_.
     native_contact W tx (rap_multi_addr p) (rap_peer_id p))))"

definition native_not_registered :: "native_tx \<Rightarrow> ('d, unit) native_action" where
  "native_not_registered tx =
     nbind (send_error ''network'' ''Target peer not found in remote database'') (\<lambda>_.
     (let tx = tx\<lparr>nt_status := ReceiverNotRegistered\<rparr> in
      nbind (rpc_announce tx) (\<lambda>_. cache_insert tx)))"

definition native_handle_genesis :: "'d native_world \<Rightarrow> native_tx \<Rightarrow> ('d, unit) native_action" where
  "native_handle_genesis W tx = (\<lambda>n.
     (let target = nt_receiver_address tx; (found, d) = w_get_saved_user_peers W target (nn_db n);
          n = n\<lparr>nn_db := d\<rparr> in
      case found of
        Inr (addr, peer) \<Rightarrow>
          (case addr of
             None \<Rightarrow> (NPanic, n)
           | Some a \<Rightarrow>
               nbind (parse_or (w_parse_multi_addr W) a) (\<lambda>_.
               case peer of
                 None \<Rightarrow> npanic
               | Some p \<Rightarrow> nbind (parse_or (w_parse_peer_id W) p) (\<lambda>_. native_contact W tx a p)) n)
      | Inl e \<Rightarrow>
          nbind (send_error ''database'' ''Failed to find target peer in local database'') (\<lambda>_.
          nbind (native_remote_profile W target) (\<lambda>profile.
          case profile of
            Some p \<Rightarrow> native_contact_remote W tx p
          | None \<Rightarrow> native_not_registered tx)) n))"

definition native_handle_recv_addr_confirmed :: "'d native_world \<Rightarrow> u64 \<Rightarrow> native_tx \<Rightarrow> ('d, unit) native_action" where
  "native_handle_recv_addr_confirmed W i tx =
     ncatch (on_net (native_send_response (w_encode W) i tx))
       (\<lambda>_. send_error ''p2p network service'' ''Failed to send response to peer id'')"

definition native_handle_sender_confirmed :: "'d native_world \<Rightarrow> native_tx \<Rightarrow> ('d, unit) native_action" where
  "native_handle_sender_confirmed W tx =
     nbind (ncatch (npure (native_validate_address (w_chain_env W) tx ''Sender''))
       (\<lambda>_. send_error ''tx processing worker'' ''Failed to validate receiver sender address'')) (\<lambda>_.
     if native_validate_multi_id (w_chain_env W) tx then
       (let (r, out) = native_submit_tx (w_chain_env W) tx in
        nbind (nmod (\<lambda>n. n\<lparr>nn_sent := nn_sent n @ out\<rparr>)) (\<lambda>_.
        case r of
          NOk h \<Rightarrow>
            nbind (rpc_announce (tx\<lparr>nt_status := TxSubmissionPassed h\<rparr>)) (\<lambda>_.
            on_db (w_update_success_tx W \<lparr>nd_tx_hash = h, nd_amount = nt_amount tx,
              nd_network = nt_network tx, nd_success = True\<rparr>))
        | NErr e \<Rightarrow>
            rpc_announce (tx\<lparr>nt_status := FailedToSubmitTxn (e @ '': the tx will be resubmitted rest assured'')\<rparr>)
        | NPanic \<Rightarrow> npanic))
     else rpc_announce (tx\<lparr>nt_status := SenderConfirmationfailed\<rparr>))"

definition native_handle_reverted :: "'d native_world \<Rightarrow> native_tx \<Rightarrow> ('d, unit) native_action" where
  "native_handle_reverted W tx =
     nbind (on_db (w_get_saved_user_peers W (nt_receiver_address tx))) (\<lambda>(addr, peer).
     case peer of
       None \<Rightarrow> nerr ''Reverting: peer id not found''
     | Some p \<Rightarrow> (case w_parse_peer_id W p of
           Some _ \<Rightarrow> npanic
         | None \<Rightarrow> on_net (disconnect_from_peer_id p)))"

definition native_handle_update :: "'d native_world \<Rightarrow> native_tx \<Rightarrow> ('d, unit) native_action" where
  "native_handle_update W tx = (case nt_status tx of
       Genesis \<Rightarrow> native_handle_genesis W tx
     | RecvAddrConfirmed \<Rightarrow>
         (case nt_inbound_req_id tx of
            None \<Rightarrow> npanic
          | Some i \<Rightarrow> native_handle_recv_addr_confirmed W i tx)
     | NetConfirmed \<Rightarrow> npanic
     | SenderConfirmed \<Rightarrow> native_handle_sender_confirmed W tx
     | Reverted _ \<Rightarrow> native_handle_reverted W tx
     | _ \<Rightarrow> nret ())"

text \<open>\<open>handle_incoming_rpc_tx_updates\<close>: the queued updates, until a handler returns an error.\<close>

definition native_take_update :: "'d native_world \<Rightarrow> ('d, unit) native_action" where
  "native_take_update W = (\<lambda>n. case nn_user n of
       [] \<Rightarrow> (NOk (), n) | tx # txs \<Rightarrow> native_handle_update W tx (n\<lparr>nn_user := txs\<rparr>))"

section \<open>Runs of a node\<close>

datatype native_call =
    CallInitiate string string u128 string string string
  | CallRevert native_tx
  | CallSenderConfirm native_tx
  | CallReceiverConfirm native_tx
  | TakeUpdate
  | TakeSwarm native_swarm_message
  | SwarmEventIn native_event
  | Evict u64

fun native_step :: "'d native_world \<Rightarrow> native_call \<Rightarrow> 'd native_node \<Rightarrow> 'd native_node" where
  "native_step W (CallInitiate a b amt t net code) n = snd (native_initiate_transaction W a b amt t net code n)"
| "native_step W (CallRevert tx) n = snd (native_revert_transaction W tx n)"
| "native_step W (CallSenderConfirm tx) n = snd (native_sender_confirm tx n)"
| "native_step W (CallReceiverConfirm tx) n = snd (native_receiver_confirm tx n)"
| "native_step W TakeUpdate n = snd (native_take_update W n)"
| "native_step W (TakeSwarm msg) n = snd (native_swarm_message W msg n)"
| "native_step W (SwarmEventIn ev) n = n\<lparr>nn_worker := handle_swarm_events (w_hash_id W) ev (nn_worker n)\<rparr>"
| "native_step W (Evict k) n = n\<lparr>nn_cache := AList.delete k (nn_cache n)\<rparr>"

section \<open>Invariants\<close>

lemmas n_simps = nret_def nerr_def npanic_def nmod_def nbind_def ncatch_def npure_def

text \<open>An action that keeps a property of the node, whatever its result.\<close>

definition nkeeps :: "('d native_node \<Rightarrow> bool) \<Rightarrow> ('d, 'a) native_action \<Rightarrow> bool" where
  "nkeeps I m \<longleftrightarrow> (\<forall>n. I n \<longrightarrow> I (snd (m n)))"

named_theorems nkeeps_intros \<open>actions that keep a property of the node\<close>

lemma nkeeps_basic [nkeeps_intros]:
  "nkeeps I (nret x)" "nkeeps I (nerr e)" "nkeeps I npanic" "nkeeps I (npure r)"
  by (simp_all add: nkeeps_def n_simps)

lemma nkeeps_nbind [nkeeps_intros]:
  "nkeeps I m \<Longrightarrow> (\<And>x. nkeeps I (f x)) \<Longrightarrow> nkeeps I (nbind m f)"
  unfolding nkeeps_def nbind_def by (auto split: prod.splits native_result.splits)

lemma nkeeps_ncatch [nkeeps_intros]:
  "nkeeps I m \<Longrightarrow> (\<And>e. nkeeps I (h e)) \<Longrightarrow> nkeeps I (ncatch m h)"
  unfolding nkeeps_def ncatch_def by (auto split: prod.splits native_result.splits)

lemma nkeeps_if [nkeeps_intros]: "nkeeps I m \<Longrightarrow> nkeeps I m' \<Longrightarrow> nkeeps I (if b then m else m')"
  by simp

lemma nkeeps_option [nkeeps_intros]:
  "nkeeps I m \<Longrightarrow> (\<And>x. nkeeps I (f x)) \<Longrightarrow> nkeeps I (case r of None \<Rightarrow> m | Some x \<Rightarrow> f x)"
  by (cases r) simp_all

lemma nkeeps_sum [nkeeps_intros]:
  "(\<And>e. nkeeps I (h e)) \<Longrightarrow> (\<And>x. nkeeps I (f x)) \<Longrightarrow> nkeeps I (case r of Inl e \<Rightarrow> h e | Inr x \<Rightarrow> f x)"
  by (cases r) simp_all

lemma nkeeps_result [nkeeps_intros]:
  "(\<And>x. nkeeps I (f x)) \<Longrightarrow> (\<And>e. nkeeps I (h e)) \<Longrightarrow> nkeeps I p \<Longrightarrow>
   nkeeps I (case r of NOk x \<Rightarrow> f x | NErr e \<Rightarrow> h e | NPanic \<Rightarrow> p)"
  by (cases r) simp_all

lemma nkeeps_prod [nkeeps_intros]: "(\<And>x y. nkeeps I (f x y)) \<Longrightarrow> nkeeps I (case r of (x, y) \<Rightarrow> f x y)"
  by (cases r) simp_all

text \<open>No report has a reader: the error channel stays closed and nothing is delivered.\<close>

definition unheard :: "'d native_node \<Rightarrow> bool" where
  "unheard n \<longleftrightarrow> \<not> nn_error_receiver n \<and> nn_errors n = []"

text \<open>The command channel holds no \<open>Close\<close>.\<close>

definition never_closes :: "'d native_node \<Rightarrow> bool" where
  "never_closes n \<longleftrightarrow> (\<forall>p. Close p \<notin> set (nn_commands n))"

text \<open>A property that every effect of the handlers keeps is an invariant of the node.\<close>

locale native_invariant =
  fixes I :: "'d native_node \<Rightarrow> bool"
  assumes report: "nkeeps I (send_error k m)"
    and dialed: "nkeeps I (on_net (dial_to_peer_id a p))"
    and requested: "nkeeps I (on_net (native_send_request (enc :: native_tx \<Rightarrow> bytes) tx p a))"
    and responded: "nkeeps I (on_net (native_send_response (enc :: native_tx \<Rightarrow> bytes) i tx))"
    and disconnected: "nkeeps I (on_net (disconnect_from_peer_id p))"
    and frame: "I n \<Longrightarrow> I (n\<lparr>nn_db := d\<rparr>)" "I n \<Longrightarrow> I (n\<lparr>nn_rpc := txs\<rparr>)" "I n \<Longrightarrow> I (n\<lparr>nn_user := txs\<rparr>)"
      "I n \<Longrightarrow> I (n\<lparr>nn_cache := c\<rparr>)" "I n \<Longrightarrow> I (n\<lparr>nn_sent := out\<rparr>)" "I n \<Longrightarrow> I (n\<lparr>nn_worker := w\<rparr>)"
begin

lemma primitives:
  "nkeeps I (rpc_announce tx)" "nkeeps I (cache_insert tx)" "nkeeps I (cache_remove tx)"
  "nkeeps I (user_update tx)" "nkeeps I (on_db g)" "nkeeps I (nmod (\<lambda>n. n\<lparr>nn_sent := f n\<rparr>))"
  by (auto simp: nkeeps_def rpc_announce_def cache_insert_def cache_remove_def user_update_def on_db_def n_simps
      frame split: prod.splits sum.splits)

lemmas keeps = nkeeps_intros primitives report dialed requested responded disconnected

lemma contact: "nkeeps I (native_contact W tx a p)"
  unfolding native_contact_def by (intro keeps)

lemma parse: "nkeeps I (parse_or f s)"
  unfolding parse_or_def by (intro keeps)

lemma profile: "nkeeps I (native_remote_profile W t)"
  unfolding native_remote_profile_def by (intro keeps)

lemma remote: "nkeeps I (native_contact_remote W tx p)" "nkeeps I (native_not_registered tx)"
  unfolding native_contact_remote_def native_not_registered_def Let_def by (intro keeps contact parse)+

lemma genesis: "nkeeps I (native_handle_genesis W tx)"
proof -
  have "I n \<Longrightarrow> nkeeps I m \<Longrightarrow> I (snd (m (n\<lparr>nn_db := d\<rparr>)))" for m :: "('d, unit) native_action" and n d
    using frame(1) by (simp add: nkeeps_def)
  moreover have "nkeeps I (nbind (parse_or (w_parse_multi_addr W) a) (\<lambda>_. case peer of None \<Rightarrow> npanic
      | Some p \<Rightarrow> nbind (parse_or (w_parse_peer_id W) p) (\<lambda>_. native_contact W tx a p)))" for a peer
    by (intro keeps contact parse)
  moreover have "nkeeps I (nbind (send_error k m) (\<lambda>_.
      nbind (native_remote_profile W t) (\<lambda>profile.
      case profile of Some p \<Rightarrow> native_contact_remote W tx p | None \<Rightarrow> native_not_registered tx)))" for k m t
    by (intro keeps profile remote)
  ultimately show ?thesis
    unfolding nkeeps_def native_handle_genesis_def
    by (auto simp: Let_def frame split: prod.splits sum.splits option.splits)
qed

lemma handlers:
  "nkeeps I (native_handle_recv_addr_confirmed W i tx)" "nkeeps I (native_handle_sender_confirmed W tx)"
  "nkeeps I (native_handle_reverted W tx)"
  unfolding native_handle_recv_addr_confirmed_def native_handle_sender_confirmed_def
    native_handle_reverted_def Let_def
  by (intro keeps)+

lemma update: "nkeeps I (native_handle_update W tx)"
  unfolding native_handle_update_def
  by (cases "nt_status tx") (simp_all add: genesis handlers nkeeps_basic split: option.splits)

lemma take_update: "nkeeps I (native_take_update W)"
  using update [of W] frame(3) by (auto simp: nkeeps_def native_take_update_def split: list.splits)

lemma swarm: "nkeeps I (native_swarm_message W msg)"
  unfolding native_swarm_message_def native_swarm_request_def native_swarm_response_def Let_def
  by (cases msg; simp; intro keeps)

lemma initiate: "nkeeps I (native_initiate_transaction W a b amt t net code)"
  unfolding native_initiate_transaction_def Let_def
  by (cases "native_verify_public_bytes (w_chain_env W) a (w_token_from W t) (w_chain_from W net)";
      cases "native_verify_public_bytes (w_chain_env W) b (w_token_from W t) (w_chain_from W net)";
      simp; intro keeps impI conjI)

lemma rpc_calls:
  "nkeeps I (native_revert_transaction W tx)" "nkeeps I (native_sender_confirm tx)"
  "nkeeps I (native_receiver_confirm tx)"
  unfolding native_revert_transaction_def native_sender_confirm_def native_receiver_confirm_def
  by (intro keeps)+

lemma step: "I n \<Longrightarrow> I (native_step W c n)"
  using initiate rpc_calls take_update swarm frame by (cases c) (auto simp: nkeeps_def)

lemma run: "I n \<Longrightarrow> I (fold (native_step W) cs n)"
  by (induction cs arbitrary: n) (simp_all add: step)

end

interpretation heard: native_invariant unheard
  by unfold_locales
    (auto simp: nkeeps_def unheard_def send_error_def on_net_def n_simps Let_def split: prod.splits)

interpretation closing: native_invariant never_closes
  by unfold_locales
    (auto simp: nkeeps_def never_closes_def send_error_def on_net_def n_simps Let_def dial_to_peer_id_def
      native_send_request_def native_send_response_def disconnect_from_peer_id_def ns_send_def
      split: prod.splits option.splits)

section \<open>Theorems\<close>

lemmas node_simps = n_simps on_net_def on_db_def rpc_announce_def cache_insert_def cache_remove_def
  user_update_def send_error_def native_node_new_def Let_def

lemma genesis_known_peer:
  assumes "w_get_saved_user_peers W (nt_receiver_address tx) (nn_db n) = (Inr (Some a, Some p), d)"
    and "w_parse_multi_addr W a = None" "w_parse_peer_id W p = None"
  shows "native_handle_genesis W tx n = (NOk (), n\<lparr>nn_db := d,
     nn_commands := nn_commands n @ [Dial a p, SendRequest (w_encode W tx) p a]\<rparr>)"
  using assms
  by (simp add: native_handle_genesis_def native_contact_def parse_or_def node_simps dial_to_peer_id_def
      native_send_request_def ns_send_def)

lemma initiate_ok:
  assumes "native_verify_public_bytes (w_chain_env W) a (w_token_from W t) (w_chain_from W net) = NOk c"
    and "native_verify_public_bytes (w_chain_env W) b (w_token_from W t) (w_chain_from W net) = NOk c"
    and "w_get_nonce W (nn_db n) = (Inr k, d)" "w_increment_nonce W d = (Inr (), d')"
    and "tx = native_initial_tx (w_chain_env W) a b c (w_token_from W t) code amt (k + 1)"
  shows "native_initiate_transaction W a b amt t net code n = (NOk (), n\<lparr>nn_db := d',
        nn_cache := AList.update (ucast (k + 1)) tx (nn_cache n), nn_user := nn_user n @ [tx]\<rparr>)"
  using assms
  by (simp add: native_initiate_transaction_def node_simps Let_def) (simp add: native_initial_tx_def)

text \<open>A small world: the database is a nonce and a list of failed transactions, one peer is known.\<close>

definition sample_world :: "(u32 \<times> native_db_tx list) native_world" where
  "sample_world = \<lparr>w_get_saved_user_peers = (\<lambda>a d. if a = ''bob'' then (Inr (Some ''/ip4/9'', Some ''12D3''), d)
       else (Inl ''not found'', d)),
     w_record_saved_user_peers = (\<lambda>_ _ d. (Inr (), d)),
     w_update_failed_tx = (\<lambda>t (k, fs). (Inr (), (k, fs @ [t]))), w_update_success_tx = (\<lambda>_ d. (Inr (), d)),
     w_get_nonce = (\<lambda>(k, fs). (Inr k, (k, fs))), w_increment_nonce = (\<lambda>(k, fs). (Inr (), (k + 1, fs))),
     w_redis_connect = None, w_hget = (\<lambda>_ _. Inl ''nil''), w_parse_profile = (\<lambda>_. Inl ''json''),
     w_parse_multi_addr = (\<lambda>_. None), w_parse_peer_id = (\<lambda>_. None), w_encode = (\<lambda>tx. as_bytes (nt_receiver_address tx)),
     w_decode = (\<lambda>bs. if bs = [] then None else Some sample_native_tx), w_hash_id = of_nat,
     w_get_tx_hash = (\<lambda>_. []), w_token_from = (\<lambda>_. TokSol), w_chain_from = (\<lambda>_. NSolana),
     w_chain_env = sample_native_env\<lparr>ne_from_base58 := (\<lambda>_. Some (replicate 32 0)),
       ne_recover_address := (\<lambda>_ _. Some [1])\<rparr>\<rparr>"

definition sample_worker :: native_worker where
  "sample_worker = \<lparr>nw_node_id = ''p'', nw_url = ''u'', nw_pending_request = [], nw_messages = []\<rparr>"

lemmas sample_simps = sample_world_def sample_worker_def sample_native_env_def sample_native_tx_def

text \<open>A transaction that the user of a native node initiates for a known peer leaves the node as a dial
  followed by a request with exactly that transaction to that peer: accepted addresses of one network, the
  next nonce, the multi id of the two addresses.\<close>

theorem native_initiate_reaches_peer:
  assumes "native_verify_public_bytes (w_chain_env W) a (w_token_from W t) (w_chain_from W net) = NOk c"
    and "native_verify_public_bytes (w_chain_env W) b (w_token_from W t) (w_chain_from W net) = NOk c"
    and "nn_user n = []" "w_get_nonce W (nn_db n) = (Inr k, d)" "w_increment_nonce W d = (Inr (), d')"
    and "w_get_saved_user_peers W b d' = (Inr (Some addr, Some peer), d'')"
    and "w_parse_multi_addr W addr = None" "w_parse_peer_id W peer = None"
    and "tx = native_initial_tx (w_chain_env W) a b c (w_token_from W t) code amt (k + 1)"
  shows "nn_commands (fold (native_step W) [CallInitiate a b amt t net code, TakeUpdate] n)
        = nn_commands n @ [Dial addr peer, SendRequest (w_encode W tx) peer addr]
     \<and> map_of (nn_cache (fold (native_step W) [CallInitiate a b amt t net code, TakeUpdate] n)) (ucast (k + 1)) = Some tx
     \<and> native_validate_multi_id (w_chain_env W) tx"
proof -
  let ?n = "n\<lparr>nn_db := d', nn_cache := AList.update (ucast (k + 1)) tx (nn_cache n), nn_user := []\<rparr>"
  have "native_handle_genesis W tx ?n = (NOk (), ?n\<lparr>nn_db := d'',
      nn_commands := nn_commands ?n @ [Dial addr peer, SendRequest (w_encode W tx) peer addr]\<rparr>)"
    by (rule genesis_known_peer) (simp_all add: assms native_initial_tx_def)
  moreover have "nt_status tx = Genesis" "native_validate_multi_id (w_chain_env W) tx"
    by (simp_all add: assms(9) native_initial_tx_def default_tx_status_def native_validate_multi_id_def)
  ultimately show ?thesis
    by (simp add: initiate_ok [OF assms(1,2,4,5,9)] assms(3) native_take_update_def native_handle_update_def)
qed

theorem native_initiate_reaches_peer_witness:
  "nn_commands (fold (native_step sample_world) [CallInitiate ''alice'' ''bob'' 10 ''sol'' ''solana'' ''cw'', TakeUpdate]
      (native_node_new (4, []) sample_worker)) = [Dial ''/ip4/9'' ''12D3'', SendRequest (as_bytes ''bob'') ''12D3'' ''/ip4/9'']"
  using native_initiate_reaches_peer [of sample_world "''alice''" "''sol''" "''solana''" NSolana "''bob''"
      "native_node_new (4, []) sample_worker" 4 "(4, [])" "(5, [])" "''/ip4/9''" "''12D3''" "(5, [])", OF _ _ _ _ _ _ _ _ refl]
  by (simp add: sample_simps native_verify_public_bytes_def native_node_new_def native_initial_tx_def
      del: fold_simps)

text \<open>An inbound request is answered on its own channel: the swarm's request reaches the user with its
  inbound id, and once the user has confirmed with a signature the node sends the confirmed transaction back
  on the channel of that request, and drops it from the cache.\<close>

theorem native_request_answered:
  assumes "w_decode W d = Some tx" "nw_pending_request w = []"
    and "n = native_node_new db w"
    and "shown = tx\<lparr>nt_inbound_req_id := Some (w_hash_id W i)\<rparr>"
    and "confirmed = shown\<lparr>nt_recv_signature := Some sig\<rparr>"
  shows "nn_rpc (fold (native_step W) [SwarmEventIn (MessageRequest ch i d), TakeSwarm (SwarmRequest d i)] n) = [shown]
    \<and> nn_commands (fold (native_step W) [SwarmEventIn (MessageRequest ch i d), TakeSwarm (SwarmRequest d i),
          CallReceiverConfirm confirmed, TakeUpdate] n)
        = [SendResponse (w_encode W (confirmed\<lparr>nt_status := RecvAddrConfirmed\<rparr>)) ch]
    \<and> nn_cache (fold (native_step W) [SwarmEventIn (MessageRequest ch i d), TakeSwarm (SwarmRequest d i),
          CallReceiverConfirm confirmed, TakeUpdate] n) = []"
  using assms
  by (simp add: node_simps handle_swarm_events_def native_swarm_message_def native_swarm_request_def
      native_receiver_confirm_def native_take_update_def native_handle_update_def
      native_handle_recv_addr_confirmed_def native_send_response_def ns_send_def)

theorem native_request_answered_witness:
  "nn_commands (fold (native_step sample_world) [SwarmEventIn (MessageRequest 8 3 [1]), TakeSwarm (SwarmRequest [1] 3),
      CallReceiverConfirm (sample_native_tx\<lparr>nt_inbound_req_id := Some (of_nat 3), nt_recv_signature := Some [2]\<rparr>), TakeUpdate]
      (native_node_new (4, []) sample_worker)) = [SendResponse (as_bytes ''bob'') 8]"
proof -
  have w: "w_decode sample_world [1] = Some sample_native_tx" "nw_pending_request sample_worker = []"
    "w_hash_id sample_world = of_nat" "w_encode sample_world = (\<lambda>tx. as_bytes (nt_receiver_address tx))"
    by (simp_all add: sample_simps)
  from native_request_answered [where db = "(4, [])" and ch = 8 and i = 3 and sig = "[2]", OF w(1,2) refl refl refl] show ?thesis
    unfolding w by (simp add: sample_native_tx_def del: fold_simps)
qed

lemma validate_outbound:
  "native_validate_address E (tx\<lparr>nt_outbound_req_id := x\<rparr>) ''Receiver'' = native_validate_address E tx ''Receiver''"
  by (cases "nt_recv_signature tx"; cases "nt_network tx"; simp add: native_validate_defs)

text \<open>A response whose receiver signature is not valid is not turned into a payload to sign: the transaction is
  announced and cached as reverted, recorded as failed, and nothing is sent to a chain or to a peer.\<close>

theorem native_response_rejected:
  assumes "w_decode W d = Some tx" "native_validate_address (w_chain_env W) tx ''Receiver'' = NErr e"
    and "w_update_failed_tx W \<lparr>nd_tx_hash = [], nd_amount = nt_amount tx, nd_network = nt_network tx,
           nd_success = False\<rparr> (nn_db n) = (Inr (), db')"
    and "shown = tx\<lparr>nt_outbound_req_id := Some (w_hash_id W i), nt_status := Reverted ''Receiver address failed''\<rparr>"
  shows "native_swarm_message W (SwarmResponse d i) n = (NOk (), n\<lparr>nn_db := db', nn_rpc := nn_rpc n @ [shown],
     nn_cache := AList.update (ucast (nt_tx_nonce tx)) shown (nn_cache n),
     nn_errors := (if nn_error_receiver n then nn_errors n @ [(''execution'', ''Receiver confirmation failed'')]
                   else nn_errors n)\<rparr>)"
  using assms
  by (simp add: native_swarm_message_def native_swarm_response_def node_simps validate_outbound)

theorem native_response_rejected_witness:
  "nn_rpc (snd (native_swarm_message sample_world (SwarmResponse [1] 3) (native_node_new (4, []) sample_worker)))
     = [sample_native_tx\<lparr>nt_outbound_req_id := Some (of_nat 3), nt_status := Reverted ''Receiver address failed''\<rparr>]"
proof -
  have w: "w_decode sample_world [1] = Some sample_native_tx" "w_hash_id sample_world = of_nat"
    by (simp_all add: sample_simps)
  have v: "native_validate_address (w_chain_env sample_world) sample_native_tx ''Receiver''
      = NErr ''addr recovery equality failed hence account invalid''"
    by (simp add: native_validate_defs sample_simps as_bytes_def)
  have u: "w_update_failed_tx sample_world \<lparr>nd_tx_hash = [], nd_amount = nt_amount sample_native_tx,
      nd_network = nt_network sample_native_tx, nd_success = False\<rparr> (nn_db (native_node_new (4, []) sample_worker))
      = (Inr (), (4, [\<lparr>nd_tx_hash = [], nd_amount = 10, nd_network = NEthereum, nd_success = False\<rparr>]))"
    by (simp add: sample_simps native_node_new_def)
  show ?thesis
    unfolding native_response_rejected [OF w(1) v u refl, of 3] w by (simp add: native_node_new_def)
qed

text \<open>A transaction whose sender signature is wrong is submitted all the same: the failed validation is only
  reported, and the node goes on to the multi id check and the submission.\<close>

theorem native_unverified_submitted:
  assumes "native_validate_address (w_chain_env W) tx ''Sender'' = NErr e"
    and "native_validate_multi_id (w_chain_env W) tx" "native_submit_tx (w_chain_env W) tx = (NOk h, out)"
  shows "nn_sent (snd (native_handle_sender_confirmed W tx n)) = nn_sent n @ out
    \<and> nn_rpc (snd (native_handle_sender_confirmed W tx n)) = nn_rpc n @ [tx\<lparr>nt_status := TxSubmissionPassed h\<rparr>]"
  using assms by (simp add: native_handle_sender_confirmed_def node_simps split: prod.splits sum.splits)

theorem native_unverified_submitted_witness:
  "length (nn_sent (snd (native_handle_sender_confirmed sample_world
      (sample_native_tx\<lparr>nt_call_payload := Some (replicate 32 1)\<rparr>) (native_node_new (4, []) sample_worker)))) = 1"
proof -
  let ?tx = "sample_native_tx\<lparr>nt_call_payload := Some (replicate 32 1)\<rparr>"
  have v: "native_validate_address (w_chain_env sample_world) ?tx ''Sender''
      = NErr ''addr recovery equality failed hence account invalid''"
    by (simp add: native_validate_defs sample_simps as_bytes_def)
  have m: "native_validate_multi_id (w_chain_env sample_world) ?tx"
    by (simp add: native_validate_multi_id_def native_multi_id_def sample_simps flip: as_bytes_append)
  obtain out where "native_submit_tx (w_chain_env sample_world) ?tx = (NOk [5], out)" "length out = 1"
    by (simp add: native_submit_tx_def eth_request_def sample_simps)
  from native_unverified_submitted [OF v m this(1)] this(2) show ?thesis
    by (simp add: native_node_new_def)
qed

text \<open>\<open>sender_confirm\<close> accepts every transaction that carries a signed payload, whatever its status: also one whose
  receiver never confirmed or failed the confirmation.\<close>

theorem native_confirm_any_status:
  assumes "nt_signed_call_payload tx = Some sig"
  shows "native_sender_confirm tx n = (NOk (), n\<lparr>nn_cache := AList.delete (ucast (nt_tx_nonce tx)) (nn_cache n),
     nn_user := nn_user n @ [tx\<lparr>nt_status := SenderConfirmed\<rparr>]\<rparr>)"
  using assms by (simp add: native_sender_confirm_def node_simps)

theorem native_confirm_any_status_witness:
  "nn_user (snd (native_sender_confirm (sample_native_tx\<lparr>nt_status := RecvAddrFailed\<rparr>)
      (native_node_new () sample_worker))) = [sample_native_tx\<lparr>nt_status := SenderConfirmed\<rparr>]"
  using native_confirm_any_status [of "sample_native_tx\<lparr>nt_status := RecvAddrFailed\<rparr>" "[2]"
      "native_node_new () sample_worker"]
  by (simp add: sample_native_tx_def native_node_new_def)

text \<open>No report of the native node ever reaches a subscriber: in every run from the start no error has been
  delivered, whatever failed.\<close>

theorem native_errors_unheard:
  "nn_errors (fold (native_step W) cs (native_node_new db w)) = []"
  using heard.run [of "native_node_new db w" W cs] by (simp add: unheard_def native_node_new_def)

text \<open>The native node never closes a connection: in every run from the start the command channel has held no
  \<open>Close\<close>, although a reverted transaction asks for one.\<close>

theorem native_never_closes:
  "Close p \<notin> set (nn_commands (fold (native_step W) cs (native_node_new db w)))"
  using closing.run [of "native_node_new db w" W cs] by (simp add: never_closes_def native_node_new_def)

end
