(* ===== verification/Native_Exchange.thy ===== *)
theory Native_Exchange
  imports Native_Node
begin

text \<open>
  Two native nodes and what lies between them: a transaction goes from the RPC of the sender through its main worker,
  its swarm loop and the framing of \<open>GenericCodec\<close> to the swarm loop, the main worker and the user of the receiver, and
  its confirmation goes the same way back. The definitions are those of \<open>Native_Node\<close>, \<open>Native_P2p\<close> and
  \<open>Native_Codec\<close>; the substream that libp2p opens for a request is the writer of the codec, and what the other side reads is
  what was written to it. That libp2p reports what the codec has read as an event is the assumption on it.
\<close>

section \<open>Substreams between two nodes\<close>

text \<open>What the other side reads of a request or of a response: nothing if the writing or the reading fails.\<close>

definition carry_request ::
    "varint_codec \<Rightarrow> 'w async_write \<Rightarrow> ('w \<Rightarrow> bytes) \<Rightarrow> generic_codec \<Rightarrow> 'w \<Rightarrow> bytes \<Rightarrow> bytes option" where
  "carry_request V W written c w d = (case write_request V W d w of
       (Some e, w') \<Rightarrow> None
     | (None, w') \<Rightarrow> (case read_request V c (written w') of Inr (d', _) \<Rightarrow> Some d' | Inl e \<Rightarrow> None))"

definition carry_response ::
    "varint_codec \<Rightarrow> 'w async_write \<Rightarrow> ('w \<Rightarrow> bytes) \<Rightarrow> generic_codec \<Rightarrow> 'w \<Rightarrow> string + bytes \<Rightarrow> (string + bytes) option" where
  "carry_response V W written c w r = (case write_response V W r w of
       (Some e, w') \<Rightarrow> None
     | (None, w') \<Rightarrow> (case read_response V c (written w') of Inr (r', _) \<Rightarrow> Some r' | Inl e \<Rightarrow> None))"

text \<open>A substream over a varint and a writer that keep their promises.\<close>

locale substream = varint V + appending W written
  for V :: varint_codec and W :: "'w async_write" and written :: "'w \<Rightarrow> bytes"
begin

lemma carried_request:
  assumes "written w = []" "length d < 2 ^ 64" "carry_request V W written c w d = Some d'"
  shows "d' = d"
proof -
  obtain e w' where w: "write_request V W d w = (e, w')" by fastforce
  with assms(3) have e: "e = None" by (cases e) (simp_all add: carry_request_def)
  have "written w' = encode_usize V (length d) @ d"
    using request_written [of V d w] w e assms(1) by simp
  with assms(3) w e request_roundtrip [OF assms(2), of c "[]"] show ?thesis
    by (simp add: carry_request_def split: if_splits)
qed

lemma carried_response:
  assumes "written w = []" "length d < 2 ^ 64" "carry_response V W written c w (Inr d) = Some r"
  shows "r = Inr d"
proof -
  obtain e w' where w: "write_response V W (Inr d) w = (e, w')" by fastforce
  with assms(3) have e: "e = None" by (cases e) (simp_all add: carry_response_def)
  have "written w' = encode_usize V (length d) @ d"
    using response_written [of V "Inr d" w] w e assms(1) by simp
  with assms(3) w e response_roundtrip [OF assms(2), of c "[]"] show ?thesis
    by (simp add: carry_response_def split: if_splits)
qed

end

interpretation leb_buffer: substream leb128_codec buffer_write fst ..

section \<open>The two swarm loops\<close>

definition run_commands :: "'s native_swarm \<Rightarrow> (nat \<Rightarrow> u64) \<Rightarrow> native_command list \<Rightarrow> 's native_loop \<Rightarrow> 's native_loop" where
  "run_commands N hash cmds L = fold (\<lambda>c. native_turn N hash (NCommand (Some c))) cmds L"

lemma request_leaves:
  assumes "nl_failed L = None" "\<not> sw_is_connected N peer (nl_swarm L)"
    and "sw_dial N addr (nl_swarm L) = (None, s)" "sw_is_connected N peer s"
  shows "run_commands N hash [Dial addr peer, SendRequest d peer addr] L = L\<lparr>nl_swarm := sw_send_request N peer d s\<rparr>"
  using assms by (cases L) (simp add: run_commands_def native_turn_def run_command_def)

lemma response_leaves:
  assumes "nl_failed L = None" "sw_channel_open N ch (nl_swarm L)" "sw_send_response N ch d (nl_swarm L) = (True, s)"
  shows "run_commands N hash [SendResponse d ch] L = L\<lparr>nl_swarm := s\<rparr>"
  using assms by (cases L) (simp add: run_commands_def native_turn_def run_command_def)

lemma response_taken:
  assumes "w_decode W d = Some resp"
    and "native_validate_address (w_chain_env W) resp ''Receiver'' = NOk ()"
    and "native_create_tx (w_chain_env W) (resp\<lparr>nt_outbound_req_id := Some (w_hash_id W i),
           nt_status := RecvAddrConfirmationPassed\<rparr>) = NOk created"
  shows "native_swarm_message W (SwarmResponse d i) n = (NOk (), n\<lparr>nn_rpc := nn_rpc n @ [created],
     nn_cache := AList.update (ucast (nt_tx_nonce created)) created (nn_cache n)\<rparr>)"
  using assms by (simp add: native_swarm_message_def native_swarm_response_def node_simps validate_outbound)

lemma created_nonce: "native_create_tx E tx = NOk t \<Longrightarrow> nt_tx_nonce t = nt_tx_nonce tx"
  by (auto simp: native_create_tx_def split: native_chain.splits native_result.splits sum.splits typed_tx.splits if_splits)

section \<open>The exchange\<close>


section \<open>A concrete exchange\<close>

definition alice :: string where "alice = replicate 42 (CHR ''a'')"
definition bob :: string where "bob = replicate 42 (CHR ''b'')"

definition eth_tx :: native_tx where
  "eth_tx = native_initial_tx sample_native_env alice bob NEthereum TokEth ''cw'' 10 5"

definition eth_resp :: native_tx where
  "eth_resp = eth_tx\<lparr>nt_inbound_req_id := Some 3, nt_recv_signature := Some (as_bytes bob), nt_status := RecvAddrConfirmed\<rparr>"

definition eth_created :: native_tx where
  "eth_created = eth_resp\<lparr>nt_outbound_req_id := Some 6, nt_status := RecvAddrConfirmationPassed,
     nt_call_payload := Some (replicate 32 1)\<rparr>"

definition eth_world :: "(u32 \<times> native_db_tx list) native_world" where
  "eth_world = sample_world\<lparr>w_get_saved_user_peers := (\<lambda>a d. (Inr (Some ''/ip4/9'', Some ''12D3''), d)),
     w_encode := (\<lambda>tx. if tx = eth_tx then [1] else [2]), w_decode := (\<lambda>d. if d = [1] then Some eth_tx else Some eth_resp),
     w_token_from := (\<lambda>_. TokEth), w_chain_from := (\<lambda>_. NEthereum), w_chain_env := sample_native_env\<rparr>"

text \<open>A swarm that keeps the dialed addresses and what was handed to it.\<close>

definition log_swarm :: "(string list \<times> bytes list) native_swarm" where
  "log_swarm = \<lparr>sw_listen_on = (\<lambda>_ s. (None, s)), sw_is_connected = (\<lambda>_ (ds, _). ds \<noteq> []), sw_dial = (\<lambda>a (ds, m). (None, (ds @ [a], m))),
     sw_send_request = (\<lambda>_ d (ds, m). (ds, m @ [d])), sw_send_response = (\<lambda>_ d (ds, m). (True, (ds, m @ [d]))),
     sw_disconnect = (\<lambda>_ s. s), sw_channel_open = (\<lambda>_ _. True)\<rparr>"

definition idle_loop :: "(string list \<times> bytes list) native_loop" where
  "idle_loop = \<lparr>nl_worker = sample_worker, nl_swarm = ([], []), nl_failed = None\<rparr>"

lemma eth_world_simps:
  "w_chain_env eth_world = sample_native_env" "w_token_from eth_world = (\<lambda>_. TokEth)" "w_chain_from eth_world = (\<lambda>_. NEthereum)"
  "w_get_nonce eth_world (4, []) = (Inr 4, (4, []))" "w_increment_nonce eth_world (4, []) = (Inr (), (5, []))"
  "w_get_saved_user_peers eth_world a (5, []) = (Inr (Some ''/ip4/9'', Some ''12D3''), (5, []))"
  "w_parse_multi_addr eth_world m = None" "w_parse_peer_id eth_world m = None"
  "w_encode eth_world tx = (if tx = eth_tx then [1] else [2])"
  "w_decode eth_world x = (if x = [1] then Some eth_tx else Some eth_resp)" "w_hash_id eth_world = of_nat"
  by (simp_all add: eth_world_def sample_world_def)

lemma eth_resp_other: "eth_resp \<noteq> eth_tx"
proof
  assume "eth_resp = eth_tx"
  then have "nt_recv_signature eth_resp = nt_recv_signature eth_tx" by simp
  then show False by (simp add: eth_resp_def) (simp add: eth_tx_def native_initial_tx_def)
qed

lemma eth_checks:
  "native_verify_public_bytes sample_native_env alice TokEth NEthereum = NOk NEthereum"
  "native_verify_public_bytes sample_native_env bob TokEth NEthereum = NOk NEthereum"
  "native_validate_address sample_native_env eth_resp ''Receiver'' = NOk ()"
  "native_create_tx sample_native_env (eth_resp\<lparr>nt_outbound_req_id := Some 6, nt_status := RecvAddrConfirmationPassed\<rparr>)
     = NOk eth_created"
  by (simp_all add: native_verify_public_bytes_def as_bytes_def alice_def bob_def native_validate_defs eth_resp_def eth_tx_def
      native_initial_tx_def sample_native_env_def native_create_tx_def eth_request_def eth_created_def)

lemma one_byte: "length (leb128 (Suc 0)) = Suc 0" "encode_usize leb128_codec = leb128"
  by (simp_all add: leb128.simps leb128_codec_def)

lemma eth_carried:
  "carry_request leb128_codec buffer_write fst generic_codec_default ([], 9) [x] = Some [x]"
  "carry_response leb128_codec buffer_write fst generic_codec_default ([], 9) (Inr [x]) = Some (Inr [x])"
proof -
  have limit: "unat (- 1 :: u64) = 2 ^ 64 - 1" by (simp add: unat_max_word)
  show "carry_request leb128_codec buffer_write fst generic_codec_default ([], 9) [x] = Some [x]"
    using leb.request_roundtrip [of "[x]" generic_codec_default "[]"] limit
    by (simp add: carry_request_def write_request_def write_frame_def buffer_write_def one_byte generic_codec_default_def)
  show "carry_response leb128_codec buffer_write fst generic_codec_default ([], 9) (Inr [x]) = Some (Inr [x])"
    using leb.response_roundtrip [of "[x]" generic_codec_default "[]"] limit
    by (simp add: carry_response_def write_response_def write_frame_def buffer_write_def one_byte generic_codec_default_def)
qed

lemma log_swarm_simps:
  "nl_failed idle_loop = None" "nl_swarm idle_loop = ([], [])"
  "sw_is_connected log_swarm p (ds, m) \<longleftrightarrow> ds \<noteq> []" "sw_dial log_swarm a (ds, m) = (None, (ds @ [a], m))"
  "sw_channel_open log_swarm ch s" "sw_send_response log_swarm ch d (ds, m) = (True, (ds, m @ [d]))"
  "sw_send_request log_swarm p d (ds, m) = (ds, m @ [d])"
  by (simp_all add: idle_loop_def log_swarm_def)


end
