(* ===== verification/Http_Server.thy ===== *)
theory Http_Server
  imports Backend_Metrics
begin

text \<open>
  What the metric servers of the backend (\<open>node/vane-backend/src/server.rs\<close>) and of the relay
  (\<open>node/relay/src/metric_server.rs\<close>) share: requests, the answers of a route made with \<open>get\<close> or \<open>post\<close> as the
  \<open>axum\<close> router documents them, and the life of a server that has been started. The extraction of a JSON body
  is part of the request: the payload, or the status of the rejection. The locale \<open>report_server\<close> is the contract
  of a server that keeps the reports of clients: every input adds the reports it carries and nothing else, so
  after any inputs the store is what the reports alone give. Both servers are interpretations of it.
\<close>

section \<open>Requests and routes\<close>

datatype http_method = HEAD | GET | POST | OtherMethod

record http_request =
  rq_method :: http_method
  rq_path :: string
  rq_json :: "nat + client_metrics_payload"

definition STATUS_OK :: nat where "STATUS_OK = 200"
definition INTERNAL_SERVER_ERROR :: nat where "INTERNAL_SERVER_ERROR = 500"
definition NOT_FOUND :: nat where "NOT_FOUND = 404"
definition METHOD_NOT_ALLOWED :: nat where "METHOD_NOT_ALLOWED = 405"

text \<open>An answer is a status and perhaps a body. A route made with \<open>get\<close> also answers \<open>HEAD\<close>, without the body.\<close>

type_synonym 'b answer = "nat \<times> 'b option"

definition get_route :: "nat \<times> 'b \<Rightarrow> http_request \<Rightarrow> 'b answer" where
  "get_route answer rq = (case rq_method rq of
       GET \<Rightarrow> (fst answer, Some (snd answer)) | HEAD \<Rightarrow> (fst answer, None) | _ \<Rightarrow> (METHOD_NOT_ALLOWED, None))"

definition post_route ::
    "(client_metrics_payload \<Rightarrow> 's \<Rightarrow> (nat \<times> 'b) \<times> 's) \<Rightarrow> http_request \<Rightarrow> 's \<Rightarrow> 'b answer \<times> 's" where
  "post_route handler rq s =
     (if rq_method rq \<noteq> POST then ((METHOD_NOT_ALLOWED, None), s)
      else (case rq_json rq of
         Inl rejection \<Rightarrow> ((rejection, None), s)
       | Inr payload \<Rightarrow> (case handler payload s of ((st, b), s') \<Rightarrow> ((st, Some b), s'))))"

text \<open>The reports a request carries: one, if it posts a payload to \<open>/client-metrics\<close>.\<close>

definition request_reports :: "u64 \<Rightarrow> http_request \<Rightarrow> (u64 \<times> client_metrics_payload) list" where
  "request_reports now rq =
     (if rq_path rq = ''/client-metrics'' \<and> rq_method rq = POST
      then (case rq_json rq of Inr p \<Rightarrow> [(now, p)] | Inl _ \<Rightarrow> []) else [])"

text \<open>A server that is started serves for ever or ends, with an error or without.\<close>

datatype server_life = Serves | Ends "string option"

section \<open>Servers that keep reports\<close>

lemma handle_reports_append:
  "handle_reports rate (xs @ ys) m = handle_reports rate ys (handle_reports rate xs m)"
  by (induction rate xs m rule: handle_reports.induct) simp_all

locale report_server =
  fixes step :: "'i \<Rightarrow> 's \<Rightarrow> 's"
    and sound :: "'s \<Rightarrow> bool"
    and store :: "'s \<Rightarrow> client_metrics_store"
    and reports :: "'i \<Rightarrow> (u64 \<times> client_metrics_payload) list"
    and rate :: "u64 \<Rightarrow> u64 \<Rightarrow> i64"
  assumes step_sound: "sound s \<Longrightarrow> sound (step i s)"
    and step_store: "sound s \<Longrightarrow> store (step i s) = handle_reports rate (reports i) (store s)"
begin

lemma inputs_sound: "sound s \<Longrightarrow> sound (fold step is s)"
  by (induction "is" arbitrary: s) (simp_all add: step_sound)

lemma inputs_store:
  "sound s \<Longrightarrow> store (fold step is s) = handle_reports rate (concat (map reports is)) (store s)"
  by (induction "is" arbitrary: s) (simp_all add: step_sound step_store handle_reports_append)

end

end
