(* ===== verification/Relay_Metrics.thy ===== *)
theory Relay_Metrics
  imports Http_Server
begin

text \<open>
  The metric server of the relay (\<open>node/relay/src/metric_server.rs\<close>): the counters and event lists the
  relay's loop fills, the store of client reports, the registry that names the exported counters and
  the four HTTP handlers. The structs of the client reports have the fields of the backend's, so
  their records are shared with \<open>Backend_Metrics\<close>; the functions on them are a second
  implementation in the sources, translated here and shown to compute what the backend's do.

  A \<open>Mutex\<close> is its value with the mark of a poisoned lock. A counter that is registered shares its
  atomic with the metrics, so the registry holds which counter to read. \<open>encode\<close> of \<open>prometheus_client\<close>
  and the \<open>f64\<close> arithmetic of the success rate are arguments.
\<close>

section \<open>Relay events\<close>

record peer_pair =
  pp_src :: string
  pp_dst :: string

record circuit_closed_detail =
  ccd_src :: string
  ccd_dst :: string
  ccd_error :: "string option"

record circuit_denied_detail =
  cdd_src :: string
  cdd_dst :: string
  cdd_status :: string

record reservation_denied_detail =
  rdd_src :: string
  rdd_status :: string

record relay_metrics =
  circuits_accepted_total :: u64
  circuits_closed_total :: u64
  circuits_denied_total :: u64
  reservations_accepted_total :: u64
  reservations_closed_total :: u64
  reservations_denied_total :: u64
  reservations_timed_out_total :: u64
  connections_total :: u64
  reservation_accepted_peers :: "string list"
  reservation_closed_peers :: "string list"
  circuit_accepted_pairs :: "peer_pair list"
  circuit_closed_pairs :: "circuit_closed_detail list"
  circuit_denied :: "circuit_denied_detail list"
  reservation_denied :: "reservation_denied_detail list"
  reservation_timed_out_peers :: "string list"

definition relay_metrics_new :: relay_metrics where
  "relay_metrics_new = \<lparr>circuits_accepted_total = 0, circuits_closed_total = 0,
     circuits_denied_total = 0, reservations_accepted_total = 0, reservations_closed_total = 0,
     reservations_denied_total = 0, reservations_timed_out_total = 0, connections_total = 0,
     reservation_accepted_peers = [], reservation_closed_peers = [], circuit_accepted_pairs = [],
     circuit_closed_pairs = [], circuit_denied = [], reservation_denied = [],
     reservation_timed_out_peers = []\<rparr>"

section \<open>Registry\<close>

datatype metric_ref =
    CircuitsAccepted | CircuitsClosed | CircuitsDenied
  | ReservationsAccepted | ReservationsClosed | ReservationsDenied | ReservationsTimedOut
  | Connections
  | TotalSuccessTxs | TotalFailedTxs | TxSuccessRatePercent

type_synonym registry = "(string \<times> string \<times> metric_ref) list"

definition relay_metrics_register :: "registry \<Rightarrow> registry" where
  "relay_metrics_register reg = reg @
     [(''relay_circuits_accepted_total'', ''Total circuits accepted'', CircuitsAccepted),
      (''relay_circuits_closed_total'', ''Total circuits closed'', CircuitsClosed),
      (''relay_circuits_denied_total'', ''Total circuits denied'', CircuitsDenied),
      (''relay_reservations_accepted_total'', ''Total reservations accepted'', ReservationsAccepted),
      (''relay_reservations_closed_total'', ''Total reservations closed'', ReservationsClosed),
      (''relay_reservations_denied_total'', ''Total reservations denied'', ReservationsDenied),
      (''relay_reservations_timed_out_total'', ''Total reservations timed out'', ReservationsTimedOut),
      (''relay_connections_total'', ''Total connection events'', Connections)]"

definition client_metrics_register :: "registry \<Rightarrow> registry" where
  "client_metrics_register reg = reg @
     [(''total_success_txs'', ''Total successful transactions'', TotalSuccessTxs),
      (''total_failed_txs'', ''Total failed transactions'', TotalFailedTxs),
      (''tx_success_rate_percent'', ''Transaction success rate (percent)'', TxSuccessRatePercent)]"

section \<open>The service\<close>

record 'a mutex =
  mx_poisoned :: bool
  mx_value :: 'a

definition mutex_new :: "'a \<Rightarrow> 'a mutex" where
  "mutex_new x = \<lparr>mx_poisoned = False, mx_value = x\<rparr>"

definition lock :: "'a mutex \<Rightarrow> 'a option" where
  "lock m = (if mx_poisoned m then None else Some (mx_value m))"

record metric_service =
  ms_reg :: "registry mutex"
  ms_relay_metrics :: "relay_metrics mutex"
  ms_client_metrics :: "client_metrics_store mutex"

definition metric_service_new :: metric_service where
  "metric_service_new =
     (let reg = client_metrics_register (relay_metrics_register [])
      in \<lparr>ms_reg = mutex_new reg, ms_relay_metrics = mutex_new relay_metrics_new,
          ms_client_metrics = mutex_new client_metrics_new\<rparr>)"

text \<open>\<open>if let Ok(mut m) = self.relay_metrics.lock() { ... }\<close>\<close>

definition with_relay_metrics :: "(relay_metrics \<Rightarrow> relay_metrics) \<Rightarrow> metric_service \<Rightarrow> metric_service" where
  "with_relay_metrics f S = (case lock (ms_relay_metrics S) of
       Some m \<Rightarrow> S\<lparr>ms_relay_metrics := (ms_relay_metrics S)\<lparr>mx_value := f m\<rparr>\<rparr>
     | None \<Rightarrow> S)"

definition record_circuit_event ::
    "string \<Rightarrow> string option \<Rightarrow> string option \<Rightarrow> metric_service \<Rightarrow> metric_service" where
  "record_circuit_event event_type pid acc = with_relay_metrics (\<lambda>m.
     if event_type = ''accepted'' then m\<lparr>circuits_accepted_total := circuits_accepted_total m + 1\<rparr>
     else if event_type = ''closed'' then m\<lparr>circuits_closed_total := circuits_closed_total m + 1\<rparr>
     else m)"

definition record_reservation_event ::
    "string \<Rightarrow> string option \<Rightarrow> string option \<Rightarrow> metric_service \<Rightarrow> metric_service" where
  "record_reservation_event event_type pid acc = with_relay_metrics (\<lambda>m.
     if event_type = ''accepted''
     then m\<lparr>reservations_accepted_total := reservations_accepted_total m + 1\<rparr>
     else if event_type = ''closed''
     then m\<lparr>reservations_closed_total := reservations_closed_total m + 1\<rparr>
     else m)"

definition record_connection_event ::
    "string \<Rightarrow> string option \<Rightarrow> string option \<Rightarrow> metric_service \<Rightarrow> metric_service" where
  "record_connection_event event_type pid acc = with_relay_metrics (\<lambda>m.
     m\<lparr>connections_total := connections_total m + 1\<rparr>)"

text \<open>\<open>HashSet::insert\<close> on a list without repetitions is \<open>List.insert\<close>.\<close>

definition record_reservation_event_peer :: "string \<Rightarrow> string \<Rightarrow> metric_service \<Rightarrow> metric_service" where
  "record_reservation_event_peer event_type peer = with_relay_metrics (\<lambda>m.
     if event_type = ''accepted''
     then m\<lparr>reservations_accepted_total := reservations_accepted_total m + 1,
            reservation_accepted_peers := List.insert peer (reservation_accepted_peers m)\<rparr>
     else if event_type = ''closed''
     then m\<lparr>reservations_closed_total := reservations_closed_total m + 1,
            reservation_closed_peers := List.insert peer (reservation_closed_peers m)\<rparr>
     else m)"

definition record_circuit_event_pair ::
    "string \<Rightarrow> string \<Rightarrow> string \<Rightarrow> string option \<Rightarrow> metric_service \<Rightarrow> metric_service" where
  "record_circuit_event_pair event_type src dst err = with_relay_metrics (\<lambda>m.
     if event_type = ''accepted''
     then m\<lparr>circuits_accepted_total := circuits_accepted_total m + 1,
            circuit_accepted_pairs := circuit_accepted_pairs m @ [\<lparr>pp_src = src, pp_dst = dst\<rparr>]\<rparr>
     else if event_type = ''closed''
     then m\<lparr>circuits_closed_total := circuits_closed_total m + 1,
            circuit_closed_pairs :=
              circuit_closed_pairs m @ [\<lparr>ccd_src = src, ccd_dst = dst, ccd_error = err\<rparr>]\<rparr>
     else if event_type = ''denied''
     then m\<lparr>circuits_denied_total := circuits_denied_total m + 1,
            circuit_denied := circuit_denied m @
              [\<lparr>cdd_src = src, cdd_dst = dst, cdd_status = (case err of Some e \<Rightarrow> e | None \<Rightarrow> [])\<rparr>]\<rparr>
     else m)"

section \<open>Client reports\<close>

definition relay_merge_failed :: "db_tx_state_machine list \<Rightarrow> client_snapshot \<Rightarrow> client_snapshot" where
  "relay_merge_failed txs snapshot = fold (\<lambda>new_tx snap.
     (let is_duplicate = list_ex (\<lambda>existing_tx. tx_hash existing_tx = tx_hash new_tx)
            (cs_failed_transactions snap)
      in if \<not> is_duplicate
         then snap\<lparr>cs_failed_transactions := cs_failed_transactions snap @ [new_tx]\<rparr> else snap)) txs snapshot"

definition relay_update_aggregated_metrics ::
    "(u64 \<Rightarrow> u64 \<Rightarrow> i64) \<Rightarrow> string \<Rightarrow> storage_export \<Rightarrow> client_metrics_store \<Rightarrow> client_metrics_store" where
  "relay_update_aggregated_metrics rate acc storage m =
     (let current_success = of_nat (length (success_transactions storage)) :: u64;
          current_failed = of_nat (length (failed_transactions storage)) :: u64;
          (last_success, last_failed) =
            (case map_of (last_totals m) acc of Some t \<Rightarrow> t | None \<Rightarrow> (0, 0));
          delta_success = saturating_sub current_success last_success;
          delta_failed = saturating_sub current_failed last_failed;
          m = (if 0 < delta_success
               then m\<lparr>total_success_txs := total_success_txs m + delta_success\<rparr> else m);
          m = (if 0 < delta_failed
               then m\<lparr>total_failed_txs := total_failed_txs m + delta_failed\<rparr> else m);
          total_tx = current_success + current_failed;
          m = (if 0 < total_tx
               then m\<lparr>tx_success_rate_percent := rate current_success total_tx\<rparr> else m);
          m = m\<lparr>last_totals := AList.update acc (current_success, current_failed) (last_totals m)\<rparr>;
          existing_snapshot = (case map_of (per_client m) acc of Some s \<Rightarrow> s
             | None \<Rightarrow> \<lparr>account_id = acc, success_txs = 0, failed_txs = 0,
                        cs_failed_transactions = []\<rparr>);
          existing_snapshot = existing_snapshot\<lparr>success_txs := current_success,
             failed_txs := current_failed\<rparr>;
          existing_snapshot = relay_merge_failed (failed_transactions storage) existing_snapshot
      in m\<lparr>per_client := AList.update acc existing_snapshot (per_client m)\<rparr>)"

text \<open>The four processing steps before the aggregation have empty bodies.\<close>

definition process_basic_metrics :: "storage_export \<Rightarrow> client_metrics_store \<Rightarrow> client_metrics_store" where
  "process_basic_metrics storage m = m"
definition process_transaction_metrics :: "storage_export \<Rightarrow> client_metrics_store \<Rightarrow> client_metrics_store" where
  "process_transaction_metrics storage m = m"
definition process_value_metrics :: "storage_export \<Rightarrow> client_metrics_store \<Rightarrow> client_metrics_store" where
  "process_value_metrics storage m = m"
definition process_peer_network_metrics :: "storage_export \<Rightarrow> client_metrics_store \<Rightarrow> client_metrics_store" where
  "process_peer_network_metrics storage m = m"

definition relay_account_id :: "storage_export \<Rightarrow> string" where
  "relay_account_id storage =
     (case Option.bind (se_user_account storage)
         (\<lambda>ua. case accounts ua of [] \<Rightarrow> None | (acc, _) # _ \<Rightarrow> Some acc) of
        Some acc \<Rightarrow> acc | None \<Rightarrow> ''unknown'')"

definition relay_update_from_exported_storage ::
    "(u64 \<Rightarrow> u64 \<Rightarrow> i64) \<Rightarrow> u64 \<Rightarrow> client_metrics_payload \<Rightarrow> client_metrics_store \<Rightarrow> client_metrics_store" where
  "relay_update_from_exported_storage rate now payload m =
     (let storage = cmp_storage_export payload;
          acc = relay_account_id storage;
          m = m\<lparr>last_update_times := AList.update acc now (last_update_times m)\<rparr>;
          m = process_basic_metrics storage m;
          m = process_transaction_metrics storage m;
          m = process_value_metrics storage m;
          m = process_peer_network_metrics storage m
      in relay_update_aggregated_metrics rate acc storage m)"

section \<open>HTTP handlers\<close>

record reservations_summary =
  accepted_peers :: "string list"
  closed_peers :: "string list"

record circuits_summary =
  cs_accepted :: "peer_pair list"
  cs_closed :: "circuit_closed_detail list"
  cs_denied :: "circuit_denied_detail list"

record relay_events_summary =
  res_reservations :: reservations_summary
  res_circuits :: circuits_summary

text \<open>An answer is its status with the body, or the error text of the failed branch.\<close>

type_synonym 'a response = "nat \<times> (string + 'a)"

definition relay_handle_client_metrics ::
    "(u64 \<Rightarrow> u64 \<Rightarrow> i64) \<Rightarrow> u64 \<Rightarrow> client_metrics_payload \<Rightarrow> metric_service \<Rightarrow> string response \<times> metric_service" where
  "relay_handle_client_metrics rate now payload S = (case lock (ms_client_metrics S) of
       Some m \<Rightarrow> ((STATUS_OK, Inr ''success''),
          S\<lparr>ms_client_metrics :=
             (ms_client_metrics S)\<lparr>mx_value := relay_update_from_exported_storage rate now payload m\<rparr>\<rparr>)
     | None \<Rightarrow> ((INTERNAL_SERVER_ERROR, Inl ''Failed to update metrics''), S))"

definition relay_client_metrics_summary :: "metric_service \<Rightarrow> client_snapshot list response" where
  "relay_client_metrics_summary S = (case lock (ms_client_metrics S) of
       Some m \<Rightarrow> (STATUS_OK, Inr (map snd (per_client m)))
     | None \<Rightarrow> (INTERNAL_SERVER_ERROR, Inl ''Failed to read client metrics''))"

definition get_relay_events_summary :: "metric_service \<Rightarrow> relay_events_summary response" where
  "get_relay_events_summary S = (case lock (ms_relay_metrics S) of
       Some m \<Rightarrow> (STATUS_OK, Inr
         \<lparr>res_reservations = \<lparr>accepted_peers = reservation_accepted_peers m,
             closed_peers = reservation_closed_peers m\<rparr>,
          res_circuits = \<lparr>cs_accepted = circuit_accepted_pairs m, cs_closed = circuit_closed_pairs m,
             cs_denied = circuit_denied m\<rparr>\<rparr>)
     | None \<Rightarrow> (INTERNAL_SERVER_ERROR, Inl ''Failed to read relay events''))"

fun read_metric :: "relay_metrics \<Rightarrow> client_metrics_store \<Rightarrow> metric_ref \<Rightarrow> u64" where
  "read_metric m c CircuitsAccepted = circuits_accepted_total m"
| "read_metric m c CircuitsClosed = circuits_closed_total m"
| "read_metric m c CircuitsDenied = circuits_denied_total m"
| "read_metric m c ReservationsAccepted = reservations_accepted_total m"
| "read_metric m c ReservationsClosed = reservations_closed_total m"
| "read_metric m c ReservationsDenied = reservations_denied_total m"
| "read_metric m c ReservationsTimedOut = reservations_timed_out_total m"
| "read_metric m c Connections = connections_total m"
| "read_metric m c TotalSuccessTxs = total_success_txs c"
| "read_metric m c TotalFailedTxs = total_failed_txs c"
| "read_metric m c TxSuccessRatePercent = tx_success_rate_percent c"

text \<open>\<open>encode\<close> reads the atomics of the registered counters; it does not take the locks of the metrics.\<close>

definition scrape :: "metric_service \<Rightarrow> (string \<times> string \<times> u64) list" where
  "scrape S = map (\<lambda>(name, help, r).
     (name, help, read_metric (mx_value (ms_relay_metrics S)) (mx_value (ms_client_metrics S)) r))
     (mx_value (ms_reg S))"

definition respond_with_metrics ::
    "((string \<times> string \<times> u64) list \<Rightarrow> string + string) \<Rightarrow> metric_service \<Rightarrow> string response" where
  "respond_with_metrics encode S = (case lock (ms_reg S) of
       Some _ \<Rightarrow>
         (case encode (scrape S) of
            Inl e \<Rightarrow> (INTERNAL_SERVER_ERROR, Inl (''Failed to encode metrics: '' @ e))
          | Inr sink \<Rightarrow> (STATUS_OK, Inr sink))
     | None \<Rightarrow> (INTERNAL_SERVER_ERROR, Inl ''Failed to acquire registry lock''))"

text \<open>The routes of \<open>metrics_server\<close>.\<close>

datatype relay_body =
    MetricsText "string + string"
  | UpdateStatus "string + string"
  | ClientSnapshots "string + client_snapshot list"
  | RelaySummary "string + relay_events_summary"

definition relay_metrics_route ::
    "((string \<times> string \<times> u64) list \<Rightarrow> string + string) \<Rightarrow> (u64 \<Rightarrow> u64 \<Rightarrow> i64) \<Rightarrow> u64 \<Rightarrow> http_request
       \<Rightarrow> metric_service \<Rightarrow> relay_body answer \<times> metric_service" where
  "relay_metrics_route encode rate now rq S =
     (if rq_path rq = ''/metrics'' then
        (get_route (map_prod id MetricsText (respond_with_metrics encode S)) rq, S)
      else if rq_path rq = ''/client-metrics-summary'' then
        (get_route (map_prod id ClientSnapshots (relay_client_metrics_summary S)) rq, S)
      else if rq_path rq = ''/relay-events-summary'' then
        (get_route (map_prod id RelaySummary (get_relay_events_summary S)) rq, S)
      else if rq_path rq = ''/client-metrics'' then
        post_route (\<lambda>payload S. map_prod (map_prod id UpdateStatus) id
            (relay_handle_client_metrics rate now payload S)) rq S
      else ((NOT_FOUND, None), S))"

section \<open>The relay's report store computes the backend's\<close>

lemma relay_account_id_eq: "relay_account_id storage = reported_account storage"
  by (auto simp: relay_account_id_def reported_account_def split: option.splits list.splits)

lemma relay_merge_failed_eq:
  "relay_merge_failed txs snap =
     snap\<lparr>cs_failed_transactions := merge_failed (cs_failed_transactions snap) txs\<rparr>"
proof (induction txs arbitrary: snap)
  case Nil
  show ?case by (simp add: relay_merge_failed_def)
next
  case (Cons t txs)
  show ?case using Cons.IH unfolding relay_merge_failed_def
    by (auto simp: Let_def Bex_def list_ex_iff)
qed

lemma relay_update_aggregated_eq:
  "relay_update_aggregated_metrics = update_aggregated_metrics"
  by (intro ext) (simp add: relay_update_aggregated_metrics_def update_aggregated_metrics_def
      relay_merge_failed_eq Let_def case_prod_beta)

lemma relay_update_from_exported_eq:
  "relay_update_from_exported_storage rate now p m = handle_client_metrics rate now p m"
  by (simp add: relay_update_from_exported_storage_def handle_client_metrics_def
      update_from_exported_storage_def relay_update_aggregated_eq relay_account_id_eq
      process_basic_metrics_def process_transaction_metrics_def process_value_metrics_def
      process_peer_network_metrics_def)

text \<open>While no lock is poisoned, a request leaves the service as it is, but for the reports it carries.\<close>

definition unpoisoned :: "metric_service \<Rightarrow> bool" where
  "unpoisoned S \<longleftrightarrow> \<not> mx_poisoned (ms_relay_metrics S) \<and> \<not> mx_poisoned (ms_client_metrics S) \<and> \<not> mx_poisoned (ms_reg S)"

definition relay_store :: "metric_service \<Rightarrow> client_metrics_store" where
  "relay_store S = mx_value (ms_client_metrics S)"

lemma relay_http_step:
  assumes "unpoisoned S"
  shows "snd (relay_metrics_route encode rate now rq S) = S\<lparr>ms_client_metrics :=
    (ms_client_metrics S)\<lparr>mx_value := handle_reports rate (request_reports now rq) (relay_store S)\<rparr>\<rparr>"
  using assms
  by (cases S; cases "ms_client_metrics S")
    (simp add: relay_metrics_route_def post_route_def request_reports_def relay_store_def unpoisoned_def
      relay_handle_client_metrics_def relay_update_from_exported_eq lock_def split: sum.split)

end
