(* ===== verification/Relay.thy ===== *)
theory Relay
  imports Relay_Metrics
begin

text \<open>
  The relay node: \<open>RelayP2pWorker\<close> (\<open>node/relay/src/p2p.rs\<close>), which listens for relayed connections and
  records what the libp2p relay behaviour reports, the service that starts it beside the metric
  server (\<open>node/relay/src/lib.rs\<close>), and the command line that chooses its key (\<open>app/src/main.rs\<close>).

  libp2p is a parameter: the loop consumes the events of the swarm, whatever they are. Decoding of
  hex, the ed25519 keys and the swarm's set-up are arguments (\<open>relay_env\<close>). Log lines are left out.
\<close>

section \<open>The worker\<close>

datatype protocol =
    Dns4 string | Ip4 string | Ip6 string | Tcp u16 | Ws string | Wss string | P2p string | P2pCircuit

type_synonym multiaddr = "protocol list"

record relay_config =
  max_reservations :: nat
  max_reservations_per_peer :: nat
  reservation_duration_secs :: u64
  reservation_rate_limiters :: "unit list"
  max_circuits :: nat
  max_circuits_per_peer :: nat
  max_circuit_duration_secs :: u64
  max_circuit_bytes :: u64
  circuit_src_rate_limiters :: "unit list"

definition vane_relay_config :: relay_config where
  "vane_relay_config = \<lparr>max_reservations = 10000, max_reservations_per_peer = 1000,
     reservation_duration_secs = 60 * 60, reservation_rate_limiters = [], max_circuits = 10000, max_circuits_per_peer = 100,
     max_circuit_duration_secs = 60 * 20, max_circuit_bytes = 128 * 1024,
     circuit_src_rate_limiters = []\<rparr>"

record 'k relay_env =
  hex_decode :: "string \<Rightarrow> string + bytes"
  ed25519_from_bytes :: "bytes \<Rightarrow> string + 'k"
  generate_ed25519 :: 'k
  peer_id_of :: "'k \<Rightarrow> string"
  build_swarm :: "'k \<Rightarrow> relay_config \<Rightarrow> u64 \<Rightarrow> string option"
  listen_on :: "multiaddr \<Rightarrow> string option"
  metrics_bind :: "string \<Rightarrow> u16 \<Rightarrow> string option"
  metrics_local_addr :: "string option"
  metrics_serve :: server_life

record relay_p2p_worker =
  rw_peer_id :: string
  rw_external_addresses :: "multiaddr list"
  rw_external_multi_addr :: multiaddr
  rw_listening_addr :: "multiaddr \<times> multiaddr"
  rw_metrics :: metric_service

datatype relay_error =
    HexPrivateKey string
  | PrivateKey string
  | SwarmError string
  | ListenError string
  | NoPrivateKey
  | NoPrivateKeyInLiveMode
  | ReadKeyFile string

datatype 'a relay_result = RelayOk 'a | RelayErr relay_error | RelayPanic

definition strip_0x :: "string \<Rightarrow> string" where
  "strip_0x s = (if take 2 s = ''0x'' then drop 2 s else s)"

definition relay_keypair :: "'k relay_env \<Rightarrow> bool \<Rightarrow> string option \<Rightarrow> 'k relay_result" where
  "relay_keypair E live private_key =
     (if live then
        (case private_key of
           None \<Rightarrow> RelayPanic
         | Some private_key_str \<Rightarrow>
             (case hex_decode E (strip_0x private_key_str) of
                Inl e \<Rightarrow> RelayErr (HexPrivateKey e)
              | Inr pk \<Rightarrow>
                  (case ed25519_from_bytes E pk of
                     Inl e \<Rightarrow> RelayErr (PrivateKey e) | Inr kp \<Rightarrow> RelayOk kp)))
      else RelayOk (generate_ed25519 E))"

definition relay_p2p_worker_new ::
    "'k relay_env \<Rightarrow> string \<Rightarrow> u16 \<Rightarrow> bool \<Rightarrow> string option \<Rightarrow> relay_p2p_worker relay_result" where
  "relay_p2p_worker_new E dns port live private_key =
     (case relay_keypair E live private_key of
        RelayErr e \<Rightarrow> RelayErr e
      | RelayPanic \<Rightarrow> RelayPanic
      | RelayOk self_keypair \<Rightarrow>
          (let peer = peer_id_of E self_keypair;
               external = [Dns4 dns, Tcp port, Wss ''/'', P2p peer];
               ipv4 = [Ip4 ''0.0.0.0'', Tcp port, Ws ''/''];
               ipv6 = [Ip6 ''::'', Tcp port, Ws ''/'']
           in case build_swarm E self_keypair vane_relay_config 600 of
                Some e \<Rightarrow> RelayErr (SwarmError e)
              | None \<Rightarrow> RelayOk \<lparr>rw_peer_id = peer, rw_external_addresses = [external],
                  rw_external_multi_addr = external, rw_listening_addr = (ipv4, ipv6),
                  rw_metrics = metric_service_new\<rparr>))"

section \<open>Events\<close>

datatype relay_event =
    CircuitClosed string string "string option"
  | CircuitReqAccepted string string
  | CircuitReqDenied string string string
  | ReservationReqAccepted string bool
  | ReservationReqDenied string string
  | ReservationTimedOut string
  | ReservationClosed string
  | OtherRelayEvent

datatype swarm_event =
    Behaviour relay_event
  | ConnectionEstablished string
  | ConnectionClosed string
  | Dialing "string option"
  | OtherSwarmEvent

fun handle_relay_event :: "relay_event \<Rightarrow> metric_service \<Rightarrow> metric_service" where
  "handle_relay_event (CircuitClosed src dst err) = record_circuit_event_pair ''closed'' src dst err"
| "handle_relay_event (CircuitReqAccepted src dst) = record_circuit_event_pair ''accepted'' src dst None"
| "handle_relay_event (CircuitReqDenied src dst st) = record_circuit_event ''denied'' (Some src) None"
| "handle_relay_event (ReservationReqAccepted src renewed) = record_reservation_event_peer ''accepted'' src"
| "handle_relay_event (ReservationReqDenied src st) = record_reservation_event ''denied'' (Some src) None"
| "handle_relay_event (ReservationTimedOut src) = record_reservation_event ''timed_out'' (Some src) None"
| "handle_relay_event (ReservationClosed src) = record_reservation_event_peer ''closed'' src"
| "handle_relay_event OtherRelayEvent = (\<lambda>S. S)"

fun relay_turn :: "swarm_event \<Rightarrow> metric_service \<Rightarrow> metric_service" where
  "relay_turn (Behaviour ev) = handle_relay_event ev"
| "relay_turn (ConnectionEstablished p) = record_connection_event ''established'' (Some p) None"
| "relay_turn (ConnectionClosed p) = record_connection_event ''closed'' (Some p) None"
| "relay_turn (Dialing pid) = (case pid of
     Some p \<Rightarrow> record_connection_event ''dialing'' (Some p) None | None \<Rightarrow> (\<lambda>S. S))"
| "relay_turn OtherSwarmEvent = (\<lambda>S. S)"

section \<open>The running relay\<close>

text \<open>While the relay runs, its swarm delivers events and its metric server takes requests, in any order.
  \<open>encode\<close> is the text encoder of the registry and \<open>rate\<close> the success rate.\<close>

datatype relay_input = SwarmInput swarm_event | HttpInput u64 http_request

type_synonym encoder = "(string \<times> string \<times> u64) list \<Rightarrow> string + string"

fun relay_input_step :: "encoder \<Rightarrow> (u64 \<Rightarrow> u64 \<Rightarrow> i64) \<Rightarrow> relay_input \<Rightarrow> metric_service \<Rightarrow> metric_service" where
  "relay_input_step encode rate (SwarmInput ev) S = relay_turn ev S"
| "relay_input_step encode rate (HttpInput now rq) S = snd (relay_metrics_route encode rate now rq S)"

definition relay_inputs :: "encoder \<Rightarrow> (u64 \<Rightarrow> u64 \<Rightarrow> i64) \<Rightarrow> relay_input list \<Rightarrow> metric_service \<Rightarrow> metric_service" where
  "relay_inputs encode rate is S = fold (relay_input_step encode rate) is S"

text \<open>\<open>start_swarm\<close>: the two listening addresses, then what has happened so far; the loop itself has no exit.\<close>

definition relay_start_swarm ::
    "'k relay_env \<Rightarrow> (metric_service \<Rightarrow> metric_service) \<Rightarrow> relay_p2p_worker \<Rightarrow> relay_p2p_worker relay_result" where
  "relay_start_swarm E happens w = (case listen_on E (fst (rw_listening_addr w)) of
       Some e \<Rightarrow> RelayErr (ListenError e)
     | None \<Rightarrow> (case listen_on E (snd (rw_listening_addr w)) of
           Some e \<Rightarrow> RelayErr (ListenError e)
         | None \<Rightarrow> RelayOk (w\<lparr>rw_metrics := happens (rw_metrics w)\<rparr>)))"

section \<open>Start-up\<close>

definition relay_metrics_server :: "'k relay_env \<Rightarrow> u16 \<Rightarrow> server_life" where
  "relay_metrics_server E port = (case metrics_bind E ''127.0.0.1'' port of
       Some err \<Rightarrow> Ends (Some err)
     | None \<Rightarrow> (case metrics_local_addr E of Some err \<Rightarrow> Ends (Some err) | None \<Rightarrow> metrics_serve E))"

text \<open>A metric server that has ended takes no requests.\<close>

fun reaches :: "server_life \<Rightarrow> relay_input \<Rightarrow> bool" where
  "reaches life (SwarmInput ev) = True"
| "reaches life (HttpInput now rq) = (life = Serves)"

text \<open>\<open>MainRelayServerService::run\<close>: the metric server and the worker share one metric service. The end of the
  metric server is logged, and so is an error of the swarm; \<open>run\<close> waits for the worker alone.\<close>

definition relay_run ::
    "'k relay_env \<Rightarrow> encoder \<Rightarrow> (u64 \<Rightarrow> u64 \<Rightarrow> i64) \<Rightarrow> string \<Rightarrow> u16 \<Rightarrow> bool \<Rightarrow> string option \<Rightarrow> relay_input list
       \<Rightarrow> metric_service relay_result" where
  "relay_run E encode rate dns port live private_key is =
     (case relay_p2p_worker_new E dns port live private_key of
        RelayErr e \<Rightarrow> RelayErr e
      | RelayPanic \<Rightarrow> RelayPanic
      | RelayOk w \<Rightarrow>
          (let metric_service = metric_service_new;
               life = relay_metrics_server E 9945;
               happens = relay_inputs encode rate (filter (reaches life) is)
           in case relay_start_swarm E happens (w\<lparr>rw_metrics := metric_service\<rparr>) of
             RelayOk w' \<Rightarrow> RelayOk (rw_metrics w')
           | RelayErr e \<Rightarrow> RelayOk metric_service
           | RelayPanic \<Rightarrow> RelayPanic))"

definition resolve_key ::
    "(string \<Rightarrow> string + string) \<Rightarrow> (string \<Rightarrow> string) \<Rightarrow> string option \<Rightarrow> string option \<Rightarrow> string relay_result" where
  "resolve_key read_to_string trim cli_key cli_file = (case cli_file of
       Some p \<Rightarrow> (case read_to_string p of
           Inl e \<Rightarrow> RelayErr (ReadKeyFile e) | Inr s \<Rightarrow> RelayOk (trim s))
     | None \<Rightarrow> (case cli_key of Some k \<Rightarrow> RelayOk (trim k) | None \<Rightarrow> RelayErr NoPrivateKey))"

definition main_relay_node ::
    "'k relay_env \<Rightarrow> encoder \<Rightarrow> (u64 \<Rightarrow> u64 \<Rightarrow> i64) \<Rightarrow> (string \<Rightarrow> string + string) \<Rightarrow> (string \<Rightarrow> string) \<Rightarrow> string \<Rightarrow> u16 \<Rightarrow> bool
       \<Rightarrow> string option \<Rightarrow> string option \<Rightarrow> relay_input list \<Rightarrow> metric_service relay_result" where
  "main_relay_node E encode rate read_to_string trim dns port live private_key_file private_key is =
     (if live \<and> private_key_file = None \<and> private_key = None then RelayErr NoPrivateKeyInLiveMode
      else
        (case (if live
               then (case resolve_key read_to_string trim private_key private_key_file of
                       RelayOk k \<Rightarrow> RelayOk (Some k) | RelayErr e \<Rightarrow> RelayErr e | RelayPanic \<Rightarrow> RelayPanic)
               else RelayOk None) of
           RelayOk private_key_opt \<Rightarrow> relay_run E encode rate dns port live private_key_opt is
         | RelayErr e \<Rightarrow> RelayErr e
         | RelayPanic \<Rightarrow> RelayPanic))"

section \<open>What the counters say\<close>

text \<open>The log of a run, read back: the circuits accepted and closed, the peers whose reservation was
  accepted or closed, and the number of connection events, in the order of the events.\<close>

fun accepted_of :: "swarm_event \<Rightarrow> peer_pair list" where
  "accepted_of (Behaviour (CircuitReqAccepted src dst)) = [\<lparr>pp_src = src, pp_dst = dst\<rparr>]"
| "accepted_of _ = []"

fun closed_of :: "swarm_event \<Rightarrow> circuit_closed_detail list" where
  "closed_of (Behaviour (CircuitClosed src dst err)) = [\<lparr>ccd_src = src, ccd_dst = dst, ccd_error = err\<rparr>]"
| "closed_of _ = []"

fun reserved_of :: "swarm_event \<Rightarrow> string list" where
  "reserved_of (Behaviour (ReservationReqAccepted src _)) = [src]"
| "reserved_of _ = []"

fun released_of :: "swarm_event \<Rightarrow> string list" where
  "released_of (Behaviour (ReservationClosed src)) = [src]"
| "released_of _ = []"

fun is_connection :: "swarm_event \<Rightarrow> bool" where
  "is_connection (ConnectionEstablished _) = True"
| "is_connection (ConnectionClosed _) = True"
| "is_connection (Dialing (Some _)) = True"
| "is_connection _ = False"

text \<open>The metrics a log should give, starting from metrics \<open>m\<close>.\<close>

definition logged :: "swarm_event list \<Rightarrow> relay_metrics \<Rightarrow> relay_metrics" where
  "logged evs m = m\<lparr>
     circuits_accepted_total := circuits_accepted_total m + of_nat (length (concat (map accepted_of evs))),
     circuits_closed_total := circuits_closed_total m + of_nat (length (concat (map closed_of evs))),
     reservations_accepted_total :=
       reservations_accepted_total m + of_nat (length (concat (map reserved_of evs))),
     reservations_closed_total :=
       reservations_closed_total m + of_nat (length (concat (map released_of evs))),
     connections_total := connections_total m + of_nat (length (filter is_connection evs)),
     reservation_accepted_peers :=
       fold List.insert (concat (map reserved_of evs)) (reservation_accepted_peers m),
     reservation_closed_peers :=
       fold List.insert (concat (map released_of evs)) (reservation_closed_peers m),
     circuit_accepted_pairs := circuit_accepted_pairs m @ concat (map accepted_of evs),
     circuit_closed_pairs := circuit_closed_pairs m @ concat (map closed_of evs)\<rparr>"

lemmas record_defs =
  record_circuit_event_def record_reservation_event_def record_connection_event_def
  record_reservation_event_peer_def record_circuit_event_pair_def with_relay_metrics_def

lemma logged_Nil [simp]: "logged [] m = m"
  by (simp add: logged_def)

lemma logged_Cons: "logged (ev # evs) m = logged evs (logged [ev] m)"
  by (simp add: logged_def algebra_simps)

lemma relay_turn_logged:
  assumes "lock (ms_relay_metrics S) = Some m"
  shows "relay_turn ev S = S\<lparr>ms_relay_metrics := \<lparr>mx_poisoned = False, mx_value = logged [ev] m\<rparr>\<rparr>"
proof -
  have S: "ms_relay_metrics S = \<lparr>mx_poisoned = False, mx_value = m\<rparr>"
    using assms by (cases "ms_relay_metrics S") (simp add: lock_def split: if_splits)
  have same: "S\<lparr>ms_relay_metrics := \<lparr>mx_poisoned = False, mx_value = m\<rparr>\<rparr> = S"
    using S by (cases S) simp
  show ?thesis
  proof (cases ev)
    case (Behaviour r)
    then show ?thesis
      by (cases r) (simp_all add: record_defs S lock_def logged_def same)
  qed (simp_all add: record_defs S lock_def logged_def same split: option.splits)
qed

fun swarm_part :: "relay_input list \<Rightarrow> swarm_event list" where
  "swarm_part [] = []"
| "swarm_part (SwarmInput ev # is) = ev # swarm_part is"
| "swarm_part (HttpInput _ _ # is) = swarm_part is"

fun relay_input_reports :: "relay_input \<Rightarrow> (u64 \<times> client_metrics_payload) list" where
  "relay_input_reports (SwarmInput ev) = []"
| "relay_input_reports (HttpInput now rq) = request_reports now rq"

definition post_part :: "relay_input list \<Rightarrow> (u64 \<times> client_metrics_payload) list" where
  "post_part is = concat (map relay_input_reports is)"

text \<open>The two halves of the service do not touch each other, and no lock is ever poisoned.\<close>

lemma relay_turn_unpoisoned:
  "unpoisoned S \<Longrightarrow> relay_turn ev S = S\<lparr>ms_relay_metrics := mutex_new (logged [ev] (mx_value (ms_relay_metrics S)))\<rparr>"
  by (subst relay_turn_logged) (simp_all add: unpoisoned_def lock_def mutex_new_def)

lemmas relay_step_simps = relay_turn_unpoisoned relay_http_step unpoisoned_def relay_store_def mutex_new_def

interpretation relay_reports:
  report_server "relay_input_step encode rate" unpoisoned relay_store relay_input_reports rate for encode rate
proof unfold_locales
  fix S i assume S: "unpoisoned S"
  show "unpoisoned (relay_input_step encode rate i S)"
    using S by (cases i) (simp_all add: relay_step_simps)
  show "relay_store (relay_input_step encode rate i S) = handle_reports rate (relay_input_reports i) (relay_store S)"
    using S by (cases i) (simp_all add: relay_step_simps)
qed

lemma relay_inputs_rest:
  assumes "unpoisoned S"
  shows "mx_value (ms_relay_metrics (fold (relay_input_step encode rate) is S)) =
      logged (swarm_part is) (mx_value (ms_relay_metrics S))
    \<and> ms_reg (fold (relay_input_step encode rate) is S) = ms_reg S"
  using assms
proof (induction "is" arbitrary: S)
  case (Cons i "is")
  then show ?case
    using relay_reports.step_sound [OF Cons.prems, of encode rate i]
      logged_Cons [of _ "swarm_part is" "mx_value (ms_relay_metrics S)"]
    by (cases i) (simp_all add: relay_step_simps)
qed (simp add: logged_def)

lemma relay_run_state:
  defines "S \<equiv> \<lambda>encode rate is. relay_inputs encode rate is metric_service_new"
  shows "ms_reg (S encode rate is) = mutex_new (client_metrics_register (relay_metrics_register []))"
    "ms_relay_metrics (S encode rate is) = mutex_new (logged (swarm_part is) relay_metrics_new)"
    "ms_client_metrics (S encode rate is) = mutex_new (handle_reports rate (post_part is) client_metrics_new)"
proof -
  have new: "unpoisoned metric_service_new"
    by (simp add: unpoisoned_def metric_service_new_def mutex_new_def Let_def)
  note facts = relay_inputs_rest [OF new, of encode rate "is"] relay_reports.inputs_sound [OF new, of encode rate "is"]
    relay_reports.inputs_store [OF new, of encode rate "is"]
  show "ms_reg (S encode rate is) = mutex_new (client_metrics_register (relay_metrics_register []))"
    "ms_relay_metrics (S encode rate is) = mutex_new (logged (swarm_part is) relay_metrics_new)"
    "ms_client_metrics (S encode rate is) = mutex_new (handle_reports rate (post_part is) client_metrics_new)"
    using facts unfolding S_def relay_inputs_def post_part_def
    by (auto simp: unpoisoned_def relay_store_def mutex_new_def metric_service_new_def Let_def intro: mutex.equality)
qed

definition scraped :: "string \<Rightarrow> metric_service \<Rightarrow> u64 option" where
  "scraped name S = map_of (map (\<lambda>(n, _, v). (n, v)) (scrape S)) name"

lemma set_fold_insert: "set (fold List.insert xs ys) = set xs \<union> set ys"
  by (induction xs arbitrary: ys) auto

lemma distinct_fold_insert: "distinct ys \<Longrightarrow> distinct (fold List.insert xs ys)"
  by (induction xs arbitrary: ys) auto

lemmas scrape_simps = scraped_def scrape_def mutex_new_def
  relay_metrics_register_def client_metrics_register_def logged_def relay_metrics_new_def

text \<open>C33: whatever the interleaving of swarm events and HTTP requests, \<open>GET /metrics\<close> answers with the encoding
  of the registered counters and changes nothing, and the counters are exact: circuits accepted and closed,
  reservations accepted and closed and connection events are counted once each, and the transaction totals are
  those of the posted reports alone. The counters of denied circuits, denied reservations and timed-out
  reservations never move.\<close>

theorem relay_counters_exact:
  "(let S = relay_inputs encode rate is metric_service_new; evs = swarm_part is;
        C = handle_reports rate (post_part is) client_metrics_new in
    relay_metrics_route encode rate now \<lparr>rq_method = GET, rq_path = ''/metrics'', rq_json = j\<rparr> S =
      ((case encode (scrape S) of
          Inl e \<Rightarrow> (INTERNAL_SERVER_ERROR, Some (MetricsText (Inl (''Failed to encode metrics: '' @ e))))
        | Inr sink \<Rightarrow> (STATUS_OK, Some (MetricsText (Inr sink)))), S)
  \<and> scraped ''relay_circuits_accepted_total'' S = Some (of_nat (length (concat (map accepted_of evs))))
  \<and> scraped ''relay_circuits_closed_total'' S = Some (of_nat (length (concat (map closed_of evs))))
  \<and> scraped ''relay_reservations_accepted_total'' S = Some (of_nat (length (concat (map reserved_of evs))))
  \<and> scraped ''relay_reservations_closed_total'' S = Some (of_nat (length (concat (map released_of evs))))
  \<and> scraped ''relay_connections_total'' S = Some (of_nat (length (filter is_connection evs)))
  \<and> scraped ''total_success_txs'' S = Some (total_success_txs C)
  \<and> scraped ''total_failed_txs'' S = Some (total_failed_txs C)
  \<and> scraped ''relay_circuits_denied_total'' S = Some 0
  \<and> scraped ''relay_reservations_denied_total'' S = Some 0
  \<and> scraped ''relay_reservations_timed_out_total'' S = Some 0)"
  unfolding Let_def
proof (intro conjI)
  show "relay_metrics_route encode rate now \<lparr>rq_method = GET, rq_path = ''/metrics'', rq_json = j\<rparr>
       (relay_inputs encode rate is metric_service_new) =
      ((case encode (scrape (relay_inputs encode rate is metric_service_new)) of
          Inl e \<Rightarrow> (INTERNAL_SERVER_ERROR, Some (MetricsText (Inl (''Failed to encode metrics: '' @ e))))
        | Inr sink \<Rightarrow> (STATUS_OK, Some (MetricsText (Inr sink)))), relay_inputs encode rate is metric_service_new)"
    by (simp add: relay_run_state relay_metrics_route_def get_route_def respond_with_metrics_def lock_def
        mutex_new_def split: sum.split)
qed (simp_all add: scrape_simps relay_run_state)

text \<open>The summary at \<open>/relay-events-summary\<close> lists every accepted and every closed circuit in
  order, and each peer with an accepted or closed reservation once; its list of denied circuits is always
  empty.\<close>

theorem relay_summary_exact:
  "\<exists>sm. relay_metrics_route encode rate now \<lparr>rq_method = GET, rq_path = ''/relay-events-summary'', rq_json = j\<rparr>
        (relay_inputs encode rate is metric_service_new)
      = ((STATUS_OK, Some (RelaySummary (Inr sm))), relay_inputs encode rate is metric_service_new)
    \<and> cs_accepted (res_circuits sm) = concat (map accepted_of (swarm_part is))
    \<and> cs_closed (res_circuits sm) = concat (map closed_of (swarm_part is))
    \<and> set (accepted_peers (res_reservations sm)) = set (concat (map reserved_of (swarm_part is)))
    \<and> set (closed_peers (res_reservations sm)) = set (concat (map released_of (swarm_part is)))
    \<and> distinct (accepted_peers (res_reservations sm)) \<and> distinct (closed_peers (res_reservations sm))
    \<and> cs_denied (res_circuits sm) = []"
  by (simp add: relay_run_state relay_metrics_route_def get_route_def get_relay_events_summary_def lock_def
      mutex_new_def logged_def relay_metrics_new_def set_fold_insert distinct_fold_insert)

text \<open>A metrics port that is taken does not stop the relay, unlike the backend: it goes on counting what its
  swarm reports, though no client's report reaches it.\<close>

lemma swarm_part_filter: "swarm_part (filter (reaches life) is) = swarm_part is"
  by (induction "is" rule: swarm_part.induct) auto

lemma post_part_unreached: "life \<noteq> Serves \<Longrightarrow> post_part (filter (reaches life) is) = []"
  unfolding post_part_def by (induction "is" rule: swarm_part.induct) simp_all

theorem relay_survives_metrics_failure:
  assumes "relay_p2p_worker_new E dns port live key = RelayOk w" and "listen_on E = (\<lambda>_. None)"
    and "metrics_bind E ''127.0.0.1'' 9945 = Some err"
  shows "\<exists>S. relay_run E encode rate dns port live key is = RelayOk S
    \<and> ms_relay_metrics S = mutex_new (logged (swarm_part is) relay_metrics_new)
    \<and> ms_client_metrics S = mutex_new client_metrics_new"
proof -
  have "relay_metrics_server E 9945 = Ends (Some err)"
    using assms(3) by (simp add: relay_metrics_server_def)
  then show ?thesis
    using assms(1,2) by (simp add: relay_run_def relay_start_swarm_def Let_def relay_run_state
        swarm_part_filter post_part_unreached)
qed

text \<open>The relay's start-up never panics: the key that \<open>RelayP2pWorker::new\<close> unwraps has been resolved.
  In live mode the identity is the key of the key file when one is given, else the key of the
  command line, and without either the start is refused.\<close>

theorem relay_start_keys:
  "main_relay_node E encode rate rd trim dns port live file key is \<noteq> RelayPanic
   \<and> (live \<and> file = None \<and> key = None \<longrightarrow>
        main_relay_node E encode rate rd trim dns port live file key is = RelayErr NoPrivateKeyInLiveMode)
   \<and> (\<forall>p k. live \<and> file = Some p \<and> rd p = Inr k \<longrightarrow>
        main_relay_node E encode rate rd trim dns port live file key is
          = relay_run E encode rate dns port True (Some (trim k)) is)
   \<and> (\<forall>k. live \<and> file = None \<and> key = Some k \<longrightarrow>
        main_relay_node E encode rate rd trim dns port live file key is
          = relay_run E encode rate dns port True (Some (trim k)) is)"
  by (auto simp: main_relay_node_def resolve_key_def relay_run_def relay_p2p_worker_new_def
      relay_keypair_def relay_start_swarm_def Let_def split: option.splits sum.splits relay_result.splits)

definition sample_relay_env :: "bytes relay_env" where
  "sample_relay_env = \<lparr>hex_decode = (\<lambda>s. if s = ''ab'' then Inr [171] else Inl ''odd number of digits''),
     ed25519_from_bytes = Inr, generate_ed25519 = [0], peer_id_of = (\<lambda>_. ''12D3''),
     build_swarm = (\<lambda>_ _ _. None), listen_on = (\<lambda>_. None),
     metrics_bind = (\<lambda>_ _. None), metrics_local_addr = None, metrics_serve = Serves\<rparr>"

theorem relay_start_keys_witness:
  "main_relay_node sample_relay_env (\<lambda>_. Inr []) (\<lambda>_ _. 0)
       (\<lambda>p. if p = ''key'' then Inr ''0xab'' else Inl ''not found'') (\<lambda>s. s)
       ''relay.vane'' 30333 True (Some ''key'') (Some ''cd'') [SwarmInput (ConnectionEstablished ''peer'')]
     = relay_run sample_relay_env (\<lambda>_. Inr []) (\<lambda>_ _. 0) ''relay.vane'' 30333 True (Some ''0xab'')
         [SwarmInput (ConnectionEstablished ''peer'')]
   \<and> (\<exists>S. relay_run sample_relay_env (\<lambda>_. Inr []) (\<lambda>_ _. 0) ''relay.vane'' 30333 True (Some ''0xab'')
            [SwarmInput (ConnectionEstablished ''peer'')] = RelayOk S
         \<and> scraped ''relay_connections_total'' S = Some 1)"
  using relay_start_keys [of sample_relay_env "\<lambda>_. Inr []" "\<lambda>_ _. 0"
      "\<lambda>p. if p = ''key'' then Inr ''0xab'' else Inl ''not found''" "\<lambda>s. s" "''relay.vane''" 30333 True "Some ''key''"
      "Some ''cd''" "[SwarmInput (ConnectionEstablished ''peer'')]"]
  by (simp add: relay_run_def relay_p2p_worker_new_def relay_keypair_def relay_start_swarm_def relay_metrics_server_def
      sample_relay_env_def strip_0x_def relay_inputs_def record_defs lock_def metric_service_new_def
      Let_def scrape_simps)

end
