(* ===== verification/Backend_Start.thy ===== *)
theory Backend_Start
  imports Backend_Rpc Status_Json Http_Server
begin

text \<open>
  The backend as a program (\<open>node/vane-backend/src/server.rs\<close>): \<open>VaneSwarmServer::run\<close>, which starts the metrics server
  on port 9946 and the JSON-RPC server on port 9947 over one shared state; \<open>MetricService::new\<close> with its registry;
  and the routes of the metrics server. An input of a running backend is a JSON-RPC call or an HTTP request; the
  two servers take them one at a time, as every handler holds the lock of what it changes.

  Shown: over any interleaving of calls and requests the metrics the backend answers with are exact counts of what it
  has handled, reading them changes nothing, and the reports of clients and the state of the server do not touch
  each other.
\<close>

section \<open>Metric service\<close>

type_synonym registry_entries = "(string \<times> string) list"

definition backend_metrics_register :: "registry_entries \<Rightarrow> registry_entries" where
  "backend_metrics_register reg = reg @ [
     (''backend_sender_requests_total'', ''Total sender requests received''),
     (''backend_receiver_responses_total'', ''Total receiver responses received''),
     (''backend_receiver_not_found_total'', ''Total receiver not found events''),
     (''backend_peers_added_total'', ''Total peers added''),
     (''backend_peers_removed_total'', ''Total peers removed''),
     (''backend_active_peers'', ''Current number of active peers''),
     (''backend_pending_requests'', ''Current number of pending requests''),
     (''backend_new_clients_joined'', ''Total number of new clients that have joined'')]"

definition backend_client_metrics_register :: "registry_entries \<Rightarrow> registry_entries" where
  "backend_client_metrics_register reg = reg @ [
     (''backend_total_success_txs'', ''Total successful transactions''),
     (''backend_total_failed_txs'', ''Total failed transactions''),
     (''backend_tx_success_rate_percent'', ''Transaction success rate (percent)'')]"

text \<open>The registry is a local of \<open>new\<close>: the service it returns does not contain it.\<close>

record backend_metric_service =
  ms_backend_metrics :: backend_metrics
  ms_client_metrics :: client_metrics_store

definition backend_metric_service_new :: backend_metric_service where
  "backend_metric_service_new =
     (let registry = backend_client_metrics_register (backend_metrics_register [])
      in \<lparr>ms_backend_metrics = backend_metrics_new, ms_client_metrics = client_metrics_new\<rparr>)"

section \<open>The running backend\<close>

text \<open>The backend metrics of the service are those of the swarm server, which holds the same service.\<close>

record backend_state =
  swarm_server :: swarm_server
  client_metrics :: client_metrics_store

definition backend_state_new :: backend_state where
  "backend_state_new =
     (let metric_service = backend_metric_service_new
      in \<lparr>swarm_server = swarm_server_new\<lparr>metrics := ms_backend_metrics metric_service\<rparr>,
          client_metrics = ms_client_metrics metric_service\<rparr>)"

datatype http_body =
    BackendSummary backend_events_summary
  | StatusSuccess
  | ClientList "client_snapshot list"

definition metrics_server_route ::
    "(u64 \<Rightarrow> u64 \<Rightarrow> i64) \<Rightarrow> u64 \<Rightarrow> http_request \<Rightarrow> backend_state \<Rightarrow> http_body answer \<times> backend_state" where
  "metrics_server_route rate now rq b =
     (if rq_path rq = ''/metrics-summary'' then
        (get_route (STATUS_OK, BackendSummary (get_metrics_summary (metrics (swarm_server b)))) rq, b)
      else if rq_path rq = ''/client-metrics'' then
        post_route (\<lambda>payload b. ((STATUS_OK, StatusSuccess),
            b\<lparr>client_metrics := handle_client_metrics rate now payload (client_metrics b)\<rparr>)) rq b
      else if rq_path rq = ''/client-metrics-summary'' then
        (get_route (STATUS_OK, ClientList (get_client_metrics_summary (client_metrics b))) rq, b)
      else ((NOT_FOUND, None), b))"

datatype backend_input = JsonRpc u64 u64 rpc_call | Http u64 http_request

fun backend_input_step ::
    "backend_env \<Rightarrow> (u64 \<Rightarrow> u64 \<Rightarrow> i64) \<Rightarrow> backend_input \<Rightarrow> backend_state \<Rightarrow> backend_state" where
  "backend_input_step E rate (JsonRpc now later c) b =
     b\<lparr>swarm_server := snd (rpc_dispatch E now later c (swarm_server b))\<rparr>"
| "backend_input_step E rate (Http now rq) b = snd (metrics_server_route rate now rq b)"

section \<open>Start and end\<close>

record backend_boot =
  bb_logger :: "string option"
  bb_metrics_bind :: "string \<Rightarrow> u16 \<Rightarrow> string option"
  bb_metrics_addr :: "string option"
  bb_metrics_serve :: server_life
  bb_rpc_build :: "string \<Rightarrow> string option"
  bb_rpc_addr :: "string option"
  bb_rpc_start :: "string option"
  bb_rpc_stopped :: bool

record metrics_server =
  ms_port :: u16

definition metrics_server_new :: "u16 \<Rightarrow> metrics_server" where
  "metrics_server_new port = \<lparr>ms_port = port\<rparr>"

definition metrics_server_start :: "backend_boot \<Rightarrow> metrics_server \<Rightarrow> server_life" where
  "metrics_server_start B m = (case bb_metrics_bind B ''127.0.0.1'' (ms_port m) of
       Some err \<Rightarrow> Ends (Some err)
     | None \<Rightarrow> (case bb_metrics_addr B of Some err \<Rightarrow> Ends (Some err) | None \<Rightarrow> bb_metrics_serve B))"

record json_rpc_server =
  jr_url :: string

definition json_rpc_server_new :: "u16 \<Rightarrow> json_rpc_server" where
  "json_rpc_server_new port = \<lparr>jr_url = ''127.0.0.1:'' @ nat_to_dec (unat port)\<rparr>"

definition json_rpc_server_start :: "backend_boot \<Rightarrow> json_rpc_server \<Rightarrow> server_life" where
  "json_rpc_server_start B j = (case bb_rpc_build B (jr_url j) of
       Some err \<Rightarrow> Ends (Some err)
     | None \<Rightarrow> (case bb_rpc_addr B of
          Some err \<Rightarrow> Ends (Some (''failed to get address: '' @ err))
        | None \<Rightarrow> (case bb_rpc_start B of
             Some err \<Rightarrow> Ends (Some (''rpc handler error: '' @ err))
           | None \<Rightarrow> if bb_rpc_stopped B then Ends None else Serves)))"

text \<open>\<open>run\<close> returns when the first of the two servers ends; what ended it is logged.\<close>

datatype backend_life = BackendServes | BackendReturns "string + unit"

definition backend_run :: "backend_boot \<Rightarrow> backend_life" where
  "backend_run B = (case bb_logger B of
       Some err \<Rightarrow> BackendReturns (Inl err)
     | None \<Rightarrow>
         (let metrics_server = metrics_server_new 9946; jsonrpc_server = json_rpc_server_new 9947 in
          case (metrics_server_start B metrics_server, json_rpc_server_start B jsonrpc_server) of
            (Serves, Serves) \<Rightarrow> BackendServes
          | _ \<Rightarrow> BackendReturns (Inr ())))"

section \<open>What the counters count\<close>

definition counters :: "swarm_server \<Rightarrow> u64 \<times> u64 \<times> u64 \<times> u64" where
  "counters s = (sender_requests_total (metrics s), receiver_responses_total (metrics s),
     receiver_not_found_total (metrics s), new_clients_joined (metrics s))"

lemma counters_quiet [simp]:
  "counters (update_metrics now s) = counters s" "counters (insert_request now mid d s) = counters s"
  "counters (send_event ev s) = counters s" "counters (try_notify ntf s) = counters s"
  "counters (cleanup_expired_sender_receiver_requests now s) = counters s"
  "counters (s\<lparr>peers := ps\<rparr>) = counters s" "counters (s\<lparr>sender_requests := rs\<rparr>) = counters s"
  "counters (s\<lparr>receiver_requests := rs\<rparr>) = counters s" "counters (s\<lparr>metrics := record_peer_added (metrics s)\<rparr>) = counters s"
  "counters (s\<lparr>metrics := record_peer_removed (metrics s)\<rparr>) = counters s"
  by (simp_all add: counters_def update_metrics_def insert_request_def send_event_def try_notify_def Let_def frame_simps
      cleanup_expired_sender_receiver_requests_def metric_defs)

lemma counters_register [simp]: "counters (register_peer now a r net s) = counters s"
  by (simp add: register_peer_def Let_def split: option.split) (simp add: counters_def metric_defs)

lemma counters_update_request: "update_request now later mid d s = (ok, s') \<Longrightarrow> counters s' = counters s"
  by (auto simp: update_request_def Let_def counters_def frame_simps send_event_def split: option.splits if_splits)

text \<open>What a call adds to each counter.\<close>

definition counted :: "backend_env \<Rightarrow> rpc_call \<Rightarrow> u64 \<times> u64 \<times> u64 \<times> u64" where
  "counted E c = (case c of
       HandleSenderRequest a d \<Rightarrow> (if from_slice E d = None then 0 else 1, 0, 0, 0)
     | HandleReceiverResponse a d \<Rightarrow> (0, if from_slice E d = None then 0 else 1, 0, 0)
     | SubscribeToEvents a \<Rightarrow> (0, 0, 0, 1)
     | _ \<Rightarrow> (0, 0, 0, 0))"

definition add4 :: "u64 \<times> u64 \<times> u64 \<times> u64 \<Rightarrow> u64 \<times> u64 \<times> u64 \<times> u64 \<Rightarrow> u64 \<times> u64 \<times> u64 \<times> u64" where
  "add4 x y = (case (x, y) of ((a, b, c, d), (a', b', c', d')) \<Rightarrow> (a + a', b + b', c + c', d + d'))"

lemma add4_0 [simp]: "add4 x (0, 0, 0, 0) = x"
  by (simp add: add4_def split: prod.split)

lemma counters_sender_request:
  "counters (s\<lparr>metrics := record_sender_request (metrics s)\<rparr>) = add4 (counters s) (1, 0, 0, 0)"
  "counters (s\<lparr>metrics := record_receiver_response (metrics s)\<rparr>) = add4 (counters s) (0, 1, 0, 0)"
  "counters (s\<lparr>metrics := record_new_client_joined (metrics s)\<rparr>) = add4 (counters s) (0, 0, 0, 1)"
  by (simp_all add: counters_def add4_def metric_defs)

lemma counters_sender_update: "counters (snd (sender_update mk E now later a d s)) = counters s"
proof (cases "from_slice E d")
  case (Some tx)
  obtain ok s' where u: "update_request now later (hex_encode E (multi_id tx)) d s = (ok, s')"
    by (cases "update_request now later (hex_encode E (multi_id tx)) d s")
  show ?thesis using Some u counters_update_request [OF u] by (simp add: sender_update_def Let_def run_simps)
qed (simp add: sender_update_def run_simps)

lemma counters_dispatch: "counters (snd (rpc_dispatch E now later c s)) = add4 (counters s) (counted E c)"
proof (cases c)
  case (HandleSenderRequest a d)
  then show ?thesis
    by (cases "from_slice E d")
      (simp_all add: counted_def rpc_defs handle_sender_request_def Let_def run_simps counters_sender_request)
next
  case (HandleReceiverResponse a d)
  show ?thesis
  proof (cases "from_slice E d")
    case (Some tx)
    let ?s = "send_event (EvReceiverResponseReceived a d) s"
    obtain ok s' where u: "update_request now later (hex_encode E (multi_id tx)) d ?s = (ok, s')"
      by (cases "update_request now later (hex_encode E (multi_id tx)) d ?s")
    show ?thesis
      using Some u counters_update_request [OF u] HandleReceiverResponse
      by (simp add: counted_def rpc_defs handle_receiver_response_def Let_def run_simps counters_sender_request)
  qed (use HandleReceiverResponse in \<open>simp add: counted_def rpc_defs handle_receiver_response_def run_simps\<close>)
next
  case (FetchPending a)
  then show ?thesis
    using wf_fetch [of E a s]
    by (auto simp: counted_def rpc_defs run_simps split: prod.splits outcome.splits)
next
  case (DisconnectPeer a d)
  then show ?thesis
    by (auto simp: counted_def rpc_defs disconnect_peer_def Let_def run_simps split: option.split)
      (simp_all add: counters_def metric_defs)
qed (simp_all add: counted_def rpc_defs run_simps counters_sender_update counters_sender_request)

fun rpc_part :: "backend_input list \<Rightarrow> rpc_call list" where
  "rpc_part [] = []"
| "rpc_part (JsonRpc now later c # is) = c # rpc_part is"
| "rpc_part (Http now rq # is) = rpc_part is"

text \<open>The client reports among the requests.\<close>

fun input_reports :: "backend_input \<Rightarrow> (u64 \<times> client_metrics_payload) list" where
  "input_reports (JsonRpc now later c) = []"
| "input_reports (Http now rq) = request_reports now rq"

definition report_part :: "backend_input list \<Rightarrow> (u64 \<times> client_metrics_payload) list" where
  "report_part is = concat (map input_reports is)"

definition backend_inputs :: "backend_env \<Rightarrow> (u64 \<Rightarrow> u64 \<Rightarrow> i64) \<Rightarrow> backend_input list \<Rightarrow> backend_state \<Rightarrow> backend_state" where
  "backend_inputs E rate is = fold (backend_input_step E rate) is"

lemma http_step:
  "backend_input_step E rate (Http now rq) b =
     b\<lparr>client_metrics := handle_reports rate (request_reports now rq) (client_metrics b)\<rparr>"
  by (cases b) (simp add: metrics_server_route_def post_route_def request_reports_def split: sum.split)

interpretation backend_reports:
  report_server "backend_input_step E rate" "\<lambda>_. True" client_metrics input_reports rate for E rate
proof unfold_locales
  show "client_metrics (backend_input_step E rate i b) = handle_reports rate (input_reports i) (client_metrics b)" for i b
    by (cases i) (simp_all add: http_step del: backend_input_step.simps(2))
qed simp

lemma backend_inputs_clients:
  "client_metrics (backend_inputs E rate is b) = handle_reports rate (report_part is) (client_metrics b)"
  unfolding backend_inputs_def report_part_def by (rule backend_reports.inputs_store) simp

lemma backend_inputs_wf: "wf_server E (swarm_server b) \<Longrightarrow> wf_server E (swarm_server (backend_inputs E rate is b))"
proof (induction "is" arbitrary: b)
  case (Cons i "is")
  then show ?case
    by (cases i) (simp_all add: backend_inputs_def http_step wf_rpc_dispatch del: backend_input_step.simps(2))
qed (simp add: backend_inputs_def)

lemma add4_assoc: "add4 (add4 x y) z = add4 x (add4 y z)"
  by (simp add: add4_def add.assoc split: prod.split)

lemma backend_inputs_counters:
  "counters (swarm_server (backend_inputs E rate is b))
     = add4 (counters (swarm_server b)) (foldr add4 (map (counted E) (rpc_part is)) (0, 0, 0, 0))"
proof (induction "is" arbitrary: b)
  case (Cons i "is")
  then show ?case
    by (cases i) (simp_all add: backend_inputs_def http_step counters_dispatch add4_assoc del: backend_input_step.simps(2))
qed (simp add: backend_inputs_def)

definition decoded_request :: "backend_env \<Rightarrow> rpc_call \<Rightarrow> bool" where
  "decoded_request E c = (case c of HandleSenderRequest a d \<Rightarrow> from_slice E d \<noteq> None | _ \<Rightarrow> False)"

definition decoded_response :: "backend_env \<Rightarrow> rpc_call \<Rightarrow> bool" where
  "decoded_response E c = (case c of HandleReceiverResponse a d \<Rightarrow> from_slice E d \<noteq> None | _ \<Rightarrow> False)"

definition subscription :: "rpc_call \<Rightarrow> bool" where
  "subscription c = (case c of SubscribeToEvents a \<Rightarrow> True | _ \<Rightarrow> False)"

lemma counted_total:
  "foldr add4 (map (counted E) cs) (0, 0, 0, 0) = (of_nat (length (filter (decoded_request E) cs)),
     of_nat (length (filter (decoded_response E) cs)), 0, of_nat (length (filter subscription cs)))"
proof (induction cs)
  case (Cons c cs)
  have "counted E c = (if decoded_request E c then 1 else 0, if decoded_response E c then 1 else 0, 0,
      if subscription c then 1 else 0)"
    by (cases c) (simp_all add: counted_def decoded_request_def decoded_response_def subscription_def)
  with Cons show ?case by (simp add: add4_def)
qed simp

lemma counters_start [simp]: "counters (swarm_server backend_state_new) = (0, 0, 0, 0)"
  "wf_server E (swarm_server backend_state_new)"
  using wf_new [of E]
  by (simp_all add: counters_def backend_state_new_def backend_metric_service_new_def swarm_server_new_def backend_metrics_new_def)

section \<open>Theorems\<close>

text \<open>C39: whatever calls and requests a backend has taken since its start, in whatever order, its metrics summary
  is exact: the requests and the responses it could decode, the subscriptions it accepted, and the senders it has
  peers for (modulo \<open>2 ^ 64\<close>), no receiver counted as not found; reading the summary changes nothing. The client
  summary is what the reports alone give.\<close>

theorem backend_summary_exact:
  assumes "b = backend_inputs E rate is backend_state_new"
  shows "metrics_server_route rate now \<lparr>rq_method = GET, rq_path = ''/metrics-summary'', rq_json = j\<rparr> b =
      ((STATUS_OK, Some (BackendSummary \<lparr>
          sum_sender_requests_total = of_nat (length (filter (decoded_request E) (rpc_part is))),
          sum_receiver_responses_total = of_nat (length (filter (decoded_response E) (rpc_part is))),
          sum_receiver_not_found_total = 0,
          sum_active_peers = of_nat (length (peers (swarm_server b))),
          sum_pending_requests = pending_requests (metrics (swarm_server b)),
          sum_new_clients_joined = of_nat (length (filter subscription (rpc_part is)))\<rparr>)), b)
    \<and> metrics_server_route rate now \<lparr>rq_method = GET, rq_path = ''/client-metrics-summary'', rq_json = j\<rparr> b =
      ((STATUS_OK, Some (ClientList (map snd (per_client (handle_reports rate (report_part is) client_metrics_new))))), b)"
proof -
  have "counters (swarm_server b) = (of_nat (length (filter (decoded_request E) (rpc_part is))),
      of_nat (length (filter (decoded_response E) (rpc_part is))), 0, of_nat (length (filter subscription (rpc_part is))))"
    using backend_inputs_counters [of E rate "is" backend_state_new] by (simp add: assms counted_total add4_def)
  moreover have "active_peers (metrics (swarm_server b)) = of_nat (length (peers (swarm_server b)))"
    using backend_inputs_wf [OF counters_start(2), of E rate "is"] unfolding assms wf_server_def by blast
  moreover have "client_metrics b = handle_reports rate (report_part is) client_metrics_new"
    by (simp add: assms backend_inputs_clients backend_state_new_def backend_metric_service_new_def)
  ultimately show ?thesis
    by (simp add: metrics_server_route_def get_route_def get_metrics_summary_def counters_def get_client_metrics_summary_def)
qed

definition sample_inputs :: "backend_input list" where
  "sample_inputs = [JsonRpc 10 10 (SubscribeToEvents ''bob''), JsonRpc 10 10 (HandleSenderRequest ''alice'' [7, 0]),
     Http 11 \<lparr>rq_method = GET, rq_path = ''/metrics'', rq_json = Inl 0\<rparr>, JsonRpc 12 12 (HandleSenderRequest ''alice'' [9])]"

theorem backend_summary_exact_witness:
  "\<exists>sm b. metrics_server_route (\<lambda>_ _. 0) 13 \<lparr>rq_method = GET, rq_path = ''/metrics-summary'', rq_json = Inl 0\<rparr>
       (backend_inputs sample_env (\<lambda>_ _. 0) sample_inputs backend_state_new) = ((STATUS_OK, Some (BackendSummary sm)), b)
     \<and> sum_sender_requests_total sm = 1 \<and> sum_new_clients_joined sm = 1 \<and> sum_receiver_not_found_total sm = 0"
  using backend_summary_exact [OF refl, of "\<lambda>_ _. 0" 13 "Inl 0" sample_env sample_inputs]
  by (simp add: sample_inputs_def decoded_request_def subscription_def) (simp add: sample_env_def)

text \<open>A metrics port that is taken ends the backend: the metrics task logs its error and ends, \<open>run\<close> returns
  \<open>Ok\<close> at the end of the first task, and the process exits with success, the JSON-RPC server with it.\<close>

theorem metrics_failure_stops_backend:
  assumes "bb_logger B = None" and "bb_metrics_bind B ''127.0.0.1'' 9946 = Some err"
  shows "backend_run B = BackendReturns (Inr ())"
  using assms by (simp add: backend_run_def metrics_server_start_def metrics_server_new_def)

text \<open>The backend runs on exactly when its logger and both servers do, and no error of a server is ever its result.\<close>

theorem backend_run_outcome:
  "(backend_run B = BackendServes \<longleftrightarrow> bb_logger B = None
      \<and> metrics_server_start B (metrics_server_new 9946) = Serves
      \<and> json_rpc_server_start B (json_rpc_server_new 9947) = Serves)
   \<and> (backend_run B = BackendReturns (Inl e) \<longleftrightarrow> bb_logger B = Some e)"
  by (auto simp: backend_run_def Let_def split: option.splits server_life.splits)

end
