(* ===== verification/App.thy ===== *)
theory App
  imports Relay Backend_Start
begin

text \<open>
  The two programs of the repository that are not nodes of the network: the application binary (\<open>app/src/main.rs\<close>), which
  runs the relay or the backend, and the test client of the relay (\<open>node/test_client/src/main.rs\<close>). The parsing of the
  command line by \<open>clap\<close> is a function from the options that were given; the log sinks, the file system, libp2p
  and the swarm are arguments. Log lines are left out.
\<close>

section \<open>The application binary\<close>

datatype level_filter = FilterInfo | FilterDebug

datatype sink = TermLogger level_filter | WriteLogger level_filter string

record app_env =
  file_create :: "string \<Rightarrow> string option"
  combined_logger_init :: "sink list \<Rightarrow> string option"

datatype 'a run = Ran 'a | RunPanic

definition log_setup :: "app_env \<Rightarrow> bool \<Rightarrow> sink list run" where
  "log_setup A live =
     (let lv = (if live then FilterInfo else FilterDebug); sinks = [TermLogger lv, WriteLogger lv ''vane.log''] in
      if file_create A ''vane.log'' \<noteq> None \<or> combined_logger_init A sinks \<noteq> None then RunPanic else Ran sinks)"

datatype commands =
    RelayNode string u16 bool "string option" "string option"
  | VaneBackend

text \<open>The options of \<open>RelayNode\<close> with their defaults; \<open>live\<close> is a flag.\<close>

definition relay_node_args ::
    "string option \<Rightarrow> u16 option \<Rightarrow> bool \<Rightarrow> string option \<Rightarrow> string option \<Rightarrow> commands" where
  "relay_node_args dns port live file key =
     RelayNode (case dns of Some d \<Rightarrow> d | None \<Rightarrow> ''0.0.0.0'') (case port of Some p \<Rightarrow> p | None \<Rightarrow> 30333) live file key"

datatype app_result = AppRelay "metric_service relay_result" | AppBackend backend_life | AppPanic

definition app_main ::
    "app_env \<Rightarrow> 'k relay_env \<Rightarrow> backend_boot \<Rightarrow> encoder \<Rightarrow> (u64 \<Rightarrow> u64 \<Rightarrow> i64) \<Rightarrow> (string \<Rightarrow> string + string)
       \<Rightarrow> (string \<Rightarrow> string) \<Rightarrow> relay_input list \<Rightarrow> commands \<Rightarrow> app_result" where
  "app_main A E B encode rate read_to_string trim is command = (case command of
       RelayNode dns port live private_key_file private_key \<Rightarrow>
         (case log_setup A live of
            RunPanic \<Rightarrow> AppPanic
          | Ran _ \<Rightarrow> AppRelay (main_relay_node E encode rate read_to_string trim dns port live private_key_file private_key is))
     | VaneBackend \<Rightarrow> AppBackend (backend_run B))"

text \<open>Outside of live mode the keys on the command line are not looked at: the relay runs under a fresh identity, whatever
  key or key file was given, also if the file cannot be read.\<close>

theorem key_ignored_in_dev_mode:
  "app_main A E B encode rate rd trim is (RelayNode dns port False file key)
     = app_main A E B encode rate rd' trim' is (RelayNode dns port False file' key')"
  by (cases "log_setup A False") (simp_all add: app_main_def main_relay_node_def)

text \<open>Once its logger is set up the relay command does not panic, and it is refused for want of a key exactly in live mode
  without a key and without a key file; the backend command does not set up this logger.\<close>

theorem app_relay_runs:
  assumes "log_setup A live = Ran sinks"
  shows "app_main A E B encode rate rd trim is (RelayNode dns port live file key) \<noteq> AppPanic
    \<and> (app_main A E B encode rate rd trim is (RelayNode dns port live file key) = AppRelay (RelayErr NoPrivateKeyInLiveMode)
        \<longleftrightarrow> live \<and> file = None \<and> key = None)
    \<and> app_main A E B encode rate rd trim is VaneBackend = AppBackend (backend_run B)"
  using assms
  by (auto simp: app_main_def main_relay_node_def resolve_key_def relay_run_def relay_p2p_worker_new_def relay_keypair_def
      Let_def split: option.splits sum.splits relay_result.splits if_splits)

section \<open>The test client\<close>

text \<open>What the client asks its swarm and its DHT to do.\<close>

datatype client_call =
    ClientDial multiaddr
  | ClientListen multiaddr
  | DhtAddAddress string multiaddr
  | DhtPutRecord bytes bytes
  | DhtStartProviding bytes

record memory_store_config =
  max_records :: nat
  max_value_bytes :: nat
  max_providers_per_key :: nat
  max_provided_keys :: nat

definition client_store_config :: memory_store_config where
  "client_store_config = \<lparr>max_records = 10000, max_value_bytes = 2048, max_providers_per_key = 1024, max_provided_keys = 100\<rparr>"

record client_env =
  client_peer_id :: string
  client_peer_bytes :: bytes
  parse_multiaddr :: "string \<Rightarrow> string + multiaddr"
  noise_config :: "string option"
  client_dial :: "multiaddr \<Rightarrow> string option"
  client_listen_on :: "multiaddr \<Rightarrow> string option"
  dht_put_record :: "memory_store_config \<Rightarrow> bytes \<Rightarrow> bytes \<Rightarrow> string option"
  dht_start_providing :: "memory_store_config \<Rightarrow> bytes \<Rightarrow> string option"

text \<open>The result is the error that ends the client, or \<open>None\<close> when it has entered its event loop, which has no exit, with the
  calls made until then.\<close>

fun attempt_calls :: "(client_call \<times> string option) list \<Rightarrow> string option \<times> client_call list" where
  "attempt_calls [] = (None, [])"
| "attempt_calls ((c, r) # cs) = (case r of
     Some e \<Rightarrow> (Some e, [c]) | None \<Rightarrow> (case attempt_calls cs of (r', cs') \<Rightarrow> (r', c # cs')))"

definition test_client_main :: "client_env \<Rightarrow> string \<Rightarrow> string option \<times> client_call list" where
  "test_client_main C relay_arg = (case parse_multiaddr C relay_arg of
       Inl e \<Rightarrow> (Some e, [])
     | Inr relay_multi_addr \<Rightarrow>
         (let circuit_addr = relay_multi_addr @ [P2pCircuit]; key = client_peer_bytes C in
          case noise_config C of
            Some e \<Rightarrow> (Some e, [])
          | None \<Rightarrow> attempt_calls
              [(ClientDial relay_multi_addr, client_dial C relay_multi_addr),
               (ClientListen circuit_addr, client_listen_on C circuit_addr),
               (DhtAddAddress (client_peer_id C) relay_multi_addr, None),
               (DhtPutRecord key (as_bytes ''test_value''), dht_put_record C client_store_config key (as_bytes ''test_value'')),
               (DhtStartProviding key, dht_start_providing C client_store_config key)]))"

lemma attempt_calls_prefix:
  "\<exists>rest. map fst cs = snd (attempt_calls cs) @ rest \<and> (fst (attempt_calls cs) = None \<longrightarrow> rest = [])"
  by (induction cs rule: attempt_calls.induct) (auto split: option.splits prod.splits)

text \<open>The client makes its calls in one order and stops at the first that fails: it listens on the circuit of the relay only
  after it has dialed the relay, and it publishes its record only when it listens.\<close>

theorem test_client_order:
  assumes "parse_multiaddr C relay = Inr addr"
  shows "\<exists>rest. [ClientDial addr, ClientListen (addr @ [P2pCircuit]), DhtAddAddress (client_peer_id C) addr,
        DhtPutRecord (client_peer_bytes C) (as_bytes ''test_value''), DhtStartProviding (client_peer_bytes C)]
      = snd (test_client_main C relay) @ rest
    \<and> (fst (test_client_main C relay) = None \<longrightarrow> rest = [])"
proof (cases "noise_config C")
  case None
  show ?thesis
    using assms None attempt_calls_prefix
      [of "[(ClientDial addr, client_dial C addr), (ClientListen (addr @ [P2pCircuit]), client_listen_on C (addr @ [P2pCircuit])),
          (DhtAddAddress (client_peer_id C) addr, None),
          (DhtPutRecord (client_peer_bytes C) (as_bytes ''test_value''),
             dht_put_record C client_store_config (client_peer_bytes C) (as_bytes ''test_value'')),
          (DhtStartProviding (client_peer_bytes C), dht_start_providing C client_store_config (client_peer_bytes C))]"]
    by (simp add: test_client_main_def Let_def del: attempt_calls.simps)
qed (simp add: assms test_client_main_def Let_def)

end
