(* ===== verification/Wasm_Network.thy ===== *)
theory Wasm_Network
  imports Wasm_Interface
begin

text \<open>
  The start of a browser node (\<open>start_vane_web3\<close>, \<open>WasmMainServiceWorker::run\<close>, \<open>start_swarm_handler\<close> of
  \<open>node/wasm/src/lib.rs\<close> and \<open>WasmP2pWorker::start\<close> of \<open>p2p.rs\<close>) and the network of nodes around one
  backend. A started node has four tasks: the loop over the user's updates, the loop over swarm messages,
  the P2P loop with the calls it spawns, and the watchers. They share one thread and take turns; a
  task's turn is one handler. The network interleaves the tasks of all nodes, the backend's calls and the
  delivery of its broadcast to each subscription in every possible order.

  \<open>handled\<close> and \<open>sent\<close> are histories: the swarm messages a node has handled and the commands its P2P loop
  has taken. The buffer between a subscription and the P2P loop (\<open>inbox\<close>) is not bounded, and a call to the
  backend reaches it.

  Shown: a network projects to runs of its nodes and of its backend; without calls of the applications
  its tasks come to rest within a computed number of turns; what is then left undelivered is only what a
  task that ended, or an application that does not read, holds back; and what a node is handed was sent
  by a node.
\<close>

section \<open>Starting a node\<close>

record ('c, 'd) host =
  worker :: p2p_worker
  iface :: "('c, 'd) iface_state"
  p2p :: p2p_state
  inbox :: "backend_event list"
  cursor :: nat
  sub_open :: bool
  updates_ended :: bool
  swarm_ended :: bool
  frozen :: bool
  handled :: "swarm_message list"
  sent :: "network_command list"

text \<open>A node before its P2P side is started: the loops that do not run count as ended.\<close>

definition host_new :: "p2p_worker \<Rightarrow> ('c, 'd) iface_state \<Rightarrow> ('c, 'd) host" where
  "host_new W f = \<lparr>worker = W, iface = f, p2p = p2p_state_new\<lparr>loop_ended := True\<rparr>, inbox = [], cursor = 0,
     sub_open = False, updates_ended = False, swarm_ended = True, frozen = False, handled = [], sent = []\<rparr>"

text \<open>\<open>WasmP2pWorker::start\<close>: connect, subscribe, and spawn the loop. A new subscription receives the
  events broadcast from then on; the result is its place in the broadcast.\<close>

definition p2p_start :: "(string \<Rightarrow> bool) \<Rightarrow> bool \<Rightarrow> p2p_worker \<Rightarrow> (swarm_server, nat) action" where
  "p2p_start connects subscribes W =
     (if \<not> connects (backend_url W) then raise (Anyhow ''Failed to create JSON-RPC client'')
      else if \<not> subscribes then raise (Anyhow ''Failed to subscribe to events'')
      else and_then rpc_subscribe (\<lambda>_. gets (\<lambda>s. length (events s))))"

text \<open>\<open>start_swarm_handler\<close> spawns the P2P worker's start and the loop over swarm messages. When the
  start fails the sending half of the message channel is dropped, and the loop over it runs all the same.\<close>

definition start_swarm_handler ::
    "(string \<Rightarrow> bool) \<Rightarrow> bool \<Rightarrow> ('c, 'd) host \<Rightarrow> swarm_server \<Rightarrow> ('c, 'd) host \<times> swarm_server" where
  "start_swarm_handler connects subscribes h sv =
     (case p2p_start connects subscribes (worker h) sv of
        (Ok pos, sv') \<Rightarrow> (h\<lparr>cursor := pos, sub_open := True, p2p := (p2p h)\<lparr>loop_ended := False\<rparr>,
                            swarm_ended := False\<rparr>, sv')
      | (_, sv') \<Rightarrow> (h\<lparr>swarm_ended := False\<rparr>, sv'))"

definition wasm_run ::
    "('c, 'd) node_env \<Rightarrow> string \<Rightarrow> string \<Rightarrow> string \<Rightarrow> bool \<Rightarrow> bool \<Rightarrow> storage_export option \<Rightarrow> (string \<Rightarrow> bool) \<Rightarrow> bool
       \<Rightarrow> 'c \<Rightarrow> 'd \<Rightarrow> (swarm_server, ('c, 'd) host) action" where
  "wasm_run N relay acc network lv self_node storage connects subscribes c d sv =
     (case main_worker_new N relay acc network storage (initial_state c d) of
        (Ok _, n) \<Rightarrow>
          (let h = host_new (p2p_worker_new lv relay acc) (iface_new n) in
           if self_node then (Ok h, sv)
           else (let (h', sv') = start_swarm_handler connects subscribes h sv in (Ok h', sv')))
      | (Err e, _) \<Rightarrow> (Err e, sv)
      | (Panic p, _) \<Rightarrow> (Panic p, sv))"

text \<open>\<open>start_vane_web3\<close>: the storage comes from JavaScript, \<open>None\<close> when it is undefined or null and
  \<open>Some None\<close> when it does not convert.\<close>

definition start_vane_web3 ::
    "('c, 'd) node_env \<Rightarrow> string \<Rightarrow> string \<Rightarrow> string \<Rightarrow> bool \<Rightarrow> bool \<Rightarrow> storage_export option option
       \<Rightarrow> (string \<Rightarrow> bool) \<Rightarrow> bool \<Rightarrow> 'c \<Rightarrow> 'd \<Rightarrow> (swarm_server, ('c, 'd) host) action" where
  "start_vane_web3 N relay acc network self_node lv storage connects subscribes c d =
     and_then (case storage of None \<Rightarrow> ret None | Some js \<Rightarrow> and_then (from_js js) (\<lambda>x. ret (Some x))) (\<lambda>x.
     and_then (attempt (wasm_run N relay acc network lv self_node x connects subscribes c d)) (\<lambda>r.
     case r of Inr h \<Rightarrow> ret h | Inl _ \<Rightarrow> raise (Anyhow ''Failed to start WASM node'')))"

section \<open>Turns of a node's tasks\<close>

inductive host_task ::
    "backend_env \<Rightarrow> (tx_state_machine \<Rightarrow> bytes option) \<Rightarrow> ('c, 'd) iface_env \<Rightarrow> ('c, 'd) host \<Rightarrow> ('c, 'd) host \<Rightarrow> bool"
  for E :: backend_env and to_vec :: "tx_state_machine \<Rightarrow> bytes option" and I :: "('c, 'd) iface_env" where
  update: "\<not> updates_ended h \<Longrightarrow> user_updates (node (iface h)) = txn # rest \<Longrightarrow>
    handle_user_update (nenv I) H now txn ((node (iface h))\<lparr>user_updates := rest\<rparr>) = (r, s) \<Longrightarrow>
    host_task E to_vec I h (h\<lparr>iface := (iface h)\<lparr>node := s\<rparr>, updates_ended := (r \<noteq> Ok ())\<rparr>)"
| swarm: "\<not> swarm_ended h \<Longrightarrow> swarm_channel (p2p h) = m # rest \<Longrightarrow>
    handle_swarm_message (nenv I) H now (Inr m) (node (iface h)) = (r, s) \<Longrightarrow>
    host_task E to_vec I h (h\<lparr>iface := (iface h)\<lparr>node := s\<rparr>, p2p := (p2p h)\<lparr>swarm_channel := rest\<rparr>,
      handled := handled h @ [m], swarm_ended := (\<exists>p. r = Panic p)\<rparr>)"
| loop_event: "\<not> loop_ended (p2p h) \<Longrightarrow> inbox h = ev # rest \<Longrightarrow>
    p2p_turn E to_vec (worker h) (SubscriptionEvent ev) (p2p h) = Some p \<Longrightarrow>
    host_task E to_vec I h (h\<lparr>inbox := rest, p2p := p\<rparr>)"
| loop_command: "\<not> loop_ended (p2p h) \<Longrightarrow> p2p_commands (node (iface h)) = c # rest \<Longrightarrow>
    p2p_turn E to_vec (worker h) (Command c) (p2p h) = Some p \<Longrightarrow>
    host_task E to_vec I h (h\<lparr>iface := (iface h)\<lparr>node := (node (iface h))\<lparr>p2p_commands := rest\<rparr>\<rparr>, p2p := p,
      sent := sent h @ [c]\<rparr>)"
| loop_closed: "\<not> loop_ended (p2p h) \<Longrightarrow> \<not> sub_open h \<Longrightarrow> inbox h = [] \<Longrightarrow>
    p2p_turn E to_vec (worker h) SubscriptionEnded (p2p h) = Some p \<Longrightarrow>
    host_task E to_vec I h (h\<lparr>p2p := p\<rparr>)"
| watcher: "rpc_recv_borrowed (iface h) \<Longrightarrow> rpc_channel (node (iface h)) \<noteq> [] \<Longrightarrow>
    host_task E to_vec I h (h\<lparr>iface := snd (watcher_turn I (iface h))\<rparr>)"
| notif_watcher: "notif_recv_borrowed (iface h) \<Longrightarrow> notif_channel (p2p h) = ev # rest \<Longrightarrow>
    host_task E to_vec I h (h\<lparr>iface := snd (p2p_watcher_turn ev (iface h)),
      p2p := (p2p h)\<lparr>notif_channel := rest\<rparr>\<rparr>)"
| spin: "loop_ended (p2p h) \<Longrightarrow> \<not> swarm_ended h \<Longrightarrow> swarm_channel (p2p h) = [] \<Longrightarrow> \<not> frozen h \<Longrightarrow>
    host_task E to_vec I h (h\<lparr>frozen := True\<rparr>)"

section \<open>The network\<close>

record ('c, 'd) net_env =
  backend :: backend_env
  json :: "tx_state_machine \<Rightarrow> bytes option"
  members :: "('c, 'd) iface_env list"

record ('c, 'd) network =
  server :: swarm_server
  clock :: u64
  hosts :: "('c, 'd) host list"

definition broadcast_capacity :: nat where "broadcast_capacity = 100"

text \<open>A turn of some task. The calls a node has spawned reach the backend in any order; a subscription
  that lags behind the broadcast by more than its capacity may be ended.\<close>

inductive net_task :: "('c, 'd) net_env \<Rightarrow> ('c, 'd) network \<Rightarrow> ('c, 'd) network \<Rightarrow> bool"
  for N :: "('c, 'd) net_env" where
  local: "i < length (hosts n) \<Longrightarrow> \<not> frozen (hosts n ! i) \<Longrightarrow>
    host_task (backend N) (json N) (members N ! i) (hosts n ! i) h \<Longrightarrow>
    net_task N n (n\<lparr>hosts := (hosts n)[i := h]\<rparr>)"
| rpc: "i < length (hosts n) \<Longrightarrow> h = hosts n ! i \<Longrightarrow> \<not> frozen h \<Longrightarrow> rpc_calls (p2p h) = xs @ c # ys \<Longrightarrow>
    clock n \<le> now \<Longrightarrow> now \<le> later \<Longrightarrow> s = snd (rpc_dispatch (backend N) now later c (server n)) \<Longrightarrow>
    net_task N n (n\<lparr>server := s, clock := later,
      hosts := (hosts n)[i := h\<lparr>p2p := (p2p h)\<lparr>rpc_calls := xs @ ys\<rparr>\<rparr>]\<rparr>)"
| deliver: "i < length (hosts n) \<Longrightarrow> h = hosts n ! i \<Longrightarrow> sub_open h \<Longrightarrow> cursor h < length (events (server n)) \<Longrightarrow>
    ev = events (server n) ! cursor h \<Longrightarrow>
    net_task N n (n\<lparr>hosts := (hosts n)[i := h\<lparr>cursor := Suc (cursor h),
      inbox := inbox h @ (if should_send (backend N) (user_account_id (worker h)) ev then [ev] else [])\<rparr>]\<rparr>)"
| lag: "i < length (hosts n) \<Longrightarrow> h = hosts n ! i \<Longrightarrow> sub_open h \<Longrightarrow>
    broadcast_capacity < length (events (server n)) - cursor h \<Longrightarrow>
    net_task N n (n\<lparr>hosts := (hosts n)[i := h\<lparr>sub_open := False\<rparr>]\<rparr>)"

text \<open>What the applications do: start a node, and call the public interface of a node that is not frozen.
  The turns of the watchers are tasks, not calls.\<close>

definition is_watcher_turn :: "iface_call \<Rightarrow> bool" where
  "is_watcher_turn c = (case c of WatcherTurn \<Rightarrow> True | P2pWatcherTurn _ \<Rightarrow> True | _ \<Rightarrow> False)"

inductive net_app :: "('c, 'd) net_env \<Rightarrow> ('c, 'd) network \<Rightarrow> ('c, 'd) network \<Rightarrow> bool"
  for N :: "('c, 'd) net_env" where
  join: "length (hosts n) < length (members N) \<Longrightarrow> I = members N ! length (hosts n) \<Longrightarrow>
    lru_iter (lru (nenv I)) c = [] \<Longrightarrow>
    start_vane_web3 (nenv I) relay (account I) network self_node lv storage connects subscribes c d (server n)
      = (Ok h, s) \<Longrightarrow>
    net_app N n (n\<lparr>server := s, hosts := hosts n @ [h]\<rparr>)"
| call: "i < length (hosts n) \<Longrightarrow> h = hosts n ! i \<Longrightarrow> \<not> frozen h \<Longrightarrow> \<not> is_watcher_turn c \<Longrightarrow>
    net_app N n (n\<lparr>hosts := (hosts n)[i := h\<lparr>iface := snd (run_iface_call (members N ! i) now c (iface h))\<rparr>]\<rparr>)"

inductive reachable_net :: "('c, 'd) net_env \<Rightarrow> ('c, 'd) network \<Rightarrow> bool" for N :: "('c, 'd) net_env" where
  start: "reachable_net N \<lparr>server = swarm_server_new, clock = t, hosts = []\<rparr>"
| task: "reachable_net N n \<Longrightarrow> net_task N n n' \<Longrightarrow> reachable_net N n'"
| app: "reachable_net N n \<Longrightarrow> net_app N n n' \<Longrightarrow> reachable_net N n'"

definition at_rest :: "('c, 'd) net_env \<Rightarrow> ('c, 'd) network \<Rightarrow> bool" where
  "at_rest N n \<longleftrightarrow> (\<forall>n'. \<not> net_task N n n')"

inductive_cases host_taskE: "host_task E to_vec I h h'"
inductive_cases net_taskE: "net_task N n n'"
inductive_cases net_appE: "net_app N n n'"

section \<open>How much a handler adds to the channels\<close>

definition adds :: "nat \<Rightarrow> nat \<Rightarrow> (('c, 'd) node_state, 'a) action \<Rightarrow> bool" where
  "adds a b m \<longleftrightarrow> (\<forall>s. user_updates (snd (m s)) = user_updates s
     \<and> length (p2p_commands (snd (m s))) \<le> length (p2p_commands s) + a
     \<and> set (p2p_commands s) \<subseteq> set (p2p_commands (snd (m s)))
     \<and> length (rpc_channel (snd (m s))) \<le> length (rpc_channel s) + b)"

named_theorems adds_intros \<open>what a handler adds to the channels\<close>

lemma addsD:
  assumes "adds a b m" and "m s = (r, s')"
  shows "user_updates s' = user_updates s" "length (p2p_commands s') \<le> length (p2p_commands s) + a"
    "length (rpc_channel s') \<le> length (rpc_channel s) + b" "set (p2p_commands s) \<subseteq> set (p2p_commands s')"
  using assms by (simp_all add: adds_def) (metis snd_conv)+

lemma adds_mono: "adds a b m \<Longrightarrow> a \<le> a' \<Longrightarrow> b \<le> b' \<Longrightarrow> adds a' b' m"
  by (fastforce simp: adds_def intro: order_trans)

lemma adds_0 [adds_intros]:
  "adds a b (ret x)" "adds a b (raise e)" "adds a b (panic p)" "adds a b (lift_outcome r)" "adds a b (on_db q)"
  "adds a b (on_cache f)" "adds a b (cache_peek E k)"
  by (simp_all add: adds_def run_simps on_cache_def)

lemma adds_sends [adds_intros]:
  "adds a (Suc b) (rpc_send tx)" "adds a (Suc b) (rpc_try_send tx)" "adds (Suc a) b (send_command c)"
  "adds (Suc a) b (modify (\<lambda>s. s\<lparr>p2p_commands := wasm_send_request tx (p2p_commands s)\<rparr>))"
  "adds (Suc a) b (modify (\<lambda>s. s\<lparr>p2p_commands := wasm_send_response tx (p2p_commands s)\<rparr>))"
  "adds a b (modify (\<lambda>s. s\<lparr>submitted := f s\<rparr>))"
  by (simp_all add: adds_def run_simps wasm_send_request_def wasm_send_response_def subset_insertI)

lemma adds_and_then:
  assumes "adds a b m" and "\<And>x. adds c d (f x)"
  shows "adds (a + c) (b + d) (and_then m f)"
  unfolding adds_def
proof
  fix s
  obtain r s1 where m: "m s = (r, s1)" by (cases "m s")
  note 1 = addsD [OF assms(1) m]
  show "user_updates (snd (and_then m f s)) = user_updates s
     \<and> length (p2p_commands (snd (and_then m f s))) \<le> length (p2p_commands s) + (a + c)
     \<and> set (p2p_commands s) \<subseteq> set (p2p_commands (snd (and_then m f s)))
     \<and> length (rpc_channel (snd (and_then m f s))) \<le> length (rpc_channel s) + (b + d)"
  proof (cases r)
    case (Ok x)
    obtain r2 s2 where "f x s1 = (r2, s2)" by (cases "f x s1")
    then show ?thesis using 1 addsD [OF assms(2), of x s1 r2 s2] m Ok by (auto simp: run_and_then)
  qed (use 1 m in \<open>simp_all add: run_and_then\<close>)
qed

lemma adds_then: "adds 0 0 m \<Longrightarrow> (\<And>x. adds a b (f x)) \<Longrightarrow> adds a b (and_then m f)"
  using adds_and_then [of 0 0 m a b f] by simp

lemma adds_then_send:
  "(\<And>x. adds a b (f x)) \<Longrightarrow> adds a (Suc b) (and_then (rpc_send tx) f)"
  "(\<And>x. adds a b (f x)) \<Longrightarrow> adds a (Suc b) (and_then (rpc_try_send tx) f)"
  "(\<And>x. adds a b (f x)) \<Longrightarrow> adds (Suc a) b (and_then (send_command c) f)"
  using adds_and_then [OF adds_sends(1) [of 0 0 tx], of a b f] adds_and_then [OF adds_sends(2) [of 0 0 tx], of a b f]
    adds_and_then [OF adds_sends(3) [of 0 0 c], of a b f]
  by simp_all

lemma adds_attempt: "adds a b m \<Longrightarrow> adds a b (attempt m)"
  by (simp add: adds_def run_attempt split: prod.split outcome.split) (metis snd_conv)

lemma adds_with_borrow [adds_intros]: "adds a b m \<Longrightarrow> adds a b (with_borrow_mut m)"
  unfolding adds_def with_borrow_mut_def
proof (intro allI)
  fix s assume *: "\<forall>s. user_updates (snd (m s)) = user_updates s
     \<and> length (p2p_commands (snd (m s))) \<le> length (p2p_commands s) + a
     \<and> set (p2p_commands s) \<subseteq> set (p2p_commands (snd (m s)))
     \<and> length (rpc_channel (snd (m s))) \<le> length (rpc_channel s) + b"
  show "user_updates (snd (if cache_borrowed s then (Panic BorrowMutError, s) else
      case m (s\<lparr>cache_borrowed := True\<rparr>) of (Panic p, s') \<Rightarrow> (Panic p, s')
        | (r, s') \<Rightarrow> (r, s'\<lparr>cache_borrowed := False\<rparr>))) = user_updates s
    \<and> length (p2p_commands (snd (if cache_borrowed s then (Panic BorrowMutError, s) else
      case m (s\<lparr>cache_borrowed := True\<rparr>) of (Panic p, s') \<Rightarrow> (Panic p, s')
        | (r, s') \<Rightarrow> (r, s'\<lparr>cache_borrowed := False\<rparr>)))) \<le> length (p2p_commands s) + a
    \<and> set (p2p_commands s) \<subseteq> set (p2p_commands (snd (if cache_borrowed s then (Panic BorrowMutError, s) else
      case m (s\<lparr>cache_borrowed := True\<rparr>) of (Panic p, s') \<Rightarrow> (Panic p, s')
        | (r, s') \<Rightarrow> (r, s'\<lparr>cache_borrowed := False\<rparr>))))
    \<and> length (rpc_channel (snd (if cache_borrowed s then (Panic BorrowMutError, s) else
      case m (s\<lparr>cache_borrowed := True\<rparr>) of (Panic p, s') \<Rightarrow> (Panic p, s')
        | (r, s') \<Rightarrow> (r, s'\<lparr>cache_borrowed := False\<rparr>)))) \<le> length (rpc_channel s) + b"
    using spec [OF *, of "s\<lparr>cache_borrowed := True\<rparr>"]
    by (cases "m (s\<lparr>cache_borrowed := True\<rparr>)"; cases "fst (m (s\<lparr>cache_borrowed := True\<rparr>))") auto
qed

lemma adds_cases [adds_intros]:
  "(P \<Longrightarrow> adds a b m) \<Longrightarrow> (\<not> P \<Longrightarrow> adds a b m') \<Longrightarrow> adds a b (if P then m else m')"
  "(r = None \<Longrightarrow> adds a b m) \<Longrightarrow> (\<And>x. r = Some x \<Longrightarrow> adds a b (f x)) \<Longrightarrow> adds a b (case r of None \<Rightarrow> m | Some x \<Rightarrow> f x)"
  "(\<And>x. q = Ok x \<Longrightarrow> adds a b (g x)) \<Longrightarrow> (\<And>e. q = Err e \<Longrightarrow> adds a b (h e)) \<Longrightarrow> (\<And>p. q = Panic p \<Longrightarrow> adds a b (k p)) \<Longrightarrow>
   adds a b (case q of Ok x \<Rightarrow> g x | Err e \<Rightarrow> h e | Panic p \<Rightarrow> k p)"
  by (simp_all split: option.split outcome.split)

lemma adds_cache [adds_intros]: "adds a b (cache_push M k w)" "adds a b (cache_get M k)"
  unfolding cache_push_def cache_get_def by (rule adds_intros)+

lemma adds_if_let [adds_intros]:
  "(\<And>w. adds a b (yes w)) \<Longrightarrow> adds a b no \<Longrightarrow> adds a b (if_let_get_mut M k v yes no)"
  unfolding if_let_get_mut_def by (intro adds_with_borrow adds_then adds_0 adds_cases)

text \<open>The first rule that fits is the right one.\<close>

lemmas adds_rules = adds_then_send adds_then adds_intros

lemma adds_request: "adds 0 1 (swarm_wasm_request M now req)"
  using adds_and_then [OF adds_attempt [OF adds_sends(2) [of 0 0]] adds_cache(1) [of 0 0]]
  by (simp add: swarm_wasm_request_def)

lemma adds_store_response: "adds 0 2 (swarm_store_response M now tx)"
  unfolding swarm_store_response_def Let_def numeral_2_eq_2 by (rule adds_rules)+

lemma adds_create_failed: "adds 0 2 (swarm_create_failed M now tx)"
  unfolding swarm_create_failed_def Let_def numeral_2_eq_2 by (rule adds_rules)+

lemma adds_swarm: "adds 0 2 (handle_swarm_message M H now msg)"
proof -
  have "adds 0 2 (swarm_wasm_response M H now tx)" for tx
    unfolding swarm_wasm_response_def Let_def by (rule adds_store_response adds_create_failed adds_rules)+
  then show ?thesis
    by (cases "(M, H, now, msg)" rule: handle_swarm_message.cases)
      (auto simp: swarm_pending_fetched_def intro!: adds_intros adds_mono [OF adds_request])
qed

lemma adds_store:
  "adds a (Suc b) (store_submitted_outside M now txn)" "adds a (Suc b) (store_after_submission M now txn)"
  "adds a (Suc b) (recv_create_failed M txn)" "adds a (Suc b) (recv_store_local M txn)"
  unfolding store_submitted_outside_def store_after_submission_def recv_create_failed_def recv_store_local_def Let_def
  by (rule adds_rules)+

lemma adds_then_store:
  "(\<And>x. adds a b (f x)) \<Longrightarrow> adds a (Suc b) (and_then (store_after_submission M now txn) f)"
  using adds_and_then [OF adds_store(2) [of 0 0], of a b f] by simp

lemma adds_submit: "adds 1 1 (submit_verified M H now txn)" "adds 1 1 (multi_id_mismatch M now txn)"
  "adds 1 1 (sender_not_verified M now txn)"
  unfolding submit_verified_def submission_result_def multi_id_mismatch_def sender_not_verified_def Let_def One_nat_def
  by (rule adds_then_store adds_store adds_rules)+

lemma adds_store_reverted: "adds a b (store_reverted M now txn)"
  unfolding adds_def store_reverted_def
  by (auto simp: Let_def cache_push_free cache_push_busy split: prod.split option.split)

lemma adds_sender_confirmed: "adds 2 2 (handle_sender_confirmed_tx_state M H now txn)"
proof -
  have sub: "adds 2 2 (submit_verified M H now txn)" "adds 2 2 (multi_id_mismatch M now txn)"
    "adds 2 2 (sender_not_verified M now txn)" "adds 2 2 (store_submitted_outside M now txn)"
    by (rule adds_mono [OF adds_submit(1)] adds_mono [OF adds_submit(2)] adds_mono [OF adds_submit(3)]
        adds_mono [OF adds_store(1) [of 0 0]], simp, simp)+
  show ?thesis
    unfolding handle_sender_confirmed_tx_state_def
    by (cases "status txn") (auto intro!: adds_then adds_intros sub)
qed

lemma adds_reverted: "adds 2 2 (handle_reverted_tx_state M now txn)"
proof -
  have commands: "adds 2 0 (if b then ret () else and_then (send_command c) (\<lambda>_. send_command c'))" for b c c'
    unfolding numeral_2_eq_2 by (rule adds_rules)+
  have "adds 0 2 (and_then (on_db q) (\<lambda>_. and_then (store_reverted M now txn) (\<lambda>_. rpc_send txn)))" for q
    unfolding numeral_2_eq_2 by (rule adds_store_reverted adds_rules)+
  note both = adds_and_then [OF commands this, unfolded add_0 add_0_right]
  show ?thesis
    unfolding handle_reverted_tx_state_def by (rule adds_then [OF adds_0(5)], rule both)
qed

lemma adds_update: "adds 2 2 (handle_user_update M H now txn)"
proof -
  have "adds 2 2 (handle_genesis_tx_state M txn)" "adds 2 2 (handle_recv_addr_confirmed_tx_state M H txn)"
    unfolding handle_genesis_tx_state_def handle_recv_addr_confirmed_tx_state_def
      Let_def numeral_2_eq_2
    by (rule adds_store adds_rules)+
  then show ?thesis
    by (cases "status txn") (auto simp: handle_user_update_def adds_sender_confirmed adds_reverted intro!: adds_intros)
qed

section \<open>How much a call adds to the broadcast\<close>

text \<open>What a call may broadcast: at most three events, and the events that carry a request or a response
  to a node only from the calls that hand them in.\<close>

definition broadcasts :: "rpc_call \<Rightarrow> backend_event list \<Rightarrow> bool" where
  "broadcasts c evs \<longleftrightarrow> length evs \<le> 3
     \<and> (\<forall>a d. EvSenderRequestHandled a d \<in> set evs \<longrightarrow> (\<exists>x. c = HandleSenderRequest x d))
     \<and> (\<forall>a d. EvReceiverResponseHandled a d \<in> set evs \<longrightarrow> c = HandleReceiverResponse a d)"

lemma broadcasts_nil: "broadcasts c []"
  by (simp add: broadcasts_def)

lemma events_quiet [simp]:
  "events (update_metrics now s) = events s" "events (insert_request now mid d s) = events s"
  "events (register_peer now a r net s) = events s" "events (try_notify ntf s) = events s"
  "events (cleanup_expired_sender_receiver_requests now s) = events s"
  by (simp_all add: update_metrics_def insert_request_def register_peer_def try_notify_def Let_def frame_simps
      cleanup_expired_sender_receiver_requests_def split: option.split)

lemma events_send [simp]: "events (send_event ev s) = events s @ [ev]"
  by (simp add: send_event_def)

lemma events_update_request:
  assumes "update_request now later mid d s = (ok, s')"
  obtains "events s' = events s" | m x where "\<not> ok" and "events s' = events s @ [EvDataExpired m x]"
  using assms by (auto simp: update_request_def Let_def frame_simps split: option.splits if_splits)

lemma broadcasts_sender_update:
  assumes "\<And>a d. \<exists>x. mk a d \<in> {EvSenderConfirmed a d, EvSenderReverted a d, EvTxSubmitted a d}"
  shows "\<exists>evs. events (snd (sender_update mk E now later a d s)) = events s @ evs \<and> broadcasts c evs"
proof (cases "from_slice E d")
  case (Some tx)
  obtain ok s' where u: "update_request now later (hex_encode E (multi_id tx)) d s = (ok, s')"
    by (cases "update_request now later (hex_encode E (multi_id tx)) d s")
  have mk: "mk a d \<noteq> EvSenderRequestHandled x y" "mk a d \<noteq> EvReceiverResponseHandled x y" for x y
    using assms [of a d] by auto
  note mk = mk mk [symmetric]
  show ?thesis
    by (rule events_update_request [OF u])
      (use Some u mk in \<open>auto simp: sender_update_def Let_def run_simps broadcasts_def\<close>)
qed (auto simp: sender_update_def run_simps broadcasts_def)

lemma dispatch_events:
  "\<exists>evs. events (snd (rpc_dispatch E now later c s)) = events s @ evs \<and> broadcasts c evs"
proof (cases c)
  case (HandleSenderRequest a d)
  then show ?thesis
    by (cases "from_slice E d") (auto simp: rpc_defs handle_sender_request_def Let_def run_simps broadcasts_def)
next
  case (HandleReceiverResponse a d)
  show ?thesis
  proof (cases "from_slice E d")
    case (Some tx)
    let ?s = "send_event (EvReceiverResponseReceived a d) s"
    obtain ok s' where u: "update_request now later (hex_encode E (multi_id tx)) d ?s = (ok, s')"
      by (cases "update_request now later (hex_encode E (multi_id tx)) d ?s")
    show ?thesis
      by (rule events_update_request [OF u])
        (use Some u HandleReceiverResponse in
          \<open>auto simp: rpc_defs handle_receiver_response_def Let_def run_simps broadcasts_def\<close>)
  qed (use HandleReceiverResponse in \<open>auto simp: rpc_defs handle_receiver_response_def run_simps broadcasts_def\<close>)
next
  case (FetchPending a)
  then show ?thesis
    using wf_fetch [of E a s]
    by (auto simp: rpc_defs run_simps broadcasts_def split: prod.splits outcome.splits)
next
  case (DisconnectPeer a d)
  then show ?thesis
    by (auto simp: rpc_defs disconnect_peer_def Let_def run_simps broadcasts_def split: option.split)
qed (simp_all add: rpc_defs run_simps broadcasts_sender_update broadcasts_nil)

section \<open>The tasks come to rest\<close>

text \<open>A count of the turns that are left: what each entry of a channel can still cause, for \<open>k\<close> nodes.
  An undelivered event is worth six turns (its delivery, the P2P loop, a notification, and a swarm message with
  two updates to the application), a call three events at every node, an update two commands.\<close>

definition call_work :: "nat \<Rightarrow> nat" where "call_work k = Suc (18 * k)"
definition command_work :: "nat \<Rightarrow> nat" where "command_work k = Suc (call_work k)"
definition update_work :: "nat \<Rightarrow> nat" where "update_work k = 2 * command_work k + 3"

definition host_work :: "nat \<Rightarrow> nat \<Rightarrow> ('c, 'd) host \<Rightarrow> nat" where
  "host_work k broadcast h =
     update_work k * length (user_updates (node (iface h)))
   + command_work k * length (p2p_commands (node (iface h)))
   + call_work k * length (rpc_calls (p2p h))
   + (if sub_open h then 6 * (broadcast - cursor h) + 1 else 0)
   + 5 * length (inbox h) + 3 * length (swarm_channel (p2p h)) + length (notif_channel (p2p h))
   + length (rpc_channel (node (iface h)))
   + (if loop_ended (p2p h) then 0 else 1) + (if frozen h then 0 else 1)"

definition network_work :: "('c, 'd) network \<Rightarrow> nat" where
  "network_work n = (\<Sum>h \<leftarrow> hosts n. host_work (length (hosts n)) (length (events (server n))) h)"

lemma p2p_turn_event:
  assumes "p2p_turn E to_vec W (SubscriptionEvent ev) p = Some p'" and "\<not> loop_ended p"
  shows "rpc_calls p' = rpc_calls p" "loop_ended p' = loop_ended p" "notif_channel p' = notif_channel p @ [ev]"
    "swarm_channel p' = swarm_channel p @ (case route_event E (user_account_id W) ev of None \<Rightarrow> [] | Some m \<Rightarrow> [m])"
  using assms by (auto simp: p2p_turn_def Let_def split: if_splits option.splits)

lemma p2p_turn_command:
  assumes "p2p_turn E to_vec W (Command c) p = Some p'" and "\<not> loop_ended p"
  shows "p' = p\<lparr>rpc_calls := rpc_calls p @ (case route_command to_vec c of None \<Rightarrow> [] | Some r \<Rightarrow> [r])\<rparr>"
  using assms by (auto simp: p2p_turn_def split: option.splits)

lemma p2p_turn_closed:
  "p2p_turn E to_vec W SubscriptionEnded p = Some p' \<Longrightarrow> \<not> loop_ended p \<Longrightarrow> p' = p\<lparr>loop_ended := True\<rparr>"
  by (simp add: p2p_turn_def)

lemma host_task_work:
  assumes "host_task E to_vec I h h'"
  shows "host_work k b h' < host_work k b h"
  using assms
proof cases
  case (update txn rest H now r s)
  note add = addsD [OF adds_update update(4)]
  have "command_work k * length (p2p_commands s) \<le> command_work k * (length (p2p_commands (node (iface h))) + 2)"
    using add(2) by (intro mult_le_mono2) simp
  then show ?thesis
    using add(1,3) update(3) unfolding update(1) host_work_def update_work_def by (simp add: algebra_simps)
next
  case (swarm m rest H now r s)
  note add = addsD [OF adds_swarm swarm(4)]
  have "command_work k * length (p2p_commands s) \<le> command_work k * length (p2p_commands (node (iface h)))"
    using add(2) by (intro mult_le_mono2) simp
  with add(3) have "command_work k * length (p2p_commands s) + length (rpc_channel s)
      < command_work k * length (p2p_commands (node (iface h))) + length (rpc_channel (node (iface h))) + 3"
    by linarith
  then show ?thesis using add(1) swarm(3) unfolding swarm(1) host_work_def by simp
next
  case (loop_event ev rest p)
  then show ?thesis
    using p2p_turn_event [OF loop_event(4,2)] unfolding loop_event(1) host_work_def by (simp split: option.split)
next
  case (loop_command c rest p)
  then show ?thesis
    using p2p_turn_command [OF loop_command(4,2)]
    unfolding loop_command(1) host_work_def command_work_def by (simp split: option.split)
next
  case (loop_closed p)
  then show ?thesis using p2p_turn_closed [OF loop_closed(5,2)] unfolding loop_closed(1) host_work_def by simp
next
  case watcher
  then show ?thesis
    unfolding watcher(1) host_work_def
    by (cases "rpc_channel (node (iface h))") (simp_all add: watcher_turn_def)
next
  case (notif_watcher ev rest)
  then show ?thesis unfolding notif_watcher(1) host_work_def by (simp add: p2p_watcher_turn_def run_simps)
next
  case spin
  then show ?thesis unfolding spin(1) host_work_def by simp
qed

lemma host_work_events:
  "host_work k (b + m) h \<le> host_work k b h + 6 * m"
proof -
  have "6 * (b + m - c) \<le> 6 * (b - c) + 6 * m" for c :: nat by linarith
  then show ?thesis by (simp add: host_work_def)
qed

lemma sum_list_replace:
  fixes f :: "'a \<Rightarrow> nat"
  assumes "i < length xs"
  shows "(\<Sum>x\<leftarrow>xs[i := y]. f x) + f (xs ! i) = (\<Sum>x\<leftarrow>xs. f x) + f y"
  using assms
proof (induction xs arbitrary: i)
  case (Cons x xs)
  then show ?case by (cases i) auto
qed simp

lemma sum_list_replace_less:
  fixes f :: "'a \<Rightarrow> nat"
  shows "i < length xs \<Longrightarrow> f y < f (xs ! i) \<Longrightarrow> (\<Sum>x\<leftarrow>xs[i := y]. f x) < (\<Sum>x\<leftarrow>xs. f x)"
  using sum_list_replace [of i xs f y] by linarith

lemma sum_list_shift:
  fixes f g :: "'a \<Rightarrow> nat"
  assumes "\<And>x. g x \<le> f x + c"
  shows "(\<Sum>x\<leftarrow>xs. g x) \<le> (\<Sum>x\<leftarrow>xs. f x) + c * length xs"
proof (induction xs)
  case (Cons x xs)
  then show ?case using assms [of x] by simp
qed simp

lemma net_task_work:
  assumes "net_task N n n'"
  shows "network_work n' < network_work n"
  using assms
proof cases
  case (local i h)
  then show ?thesis
    by (simp add: network_work_def sum_list_replace_less host_task_work)
next
  case (rpc i h xs c ys now later s)
  let ?k = "length (hosts n)" and ?b = "length (events (server n))"
  let ?h = "h\<lparr>p2p := (p2p h)\<lparr>rpc_calls := xs @ ys\<rparr>\<rparr>"
  obtain evs where evs: "events s = events (server n) @ evs" "length evs \<le> 3"
    using dispatch_events [of "backend N" now later c "server n"] rpc(8) by (auto simp: broadcasts_def)
  have "host_work ?k (?b + length evs) x \<le> host_work ?k ?b x + 18" for x :: "('a, 'b) host"
    using host_work_events [of ?k ?b "length evs" x] evs(2) by linarith
  then have "(\<Sum>x\<leftarrow>(hosts n)[i := ?h]. host_work ?k (?b + length evs) x)
      \<le> (\<Sum>x\<leftarrow>(hosts n)[i := ?h]. host_work ?k ?b x) + 18 * ?k"
    using sum_list_shift [of "host_work ?k (?b + length evs)" "host_work ?k ?b" 18 "(hosts n)[i := ?h]"] by simp
  moreover have "host_work ?k ?b ?h + call_work ?k = host_work ?k ?b h"
    using rpc(5) by (simp add: host_work_def)
  then have "(\<Sum>x\<leftarrow>(hosts n)[i := ?h]. host_work ?k ?b x) + call_work ?k = network_work n"
    using sum_list_replace [OF rpc(2), of "host_work ?k ?b" ?h] rpc(3) by (simp add: network_work_def)
  ultimately show ?thesis
    unfolding rpc(1) by (simp add: network_work_def evs(1) call_work_def)
next
  case (deliver i h ev)
  then show ?thesis
    unfolding deliver(1) by (auto simp: network_work_def host_work_def intro!: sum_list_replace_less)
next
  case (lag i h)
  then show ?thesis
    unfolding lag(1) by (auto simp: network_work_def host_work_def intro!: sum_list_replace_less)
qed

lemma net_task_wf: "wfP (\<lambda>n' n. net_task N n n')"
  by (rule wfp_if_convertible_to_nat [where f = network_work]) (rule net_task_work)

lemma net_task_bound: "(net_task N ^^ k) n n' \<Longrightarrow> k + network_work n' \<le> network_work n"
proof (induction k arbitrary: n')
  case (Suc k)
  then obtain m where "(net_task N ^^ k) n m" "net_task N m n'" by auto
  then show ?case using Suc.IH net_task_work by fastforce
qed simp

lemma net_task_rests: "\<exists>n'. (net_task N)\<^sup>*\<^sup>* n n' \<and> at_rest N n'"
proof (induction n rule: wfp_induct_rule [OF net_task_wf [of N]])
  case (1 n)
  show ?case
  proof (cases "at_rest N n")
    case False
    then obtain m where "net_task N n m" by (auto simp: at_rest_def)
    then show ?thesis using 1 by (meson converse_rtranclp_into_rtranclp)
  qed blast
qed

section \<open>The network as runs of its parts\<close>

lemma host_task_node:
  assumes "host_task E to_vec I h h'"
  shows "iface h' = iface h \<or> node_step I (iface h) (iface h')"
  using assms
proof cases
  case (update txn rest H now r s)
  then show ?thesis using node_step.update [of "iface h" txn rest I H now] by simp
next
  case (swarm m rest H now r s)
  then show ?thesis using node_step.swarm [of I "iface h" H now "Inr m"] by simp
next
  case (loop_command c rest p)
  then show ?thesis using node_step.command [of "iface h" c rest I] by simp
next
  case watcher
  then show ?thesis using node_step.call [of I "iface h" 0 WatcherTurn] by simp
next
  case (notif_watcher ev rest)
  then show ?thesis using node_step.call [of I "iface h" 0 "P2pWatcherTurn ev"] by simp
qed simp_all

lemma host_task_frame:
  "host_task E to_vec I h h' \<Longrightarrow> worker h' = worker h \<and> cursor h' = cursor h \<and> sub_open h' = sub_open h"
  by (erule host_taskE) simp_all

text \<open>What a start gives: a node with empty queues whose subscription, when it has one, receives the
  events broadcast from now on; the backend has at most counted a new client.\<close>

definition started :: "('c, 'd) iface_env \<Rightarrow> swarm_server \<Rightarrow> ('c, 'd) host \<Rightarrow> bool" where
  "started I sv h \<longleftrightarrow> reachable_node I (iface h) \<and> user_account_id (worker h) = account I
     \<and> cursor h \<le> length (events sv) \<and> inbox h = [] \<and> handled h = [] \<and> sent h = [] \<and> swarm_channel (p2p h) = []
     \<and> rpc_calls (p2p h) = [] \<and> p2p_commands (node (iface h)) = []"

lemma rpc_subscribe_frame [simp]: "fst (rpc_subscribe s) = Ok ()" "events (snd (rpc_subscribe s)) = events s"
  by (simp_all add: rpc_subscribe_def run_simps)

lemma p2p_start_cases:
  obtains e where "p2p_start connects subscribes W sv = (Err e, sv)"
  | "p2p_start connects subscribes W sv = (Ok (length (events sv)), snd (rpc_subscribe sv))"
  by (cases "connects (backend_url W)"; cases subscribes)
    (auto simp: p2p_start_def rpc_subscribe_def run_simps)

lemma wasm_run_started:
  assumes "wasm_run (nenv I) relay (account I) network lv self_node storage connects subscribes c d sv = (Ok h, sv')"
    and "lru_iter (lru (nenv I)) c = []"
  shows "started I sv' h \<and> (sv' = sv \<or> sv' = snd (rpc_subscribe sv))"
proof -
  obtain r n where n: "main_worker_new (nenv I) relay (account I) network storage (initial_state c d) = (r, n)"
    by fastforce
  then have "\<exists>d'. n = initial_state c d'"
    by (auto simp: main_worker_new_def initial_state_def run_simps split: prod.splits outcome.splits option.splits)
  then obtain d' where "n = initial_state c d'" ..
  moreover have "reachable_node I (iface_new (initial_state c d'))" using assms(2) by (rule reachable_node.start)
  ultimately have new: "started I sv (host_new (p2p_worker_new lv relay (account I)) (iface_new n))"
    by (simp add: started_def host_new_def p2p_worker_new_def p2p_state_new_def iface_new_def initial_state_def)
  show ?thesis
    by (rule p2p_start_cases [of connects subscribes "p2p_worker_new lv relay (account I)" sv])
      (use assms(1) n new in \<open>auto simp: wasm_run_def start_swarm_handler_def started_def host_new_def Let_def
        split: outcome.splits if_splits prod.splits\<close>)
qed

lemma start_vane_web3_started:
  assumes "start_vane_web3 (nenv I) relay (account I) network self_node lv storage connects subscribes c d sv = (Ok h, sv')"
    and "lru_iter (lru (nenv I)) c = []"
  shows "started I sv' h \<and> (sv' = sv \<or> sv' = snd (rpc_subscribe sv))"
proof -
  have "\<exists>x. wasm_run (nenv I) relay (account I) network lv self_node x connects subscribes c d sv = (Ok h, sv')"
    using assms(1)
    by (auto simp: start_vane_web3_def run_simps run_and_then run_attempt from_js_def
        split: prod.splits outcome.splits option.splits sum.splits)
  then obtain x where "wasm_run (nenv I) relay (account I) network lv self_node x connects subscribes c d sv = (Ok h, sv')" ..
  then show ?thesis using assms(2) by (rule wasm_run_started)
qed

definition projects :: "('c, 'd) net_env \<Rightarrow> ('c, 'd) network \<Rightarrow> bool" where
  "projects N n \<longleftrightarrow> reachable_server (backend N) (clock n) (server n) \<and> length (hosts n) \<le> length (members N)
     \<and> (\<forall>i < length (hosts n). reachable_node (members N ! i) (iface (hosts n ! i))
          \<and> user_account_id (worker (hosts n ! i)) = account (members N ! i)
          \<and> cursor (hosts n ! i) \<le> length (events (server n)))"

lemma projects_update:
  assumes "projects N n" and "i < length (hosts n)"
    and "iface h = iface (hosts n ! i) \<or> node_step (members N ! i) (iface (hosts n ! i)) (iface h)"
    and "worker h = worker (hosts n ! i)" and "cursor h \<le> length (events (server n))"
  shows "projects N (n\<lparr>hosts := (hosts n)[i := h]\<rparr>)"
  using assms by (auto simp: projects_def nth_list_update intro: reachable_node.step)

lemma reachable_server_call:
  assumes "reachable_server E t s" and "t \<le> now" and "now \<le> later"
  shows "reachable_server E later (snd (rpc_dispatch E now later c s))"
  using reachable_server.step [OF assms(1)] backend_step.call [OF assms(2,3)] by blast

lemma projects_task:
  assumes "net_task N n n'" and ok: "projects N n"
  shows "projects N n'"
  using assms(1)
proof cases
  case (local i h)
  show ?thesis
    unfolding local(1)
    by (rule projects_update [OF ok local(2) host_task_node [OF local(4)]])
      (use host_task_frame [OF local(4)] local(2) ok in \<open>simp_all add: projects_def\<close>)
next
  case (rpc i h xs c ys now later s)
  let ?n = "n\<lparr>server := s, clock := later\<rparr>"
  obtain evs where evs: "events s = events (server n) @ evs"
    using dispatch_events [of "backend N" now later c "server n"] rpc(8) by auto
  have "projects N ?n"
    using ok reachable_server_call [of "backend N" "clock n" "server n" now later c] rpc(6-8) evs
    by (auto simp: projects_def intro: trans_le_add1)
  then have "projects N (?n\<lparr>hosts := (hosts ?n)[i := h\<lparr>p2p := (p2p h)\<lparr>rpc_calls := xs @ ys\<rparr>\<rparr>]\<rparr>)"
    by (rule projects_update) (use rpc \<open>projects N ?n\<close> in \<open>auto simp: projects_def\<close>)
  then show ?thesis using rpc by simp
next
  case (deliver i h ev)
  show ?thesis unfolding deliver(1) by (rule projects_update [OF ok]) (use deliver in auto)
next
  case (lag i h)
  show ?thesis unfolding lag(1) by (rule projects_update [OF ok]) (use lag ok in \<open>auto simp: projects_def\<close>)
qed

lemma projects_app:
  assumes "net_app N n n'" and ok: "projects N n"
  shows "projects N n'"
  using assms(1)
proof cases
  case (join I c relay network self_node lv storage connects subscribes d h s)
  note st = start_vane_web3_started [OF join(5,4)]
  have "reachable_server (backend N) (clock n) s"
    using st ok reachable_server_call [of "backend N" "clock n" "server n" "clock n" "clock n" "SubscribeToEvents []"]
    by (auto simp: projects_def)
  then show ?thesis
    unfolding join(1) using st ok join(2,3) by (auto simp: projects_def started_def nth_append less_Suc_eq)
next
  case (call i h c now)
  show ?thesis
    unfolding call(1)
    by (rule projects_update [OF ok]) (use call ok in \<open>auto simp: projects_def intro: node_step.call\<close>)
qed

lemma reachable_projects: "reachable_net N n \<Longrightarrow> projects N n"
proof (induction rule: reachable_net.induct)
  case (start t)
  show ?case by (simp add: projects_def reachable_server.init)
qed (auto intro: projects_task projects_app)

end
