(* ===== verification/Wasm_Delivery.thy ===== *)
theory Wasm_Delivery
  imports Wasm_Network
begin

text \<open>
  What the network of \<open>Wasm_Network\<close> delivers. A message is followed from the sender's command queue
  through its P2P loop, the backend's call, the broadcast, the addressee's subscription and P2P loop
  to the addressee's handler. Safety: what a node handles was sent by a node. Liveness: what is sent has
  been handled when the tasks come to rest, provided the tasks on its way still run. And the case in
  which they do not: a node whose P2P side did not start freezes. The last section runs a network of
  two nodes from its start to rest.
\<close>

section \<open>What a node is handed was sent by a node\<close>

definition issued :: "('c, 'd) net_env \<Rightarrow> ('c, 'd) network \<Rightarrow> rpc_call \<Rightarrow> bool" where
  "issued N n c \<longleftrightarrow> (\<exists>h \<in> set (hosts n). \<exists>cmd \<in> set (sent h). route_command (json N) cmd = Some c)"

definition event_authentic :: "('c, 'd) net_env \<Rightarrow> ('c, 'd) network \<Rightarrow> backend_event \<Rightarrow> bool" where
  "event_authentic N n ev \<longleftrightarrow>
     (\<forall>a d. ev = EvSenderRequestHandled a d \<longrightarrow> (\<exists>x. issued N n (HandleSenderRequest x d)))
   \<and> (\<forall>a d. ev = EvReceiverResponseHandled a d \<longrightarrow> issued N n (HandleReceiverResponse a d))"

definition host_authentic :: "('c, 'd) net_env \<Rightarrow> ('c, 'd) network \<Rightarrow> ('c, 'd) host \<Rightarrow> bool" where
  "host_authentic N n h \<longleftrightarrow>
     (\<forall>c \<in> set (rpc_calls (p2p h)). issued N n c)
   \<and> set (inbox h) \<subseteq> set (events (server n))
   \<and> (\<forall>m \<in> set (swarm_channel (p2p h)) \<union> set (handled h).
        \<exists>ev \<in> set (events (server n)). route_event (backend N) (user_account_id (worker h)) ev = Some m)"

definition authentic :: "('c, 'd) net_env \<Rightarrow> ('c, 'd) network \<Rightarrow> bool" where
  "authentic N n \<longleftrightarrow> (\<forall>ev \<in> set (events (server n)). event_authentic N n ev) \<and> (\<forall>h \<in> set (hosts n). host_authentic N n h)"

lemma issued_update:
  assumes "i < length (hosts n)" and "set (sent (hosts n ! i)) \<subseteq> set (sent h)" and "issued N n c"
    and "hosts n' = (hosts n)[i := h]"
  shows "issued N n' c"
proof -
  obtain g cmd where g: "g \<in> set (hosts n)" "cmd \<in> set (sent g)" and r: "route_command (json N) cmd = Some c"
    using assms(3) by (auto simp: issued_def)
  then obtain k where k: "k < length (hosts n)" "g = hosts n ! k" by (metis in_set_conv_nth)
  let ?g = "(hosts n)[i := h] ! k"
  have "?g \<in> set (hosts n')" using k assms(4) by simp
  moreover have "cmd \<in> set (sent ?g)" using assms(1,2) g(2) k by (auto simp: nth_list_update)
  ultimately show ?thesis unfolding issued_def using r by blast
qed

lemma event_authentic_mono:
  "event_authentic N n e \<Longrightarrow> (\<And>c. issued N n c \<Longrightarrow> issued N n' c) \<Longrightarrow> event_authentic N n' e"
  unfolding event_authentic_def by blast

lemma host_authentic_mono:
  "host_authentic N n h \<Longrightarrow> (\<And>c. issued N n c \<Longrightarrow> issued N n' c) \<Longrightarrow>
   set (events (server n)) \<subseteq> set (events (server n')) \<Longrightarrow> host_authentic N n' h"
  unfolding host_authentic_def by blast

text \<open>The one way a turn changes the network: a host is replaced, commands are only added to what it
  sent, events only to the broadcast.\<close>

lemma authentic_update:
  assumes "authentic N n" and i: "i < length (hosts n)" and sent: "set (sent (hosts n ! i)) \<subseteq> set (sent h)"
    and hs: "hosts n' = (hosts n)[i := h]" and ev: "events (server n') = events (server n) @ evs"
    and "\<forall>e \<in> set evs. event_authentic N n e" and "host_authentic N n h \<or> host_authentic N n' h"
  shows "authentic N n'"
proof -
  have more: "issued N n c \<Longrightarrow> issued N n' c" for c by (rule issued_update [OF i sent _ hs])
  have "event_authentic N n e \<Longrightarrow> event_authentic N n' e" "host_authentic N n x \<Longrightarrow> host_authentic N n' x" for e x
    by (rule event_authentic_mono host_authentic_mono, assumption, erule more, (simp add: ev)?)+
  then show ?thesis
    using assms(1,6,7) set_update_subset_insert [of "hosts n" i h] by (auto simp: authentic_def hs ev)
qed

lemmas authentic_hosts = authentic_update [where evs = "[]", simplified]

lemma host_authentic_nth: "authentic N n \<Longrightarrow> i < length (hosts n) \<Longrightarrow> host_authentic N n (hosts n ! i)"
  by (simp add: authentic_def)

lemma host_task_authentic:
  assumes "host_task (backend N) (json N) I h h'" and "host_authentic N n h" and "h' \<in> set (hosts n')"
    and "events (server n') = events (server n)" and "\<And>c. issued N n c \<Longrightarrow> issued N n' c"
  shows "host_authentic N n' h'"
  using assms(1)
proof cases
  case (loop_event ev rest p)
  note p = p2p_turn_event [OF loop_event(4,2)]
  have "ev \<in> set (events (server n))" using assms(2) loop_event(3) by (auto simp: host_authentic_def)
  then show ?thesis
    using assms(2,4,5) p loop_event(1,3) by (auto simp: host_authentic_def split: option.splits)
next
  case (loop_command c rest p)
  have "cmd \<in> set (sent h') \<Longrightarrow> route_command (json N) cmd = Some r \<Longrightarrow> issued N n' r" for cmd r
    using assms(3) by (auto simp: issued_def)
  then show ?thesis
    using assms(2,4,5) p2p_turn_command [OF loop_command(4,2)] loop_command(1)
    by (auto simp: host_authentic_def split: option.splits)
next
  case (loop_closed p)
  then show ?thesis
    using assms(2,4,5) p2p_turn_closed [OF loop_closed(5,2)] by (auto simp: host_authentic_def)
qed (use assms(2,4,5) in \<open>auto simp: host_authentic_def\<close>)

lemma host_task_sent: "host_task E to_vec I h h' \<Longrightarrow> set (sent h) \<subseteq> set (sent h')"
  by (erule host_taskE) auto

lemma authentic_task:
  assumes "net_task N n n'" and ok: "authentic N n"
  shows "authentic N n'"
  using assms(1)
proof cases
  case (local i h)
  note sub = host_task_sent [OF local(4)]
  have "host_authentic N n' h"
    by (rule host_task_authentic [OF local(4) host_authentic_nth [OF ok local(2)]])
      (use local(1,2) issued_update [OF local(2) sub] in \<open>simp_all add: set_update_memI\<close>)
  then show ?thesis using authentic_hosts [OF ok local(2) sub] local(1) by simp
next
  case (rpc i h xs c ys now later s)
  let ?h = "h\<lparr>p2p := (p2p h)\<lparr>rpc_calls := xs @ ys\<rparr>\<rparr>"
  obtain evs where evs: "events s = events (server n) @ evs" "broadcasts c evs"
    using dispatch_events [of "backend N" now later c "server n"] rpc(8) by auto
  have h: "host_authentic N n h" using host_authentic_nth [OF ok rpc(2)] rpc(3) by simp
  then have "issued N n c" using rpc(5) by (auto simp: host_authentic_def)
  then have "\<forall>e \<in> set evs. event_authentic N n e"
    using evs(2) unfolding broadcasts_def event_authentic_def by blast
  moreover have "host_authentic N n ?h" using h rpc(5) by (auto simp: host_authentic_def)
  ultimately show ?thesis
    using authentic_update [OF ok rpc(2), of ?h n' evs] evs(1) rpc(1,3) by simp
next
  case (deliver i h ev)
  let ?h = "h\<lparr>cursor := Suc (cursor h),
      inbox := inbox h @ (if should_send (backend N) (user_account_id (worker h)) ev then [ev] else [])\<rparr>"
  have "host_authentic N n h" using host_authentic_nth [OF ok deliver(2)] deliver(3) by simp
  then have "host_authentic N n ?h" using deliver(5,6) by (auto simp: host_authentic_def)
  moreover have "hosts n' = (hosts n)[i := ?h]" unfolding deliver(1) by simp
  ultimately show ?thesis using authentic_hosts [OF ok deliver(2), of ?h n'] deliver(1,3) by simp
next
  case (lag i h)
  have "host_authentic N n (h\<lparr>sub_open := False\<rparr>)"
    using host_authentic_nth [OF ok lag(2)] lag(3) by (simp add: host_authentic_def)
  then show ?thesis using authentic_hosts [OF ok lag(2), of "h\<lparr>sub_open := False\<rparr>" n'] lag(1,3) by simp
qed

lemma authentic_app:
  assumes "net_app N n n'" and ok: "authentic N n"
  shows "authentic N n'"
  using assms(1)
proof cases
  case (join I c relay network self_node lv storage connects subscribes d h s)
  have st: "started I s h" "events s = events (server n)"
    using start_vane_web3_started [OF join(5,4)] by auto
  have more: "issued N n c \<Longrightarrow> issued N n' c" for c by (auto simp: issued_def join(1))
  have "event_authentic N n e \<Longrightarrow> event_authentic N n' e" for e
    by (rule event_authentic_mono, assumption, erule more)
  moreover have "host_authentic N n x \<Longrightarrow> host_authentic N n' x" for x
    by (rule host_authentic_mono, assumption, erule more, simp add: join(1) st(2))
  ultimately show ?thesis
    using ok st by (auto simp: authentic_def join(1) started_def host_authentic_def)
next
  case (call i h c now)
  let ?h = "h\<lparr>iface := snd (run_iface_call (members N ! i) now c (iface h))\<rparr>"
  have "host_authentic N n ?h"
    using host_authentic_nth [OF ok call(2)] call(3) by (simp add: host_authentic_def)
  then show ?thesis using authentic_hosts [OF ok call(2), of ?h n'] call(1,3) by simp
qed

lemma reachable_authentic: "reachable_net N n \<Longrightarrow> authentic N n"
proof (induction rule: reachable_net.induct)
  case (start t)
  show ?case by (simp add: authentic_def swarm_server_new_def)
qed (auto intro: authentic_task authentic_app)

lemma route_command_calls:
  "route_command J cmd = Some (HandleSenderRequest x d) \<Longrightarrow> \<exists>tx. cmd = WasmSendRequest tx \<and> J tx = Some d"
  "route_command J cmd = Some (HandleReceiverResponse x d) \<Longrightarrow> \<exists>tx. cmd = WasmSendResponse (Inr tx) \<and> J tx = Some d"
  by (auto simp: route_command_def split: network_command.splits option.splits sum.splits)

lemma issued_origin:
  "issued N n (HandleSenderRequest x d) \<Longrightarrow> \<exists>h \<in> set (hosts n). \<exists>tx. WasmSendRequest tx \<in> set (sent h) \<and> json N tx = Some d"
  "issued N n (HandleReceiverResponse x d) \<Longrightarrow> \<exists>h \<in> set (hosts n). \<exists>tx. WasmSendResponse (Inr tx) \<in> set (sent h) \<and> json N tx = Some d"
  unfolding issued_def using route_command_calls by metis+

section \<open>What is sent arrives\<close>

text \<open>A message on its way from one node to another: on the sender's side as a command or a call, on
  the addressee's side as an event that is not delivered yet or is in the inbox, as a swarm message, or handled.\<close>

definition reaches :: "backend_env \<Rightarrow> string \<Rightarrow> (swarm_message \<Rightarrow> bool) \<Rightarrow> backend_event list \<Rightarrow> bool" where
  "reaches E acc P evs \<longleftrightarrow> (\<exists>ev \<in> set evs. should_send E acc ev \<and> (\<exists>m. route_event E acc ev = Some m \<and> P m))"

definition outgoing :: "network_command \<Rightarrow> rpc_call \<Rightarrow> ('c, 'd) host \<Rightarrow> bool" where
  "outgoing cmd c h \<longleftrightarrow> cmd \<in> set (p2p_commands (node (iface h))) \<or> c \<in> set (rpc_calls (p2p h))"

definition incoming :: "backend_env \<Rightarrow> (swarm_message \<Rightarrow> bool) \<Rightarrow> backend_event list \<Rightarrow> ('c, 'd) host \<Rightarrow> bool" where
  "incoming E P evs h \<longleftrightarrow> reaches E (user_account_id (worker h)) P (drop (cursor h) evs)
     \<or> reaches E (user_account_id (worker h)) P (inbox h)
     \<or> (\<exists>m \<in> set (swarm_channel (p2p h)) \<union> set (handled h). P m)"

text \<open>A call that the backend always answers with an event for the account.\<close>

definition answered :: "backend_env \<Rightarrow> rpc_call \<Rightarrow> string \<Rightarrow> (swarm_message \<Rightarrow> bool) \<Rightarrow> bool" where
  "answered E c acc P \<longleftrightarrow> (\<forall>s now later. wf_server E s \<longrightarrow> now \<le> later \<longrightarrow>
     (\<exists>evs. events (snd (rpc_dispatch E now later c s)) = events s @ evs \<and> reaches E acc P evs))"

lemma reaches_append: "reaches E acc P (xs @ ys) \<longleftrightarrow> reaches E acc P xs \<or> reaches E acc P ys"
  by (auto simp: reaches_def)

lemma reaches_Cons: "reaches E acc P (x # xs) \<longleftrightarrow> reaches E acc P [x] \<or> reaches E acc P xs"
  using reaches_append [of E acc P "[x]" xs] by simp

lemma incoming_more: "incoming E P evs h \<Longrightarrow> incoming E P (evs @ new) h"
  by (auto simp: incoming_def reaches_append)

lemma host_task_outgoing:
  assumes "host_task E to_vec I h h'" and "route_command to_vec cmd = Some c" and "outgoing cmd c h"
  shows "outgoing cmd c h'"
  using assms(1)
proof cases
  case (update txn rest H now r s)
  then show ?thesis using addsD(4) [OF adds_update update(4)] assms(3) by (auto simp: outgoing_def)
next
  case (swarm m rest H now r s)
  then show ?thesis using addsD(4) [OF adds_swarm swarm(4)] assms(3) by (auto simp: outgoing_def)
next
  case (loop_event ev rest p)
  then show ?thesis using p2p_turn_event [OF loop_event(4,2)] assms(3) by (simp add: outgoing_def)
next
  case (loop_command c' rest p)
  then show ?thesis using p2p_turn_command [OF loop_command(4,2)] assms(2,3) by (auto simp: outgoing_def)
next
  case (loop_closed p)
  then show ?thesis using p2p_turn_closed [OF loop_closed(5,2)] assms(3) by (simp add: outgoing_def)
next
  case watcher
  then show ?thesis
    using assms(3) by (cases "rpc_channel (node (iface h))") (auto simp: outgoing_def watcher_turn_def)
next
  case (notif_watcher ev rest)
  then show ?thesis using assms(3) by (simp add: outgoing_def p2p_watcher_turn_def run_simps)
qed (use assms(3) in \<open>simp add: outgoing_def\<close>)

lemma host_task_incoming:
  assumes "host_task E to_vec I h h'" and "incoming E P evs h"
  shows "incoming E P evs h'"
  using assms(1)
proof cases
  case (loop_event ev rest p)
  have "reaches E (user_account_id (worker h)) P [ev] \<Longrightarrow> \<exists>m \<in> set (swarm_channel p). P m"
    using p2p_turn_event(4) [OF loop_event(4,2)] by (auto simp: reaches_def)
  then show ?thesis
    using assms(2) loop_event(1,3) p2p_turn_event(4) [OF loop_event(4,2)]
      reaches_Cons [of E "user_account_id (worker h)" P ev rest]
    by (auto simp: incoming_def)
next
  case (loop_command c rest p)
  then show ?thesis using p2p_turn_command [OF loop_command(4,2)] assms(2) by (simp add: incoming_def)
next
  case (loop_closed p)
  then show ?thesis using p2p_turn_closed [OF loop_closed(5,2)] assms(2) by (simp add: incoming_def)
qed (use assms(2) in \<open>auto simp: incoming_def\<close>)

lemma incoming_deliver:
  fixes h :: "('c, 'd) host"
  assumes "cursor h < length evs" and "incoming E P evs h"
  shows "incoming E P evs (h\<lparr>cursor := Suc (cursor h),
      inbox := inbox h @ (if should_send E (user_account_id (worker h)) (evs ! cursor h) then [evs ! cursor h] else [])\<rparr>)"
proof -
  let ?acc = "user_account_id (worker h)"
  have drop: "drop (cursor h) evs = evs ! cursor h # drop (Suc (cursor h)) evs"
    using assms(1) by (simp add: Cons_nth_drop_Suc)
  show ?thesis
  proof (cases "reaches E ?acc P [evs ! cursor h]")
    case True
    then have "should_send E ?acc (evs ! cursor h)" by (simp add: reaches_def)
    with True show ?thesis by (simp add: incoming_def reaches_append)
  next
    case False
    then have "reaches E ?acc P (drop (cursor h) evs) = reaches E ?acc P (drop (Suc (cursor h)) evs)"
      using reaches_Cons [of E ?acc P "evs ! cursor h" "drop (Suc (cursor h)) evs"] by (simp only: drop) simp
    with assms(2) show ?thesis by (auto simp: incoming_def reaches_append)
  qed
qed

definition in_flight ::
    "('c, 'd) net_env \<Rightarrow> nat \<Rightarrow> nat \<Rightarrow> network_command \<Rightarrow> rpc_call \<Rightarrow> (swarm_message \<Rightarrow> bool) \<Rightarrow> ('c, 'd) network \<Rightarrow> bool" where
  "in_flight N i j cmd c P n \<longleftrightarrow> i < length (hosts n) \<and> j < length (hosts n)
     \<and> (outgoing cmd c (hosts n ! i) \<or> incoming (backend N) P (events (server n)) (hosts n ! j))"

lemma in_flight_update:
  assumes "in_flight N i j cmd c P n"
    and "hosts n' = (hosts n)[k := h]" and "events (server n') = events (server n) @ new"
    and "outgoing cmd c (hosts n ! k) \<Longrightarrow> outgoing cmd c h"
    and "incoming (backend N) P (events (server n)) (hosts n ! k) \<Longrightarrow> incoming (backend N) P (events (server n')) h"
  shows "in_flight N i j cmd c P n'"
  using assms incoming_more [of "backend N" P "events (server n)" "hosts n ! j" new]
  by (cases "k = i"; cases "k = j") (auto simp: in_flight_def)

lemma in_flight_task:
  assumes "net_task N n n'" and fly: "in_flight N i j cmd c P n" and ok: "projects N n"
    and route: "route_command (json N) cmd = Some c" and ans: "answered (backend N) c (account (members N ! j)) P"
  shows "in_flight N i j cmd c P n'"
  using assms(1)
proof cases
  case (local k h)
  show ?thesis
    by (rule in_flight_update [OF fly, of n' k h "[]"])
      (use local(1) host_task_outgoing [OF local(4) route] host_task_incoming [OF local(4)] in simp_all)
next
  case (rpc k h xs c' ys now later s)
  let ?h = "h\<lparr>p2p := (p2p h)\<lparr>rpc_calls := xs @ ys\<rparr>\<rparr>"
  obtain evs where evs: "events s = events (server n) @ evs"
    using dispatch_events [of "backend N" now later c' "server n"] rpc(8) by auto
  have inc: "incoming (backend N) P (events (server n)) h \<Longrightarrow> incoming (backend N) P (events s) ?h"
    using incoming_more [of "backend N" P "events (server n)" h evs] evs by (simp add: incoming_def)
  show ?thesis
  proof (cases "c' = c")
    case False
    then have "outgoing cmd c h \<Longrightarrow> outgoing cmd c ?h" using rpc(5) by (auto simp: outgoing_def)
    then show ?thesis
      by (intro in_flight_update [OF fly, of n' k ?h evs]) (use rpc(1,3) evs inc in simp_all)
  next
    case True
    have "wf_server (backend N) (server n)" using ok by (auto simp: projects_def intro: reachable_wf)
    with ans rpc(7,8) True obtain evs' where new: "events s = events (server n) @ evs'"
      "reaches (backend N) (account (members N ! j)) P evs'"
      unfolding answered_def by blast
    have j: "j < length (hosts n)" "i < length (hosts n)" using fly by (simp_all add: in_flight_def)
    then have "cursor (hosts n ! j) \<le> length (events (server n))"
      "user_account_id (worker (hosts n ! j)) = account (members N ! j)"
      using ok by (simp_all add: projects_def)
    then have "incoming (backend N) P (events s) (hosts n ! j)"
      using new by (simp add: incoming_def reaches_append)
    then have "incoming (backend N) P (events s) (hosts n' ! j)"
      using rpc(1-3) j by (cases "k = j") (simp_all add: incoming_def)
    then show ?thesis using rpc(1) j by (simp add: in_flight_def)
  qed
next
  case (deliver k h ev)
  let ?h = "h\<lparr>cursor := Suc (cursor h),
      inbox := inbox h @ (if should_send (backend N) (user_account_id (worker h)) ev then [ev] else [])\<rparr>"
  note inc = incoming_deliver [OF deliver(5), of "backend N" P, folded deliver(6)]
  have "hosts n' = (hosts n)[k := ?h]" unfolding deliver(1) by simp
  then show ?thesis
    by (intro in_flight_update [OF fly, of n' k ?h "[]"]) (use deliver(1,3) inc in \<open>simp_all add: outgoing_def\<close>)
next
  case (lag k h)
  then show ?thesis
    by (intro in_flight_update [OF fly, of n' k "h\<lparr>sub_open := False\<rparr>" "[]"])
      (simp_all add: outgoing_def incoming_def)
qed

lemma in_flight_tasks:
  assumes "(net_task N)\<^sup>*\<^sup>* n n'" and "in_flight N i j cmd c P n" and "projects N n"
    and "route_command (json N) cmd = Some c" and "answered (backend N) c (account (members N ! j)) P"
  shows "in_flight N i j cmd c P n' \<and> projects N n'"
  using assms(1)
proof induction
  case (step m m')
  then show ?case using in_flight_task [OF step(2) _ _ assms(4,5)] projects_task [OF step(2)] by blast
qed (use assms(2,3) in simp)

text \<open>A node that still sends, and one that also takes what the backend has for it.\<close>

definition sending :: "('c, 'd) host \<Rightarrow> bool" where
  "sending h \<longleftrightarrow> \<not> frozen h \<and> \<not> loop_ended (p2p h)"

definition listening :: "('c, 'd) host \<Rightarrow> bool" where
  "listening h \<longleftrightarrow> sending h \<and> sub_open h \<and> \<not> swarm_ended h \<and> notif_recv_borrowed (iface h)"

lemma rest_local:
  assumes "at_rest N n" and "i < length (hosts n)" and "\<not> frozen (hosts n ! i)"
  shows "\<not> host_task (backend N) (json N) (members N ! i) (hosts n ! i) h"
  using assms net_task.local unfolding at_rest_def by blast

lemma rest_sending:
  assumes rest: "at_rest N n" and i: "i < length (hosts n)" and h: "sending (hosts n ! i)"
  shows "p2p_commands (node (iface (hosts n ! i))) = []" and "rpc_calls (p2p (hosts n ! i)) = []"
proof -
  let ?h = "hosts n ! i"
  note quiet = rest_local [OF rest i]
  show "p2p_commands (node (iface ?h)) = []"
  proof (rule ccontr)
    assume "p2p_commands (node (iface ?h)) \<noteq> []"
    then obtain c cs where c: "p2p_commands (node (iface ?h)) = c # cs" by (cases "p2p_commands (node (iface ?h))") auto
    have "\<exists>p. p2p_turn (backend N) (json N) (worker ?h) (Command c) (p2p ?h) = Some p"
      by (auto simp: p2p_turn_def split: option.split)
    then obtain p where p: "p2p_turn (backend N) (json N) (worker ?h) (Command c) (p2p ?h) = Some p" ..
    from quiet host_task.loop_command [OF _ c p] h show False unfolding sending_def by blast
  qed
  show "rpc_calls (p2p ?h) = []"
  proof (rule ccontr)
    assume "rpc_calls (p2p ?h) \<noteq> []"
    then obtain c cs where "rpc_calls (p2p ?h) = [] @ c # cs" by (cases "rpc_calls (p2p ?h)") auto
    with net_task.rpc [OF i refl _ _ order_refl order_refl refl, of "[]" c cs N] rest h
    show False unfolding at_rest_def sending_def by blast
  qed
qed

lemma rest_listening:
  assumes rest: "at_rest N n" and j: "j < length (hosts n)" and h: "listening (hosts n ! j)"
  shows "length (events (server n)) \<le> cursor (hosts n ! j)" and "swarm_channel (p2p (hosts n ! j)) = []"
    and "inbox (hosts n ! j) = []"
proof -
  let ?h = "hosts n ! j"
  note quiet = rest_local [OF rest j]
  note h = h [unfolded listening_def sending_def]
  show "length (events (server n)) \<le> cursor ?h"
    using net_task.deliver [OF j refl _ _ refl, of N] rest h by (auto simp: at_rest_def not_less [symmetric])
  have notif: "notif_channel (p2p ?h) = []"
  proof (rule ccontr)
    assume "notif_channel (p2p ?h) \<noteq> []"
    then obtain ev evs where "notif_channel (p2p ?h) = ev # evs" by (cases "notif_channel (p2p ?h)") auto
    with quiet host_task.notif_watcher h show False by blast
  qed
  show swarm: "swarm_channel (p2p ?h) = []"
  proof (rule ccontr)
    assume "swarm_channel (p2p ?h) \<noteq> []"
    then obtain m ms where "swarm_channel (p2p ?h) = m # ms" by (cases "swarm_channel (p2p ?h)") auto
    moreover obtain r s where
      "handle_swarm_message (nenv (members N ! j)) undefined 0 (Inr m) (node (iface ?h)) = (r, s)" by fastforce
    ultimately show False using quiet host_task.swarm h by blast
  qed
  show "inbox ?h = []"
  proof (rule ccontr)
    assume "inbox ?h \<noteq> []"
    then obtain ev evs where "inbox ?h = ev # evs" by (cases "inbox ?h") auto
    moreover have "\<exists>p. p2p_turn (backend N) (json N) (worker ?h) (SubscriptionEvent ev) (p2p ?h) = Some p"
      using notif swarm
      by (auto simp: p2p_turn_def Let_def notif_capacity_def swarm_capacity_def split: option.split)
    ultimately show False using quiet host_task.loop_event h by blast
  qed
qed

lemma delivered_at_rest:
  assumes "reachable_net N n" and "(net_task N)\<^sup>*\<^sup>* n n'" and "at_rest N n'"
    and "i < length (hosts n)" and "j < length (hosts n)" and "cmd \<in> set (p2p_commands (node (iface (hosts n ! i))))"
    and "route_command (json N) cmd = Some c" and "answered (backend N) c (account (members N ! j)) P"
    and "sending (hosts n' ! i)" and "listening (hosts n' ! j)"
  shows "\<exists>m \<in> set (handled (hosts n' ! j)). P m"
proof -
  have "in_flight N i j cmd c P n" using assms(4-6) by (simp add: in_flight_def outgoing_def)
  then have fly: "in_flight N i j cmd c P n'"
    using in_flight_tasks [OF assms(2) _ reachable_projects [OF assms(1)] assms(7,8)] by blast
  then have len: "i < length (hosts n')" "j < length (hosts n')" by (simp_all add: in_flight_def)
  show ?thesis
    using fly rest_sending [OF assms(3) len(1) assms(9)] rest_listening [OF assms(3) len(2) assms(10)]
    by (auto simp: in_flight_def outgoing_def incoming_def reaches_def)
qed

lemma answered_request:
  assumes "from_slice E d = Some tx"
  shows "answered E (HandleSenderRequest x d) (receiver_address tx) (\<lambda>m. m = WasmRequest tx)"
  using assms stored_by_sender_request(4) [OF _ assms refl refl]
  by (auto simp: answered_def rpc_defs reaches_def route_event_def)

lemma answered_response:
  assumes "from_slice E d = Some tx" and "\<not> is_reverted (status tx)"
  shows "answered E (HandleReceiverResponse a d) (sender_address tx) (\<lambda>m. m = WasmResponse tx)"
  unfolding answered_def
proof (intro allI impI)
  fix s and now later :: u64
  let ?s = "send_event (EvReceiverResponseReceived a d) s"
  obtain ok s' where u: "update_request now later (hex_encode E (multi_id tx)) d ?s = (ok, s')"
    by (cases "update_request now later (hex_encode E (multi_id tx)) d ?s")
  have "\<exists>evs. events (snd (rpc_dispatch E now later (HandleReceiverResponse a d) s))
      = events s @ evs @ [EvReceiverResponseHandled a d]"
    by (rule events_update_request [OF u])
      (use assms(1) u in \<open>auto simp: rpc_defs handle_receiver_response_def Let_def run_simps\<close>)
  moreover have "reaches E (sender_address tx) (\<lambda>m. m = WasmResponse tx) [EvReceiverResponseHandled a d]"
    using assms by (simp add: reaches_def route_event_def matches_tx_def)
  ultimately show "\<exists>evs. events (snd (rpc_dispatch E now later (HandleReceiverResponse a d) s)) = events s @ evs
      \<and> reaches E (sender_address tx) (\<lambda>m. m = WasmResponse tx) evs"
    using reaches_append by blast
qed

lemma answered_fetch: "answered E (FetchPending a) a (\<lambda>m. \<exists>txs. m = SwarmPendingTransactionsFetched a txs)"
  by (auto simp: answered_def rpc_defs run_simps fetch_total reaches_def route_event_def)

section \<open>A node whose P2P loop is gone\<close>

definition stalled :: "('c, 'd) host \<Rightarrow> bool" where
  "stalled h \<longleftrightarrow> loop_ended (p2p h) \<and> \<not> swarm_ended h \<and> swarm_channel (p2p h) = []"

lemma host_task_stalled: "host_task E to_vec I h h' \<Longrightarrow> stalled h \<Longrightarrow> stalled h'"
  by (erule host_taskE) (simp_all add: stalled_def)

lemma stalled_tasks:
  assumes "(net_task N)\<^sup>*\<^sup>* n n'" and "i < length (hosts n)" and "stalled (hosts n ! i)"
  shows "i < length (hosts n') \<and> stalled (hosts n' ! i)"
  using assms(1)
proof induction
  case (step m m')
  from step(2) show ?case
  proof cases
    case (local k h)
    then show ?thesis using step(3) host_task_stalled [OF local(4)] by (cases "k = i") simp_all
  next
    case (rpc k h xs c ys now later s)
    then show ?thesis using step(3) by (cases "k = i") (simp_all add: stalled_def)
  next
    case (deliver k h ev)
    then show ?thesis using step(3) by (cases "k = i") (simp_all add: stalled_def)
  next
    case (lag k h)
    then show ?thesis using step(3) by (cases "k = i") (simp_all add: stalled_def)
  qed
qed (use assms(2,3) in simp)

lemma stalled_rest:
  "at_rest N n \<Longrightarrow> i < length (hosts n) \<Longrightarrow> stalled (hosts n ! i) \<Longrightarrow> frozen (hosts n ! i)"
  using rest_local [of N n i] host_task.spin [of "hosts n ! i"] unfolding stalled_def by blast

lemma failed_start_stalled:
  assumes "start_vane_web3 M relay acc network False lv storage connects subscribes c d sv = (Ok h, sv')"
    and "\<not> connects (backend_url (worker h)) \<or> \<not> subscribes"
  shows "stalled h"
proof -
  obtain x where "wasm_run M relay acc network lv False x connects subscribes c d sv = (Ok h, sv')"
    using assms(1)
    by (auto simp: start_vane_web3_def run_simps run_and_then run_attempt from_js_def
        split: prod.splits outcome.splits option.splits sum.splits)
  then show ?thesis
    using assms(2)
    by (auto simp: wasm_run_def start_swarm_handler_def p2p_start_def host_new_def p2p_state_new_def stalled_def Let_def
        run_simps rpc_subscribe_def split: outcome.splits prod.splits if_splits)
qed

section \<open>Properties of the network\<close>



text \<open>C8: a node is handed only what some node sent: the request it handles is addressed to its account,
  and the P2P loop of some node took it as a command whose JSON decodes to it; the same for a response.\<close>

theorem delivered_authentic:
  assumes "reachable_net N n" and "h \<in> set (hosts n)"
  shows "(\<forall>tx. WasmRequest tx \<in> set (handled h) \<longrightarrow> receiver_address tx = user_account_id (worker h)
      \<and> (\<exists>g \<in> set (hosts n). \<exists>tx' d. WasmSendRequest tx' \<in> set (sent g) \<and> json N tx' = Some d
           \<and> from_slice (backend N) d = Some tx))
    \<and> (\<forall>tx. WasmResponse tx \<in> set (handled h) \<longrightarrow> sender_address tx = user_account_id (worker h)
      \<and> (\<exists>g \<in> set (hosts n). \<exists>tx' d. WasmSendResponse (Inr tx') \<in> set (sent g) \<and> json N tx' = Some d
           \<and> from_slice (backend N) d = Some tx))"
proof -
  note auth = reachable_authentic [OF assms(1)]
  have routed: "m \<in> set (handled h) \<Longrightarrow> \<exists>ev \<in> set (events (server n)).
      route_event (backend N) (user_account_id (worker h)) ev = Some m \<and> event_authentic N n ev" for m
    using auth assms(2) unfolding authentic_def host_authentic_def by blast
  have "receiver_address tx = user_account_id (worker h) \<and> (\<exists>g \<in> set (hosts n). \<exists>tx' d.
      WasmSendRequest tx' \<in> set (sent g) \<and> json N tx' = Some d \<and> from_slice (backend N) d = Some tx)"
    if m: "WasmRequest tx \<in> set (handled h)" for tx
  proof -
    from routed [OF m] obtain ev where ev: "route_event (backend N) (user_account_id (worker h)) ev = Some (WasmRequest tx)"
      "event_authentic N n ev" by blast
    from route_event_addressed(1) [OF ev(1)] obtain a d where
      d: "receiver_address tx = user_account_id (worker h)" "ev = EvSenderRequestHandled a d" "from_slice (backend N) d = Some tx"
      by blast
    then obtain x where "issued N n (HandleSenderRequest x d)" using ev(2) by (auto simp: event_authentic_def)
    from issued_origin(1) [OF this] d show ?thesis by blast
  qed
  moreover have "sender_address tx = user_account_id (worker h) \<and> (\<exists>g \<in> set (hosts n). \<exists>tx' d.
      WasmSendResponse (Inr tx') \<in> set (sent g) \<and> json N tx' = Some d \<and> from_slice (backend N) d = Some tx)"
    if m: "WasmResponse tx \<in> set (handled h)" for tx
  proof -
    from routed [OF m] obtain ev where ev: "route_event (backend N) (user_account_id (worker h)) ev = Some (WasmResponse tx)"
      "event_authentic N n ev" by blast
    from route_event_addressed(2) [OF ev(1)] obtain a d where
      d: "sender_address tx = user_account_id (worker h)" "ev = EvReceiverResponseHandled a d" "from_slice (backend N) d = Some tx"
      by blast
    then have "issued N n (HandleReceiverResponse a d)" using ev(2) by (auto simp: event_authentic_def)
    from issued_origin(2) [OF this] d show ?thesis by blast
  qed
  ultimately show ?thesis by blast
qed


text \<open>A receiver's response arrives at the sender in the same way, unless it is reverted (the
  subscription filter drops reverted transactions).\<close>

theorem response_delivered:
  assumes "reachable_net N n" and "i < length (hosts n)" and "j < length (hosts n)"
    and "WasmSendResponse (Inr tx) \<in> set (p2p_commands (node (iface (hosts n ! i))))"
    and "json N tx = Some d" and "from_slice (backend N) d = Some tx" and "sender_address tx = account (members N ! j)"
    and "\<not> is_reverted (status tx)"
    and "(net_task N)\<^sup>*\<^sup>* n n'" and "at_rest N n'" and "sending (hosts n' ! i)" and "listening (hosts n' ! j)"
  shows "WasmResponse tx \<in> set (handled (hosts n' ! j))"
  using delivered_at_rest [OF assms(1,9,10,2,3,4) _ _ assms(11,12), where c = "HandleReceiverResponse (receiver_address tx) d"
      and P = "\<lambda>m. m = WasmResponse tx"] answered_response [OF assms(6,8)] assms(5,7)
  by (auto simp: route_command_def)

text \<open>A node's request for its pending transactions is answered.\<close>

theorem fetch_delivered:
  assumes "reachable_net N n" and "i < length (hosts n)"
    and "FetchPendingTransactions (account (members N ! i)) \<in> set (p2p_commands (node (iface (hosts n ! i))))"
    and "(net_task N)\<^sup>*\<^sup>* n n'" and "at_rest N n'" and "listening (hosts n' ! i)"
  shows "\<exists>txs. SwarmPendingTransactionsFetched (account (members N ! i)) txs \<in> set (handled (hosts n' ! i))"
proof -
  have "sending (hosts n' ! i)" using assms(6) by (simp add: listening_def)
  from delivered_at_rest [OF assms(1,4,5,2,2,3) _ answered_fetch this assms(6)]
  show ?thesis by (auto simp: route_command_def)
qed

text \<open>When the P2P worker cannot connect or subscribe, \<open>start_vane_web3\<close> still returns a node; the
  loop over swarm messages then reads a closed channel, which answers at once and for ever, so the
  node's only thread is never given back: once the tasks have run the node is frozen.\<close>

theorem failed_start_freezes:
  assumes "start_vane_web3 M relay acc network False lv storage connects subscribes c d sv = (Ok h, sv')"
    and "\<not> connects (backend_url (worker h)) \<or> \<not> subscribes"
    and "i < length (hosts n)" and "hosts n ! i = h" and "(net_task N)\<^sup>*\<^sup>* n n'" and "at_rest N n'"
  shows "frozen (hosts n' ! i)"
  using stalled_tasks [OF assms(5,3)] failed_start_stalled [OF assms(1,2)] stalled_rest [OF assms(6)] assms(4)
  by blast

section \<open>A concrete network\<close>

text \<open>Two nodes, \<open>0xaa\<close> and \<open>0xbb\<close>, one transaction between them with a one-byte encoding.\<close>

type_synonym sample_host = "(sample_cache, plain_encoding in_memory_db_worker) host"

definition wire_tx :: tx_state_machine where
  "wire_tx = \<lparr>sender_address = ''0xaa'', sender_public_key = None, receiver_address = ''0xbb'',
     receiver_public_key = None, multi_id = as_bytes ''0xaa'' @ as_bytes ''0xbb'', recv_signature = None,
     tx_token = TokEthereum EthETH, status = default_tx_status, code_word = [], amount = 3, fees_amount = 0,
     signed_call_payload = None, call_payload = None, inbound_req_id = None, outbound_req_id = None,
     tx_nonce = 1, tx_version = 0, sender_address_network = Ethereum, receiver_address_network = Ethereum\<rparr>"

lemma wire_tx_simps [simp]:
  "sender_address wire_tx = ''0xaa''" "receiver_address wire_tx = ''0xbb''" "status wire_tx = default_tx_status"
  "tx_nonce wire_tx = 1"
  by (simp_all add: wire_tx_def)

definition wire_env :: backend_env where
  "wire_env = \<lparr>from_slice = (\<lambda>d. if d = [1] then Some wire_tx else None), hex_encode = byte_string\<rparr>"

definition wire_net :: "(sample_cache, plain_encoding in_memory_db_worker) net_env" where
  "wire_net = \<lparr>backend = wire_env, json = (\<lambda>tx. if tx = wire_tx then Some [1] else None),
     members = [sample_iface, sample_iface\<lparr>account := ''0xbb''\<rparr>]\<rparr>"

lemma wire_net_simps [simp]:
  "backend wire_net = wire_env" "json wire_net wire_tx = Some [1]" "from_slice wire_env [1] = Some wire_tx"
  "members wire_net = [sample_iface, sample_iface\<lparr>account := ''0xbb''\<rparr>]"
  by (simp_all add: wire_net_def wire_env_def)

definition wire_db :: "string \<Rightarrow> plain_encoding in_memory_db_worker" where
  "wire_db acc = mem_initialize_db_client\<lparr>user_accounts := [(USER_ACC_KEY, PlainUser
     \<lparr>user_multi_addr = ''relay'', accounts = [(acc, Ethereum)]\<rparr>)]\<rparr>"

text \<open>A host that runs, by what differs along the run.\<close>

definition wire_host :: "string \<Rightarrow> (sample_cache, plain_encoding in_memory_db_worker) iface_state \<Rightarrow> p2p_state
    \<Rightarrow> backend_event list \<Rightarrow> nat \<Rightarrow> swarm_message list \<Rightarrow> network_command list \<Rightarrow> sample_host" where
  "wire_host acc f p inb cur hnd snt = \<lparr>worker = p2p_worker_new True ''relay'' acc, iface = f, p2p = p, inbox = inb,
     cursor = cur, sub_open = True, updates_ended = False, swarm_ended = False, frozen = False, handled = hnd, sent = snt\<rparr>"

lemma wire_host_simps [simp]:
  "worker (wire_host acc f p inb cur hnd snt) = p2p_worker_new True ''relay'' acc" "iface (wire_host acc f p inb cur hnd snt) = f"
  "p2p (wire_host acc f p inb cur hnd snt) = p" "inbox (wire_host acc f p inb cur hnd snt) = inb"
  "cursor (wire_host acc f p inb cur hnd snt) = cur" "sub_open (wire_host acc f p inb cur hnd snt)"
  "\<not> updates_ended (wire_host acc f p inb cur hnd snt)" "\<not> swarm_ended (wire_host acc f p inb cur hnd snt)"
  "\<not> frozen (wire_host acc f p inb cur hnd snt)" "handled (wire_host acc f p inb cur hnd snt) = hnd"
  "sent (wire_host acc f p inb cur hnd snt) = snt"
  "(wire_host acc f p inb cur hnd snt)\<lparr>iface := f'\<rparr> = wire_host acc f' p inb cur hnd snt"
  "(wire_host acc f p inb cur hnd snt)\<lparr>p2p := p'\<rparr> = wire_host acc f p' inb cur hnd snt"
  "(wire_host acc f p inb cur hnd snt)\<lparr>inbox := inb'\<rparr> = wire_host acc f p inb' cur hnd snt"
  "(wire_host acc f p inb cur hnd snt)\<lparr>cursor := cur'\<rparr> = wire_host acc f p inb cur' hnd snt"
  "(wire_host acc f p inb cur hnd snt)\<lparr>handled := hnd'\<rparr> = wire_host acc f p inb cur hnd' snt"
  "(wire_host acc f p inb cur hnd snt)\<lparr>sent := snt'\<rparr> = wire_host acc f p inb cur hnd snt'"
  "(wire_host acc f p inb cur hnd snt)\<lparr>updates_ended := False\<rparr> = wire_host acc f p inb cur hnd snt"
  "(wire_host acc f p inb cur hnd snt)\<lparr>swarm_ended := False\<rparr> = wire_host acc f p inb cur hnd snt"
  by (simp_all add: wire_host_def)

lemma account_of_worker [simp]: "user_account_id (p2p_worker_new lv relay acc) = acc"
  by (simp add: p2p_worker_new_def Let_def)

lemma wire_start:
  "start_vane_web3 sample_node ''relay'' acc ''Ethereum'' False True None (\<lambda>_. True) True [] mem_initialize_db_client sv
     = (Ok (wire_host acc (iface_new (initial_state [] (wire_db acc))) p2p_state_new [] (length (events sv)) [] []),
        snd (rpc_subscribe sv))"
  by (simp add: start_vane_web3_def wasm_run_def main_worker_new_def run_simps Let_def start_swarm_handler_def
      p2p_start_def host_new_def wire_host_def initial_state_def in_memory_db_ops_def mem_set_user_account_def
      wire_db_def mem_initialize_db_client_def plain_codec_def chain_from_str_def rpc_subscribe_def p2p_state_new_def)

definition wire_alice :: "tx_state_machine list \<Rightarrow> network_command list \<Rightarrow> (sample_cache, plain_encoding in_memory_db_worker) iface_state" where
  "wire_alice updates commands = (iface_new \<lparr>cache = [(1, ttl_new wire_tx 5)], cache_borrowed = False,
      db = (wire_db ''0xaa'')\<lparr>nonces := [(NONCE_KEY, 1)]\<rparr>, rpc_channel = [], user_updates = updates,
      p2p_commands = commands, submitted = []\<rparr>)
    \<lparr>tx_integrity := [(1, compute_tx_integrity_hash sample_iface wire_tx)]\<rparr>"

definition wire_bob :: "(sample_cache, plain_encoding in_memory_db_worker) iface_state" where
  "wire_bob = (iface_new (initial_state [] (wire_db ''0xbb'')))\<lparr>notif_recv_borrowed := True\<rparr>"

lemma wire_initiate:
  "snd (run_iface_call sample_iface 5 (Initiate ''0xaa'' ''0xbb'' 3 (TokEthereum EthETH) [] Ethereum Ethereum)
     (iface_new (initial_state [] (wire_db ''0xaa'')))) = wire_alice [wire_tx] []"
proof -
  have c: "parse_checksummed sample_crypto (to_checksum sample_crypto a) = Some a" for a
    by (rule sample_checksum)
  have v: "verify_public_bytes sample_crypto ''0xaa'' (TokEthereum EthETH) Ethereum = Ok Ethereum"
    "verify_public_bytes sample_crypto ''0xbb'' (TokEthereum EthETH) Ethereum = Ok Ethereum"
    by (simp_all add: verify_defs c) (simp_all add: sample_crypto_def as_bytes_chars)
  have d: "op_get_nonce (in_memory_db_ops plain_codec) (wire_db acc) = (Ok 0, wire_db acc)"
    "op_increment_nonce (in_memory_db_ops plain_codec) (wire_db acc) = (Ok (), (wire_db acc)\<lparr>nonces := [(NONCE_KEY, 1)]\<rparr>)" for acc
    by (simp_all add: in_memory_db_ops_def mem_get_nonce_def mem_increment_nonce_def run_simps wire_db_def
        mem_initialize_db_client_def)
  have b: "blake2_256 sample_crypto x = x" for x by (simp add: sample_crypto_def)
  show ?thesis
    by (simp add: discard_def initiate_transaction_def run_simps v d b verify_route_def Let_def iface_new_def initial_state_def
        wire_alice_def wire_tx_def [symmetric] record_integrity_def to_front_def cache_capacity_def)
qed

lemma wire_update:
  "handle_user_update sample_node echo_host 5 wire_tx ((node (wire_alice [wire_tx] []))\<lparr>user_updates := []\<rparr>)
     = (Ok (), node (wire_alice [] [WasmSendRequest wire_tx]))"
  by (simp add: handle_user_update_def default_tx_status_def handle_genesis_tx_state_def run_simps wire_alice_def iface_new_def
      in_memory_db_ops_def mem_get_user_account_def decode_expect_def wire_db_def mem_initialize_db_client_def plain_codec_def
      both_in_profile_def in_profile_def wasm_send_request_def)

definition wire_server :: swarm_server where
  "wire_server = snd (rpc_subscribe (snd (rpc_subscribe swarm_server_new)))"

lemma events_wire [simp]: "events wire_server = []" "events swarm_server_new = []"
  by (simp_all add: wire_server_def rpc_subscribe_def run_simps swarm_server_new_def)

definition wire_start_net :: "(sample_cache, plain_encoding in_memory_db_worker) network" where
  "wire_start_net = \<lparr>server = wire_server, clock = 10,
     hosts = [wire_host ''0xaa'' (wire_alice [] [WasmSendRequest wire_tx]) p2p_state_new [] 0 [] [],
              wire_host ''0xbb'' wire_bob p2p_state_new [] 0 [] []]\<rparr>"

lemma wire_join:
  assumes "I = members wire_net ! length hs" and "length hs < 2"
  shows "net_app wire_net \<lparr>server = sv, clock = t, hosts = hs\<rparr> \<lparr>server = snd (rpc_subscribe sv), clock = t,
    hosts = hs @ [wire_host (account I) (iface_new (initial_state [] (wire_db (account I)))) p2p_state_new [] (length (events sv)) [] []]\<rparr>"
proof -
  have "nenv I = sample_node" using assms by (auto simp: less_Suc_eq numeral_2_eq_2)
  then show ?thesis
    using net_app.join [where n = "\<lparr>server = sv, clock = t, hosts = hs\<rparr>" and N = wire_net and I = I and c = "[]"
        and relay = "''relay''" and network = "''Ethereum''" and self_node = False and lv = True and storage = None
        and connects = "\<lambda>_. True" and subscribes = True and d = mem_initialize_db_client] assms
    by (simp add: wire_start)
qed

lemma wire_reachable: "reachable_net wire_net wire_start_net"
proof -
  let ?empty = "\<lparr>server = swarm_server_new, clock = 10, hosts = []\<rparr>
    :: (sample_cache, plain_encoding in_memory_db_worker) network"
  let ?a = "\<lambda>f. wire_host ''0xaa'' f p2p_state_new [] 0 [] []" and ?b = "\<lambda>f. wire_host ''0xbb'' f p2p_state_new [] 0 [] []"
  let ?new = "\<lambda>acc. iface_new (initial_state [] (wire_db acc)) :: (sample_cache, plain_encoding in_memory_db_worker) iface_state"
  let ?n = "\<lambda>s hs. \<lparr>server = s, clock = 10, hosts = hs\<rparr> :: (sample_cache, plain_encoding in_memory_db_worker) network"
  have "net_app wire_net ?empty (?n (snd (rpc_subscribe swarm_server_new)) [?a (?new ''0xaa'')])"
    using wire_join [OF refl, of "[]" swarm_server_new 10] by simp
  moreover have "net_app wire_net (?n (snd (rpc_subscribe swarm_server_new)) [?a (?new ''0xaa'')])
      (?n wire_server [?a (?new ''0xaa''), ?b (?new ''0xbb'')])"
    using wire_join [OF refl, of "[?a (?new ''0xaa'')]" "snd (rpc_subscribe swarm_server_new)" 10]
    by (simp add: wire_server_def)
  moreover have "net_app wire_net (?n wire_server [?a (?new ''0xaa''), ?b (?new ''0xbb'')])
      (?n wire_server [?a (?new ''0xaa''), ?b wire_bob])"
    using net_app.call [of 1 "?n wire_server [?a (?new ''0xaa''), ?b (?new ''0xbb'')]" _ P2pWatcherBegin wire_net 5]
    by (simp add: is_watcher_turn_def p2p_watcher_begin_def wire_bob_def iface_new_def)
  moreover have "net_app wire_net (?n wire_server [?a (?new ''0xaa''), ?b wire_bob])
      (?n wire_server [?a (wire_alice [wire_tx] []), ?b wire_bob])"
    using net_app.call [of 0 "?n wire_server [?a (?new ''0xaa''), ?b wire_bob]" _
        "Initiate ''0xaa'' ''0xbb'' 3 (TokEthereum EthETH) [] Ethereum Ethereum" wire_net 5]
    by (simp add: is_watcher_turn_def wire_initiate del: run_iface_call.simps)
  moreover have "net_task wire_net (?n wire_server [?a (wire_alice [wire_tx] []), ?b wire_bob]) wire_start_net"
  proof -
    have "host_task wire_env (json wire_net) sample_iface (?a (wire_alice [wire_tx] []))
        (?a (wire_alice [] [WasmSendRequest wire_tx]))"
      using host_task.update [of "?a (wire_alice [wire_tx] [])" wire_tx "[]" sample_iface echo_host 5] wire_update
      by (simp add: wire_alice_def iface_new_def)
    then show ?thesis
      using net_task.local [of 0 "?n wire_server [?a (wire_alice [wire_tx] []), ?b wire_bob]" wire_net]
      by (simp add: wire_start_net_def)
  qed
  ultimately show ?thesis
    by (meson reachable_net.start reachable_net.task reachable_net.app)
qed

definition host_turn :: "('c, 'd) net_env \<Rightarrow> nat \<Rightarrow> ('c, 'd) host \<Rightarrow> ('c, 'd) host \<Rightarrow> bool" where
  "host_turn N i h h' \<longleftrightarrow> \<not> frozen h \<and> host_task (backend N) (json N) (members N ! i) h h'"

lemma host_tasks_lift:
  assumes "(host_turn N i)\<^sup>*\<^sup>* h h'"
    and "i < length (hosts n)" and "hosts n ! i = h"
  shows "(net_task N)\<^sup>*\<^sup>* n (n\<lparr>hosts := (hosts n)[i := h']\<rparr>)"
  using assms(1)
proof induction
  case base
  then show ?case using assms(3) by (cases n) auto
next
  case (step g g')
  have "net_task N (n\<lparr>hosts := (hosts n)[i := g]\<rparr>) (n\<lparr>hosts := (hosts n)[i := g']\<rparr>)"
    using net_task.local [of i "n\<lparr>hosts := (hosts n)[i := g]\<rparr>" N g'] step(2) assms(2) by (simp add: host_turn_def)
  with step(3) show ?case by simp
qed

definition idle :: "nat \<Rightarrow> ('c, 'd) host \<Rightarrow> bool" where
  "idle broadcast h \<longleftrightarrow> user_updates (node (iface h)) = [] \<and> p2p_commands (node (iface h)) = [] \<and> rpc_calls (p2p h) = []
     \<and> swarm_channel (p2p h) = [] \<and> inbox h = [] \<and> cursor h = broadcast \<and> sub_open h \<and> \<not> loop_ended (p2p h)
     \<and> (rpc_recv_borrowed (iface h) \<longrightarrow> rpc_channel (node (iface h)) = [])
     \<and> (notif_recv_borrowed (iface h) \<longrightarrow> notif_channel (p2p h) = [])"

lemma idle_no_task: "idle b h \<Longrightarrow> \<not> host_task E to_vec I h h'"
  by (auto simp: idle_def elim!: host_taskE)

lemma idle_at_rest:
  assumes "\<forall>h \<in> set (hosts n). idle (length (events (server n))) h"
  shows "at_rest N n"
  unfolding at_rest_def
proof (intro allI notI)
  fix n' assume "net_task N n n'"
  then show False
  proof cases
    case (local i h)
    then show ?thesis using assms idle_no_task nth_mem by blast
  next
    case (rpc i h xs c ys now later s)
    then have "idle (length (events (server n))) h" using assms by simp
    then show ?thesis using rpc(5) by (simp add: idle_def)
  next
    case (deliver i h ev)
    then have "idle (length (events (server n))) h" using assms by simp
    then show ?thesis using deliver(5) by (simp add: idle_def)
  next
    case (lag i h)
    then have "idle (length (events (server n))) h" using assms by simp
    then show ?thesis using lag(5) by (simp add: idle_def)
  qed
qed

definition wire_call :: rpc_call where "wire_call = HandleSenderRequest ''0xaa'' [1]"
definition wire_events :: "backend_event list" where
  "wire_events = [EvSenderRequestReceived ''0xaa'' [1], EvSenderRequestHandled ''0xbb'' [1]]"
definition wire_server_done :: swarm_server where
  "wire_server_done = snd (rpc_dispatch wire_env 10 10 wire_call wire_server)"

lemma events_wire_done [simp]: "events wire_server_done = wire_events"
proof -
  have "wf_server wire_env wire_server"
    using reachable_projects [OF wire_reachable] by (auto simp: projects_def wire_start_net_def intro: reachable_wf)
  from stored_by_sender_request(4) [OF this wire_net_simps(3) refl refl, of 10 "''0xaa''"]
  show ?thesis by (simp add: wire_server_done_def wire_call_def wire_events_def rpc_defs)
qed

abbreviation wire_p2p :: "backend_event list \<Rightarrow> swarm_message list \<Rightarrow> rpc_call list \<Rightarrow> p2p_state" where
  "wire_p2p notif swarm calls \<equiv> \<lparr>notif_channel = notif, swarm_channel = swarm, rpc_calls = calls, loop_ended = False\<rparr>"

text \<open>The addressee's node once it has handled the request.\<close>

definition wire_bob_done :: "(sample_cache, plain_encoding in_memory_db_worker) iface_state" where
  "wire_bob_done = wire_bob\<lparr>node := (node wire_bob)\<lparr>cache := [(1, ttl_new wire_tx 5)], rpc_channel := [wire_tx]\<rparr>\<rparr>"

definition wire_end_net :: "(sample_cache, plain_encoding in_memory_db_worker) network" where
  "wire_end_net = \<lparr>server = wire_server_done, clock = 10,
     hosts = [wire_host ''0xaa'' (wire_alice [] []) (wire_p2p wire_events [] []) [] 2 [] [WasmSendRequest wire_tx],
              wire_host ''0xbb'' wire_bob_done (wire_p2p [] [] []) [] 2 [WasmRequest wire_tx] []]\<rparr>"

lemma wire_rest: "at_rest wire_net wire_end_net"
  by (rule idle_at_rest) (simp add: wire_end_net_def idle_def wire_events_def wire_alice_def wire_bob_def wire_bob_done_def
      iface_new_def initial_state_def)

lemma wire_alice_tasks:
  "host_task wire_env (json wire_net) sample_iface
     (wire_host ''0xaa'' (wire_alice [] [WasmSendRequest wire_tx]) p2p_state_new [] 0 [] [])
     (wire_host ''0xaa'' (wire_alice [] []) (wire_p2p [] [] [wire_call]) [] 0 [] [WasmSendRequest wire_tx])"
  using host_task.loop_command [of "wire_host ''0xaa'' (wire_alice [] [WasmSendRequest wire_tx]) p2p_state_new [] 0 [] []"
      "WasmSendRequest wire_tx" "[]" wire_env "json wire_net"]
  by (simp add: p2p_state_new_def p2p_turn_def route_command_def wire_alice_def iface_new_def wire_call_def)

text \<open>One event through the P2P loop, at a host whose notification and swarm channels have room.\<close>

lemma wire_loop_event:
  assumes "length notif < notif_capacity" and "length swarm < swarm_capacity"
    and "swarm' = swarm @ (case route_event wire_env acc ev of None \<Rightarrow> [] | Some m \<Rightarrow> [m])"
  shows "host_task wire_env J I (wire_host acc f (wire_p2p notif swarm calls) (ev # inb) cur hnd snt)
    (wire_host acc f (wire_p2p (notif @ [ev]) swarm' calls) inb cur hnd snt)"
  using host_task.loop_event [of "wire_host acc f (wire_p2p notif swarm calls) (ev # inb) cur hnd snt" ev inb wire_env J] assms
  by (simp add: p2p_turn_def Let_def split: option.splits)

lemma wire_notif:
  assumes "notif_recv_borrowed f" and "p2p_callbacks f = []"
  shows "host_task E J I (wire_host acc f (wire_p2p (ev # notif) swarm calls) inb cur hnd snt)
    (wire_host acc f (wire_p2p notif swarm calls) inb cur hnd snt)"
  using host_task.notif_watcher [of "wire_host acc f (wire_p2p (ev # notif) swarm calls) inb cur hnd snt" ev notif E J I] assms
  by (simp add: p2p_watcher_turn_def run_simps)

lemma wire_swarm:
  "host_task E J (sample_iface\<lparr>account := x\<rparr>) (wire_host acc wire_bob (wire_p2p notif [WasmRequest wire_tx] calls) inb cur hnd snt)
    (wire_host acc wire_bob_done (wire_p2p notif [] calls) inb cur (hnd @ [WasmRequest wire_tx]) snt)"
proof -
  have "handle_swarm_message sample_node echo_host 5 (Inr (WasmRequest wire_tx)) (node wire_bob) = (Ok (), node wire_bob_done)"
    by (simp add: swarm_wasm_request_def run_simps wire_bob_def wire_bob_done_def iface_new_def initial_state_def
        rpc_capacity_def to_front_def cache_capacity_def)
  then show ?thesis
    using host_task.swarm [of "wire_host acc wire_bob (wire_p2p notif [WasmRequest wire_tx] calls) inb cur hnd snt"
        "WasmRequest wire_tx" "[]" "sample_iface\<lparr>account := x\<rparr>" echo_host 5 "Ok ()" "node wire_bob_done" E J]
    by (simp add: wire_bob_done_def)
qed

lemma wire_deliver:
  assumes "k < length (hosts n)" and "hosts n ! k = wire_host acc f p [] 0 hnd snt" and "events (server n) = wire_events"
    and "acc = ''0xaa'' \<or> acc = ''0xbb''"
  shows "(net_task wire_net)\<^sup>*\<^sup>* n (n\<lparr>hosts := (hosts n)[k := wire_host acc f p wire_events 2 hnd snt]\<rparr>)"
proof -
  let ?m = "n\<lparr>hosts := (hosts n)[k := wire_host acc f p [EvSenderRequestReceived ''0xaa'' [1]] 1 hnd snt]\<rparr>"
  have send: "should_send wire_env acc (EvSenderRequestReceived ''0xaa'' [1])" "should_send wire_env acc (EvSenderRequestHandled ''0xbb'' [1])"
    using assms(4) by (auto simp: matches_tx_def default_tx_status_def)
  have "net_task wire_net n ?m"
    using net_task.deliver [OF assms(1) refl _ _ refl, of wire_net] assms(2,3) send by (simp add: wire_events_def)
  moreover have "net_task wire_net ?m (n\<lparr>hosts := (hosts n)[k := wire_host acc f p wire_events 2 hnd snt]\<rparr>)"
    using net_task.deliver [of k ?m _ _ wire_net, OF _ refl _ _ refl] assms(1,3) send
    by (simp add: wire_events_def numeral_2_eq_2)
  ultimately show ?thesis by simp
qed

abbreviation wire_a :: "p2p_state \<Rightarrow> backend_event list \<Rightarrow> nat \<Rightarrow> sample_host" where
  "wire_a p inb cur \<equiv> wire_host ''0xaa'' (wire_alice [] []) p inb cur [] [WasmSendRequest wire_tx]"

abbreviation wire_b :: "p2p_state \<Rightarrow> backend_event list \<Rightarrow> nat \<Rightarrow> sample_host" where
  "wire_b p inb cur \<equiv> wire_host ''0xbb'' wire_bob p inb cur [] []"

abbreviation wire_hosts :: "swarm_server \<Rightarrow> sample_host \<Rightarrow> sample_host \<Rightarrow> (sample_cache, plain_encoding in_memory_db_worker) network" where
  "wire_hosts sv a b \<equiv> \<lparr>server = sv, clock = 10, hosts = [a, b]\<rparr>"

lemma wire_run_call:
  "(net_task wire_net)\<^sup>*\<^sup>* wire_start_net (wire_hosts wire_server_done (wire_a (wire_p2p [] [] []) [] 0) (wire_b (wire_p2p [] [] []) [] 0))"
proof -
  let ?m = "wire_hosts wire_server (wire_a (wire_p2p [] [] [wire_call]) [] 0) (wire_b (wire_p2p [] [] []) [] 0)"
  have "net_task wire_net wire_start_net ?m"
    using net_task.local [of 0 wire_start_net wire_net] wire_alice_tasks by (simp add: wire_start_net_def p2p_state_new_def)
  moreover have "net_task wire_net ?m (wire_hosts wire_server_done (wire_a (wire_p2p [] [] []) [] 0) (wire_b (wire_p2p [] [] []) [] 0))"
    using net_task.rpc [of 0 ?m _ "[]" wire_call "[]" 10 10 wire_server_done wire_net] by (simp add: wire_server_done_def)
  ultimately show ?thesis by simp
qed

lemma wire_run_deliver:
  "(net_task wire_net)\<^sup>*\<^sup>* (wire_hosts wire_server_done (wire_a p [] 0) (wire_b q [] 0))
     (wire_hosts wire_server_done (wire_a p wire_events 2) (wire_b q wire_events 2))"
proof (rule rtranclp_trans)
  show "(net_task wire_net)\<^sup>*\<^sup>* (wire_hosts wire_server_done (wire_a p [] 0) (wire_b q [] 0))
     (wire_hosts wire_server_done (wire_a p wire_events 2) (wire_b q [] 0))"
    using wire_deliver [of 0 "wire_hosts wire_server_done (wire_a p [] 0) (wire_b q [] 0)"] by simp
  show "(net_task wire_net)\<^sup>*\<^sup>* (wire_hosts wire_server_done (wire_a p wire_events 2) (wire_b q [] 0))
     (wire_hosts wire_server_done (wire_a p wire_events 2) (wire_b q wire_events 2))"
    using wire_deliver [of 1 "wire_hosts wire_server_done (wire_a p wire_events 2) (wire_b q [] 0)"] by simp
qed

lemma wire_run_alice:
  "(net_task wire_net)\<^sup>*\<^sup>* (wire_hosts sv (wire_a (wire_p2p [] [] []) wire_events 2) b)
     (wire_hosts sv (wire_a (wire_p2p wire_events [] []) [] 2) b)"
proof -
  let ?t = "host_turn wire_net 0"
  have "?t (wire_a (wire_p2p [] [] []) wire_events 2) (wire_a (wire_p2p (take 1 wire_events) [] []) (drop 1 wire_events) 2)"
    "?t (wire_a (wire_p2p (take 1 wire_events) [] []) (drop 1 wire_events) 2) (wire_a (wire_p2p wire_events [] []) [] 2)"
    using wire_loop_event [of "[]" "[]" "[]" "''0xaa''" "EvSenderRequestReceived ''0xaa'' [1]"]
      wire_loop_event [of "take 1 wire_events" "[]" "[]" "''0xaa''" "EvSenderRequestHandled ''0xbb'' [1]"]
    by (simp_all add: host_turn_def wire_events_def notif_capacity_def swarm_capacity_def route_event_def)
  then have "?t\<^sup>*\<^sup>* (wire_a (wire_p2p [] [] []) wire_events 2) (wire_a (wire_p2p wire_events [] []) [] 2)"
    by (meson rtranclp.rtrancl_into_rtrancl rtranclp.rtrancl_refl)
  then show ?thesis
    using host_tasks_lift [of wire_net 0 _ _ "wire_hosts sv (wire_a (wire_p2p [] [] []) wire_events 2) b"] by simp
qed

lemma wire_run_bob:
  "(net_task wire_net)\<^sup>*\<^sup>* (wire_hosts sv a (wire_b (wire_p2p [] [] []) wire_events 2))
     (wire_hosts sv a (wire_host ''0xbb'' wire_bob_done (wire_p2p [] [] []) [] 2 [WasmRequest wire_tx] []))"
proof -
  let ?t = "host_turn wire_net 1"
  let ?m = "[WasmRequest wire_tx]"
  have "notif_recv_borrowed wire_bob" "p2p_callbacks wire_bob = []" by (simp_all add: wire_bob_def iface_new_def)
  note notif = wire_notif [OF this]
  have "?t (wire_b (wire_p2p [] [] []) wire_events 2) (wire_b (wire_p2p (take 1 wire_events) [] []) (drop 1 wire_events) 2)"
    "?t (wire_b (wire_p2p (take 1 wire_events) [] []) (drop 1 wire_events) 2) (wire_b (wire_p2p wire_events ?m []) [] 2)"
    using wire_loop_event [of "[]" "[]" "[]" "''0xbb''" "EvSenderRequestReceived ''0xaa'' [1]"]
      wire_loop_event [of "take 1 wire_events" "[]" ?m "''0xbb''" "EvSenderRequestHandled ''0xbb'' [1]"]
    by (simp_all add: host_turn_def wire_events_def notif_capacity_def swarm_capacity_def route_event_def)
  moreover have "?t (wire_b (wire_p2p wire_events ?m []) [] 2) (wire_b (wire_p2p (drop 1 wire_events) ?m []) [] 2)"
    "?t (wire_b (wire_p2p (drop 1 wire_events) ?m []) [] 2) (wire_b (wire_p2p [] ?m []) [] 2)"
    by (simp_all add: host_turn_def wire_events_def notif)
  moreover have "?t (wire_b (wire_p2p [] ?m []) [] 2) (wire_host ''0xbb'' wire_bob_done (wire_p2p [] [] []) [] 2 ?m [])"
    using wire_swarm [where hnd = "[]"] by (simp add: host_turn_def)
  ultimately have "?t\<^sup>*\<^sup>* (wire_b (wire_p2p [] [] []) wire_events 2) (wire_host ''0xbb'' wire_bob_done (wire_p2p [] [] []) [] 2 ?m [])"
    by (meson rtranclp.rtrancl_into_rtrancl rtranclp.rtrancl_refl)
  then show ?thesis
    using host_tasks_lift [of wire_net 1 _ _ "wire_hosts sv a (wire_b (wire_p2p [] [] []) wire_events 2)"] by simp
qed

lemma wire_run: "(net_task wire_net)\<^sup>*\<^sup>* wire_start_net wire_end_net"
  unfolding wire_end_net_def
  by (rule rtranclp_trans [OF wire_run_call rtranclp_trans [OF wire_run_deliver rtranclp_trans [OF wire_run_alice wire_run_bob]]])

lemma wire_end_reachable: "reachable_net wire_net wire_end_net"
  using wire_run by induction (auto intro: wire_reachable reachable_net.task)

section \<open>The properties at work\<close>



theorem delivered_authentic_witness:
  "\<exists>g \<in> set (hosts wire_end_net). \<exists>tx' d. WasmSendRequest tx' \<in> set (sent g) \<and> json wire_net tx' = Some d
     \<and> from_slice wire_env d = Some wire_tx"
proof -
  let ?h = "hosts wire_end_net ! 1"
  have "?h \<in> set (hosts wire_end_net)" "WasmRequest wire_tx \<in> set (handled ?h)" by (simp_all add: wire_end_net_def)
  then show ?thesis using delivered_authentic [OF wire_end_reachable, of ?h] by simp
qed


theorem failed_start_freezes_witness:
  "\<exists>h sv n'. start_vane_web3 sample_node ''relay'' ''0xaa'' ''Ethereum'' False True None (\<lambda>_. False) True []
       mem_initialize_db_client swarm_server_new = (Ok h, sv)
     \<and> (net_task wire_net)\<^sup>*\<^sup>* \<lparr>server = sv, clock = 0, hosts = [h]\<rparr> n' \<and> frozen (hosts n' ! 0)"
proof -
  let ?start = "start_vane_web3 sample_node ''relay'' ''0xaa'' ''Ethereum'' False True None (\<lambda>_. False) True []
       mem_initialize_db_client swarm_server_new"
  have "\<exists>h sv. ?start = (Ok h, sv)"
    by (simp add: start_vane_web3_def wasm_run_def main_worker_new_def run_simps Let_def start_swarm_handler_def
        p2p_start_def initial_state_def in_memory_db_ops_def mem_set_user_account_def)
  then obtain h sv where h: "?start = (Ok h, sv)" by blast
  let ?n = "\<lparr>server = sv, clock = 0, hosts = [h]\<rparr>"
  obtain n' where n': "(net_task wire_net)\<^sup>*\<^sup>* ?n n'" "at_rest wire_net n'" using net_task_rests by blast
  have "frozen (hosts n' ! 0)" by (rule failed_start_freezes [OF h _ _ _ n']) simp_all
  with h n' show ?thesis by blast
qed

end
