(* ===== verification/Wasm_Logging.thy ===== *)
theory Wasm_Logging
  imports Vane_Prelude
begin

text \<open>
  \<open>WasmLogger\<close> of \<open>node/wasm/src/logging.rs\<close>: the filter between the node's log lines and the host's
  \<open>log\<close> function. The facade is the \<open>log\<close> crate: a logger is installed once, and a line whose level is
  above the global maximum is dropped before the logger sees it. What the host receives is the
  list of its calls.
\<close>

section \<open>Levels and the facade\<close>

datatype level = Error | Warn | Info | Debug | Trace

fun level_num :: "level \<Rightarrow> u32" where
  "level_num Error = 1"
| "level_num Warn = 2"
| "level_num Info = 3"
| "level_num Debug = 4"
| "level_num Trace = 5"

record log_record =
  lr_level :: level
  lr_target :: string
  lr_message :: string
  lr_module_path :: "string option"
  lr_file :: "string option"
  lr_line :: "u32 option"

record host_log =
  hl_level :: u32
  hl_target :: string
  hl_message :: string
  hl_module_path :: "string option"
  hl_file :: "string option"
  hl_line :: "u32 option"

record log_state =
  logger_installed :: bool
  max_level :: "level option" \<comment> \<open>\<open>None\<close> is \<open>LevelFilter::Off\<close>, the initial value\<close>
  host_logs :: "host_log list"
  host_levels :: "u32 list"
  panic_hook :: bool

definition log_state_new :: log_state where
  "log_state_new = \<lparr>logger_installed = False, max_level = None, host_logs = [], host_levels = [],
     panic_hook = False\<rparr>"

datatype set_logger_error = SetLoggerError

text \<open>\<open>log::set_logger\<close> succeeds once; \<open>?\<close> leaves the maximum alone when it fails.\<close>

definition init_with :: "level \<Rightarrow> log_state \<Rightarrow> (set_logger_error + unit) \<times> log_state" where
  "init_with l s = (if logger_installed s then (Inl SetLoggerError, s)
     else (Inr (), s\<lparr>logger_installed := True, max_level := Some l\<rparr>))"

definition wasm_logger_init :: "log_state \<Rightarrow> (set_logger_error + unit) \<times> log_state" where
  "wasm_logger_init = init_with Info"

definition wasm_logger_init_debug :: "log_state \<Rightarrow> (set_logger_error + unit) \<times> log_state" where
  "wasm_logger_init_debug = init_with Debug"

definition set_log_level :: "level \<Rightarrow> log_state \<Rightarrow> log_state" where
  "set_log_level l s = s\<lparr>host_levels := host_levels s @ [level_num l]\<rparr>"

text \<open>The entry points. \<open>console_error_panic_hook::set_once\<close> installs the hook of the panics; it does nothing the
  second time.\<close>

definition set_once :: "log_state \<Rightarrow> log_state" where
  "set_once s = s\<lparr>panic_hook := True\<rparr>"

definition init_wasm_logging :: "log_state \<Rightarrow> (set_logger_error + unit) \<times> log_state" where
  "init_wasm_logging s = wasm_logger_init s"

definition init_clean_logging :: "log_state \<Rightarrow> (set_logger_error + unit) \<times> log_state" where
  "init_clean_logging s = wasm_logger_init (set_once s)"

definition init_debug_logging :: "log_state \<Rightarrow> (set_logger_error + unit) \<times> log_state" where
  "init_debug_logging s = wasm_logger_init_debug (set_once s)"

definition set_wasm_log_level :: "level \<Rightarrow> log_state \<Rightarrow> log_state" where
  "set_wasm_log_level l s = set_log_level l s"

section \<open>The filter\<close>

definition own_target :: "string \<Rightarrow> bool" where
  "own_target t \<longleftrightarrow> starts_with ''wasm_node'' t \<or> starts_with ''p2p'' t \<or> starts_with ''vane'' t
     \<or> starts_with ''MainServiceWorker'' t \<or> starts_with ''WasmTxProcessingWorker'' t
     \<or> starts_with ''interface'' t"

fun enabled :: "level \<Rightarrow> string \<Rightarrow> bool" where
  "enabled Error t = True"
| "enabled Warn t = (own_target t \<or> contains_str ''connection'' t \<or> contains_str ''failed'' t)"
| "enabled Info t = (own_target t \<or> contains_str ''connection'' t \<or> contains_str ''established'' t
     \<or> contains_str ''dial'' t)"
| "enabled Debug t = own_target t"
| "enabled Trace t = own_target t"

definition wasm_log :: "log_record \<Rightarrow> log_state \<Rightarrow> log_state" where
  "wasm_log r s = (if enabled (lr_level r) (lr_target r)
     then s\<lparr>host_logs := host_logs s @ [\<lparr>hl_level = level_num (lr_level r), hl_target = lr_target r,
        hl_message = lr_message r, hl_module_path = lr_module_path r, hl_file = lr_file r,
        hl_line = lr_line r\<rparr>]\<rparr>
     else s)"

text \<open>The macros of the \<open>log\<close> crate: the maximum is checked first, and without a logger nothing happens.\<close>

definition log_macro :: "log_record \<Rightarrow> log_state \<Rightarrow> log_state" where
  "log_macro r s = (case max_level s of
       None \<Rightarrow> s
     | Some l \<Rightarrow> if level_num (lr_level r) \<le> level_num l \<and> logger_installed s then wasm_log r s else s)"

section \<open>What reaches the host\<close>

lemma wasm_log_delivers:
  "host_logs (wasm_log r s) = host_logs s @ (if enabled (lr_level r) (lr_target r)
     then [\<lparr>hl_level = level_num (lr_level r), hl_target = lr_target r, hl_message = lr_message r,
        hl_module_path = lr_module_path r, hl_file = lr_file r, hl_line = lr_line r\<rparr>] else [])"
  by (simp add: wasm_log_def)

lemma log_macro_state:
  "logger_installed (log_macro r s) = logger_installed s" "max_level (log_macro r s) = max_level s"
  by (simp_all add: log_macro_def wasm_log_def split: option.splits)

text \<open>After a second initialisation, which fails, and any log lines, the host has received exactly the lines
  at level \<open>Info\<close> or below whose target passes the filter, in order; every error line is among them.\<close>

theorem log_delivery_exact:
  "map hl_message (host_logs (fold log_macro rs
       (snd (wasm_logger_init_debug (snd (wasm_logger_init log_state_new))))))
     = map lr_message (filter (\<lambda>r. lr_level r \<in> {Error, Warn, Info} \<and> enabled (lr_level r) (lr_target r)) rs)"
proof -
  have step: "logger_installed s \<Longrightarrow> max_level s = Some Info \<Longrightarrow>
    map hl_message (host_logs (fold log_macro rs s)) = map hl_message (host_logs s) @
      map lr_message (filter (\<lambda>r. lr_level r \<in> {Error, Warn, Info} \<and> enabled (lr_level r) (lr_target r)) rs)"
    for s
  proof (induction rs arbitrary: s)
    case (Cons r rs)
    have "level_num (lr_level r) \<le> 3 \<longleftrightarrow> lr_level r \<in> {Error, Warn, Info}"
      by (cases "lr_level r") simp_all
    then show ?case
      using Cons.IH [of "log_macro r s"] Cons.prems
      by (auto simp: log_macro_state) (auto simp: log_macro_def wasm_log_delivers)
  qed simp
  show ?thesis
    by (subst step) (simp_all add: log_state_new_def wasm_logger_init_def wasm_logger_init_debug_def init_with_def)
qed

text \<open>The level set for the host does not reach the filter: \<open>set_wasm_log_level\<close> only tells the host, so no later
  line is let through or held back by it. Only the first initialisation chooses the maximum.\<close>

inductive logging :: "log_state \<Rightarrow> log_state \<Rightarrow> bool" where
  init: "logging s (snd (init_wasm_logging s))"
| clean: "logging s (snd (init_clean_logging s))"
| debug: "logging s (snd (init_debug_logging s))"
| level: "logging s (set_wasm_log_level l s)"
| line: "logging s (log_macro r s)"

theorem max_level_fixed:
  assumes "logging\<^sup>*\<^sup>* s t" and "logger_installed s"
  shows "logger_installed t \<and> max_level t = max_level s"
  using assms
proof (induction rule: rtranclp_induct)
  case (step t u)
  from step.hyps(2) show ?case
    using step.IH [OF step.prems]
    by cases (simp_all add: init_wasm_logging_def init_clean_logging_def init_debug_logging_def set_once_def
        wasm_logger_init_def wasm_logger_init_debug_def init_with_def set_wasm_log_level_def set_log_level_def log_macro_state)
qed simp

text \<open>A line whose target the filter does not know reaches the host only if it is an error: for the
  target \<open>test\<close>, which the unit test of the file expects to be enabled at level \<open>Info\<close>, nothing below
  \<open>Error\<close> is.\<close>

theorem unknown_target_filtered:
  "enabled l ''test'' \<longleftrightarrow> l = Error"
  by (cases l) (simp_all add: own_target_def starts_with_def contains_str_def upt_rec)

end
