(* ===== verification/Db_Opfs.thy ===== *)
theory Db_Opfs
  imports Db_Wasm
begin

text \<open>
  \<open>OpfsRedbWorker\<close> and \<open>DbWorker\<close> of \<open>db-wasm/src/lib.rs\<close>: the same trait over the embedded database
  \<open>redb\<close>, and the enum that dispatches between the two workers. The crates \<open>redb\<close> and \<open>opfs\<close> are not
  part of the repository. A \<open>redb\<close> database is a handle with the operations of the record \<open>redb\<close>, each
  of which may fail; the locale \<open>redb\<close> states its promise: a transaction starts from the committed
  tables, a commit publishes the tables of the transaction, and a failed commit changes nothing. A
  write transaction that is dropped without a commit leaves no trace.

  Shown: every trait call either does what the abstract database does, or returns an error of
  \<open>redb\<close> and leaves the stored data as they were; over a \<open>redb\<close> that does not fail, the two workers
  answer alike.
\<close>

section \<open>The database engine\<close>

text \<open>The five tables, with the types of the table definitions at the top of the file.\<close>

type_synonym 'b tables = "'b in_memory_db_worker"

definition USER_ACCOUNT_TABLE :: string where "USER_ACCOUNT_TABLE = ''user_accounts''"
definition TRANSACTIONS_DATA_TABLE :: string where "TRANSACTIONS_DATA_TABLE = ''transactions_data''"
definition TRANSACTION_TABLE :: string where "TRANSACTION_TABLE = ''transactions''"
definition NONCE_TABLE :: string where "NONCE_TABLE = ''nonce''"
definition SAVED_PEERS_TABLE :: string where "SAVED_PEERS_TABLE = ''saved_peers''"

datatype redb_call = OpenTable string | Get string string | Insert string string

record ('h, 'b) redb =
  rd_create :: "string \<Rightarrow> string + 'h"
  rd_begin_read :: "'h \<Rightarrow> string + 'b tables"
  rd_begin_write :: "'h \<Rightarrow> string + 'b tables"
  rd_fault :: "redb_call \<Rightarrow> 'h \<Rightarrow> string option"
  rd_commit :: "'b tables \<Rightarrow> 'h \<Rightarrow> string option \<times> 'h"

definition read_txn :: "('h, 'b) redb \<Rightarrow> ('h \<Rightarrow> ('b tables, 'a) action) \<Rightarrow> ('h, 'a) action" where
  "read_txn R body = (\<lambda>h. case rd_begin_read R h of
       Inl e \<Rightarrow> (Err (RedbError e), h)
     | Inr t \<Rightarrow> (fst (body h t), h))"

text \<open>\<open>begin_write\<close>, the body on the transaction's own tables, and \<open>commit\<close>; when the body returns
  early the transaction is dropped.\<close>

definition write_txn :: "('h, 'b) redb \<Rightarrow> ('h \<Rightarrow> ('b tables, 'a) action) \<Rightarrow> ('h, 'a) action" where
  "write_txn R body = (\<lambda>h. case rd_begin_write R h of
       Inl e \<Rightarrow> (Err (RedbError e), h)
     | Inr t \<Rightarrow>
         (case body h t of
            (Ok x, t') \<Rightarrow>
              (case rd_commit R t' h of
                 (None, h') \<Rightarrow> (Ok x, h')
               | (Some e, h') \<Rightarrow> (Err (RedbError e), h'))
          | (Err e, _) \<Rightarrow> (Err e, h)
          | (Panic p, _) \<Rightarrow> (Panic p, h)))"

definition guarded :: "('h, 'b) redb \<Rightarrow> 'h \<Rightarrow> redb_call \<Rightarrow> ('b tables, 'a) action \<Rightarrow> ('b tables, 'a) action" where
  "guarded R h c m = (case rd_fault R c h of Some e \<Rightarrow> raise (RedbError e) | None \<Rightarrow> m)"

definition open_table :: "('h, 'b) redb \<Rightarrow> 'h \<Rightarrow> string \<Rightarrow> ('b tables, unit) action" where
  "open_table R h tbl = guarded R h (OpenTable tbl) (ret ())"

definition table_get ::
    "('h, 'b) redb \<Rightarrow> 'h \<Rightarrow> string \<Rightarrow> ('b tables \<Rightarrow> (string \<times> 'v) list) \<Rightarrow> string \<Rightarrow> ('b tables, 'v option) action" where
  "table_get R h tbl sel k = guarded R h (Get tbl k) (gets (\<lambda>t. map_of (sel t) k))"

definition table_insert ::
    "('h, 'b) redb \<Rightarrow> 'h \<Rightarrow> string \<Rightarrow> (((string \<times> 'v) list \<Rightarrow> (string \<times> 'v) list) \<Rightarrow> 'b tables \<Rightarrow> 'b tables)
       \<Rightarrow> string \<Rightarrow> 'v \<Rightarrow> ('b tables, unit) action" where
  "table_insert R h tbl upd k v = guarded R h (Insert tbl k) (modify (upd (AList.update k v)))"

section \<open>The file behind the database\<close>

record 'f opfs =
  fs_app_specific_dir :: "'f \<Rightarrow> string option"
  fs_get_file_handle :: "string \<Rightarrow> bool \<Rightarrow> 'f \<Rightarrow> string option \<times> 'f"
  fs_read :: "string \<Rightarrow> 'f \<Rightarrow> string + bytes"
  fs_create_writable :: "string \<Rightarrow> bool \<Rightarrow> 'f \<Rightarrow> string option \<times> 'f"
  fs_write_at_cursor_pos :: "string \<Rightarrow> bytes \<Rightarrow> 'f \<Rightarrow> string option \<times> 'f"
  fs_close :: "string \<Rightarrow> 'f \<Rightarrow> string option \<times> 'f"

definition fs_step :: "('f \<Rightarrow> string option \<times> 'f) \<Rightarrow> ('f, unit) action" where
  "fs_step m = (\<lambda>f. case m f of (None, f') \<Rightarrow> (Ok (), f') | (Some e, f') \<Rightarrow> (Err (OpfsError e), f'))"

definition opfs_file_system_new :: "'f opfs \<Rightarrow> string \<Rightarrow> ('f, unit) action" where
  "opfs_file_system_new F db_name =
     and_then (fs_step (\<lambda>f. (fs_app_specific_dir F f, f))) (\<lambda>_.
     fs_step (fs_get_file_handle F db_name True))"

definition get_db_bytes :: "'f opfs \<Rightarrow> string \<Rightarrow> ('f, bytes) action" where
  "get_db_bytes F db_name = (\<lambda>f. case fs_read F db_name f of
       Inl e \<Rightarrow> (Err (OpfsError e), f) | Inr bs \<Rightarrow> (Ok bs, f))"

definition save_db_bytes :: "'f opfs \<Rightarrow> string \<Rightarrow> bytes \<Rightarrow> ('f, unit) action" where
  "save_db_bytes F db_name bs =
     and_then (fs_step (fs_create_writable F db_name False)) (\<lambda>_.
     and_then (fs_step (fs_write_at_cursor_pos F db_name bs)) (\<lambda>_.
     fs_step (fs_close F db_name)))"

record ('h, 'f) opfs_redb_worker =
  ow_db :: 'h
  ow_fs :: 'f
  ow_file :: string

definition init_tables :: "('h, 'b) redb \<Rightarrow> ('h, unit) action" where
  "init_tables R = write_txn R (\<lambda>h.
     and_then (open_table R h USER_ACCOUNT_TABLE) (\<lambda>_.
     and_then (open_table R h TRANSACTIONS_DATA_TABLE) (\<lambda>_.
     and_then (open_table R h TRANSACTION_TABLE) (\<lambda>_.
     and_then (open_table R h NONCE_TABLE) (\<lambda>_.
     open_table R h SAVED_PEERS_TABLE)))))"

definition create_db :: "('h, 'b) redb \<Rightarrow> 'h outcome" where
  "create_db R = (case rd_create R ''vane_virtual.db'' of
       Inl e \<Rightarrow> Err (RedbError e)
     | Inr h \<Rightarrow> (case init_tables R h of
           (Ok _, h') \<Rightarrow> Ok h' | (Err e, _) \<Rightarrow> Err e | (Panic p, _) \<Rightarrow> Panic p))"

text \<open>\<open>OpfsRedbWorker::new\<close>: whether the file is empty or not, a new database is created; the
  bytes that were read are not used.\<close>

definition opfs_redb_worker_new ::
    "('h, 'b) redb \<Rightarrow> 'f opfs \<Rightarrow> string \<Rightarrow> 'f \<Rightarrow> ('h, 'f) opfs_redb_worker outcome" where
  "opfs_redb_worker_new R F db_name f =
     (case opfs_file_system_new F db_name f of
        (Err e, _) \<Rightarrow> Err e
      | (Panic p, _) \<Rightarrow> Panic p
      | (Ok _, f1) \<Rightarrow>
          (case get_db_bytes F db_name f1 of
             (Err e, _) \<Rightarrow> Err e
           | (Panic p, _) \<Rightarrow> Panic p
           | (Ok db_bytes, f2) \<Rightarrow>
               (case (if db_bytes = [] then create_db R else create_db R) of
                  Ok h \<Rightarrow> Ok \<lparr>ow_db = h, ow_fs = f2, ow_file = db_name\<rparr>
                | Err e \<Rightarrow> Err e
                | Panic p \<Rightarrow> Panic p)))"

definition persist_to_opfs :: "'f opfs \<Rightarrow> (('h, 'f) opfs_redb_worker, unit) action" where
  "persist_to_opfs F = (\<lambda>w.
     (let (r, f) = save_db_bytes F (ow_file w) (as_bytes ''REDB_DATABASE_EXISTS'') (ow_fs w)
      in (r, w\<lparr>ow_fs := f\<rparr>)))"

section \<open>The trait over redb\<close>

definition opfs_set_user_account :: "('h, 'b) redb \<Rightarrow> 'b codec \<Rightarrow> user_account \<Rightarrow> ('h, unit) action" where
  "opfs_set_user_account R C user = write_txn R (\<lambda>h.
     and_then (open_table R h USER_ACCOUNT_TABLE) (\<lambda>_.
     table_insert R h USER_ACCOUNT_TABLE user_accounts_update USER_ACC_KEY (enc_user C user)))"

text \<open>\<open>.get(USER_ACC_KEY)?.map(decode).ok_or_else("user account not found")?\<close>\<close>

definition opfs_read_user :: "('h, 'b) redb \<Rightarrow> 'b codec \<Rightarrow> 'h \<Rightarrow> ('b tables, user_account) action" where
  "opfs_read_user R C h =
     and_then (open_table R h USER_ACCOUNT_TABLE) (\<lambda>_.
     and_then (table_get R h USER_ACCOUNT_TABLE user_accounts USER_ACC_KEY) (\<lambda>v.
     and_then (decode_expect (dec_user C) v) (\<lambda>u.
       case u of None \<Rightarrow> raise UserAccountNotFound | Some user \<Rightarrow> ret user)))"

definition opfs_update_user_account ::
    "('h, 'b) redb \<Rightarrow> 'b codec \<Rightarrow> string \<Rightarrow> chain_supported \<Rightarrow> ('h, user_account) action" where
  "opfs_update_user_account R C account_id network =
     and_then (read_txn R (opfs_read_user R C)) (\<lambda>existing.
     if (account_id, network) \<in> set (accounts existing) then ret existing
     else write_txn R (\<lambda>h.
       and_then (opfs_read_user R C h) (\<lambda>user.
       (let user' = user\<lparr>accounts := accounts user @ [(account_id, network)]\<rparr> in
        and_then (table_insert R h USER_ACCOUNT_TABLE user_accounts_update USER_ACC_KEY (enc_user C user')) (\<lambda>_.
        ret user')))))"

definition opfs_get_user_account :: "('h, 'b) redb \<Rightarrow> 'b codec \<Rightarrow> ('h, user_account) action" where
  "opfs_get_user_account R C = read_txn R (opfs_read_user R C)"

definition opfs_get_nonce :: "('h, 'b) redb \<Rightarrow> ('h, u32) action" where
  "opfs_get_nonce R = read_txn R (\<lambda>h.
     and_then (open_table R h NONCE_TABLE) (\<lambda>_.
     and_then (table_get R h NONCE_TABLE nonces NONCE_KEY) (\<lambda>v.
     ret (case v of Some n \<Rightarrow> n | None \<Rightarrow> 0))))"

definition opfs_increment_nonce :: "('h, 'b) redb \<Rightarrow> ('h, unit) action" where
  "opfs_increment_nonce R = write_txn R (\<lambda>h.
     and_then (open_table R h NONCE_TABLE) (\<lambda>_.
     and_then (table_get R h NONCE_TABLE nonces NONCE_KEY) (\<lambda>v.
     (let current = (case v of Some n \<Rightarrow> n | None \<Rightarrow> 0) in
      table_insert R h NONCE_TABLE nonces_update NONCE_KEY (current + 1)))))"

definition opfs_set_nonce :: "('h, 'b) redb \<Rightarrow> u32 \<Rightarrow> ('h, unit) action" where
  "opfs_set_nonce R n = write_txn R (\<lambda>h.
     and_then (open_table R h NONCE_TABLE) (\<lambda>_.
     table_insert R h NONCE_TABLE nonces_update NONCE_KEY n))"

definition opfs_get_all_saved_peers_info :: "('h, 'b) redb \<Rightarrow> 'b codec \<Rightarrow> ('h, saved_peer_info list) action" where
  "opfs_get_all_saved_peers_info R C = read_txn R (\<lambda>h.
     and_then (open_table R h SAVED_PEERS_TABLE) (\<lambda>_.
     and_then (table_get R h SAVED_PEERS_TABLE saved_peers SAVED_PEERS_KEY) (\<lambda>v.
       case v of
         Some encoded \<Rightarrow>
           (case dec_peers C encoded of
              None \<Rightarrow> raise FailedToDecodeSavedPeers | Some ps \<Rightarrow> ret ps)
       | None \<Rightarrow> ret [])))"

definition opfs_get_saved_user_peers :: "('h, 'b) redb \<Rightarrow> 'b codec \<Rightarrow> string \<Rightarrow> ('h, string) action" where
  "opfs_get_saved_user_peers R C account_id =
     and_then (opfs_get_all_saved_peers_info R C) (\<lambda>ps.
       case first_with_account account_id ps of
         Some ma \<Rightarrow> ret ma | None \<Rightarrow> raise PeerNotFoundInDb)"

definition opfs_put_peers :: "('h, 'b) redb \<Rightarrow> 'b codec \<Rightarrow> saved_peer_info list \<Rightarrow> ('h, unit) action" where
  "opfs_put_peers R C ps = write_txn R (\<lambda>h.
     and_then (open_table R h SAVED_PEERS_TABLE) (\<lambda>_.
     table_insert R h SAVED_PEERS_TABLE saved_peers_update SAVED_PEERS_KEY (enc_peers C ps)))"

definition opfs_delete_saved_peer :: "('h, 'b) redb \<Rightarrow> 'b codec \<Rightarrow> string \<Rightarrow> ('h, unit) action" where
  "opfs_delete_saved_peer R C ma =
     and_then (opfs_get_all_saved_peers_info R C) (\<lambda>ps.
     (let original_len = length ps; ps' = filter (\<lambda>p. multi_addr p \<noteq> ma) ps in
      if length ps' = original_len then raise (PeerNotFoundWithMultiAddr ma)
      else opfs_put_peers R C ps'))"

definition opfs_record_saved_user_peers ::
    "('h, 'b) redb \<Rightarrow> 'b codec \<Rightarrow> string \<Rightarrow> string \<Rightarrow> ('h, unit) action" where
  "opfs_record_saved_user_peers R C account_id ma =
     and_then (opfs_get_all_saved_peers_info R C) (\<lambda>ps.
     (let ps' = (case position (\<lambda>p. multi_addr p = ma) ps of
          Some idx \<Rightarrow>
            (if account_id \<notin> set (account_ids (ps ! idx))
             then ps[idx := (ps ! idx)\<lparr>account_ids := account_ids (ps ! idx) @ [account_id]\<rparr>]
             else ps)
        | None \<Rightarrow> ps @ [\<lparr>peer_id = ma, multi_addr = ma, account_ids = [account_id]\<rparr>])
      in opfs_put_peers R C ps'))"

definition opfs_push_tx :: "('h, 'b) redb \<Rightarrow> 'h \<Rightarrow> string \<Rightarrow> 'b \<Rightarrow> ('b tables, unit) action" where
  "opfs_push_tx R h key tx_data =
     and_then (table_get R h TRANSACTION_TABLE transactions key) (\<lambda>v.
     (let to_store = (case v of Some saved_txs \<Rightarrow> saved_txs @ [tx_data] | None \<Rightarrow> [tx_data]) in
      table_insert R h TRANSACTION_TABLE transactions_update key to_store))"

definition opfs_totals :: "('h, 'b) redb \<Rightarrow> 'b codec \<Rightarrow> 'h \<Rightarrow> ('b tables, transactions_data) action" where
  "opfs_totals R C h =
     and_then (table_get R h TRANSACTIONS_DATA_TABLE transactions_data_tbl TXS_DATA_KEY) (\<lambda>v.
     and_then (decode_expect (dec_data C) v) (\<lambda>d.
     ret (case d of Some x \<Rightarrow> x | None \<Rightarrow> \<lparr>success_value = 0, failed_value = 0\<rparr>)))"

definition opfs_update_success_tx :: "('h, 'b) redb \<Rightarrow> 'b codec \<Rightarrow> db_tx_state_machine \<Rightarrow> ('h, unit) action" where
  "opfs_update_success_tx R C tx_state = write_txn R (\<lambda>h.
     and_then (open_table R h TRANSACTION_TABLE) (\<lambda>_.
     and_then (open_table R h TRANSACTIONS_DATA_TABLE) (\<lambda>_.
     and_then (opfs_push_tx R h SUCCESS_TXS_KEY (enc_tx C tx_state)) (\<lambda>_.
     and_then (opfs_totals R C h) (\<lambda>current.
     table_insert R h TRANSACTIONS_DATA_TABLE transactions_data_tbl_update TXS_DATA_KEY
       (enc_data C (current\<lparr>success_value := success_value current + ucast (db_amount tx_state)\<rparr>)))))))"

definition opfs_update_failed_tx :: "('h, 'b) redb \<Rightarrow> 'b codec \<Rightarrow> db_tx_state_machine \<Rightarrow> ('h, unit) action" where
  "opfs_update_failed_tx R C tx_state = write_txn R (\<lambda>h.
     and_then (open_table R h TRANSACTION_TABLE) (\<lambda>_.
     and_then (open_table R h TRANSACTIONS_DATA_TABLE) (\<lambda>_.
     and_then (opfs_push_tx R h FAILED_TXS_KEY (enc_tx C tx_state)) (\<lambda>_.
     and_then (opfs_totals R C h) (\<lambda>current.
     table_insert R h TRANSACTIONS_DATA_TABLE transactions_data_tbl_update TXS_DATA_KEY
       (enc_data C (current\<lparr>failed_value := failed_value current + ucast (db_amount tx_state)\<rparr>)))))))"

text \<open>Here an undecodable transaction is an error; the in-memory worker panics on it.\<close>

fun decode_all_or_err :: "('b \<Rightarrow> 'a option) \<Rightarrow> 'b list \<Rightarrow> ('s, 'a list) action" where
  "decode_all_or_err dec [] = ret []"
| "decode_all_or_err dec (b # bs) = (case dec b of
       None \<Rightarrow> raise (SerdeCustom ''failed to decode'')
     | Some x \<Rightarrow> and_then (decode_all_or_err dec bs) (\<lambda>xs. ret (x # xs)))"

definition opfs_read_txs :: "('h, 'b) redb \<Rightarrow> 'b codec \<Rightarrow> string \<Rightarrow> ('h, db_tx_state_machine list) action" where
  "opfs_read_txs R C key = read_txn R (\<lambda>h.
     and_then (open_table R h TRANSACTION_TABLE) (\<lambda>_.
     and_then (table_get R h TRANSACTION_TABLE transactions key) (\<lambda>v.
       case v of Some values \<Rightarrow> decode_all_or_err (dec_tx C) values | None \<Rightarrow> ret [])))"

definition opfs_get_failed_txs :: "('h, 'b) redb \<Rightarrow> 'b codec \<Rightarrow> ('h, db_tx_state_machine list) action" where
  "opfs_get_failed_txs R C = opfs_read_txs R C FAILED_TXS_KEY"

definition opfs_get_success_txs :: "('h, 'b) redb \<Rightarrow> 'b codec \<Rightarrow> ('h, db_tx_state_machine list) action" where
  "opfs_get_success_txs R C = opfs_read_txs R C SUCCESS_TXS_KEY"

definition opfs_get_total_value_success :: "('h, 'b) redb \<Rightarrow> 'b codec \<Rightarrow> ('h, u128) action" where
  "opfs_get_total_value_success R C = read_txn R (\<lambda>h.
     and_then (open_table R h TRANSACTIONS_DATA_TABLE) (\<lambda>_.
     and_then (opfs_totals R C h) (\<lambda>d. ret (scast (success_value d)))))"

definition opfs_get_total_value_failed :: "('h, 'b) redb \<Rightarrow> 'b codec \<Rightarrow> ('h, u128) action" where
  "opfs_get_total_value_failed R C = read_txn R (\<lambda>h.
     and_then (open_table R h TRANSACTIONS_DATA_TABLE) (\<lambda>_.
     and_then (opfs_totals R C h) (\<lambda>d. ret (scast (failed_value d)))))"

text \<open>The worker keeps the handle in its field \<open>db\<close>.\<close>

definition on_redb :: "('h, 'a) action \<Rightarrow> (('h, 'f) opfs_redb_worker, 'a) action" where
  "on_redb m = (\<lambda>w. (fst (m (ow_db w)), w\<lparr>ow_db := snd (m (ow_db w))\<rparr>))"

definition opfs_db_ops :: "('h, 'b) redb \<Rightarrow> 'b codec \<Rightarrow> ('h, 'f) opfs_redb_worker db_ops" where
  "opfs_db_ops R C =
     \<lparr>op_set_user_account = (\<lambda>u. on_redb (opfs_set_user_account R C u)),
      op_update_user_account = (\<lambda>acc net. on_redb (opfs_update_user_account R C acc net)),
      op_get_nonce = on_redb (opfs_get_nonce R),
      op_set_nonce = (\<lambda>n. on_redb (opfs_set_nonce R n)),
      op_get_user_account = on_redb (opfs_get_user_account R C),
      op_update_success_tx = (\<lambda>t. on_redb (opfs_update_success_tx R C t)),
      op_update_failed_tx = (\<lambda>t. on_redb (opfs_update_failed_tx R C t)),
      op_get_failed_txs = on_redb (opfs_get_failed_txs R C),
      op_get_total_value_success = on_redb (opfs_get_total_value_success R C),
      op_get_total_value_failed = on_redb (opfs_get_total_value_failed R C),
      op_get_success_txs = on_redb (opfs_get_success_txs R C),
      op_increment_nonce = on_redb (opfs_increment_nonce R),
      op_get_all_saved_peers_info = on_redb (opfs_get_all_saved_peers_info R C),
      op_get_saved_user_peers = (\<lambda>acc. on_redb (opfs_get_saved_user_peers R C acc)),
      op_delete_saved_peer = (\<lambda>ma. on_redb (opfs_delete_saved_peer R C ma)),
      op_record_saved_user_peers = (\<lambda>acc ma. on_redb (opfs_record_saved_user_peers R C acc ma))\<rparr>"

section \<open>The enum over both workers\<close>

datatype ('h, 'f, 'b) db_worker =
    Opfs "('h, 'f) opfs_redb_worker"
  | InMemory "'b in_memory_db_worker"

definition initialize_opfs_db_client ::
    "('h, 'b) redb \<Rightarrow> 'f opfs \<Rightarrow> string \<Rightarrow> 'f \<Rightarrow> ('h, 'f, 'b) db_worker outcome" where
  "initialize_opfs_db_client R F file_url f = (case opfs_redb_worker_new R F file_url f of
       Ok worker \<Rightarrow> Ok (Opfs worker) | Err e \<Rightarrow> Err e | Panic p \<Rightarrow> Panic p)"

definition initialize_inmemory_db_client :: "string \<Rightarrow> ('h, 'f, 'b) db_worker outcome" where
  "initialize_inmemory_db_client file_url = Ok (InMemory mem_initialize_db_client)"

definition initialize_db_client :: "string \<Rightarrow> ('h, 'f, 'b) db_worker outcome" where
  "initialize_db_client file_url = initialize_inmemory_db_client file_url"

definition dispatch ::
    "(('h, 'f) opfs_redb_worker, 'a) action \<Rightarrow> ('b in_memory_db_worker, 'a) action
       \<Rightarrow> (('h, 'f, 'b) db_worker, 'a) action" where
  "dispatch m n = (\<lambda>w. case w of
       Opfs worker \<Rightarrow> (fst (m worker), Opfs (snd (m worker)))
     | InMemory worker \<Rightarrow> (fst (n worker), InMemory (snd (n worker))))"

definition db_worker_ops :: "('h, 'b) redb \<Rightarrow> 'b codec \<Rightarrow> ('h, 'f, 'b) db_worker db_ops" where
  "db_worker_ops R C =
     (let O' = opfs_db_ops R C; M = in_memory_db_ops C in
     \<lparr>op_set_user_account = (\<lambda>u. dispatch (op_set_user_account O' u) (op_set_user_account M u)),
      op_update_user_account =
        (\<lambda>acc net. dispatch (op_update_user_account O' acc net) (op_update_user_account M acc net)),
      op_get_nonce = dispatch (op_get_nonce O') (op_get_nonce M),
      op_set_nonce = (\<lambda>n. dispatch (op_set_nonce O' n) (op_set_nonce M n)),
      op_get_user_account = dispatch (op_get_user_account O') (op_get_user_account M),
      op_update_success_tx = (\<lambda>t. dispatch (op_update_success_tx O' t) (op_update_success_tx M t)),
      op_update_failed_tx = (\<lambda>t. dispatch (op_update_failed_tx O' t) (op_update_failed_tx M t)),
      op_get_failed_txs = dispatch (op_get_failed_txs O') (op_get_failed_txs M),
      op_get_total_value_success =
        dispatch (op_get_total_value_success O') (op_get_total_value_success M),
      op_get_total_value_failed =
        dispatch (op_get_total_value_failed O') (op_get_total_value_failed M),
      op_get_success_txs = dispatch (op_get_success_txs O') (op_get_success_txs M),
      op_increment_nonce = dispatch (op_increment_nonce O') (op_increment_nonce M),
      op_get_all_saved_peers_info =
        dispatch (op_get_all_saved_peers_info O') (op_get_all_saved_peers_info M),
      op_get_saved_user_peers =
        (\<lambda>acc. dispatch (op_get_saved_user_peers O' acc) (op_get_saved_user_peers M acc)),
      op_delete_saved_peer =
        (\<lambda>ma. dispatch (op_delete_saved_peer O' ma) (op_delete_saved_peer M ma)),
      op_record_saved_user_peers =
        (\<lambda>acc ma. dispatch (op_record_saved_user_peers O' acc ma)
           (op_record_saved_user_peers M acc ma))\<rparr>)"

section \<open>Simulation up to engine errors\<close>

text \<open>An action that either fails with an engine error and leaves the view alone, or does what the
  abstract action does. Without engine errors this is \<open>simulates\<close>.\<close>

definition attempts ::
    "string set \<Rightarrow> ('s \<Rightarrow> 'v) \<Rightarrow> ('s \<Rightarrow> bool) \<Rightarrow> ('s, 'a) action \<Rightarrow> ('v, 'a) action \<Rightarrow> bool" where
  "attempts F view good m m' \<longleftrightarrow> (\<forall>s. good s \<longrightarrow> good (snd (m s)) \<and>
     ((\<exists>e \<in> F. fst (m s) = Err (RedbError e)) \<and> view (snd (m s)) = view s
      \<or> m' (view s) = (fst (m s), view (snd (m s)))))"

lemma attempts_empty: "attempts {} view good m m' \<longleftrightarrow> simulates view good m m'"
  by (simp add: attempts_def simulates_def)

lemma attempts_simulates:
  assumes "attempts F view (\<lambda>s. good (view s)) m n" "simulates view' good n n'"
  shows "attempts F (\<lambda>s. view' (view s)) (\<lambda>s. good (view s)) m n'"
  using assms unfolding attempts_def simulates_def by fastforce

lemma attempts_reply:
  "attempts F view good m m' \<Longrightarrow> attempts F view good (reply f m) (reply f m')"
  unfolding attempts_def reply_def run_and_then
  by (fastforce simp: run_simps split: prod.splits outcome.splits)

text \<open>The same on the tables of one transaction, where a failed body is thrown away.\<close>

definition faulty :: "string set \<Rightarrow> ('s, 'a) action \<Rightarrow> ('s, 'a) action \<Rightarrow> bool" where
  "faulty F m n \<longleftrightarrow> (\<forall>t. (\<exists>e \<in> F. fst (m t) = Err (RedbError e)) \<or> m t = n t)"

named_theorems faulty_intros \<open>bodies of transactions up to engine errors\<close>

lemma faulty_refl [faulty_intros]: "faulty F m m"
  by (simp add: faulty_def)

lemma faulty_and_then [faulty_intros]:
  assumes "faulty F m n" "\<And>x. faulty F (f x) (g x)"
  shows "faulty F (and_then m f) (and_then n g)"
  unfolding faulty_def
proof
  fix t
  from assms(1) consider e where "e \<in> F" "fst (m t) = Err (RedbError e)" | "m t = n t"
    unfolding faulty_def by blast
  then show "(\<exists>e \<in> F. fst (and_then m f t) = Err (RedbError e)) \<or> and_then m f t = and_then n g t"
  proof cases
    case 1
    then show ?thesis by (cases "m t") (auto simp: run_simps)
  next
    case 2
    show ?thesis
    proof (cases "n t")
      case (Pair r u)
      then show ?thesis using 2 assms(2) by (cases r) (auto simp: run_simps faulty_def)
    qed
  qed
qed

lemma faulty_Let: "(\<And>x. faulty F (f x) (g x)) \<Longrightarrow> faulty F (let x = v in f x) (let x = v in g x)"
  by simp

locale redb =
  fixes R :: "('h, 'b) redb" and contents :: "'h \<Rightarrow> 'b tables" and faults :: "string set"
  assumes begin_read: "(case rd_begin_read R h of Inl e \<Rightarrow> e \<in> faults | Inr t \<Rightarrow> t = contents h)"
    and begin_write: "(case rd_begin_write R h of Inl e \<Rightarrow> e \<in> faults | Inr t \<Rightarrow> t = contents h)"
    and fault: "rd_fault R c h = Some e \<Longrightarrow> e \<in> faults"
    and commit: "(case rd_commit R t h of
       (None, h') \<Rightarrow> contents h' = t | (Some e, h') \<Rightarrow> e \<in> faults \<and> contents h' = contents h)"
begin

lemma faulty_guarded: "faulty faults m n \<Longrightarrow> faulty faults (guarded R h c m) n"
  unfolding guarded_def
  by (auto simp: faulty_def run_simps split: option.splits dest: fault)

lemma faulty_open_table [faulty_intros]: "faulty faults (open_table R h tbl) (ret ())"
  unfolding open_table_def by (intro faulty_guarded faulty_refl)

lemma faulty_table_get [faulty_intros]:
  "faulty faults (table_get R h tbl sel k) (gets (\<lambda>t. map_of (sel t) k))"
  unfolding table_get_def by (intro faulty_guarded faulty_refl)

lemma faulty_table_insert [faulty_intros]:
  "faulty faults (table_insert R h tbl upd k v) (modify (upd (AList.update k v)))"
  unfolding table_insert_def by (intro faulty_guarded faulty_refl)

lemma read_txn_attempts:
  assumes "\<And>h. faulty faults (body h) n'" "\<And>t. good t \<Longrightarrow> n' t = n t" "\<And>t. good t \<Longrightarrow> snd (n t) = t"
  shows "attempts faults contents (\<lambda>h. good (contents h)) (read_txn R body) n"
  unfolding attempts_def
proof (intro allI impI)
  fix h assume good: "good (contents h)"
  show "good (contents (snd (read_txn R body h))) \<and>
     ((\<exists>e \<in> faults. fst (read_txn R body h) = Err (RedbError e))
        \<and> contents (snd (read_txn R body h)) = contents h
      \<or> n (contents h) = (fst (read_txn R body h), contents (snd (read_txn R body h))))"
  proof (cases "rd_begin_read R h")
    case (Inl e)
    then show ?thesis using begin_read [of h] good by (simp add: read_txn_def)
  next
    case (Inr t)
    then have t: "t = contents h" using begin_read [of h] by simp
    have "(\<exists>e \<in> faults. fst (body h t) = Err (RedbError e)) \<or> body h t = n t"
      using assms(1) [of h] assms(2) [OF good] unfolding faulty_def t by metis
    then show ?thesis using Inr good assms(3) [OF good] unfolding t
      by (auto simp: read_txn_def prod_eq_iff)
  qed
qed

lemma write_txn_attempts:
  assumes body: "\<And>h. faulty faults (body h) n'" "\<And>t. good t \<Longrightarrow> n' t = n t"
    and keeps: "\<And>t. good t \<Longrightarrow> good (snd (n t))"
    and fails: "\<And>t. good t \<Longrightarrow> (\<exists>x. fst (n t) = Ok x) \<or> snd (n t) = t"
  shows "attempts faults contents (\<lambda>h. good (contents h)) (write_txn R body) n"
  unfolding attempts_def
proof (intro allI impI)
  fix h assume good: "good (contents h)"
  let ?m = "write_txn R body h"
  show "good (contents (snd ?m)) \<and>
     ((\<exists>e \<in> faults. fst ?m = Err (RedbError e)) \<and> contents (snd ?m) = contents h
      \<or> n (contents h) = (fst ?m, contents (snd ?m)))"
  proof (cases "rd_begin_write R h")
    case (Inl e)
    then show ?thesis using begin_write [of h] good by (simp add: write_txn_def)
  next
    case (Inr t)
    then have t: "t = contents h" using begin_write [of h] by simp
    consider e where "e \<in> faults" "fst (body h t) = Err (RedbError e)" | "body h t = n t"
      using body(1) [of h] body(2) [OF good] unfolding faulty_def t by metis
    then show ?thesis
    proof cases
      case 1
      then show ?thesis using Inr good by (cases "body h t") (auto simp: write_txn_def)
    next
      case 2
      obtain r t' where n: "n t = (r, t')" by (cases "n t")
      show ?thesis
      proof (cases r)
        case (Ok x)
        obtain c h' where c: "rd_commit R t' h = (c, h')" by (cases "rd_commit R t' h")
        show ?thesis using Inr 2 n Ok c good keeps [OF good] commit [of t' h] t
          by (cases c) (auto simp: write_txn_def)
      qed (use Inr 2 n good fails [OF good] t in \<open>auto simp: write_txn_def\<close>)
    qed
  qed
qed

text \<open>A reading step followed by a second step.\<close>

lemma attempts_then:
  assumes m: "attempts faults contents (\<lambda>h. good (contents h)) m n"
    and n: "\<And>t. good t \<Longrightarrow> snd (n t) = t"
    and f: "\<And>x. attempts faults contents (\<lambda>h. good (contents h)) (f x) (g x)"
  shows "attempts faults contents (\<lambda>h. good (contents h)) (and_then m f) (and_then n g)"
  unfolding attempts_def
proof (intro allI impI)
  fix h assume good: "good (contents h)"
  let ?a = "and_then m f h"
  obtain r h' where mh: "m h = (r, h')" by (cases "m h")
  have h': "contents h' = contents h" "good (contents h')"
    using m n [OF good] good mh unfolding attempts_def by (metis fst_conv snd_conv)+
  have r: "(\<exists>e \<in> faults. r = Err (RedbError e)) \<or> n (contents h) = (r, contents h)"
    using m good mh h'(1) unfolding attempts_def by (metis fst_conv snd_conv)
  show "good (contents (snd ?a)) \<and>
     ((\<exists>e \<in> faults. fst ?a = Err (RedbError e)) \<and> contents (snd ?a) = contents h
      \<or> and_then n g (contents h) = (fst ?a, contents (snd ?a)))"
  proof (cases r)
    case (Ok x)
    with r have "n (contents h) = (Ok x, contents h)" by auto
    with f [of x, unfolded attempts_def, rule_format, OF h'(2)] Ok mh h'(1)
    show ?thesis by (simp add: run_simps)
  qed (use r mh h' good in \<open>auto simp: run_simps\<close>)
qed

end

section \<open>Each trait method\<close>

lemma good_decode_all_or_err:
  "\<forall>b \<in> set bs. dec b \<noteq> None \<Longrightarrow> decode_all_or_err dec bs s = decode_all dec bs s"
  by (induction bs) (auto simp: run_simps)

text \<open>A table updated through a function is the table replaced.\<close>

lemma modify_tables:
  "modify (transactions_data_tbl_update f) =
     modify (\<lambda>s. s\<lparr>transactions_data_tbl := f (transactions_data_tbl s)\<rparr>)"
  "modify (transactions_update g) = modify (\<lambda>s. s\<lparr>transactions := g (transactions s)\<rparr>)"
  by (rule ext, simp add: run_simps)+

lemma ret_unit_then: "and_then (ret ()) f = f ()"
  by (simp add: and_then_def ret_def)

locale opfs_engine = redb R contents faults + scale_codec C
  for R :: "('h, 'b) redb" and contents :: "'h \<Rightarrow> 'b tables" and faults :: "string set"
    and C :: "'b codec"
begin

abbreviation tries :: "('h, 'a) action \<Rightarrow> ('b tables, 'a) action \<Rightarrow> bool" where
  "tries \<equiv> attempts faults contents (\<lambda>h. mem_good C (contents h))"

lemma good_after:
  assumes "simulates view (mem_good C) n n'" "mem_good C t"
  shows "mem_good C (snd (n t))"
  using assms by (simp add: simulates_def)

lemma tries_set_user_account: "tries (opfs_set_user_account R C u) (mem_set_user_account C u)"
  unfolding opfs_set_user_account_def
  by (rule write_txn_attempts, (rule faulty_intros)+)
    (simp_all add: mem_set_user_account_def run_simps good_put_user)

lemma faulty_read_user:
  "faulty faults (opfs_read_user R C h) (mem_get_user_account C)"
proof -
  let ?n = "and_then (ret ()) (\<lambda>_.
     and_then (gets (\<lambda>t. map_of (user_accounts t) USER_ACC_KEY)) (\<lambda>v.
     and_then (decode_expect (dec_user C) v) (\<lambda>u.
       case u of None \<Rightarrow> raise UserAccountNotFound | Some user \<Rightarrow> ret user)))"
  have "faulty faults (opfs_read_user R C h) ?n"
    unfolding opfs_read_user_def by (intro faulty_intros)
  then show ?thesis by (simp add: mem_get_user_account_def and_then_def ret_def)
qed

lemma read_user_keeps: "mem_good C t \<Longrightarrow> snd (mem_get_user_account C t) = t"
  by (simp add: mem_get_user_account_def run_simps run_mem_user split: option.splits)

lemma tries_get_user_account: "tries (opfs_get_user_account R C) (mem_get_user_account C)"
  unfolding opfs_get_user_account_def
  by (rule read_txn_attempts [OF faulty_read_user]) (simp_all add: read_user_keeps)

lemma tries_get_nonce: "tries (opfs_get_nonce R) mem_get_nonce"
  unfolding opfs_get_nonce_def
  by (rule read_txn_attempts, (rule faulty_intros)+)
    (simp_all add: mem_get_nonce_def run_simps)

lemma tries_set_nonce: "tries (opfs_set_nonce R n) (mem_set_nonce n)"
  unfolding opfs_set_nonce_def
  by (rule write_txn_attempts, (rule faulty_intros)+)
    (simp_all add: mem_set_nonce_def run_simps mem_good_def)

lemma tries_increment_nonce: "tries (opfs_increment_nonce R) mem_increment_nonce"
  unfolding opfs_increment_nonce_def Let_def
  by (rule write_txn_attempts, (rule faulty_intros)+)
    (simp_all add: mem_increment_nonce_def run_simps mem_good_def)

lemma good_insert_user:
  "mem_good C t \<Longrightarrow> mem_good C (user_accounts_update (AList.update USER_ACC_KEY (enc_user C u)) t)"
  by (simp add: mem_good_def)

lemma tries_update_user_account:
  "tries (opfs_update_user_account R C acc net) (mem_update_user_account C acc net)"
proof -
  let ?put = "\<lambda>user. (let user' = user\<lparr>accounts := accounts user @ [(acc, net)]\<rparr> in
     and_then (modify (user_accounts_update (AList.update USER_ACC_KEY (enc_user C user')))) (\<lambda>_.
     ret user'))"
  let ?n = "and_then (mem_get_user_account C) (\<lambda>existing.
     if (acc, net) \<in> set (accounts existing) then ret existing
     else and_then (mem_get_user_account C) ?put)"
  have wr: "tries (write_txn R (\<lambda>h. and_then (opfs_read_user R C h) (\<lambda>user.
       (let user' = user\<lparr>accounts := accounts user @ [(acc, net)]\<rparr> in
        and_then (table_insert R h USER_ACCOUNT_TABLE user_accounts_update USER_ACC_KEY (enc_user C user')) (\<lambda>_.
        ret user'))))) (and_then (mem_get_user_account C) ?put)"
  proof (rule write_txn_attempts)
    show "faulty faults (and_then (opfs_read_user R C h) (\<lambda>user.
       (let user' = user\<lparr>accounts := accounts user @ [(acc, net)]\<rparr> in
        and_then (table_insert R h USER_ACCOUNT_TABLE user_accounts_update USER_ACC_KEY (enc_user C user')) (\<lambda>_.
        ret user')))) (and_then (mem_get_user_account C) ?put)" for h
      unfolding Let_def by (rule faulty_and_then [OF faulty_read_user]) (rule faulty_intros)+
  qed (simp_all add: mem_get_user_account_def run_simps run_mem_user good_insert_user Let_def split: option.splits)
  have "tries (opfs_update_user_account R C acc net) ?n"
    unfolding opfs_update_user_account_def
  proof (rule attempts_then [OF tries_get_user_account [unfolded opfs_get_user_account_def]])
    show "tries (if (acc, net) \<in> set (accounts x) then ret x else write_txn R (\<lambda>h.
        and_then (opfs_read_user R C h) (\<lambda>user.
       (let user' = user\<lparr>accounts := accounts user @ [(acc, net)]\<rparr> in
        and_then (table_insert R h USER_ACCOUNT_TABLE user_accounts_update USER_ACC_KEY (enc_user C user')) (\<lambda>_.
        ret user')))))
      (if (acc, net) \<in> set (accounts x) then ret x
       else and_then (mem_get_user_account C) ?put)" for x
      using wr by (simp add: attempts_def run_simps)
  qed (simp add: read_user_keeps)
  moreover have "?n t = mem_update_user_account C acc net t" if "mem_good C t" for t
    using that
    by (simp add: mem_get_user_account_def mem_update_user_account_def run_simps run_mem_user Let_def
        split: option.splits)
  ultimately show ?thesis unfolding attempts_def by simp
qed

lemma tries_get_all_saved_peers_info:
  "tries (opfs_get_all_saved_peers_info R C) (mem_get_all_saved_peers_info C)"
  unfolding opfs_get_all_saved_peers_info_def
  by (rule read_txn_attempts, (rule faulty_intros)+)
    (simp_all add: mem_get_all_saved_peers_info_def run_simps split: option.splits)

lemma tries_put_peers:
  "tries (opfs_put_peers R C ps)
     (modify (\<lambda>s. s\<lparr>saved_peers := AList.update SAVED_PEERS_KEY (enc_peers C ps) (saved_peers s)\<rparr>))"
  unfolding opfs_put_peers_def
  by (rule write_txn_attempts, (rule faulty_intros)+) (simp_all add: run_simps good_put_peers)

lemma tries_ret: "tries (ret x) (ret x)"
  and tries_raise: "tries (raise e) (raise e)"
  by (simp_all add: attempts_def run_simps)

lemma tries_peers_then:
  assumes "\<And>ps. tries (f ps) (g ps)"
  shows "tries (and_then (opfs_get_all_saved_peers_info R C) f)
           (and_then (mem_get_all_saved_peers_info C) g)"
  by (rule attempts_then [OF tries_get_all_saved_peers_info _ assms]) (simp add: run_mem_peers)

lemma tries_get_saved_user_peers:
  "tries (opfs_get_saved_user_peers R C acc) (mem_get_saved_user_peers C acc)"
  unfolding opfs_get_saved_user_peers_def mem_get_saved_user_peers_def
  by (rule tries_peers_then) (simp add: tries_ret tries_raise split: option.splits)

lemma tries_delete_saved_peer:
  "tries (opfs_delete_saved_peer R C ma) (mem_delete_saved_peer C ma)"
  unfolding opfs_delete_saved_peer_def mem_delete_saved_peer_def
  by (rule tries_peers_then) (simp add: Let_def tries_raise tries_put_peers)

lemma tries_record_saved_user_peers:
  "tries (opfs_record_saved_user_peers R C acc ma) (mem_record_saved_user_peers C acc ma)"
  unfolding opfs_record_saved_user_peers_def mem_record_saved_user_peers_def
  by (rule tries_peers_then) (simp add: Let_def tries_put_peers)

lemma faulty_totals: "faulty faults (opfs_totals R C h) (mem_totals C)"
  unfolding opfs_totals_def mem_totals_def by (rule faulty_intros)+

lemma faulty_push_tx: "faulty faults (opfs_push_tx R h key b) (mem_push_tx key b)"
proof -
  have "mem_push_tx key b = and_then (gets (\<lambda>t. map_of (transactions t) key)) (\<lambda>v.
     modify (transactions_update
       (AList.update key (case v of Some saved_txs \<Rightarrow> saved_txs @ [b] | None \<Rightarrow> [b]))))"
    by (simp add: mem_push_tx_def and_then_def gets_def modify_tables run_modify)
       (simp add: modify_def)
  then show ?thesis unfolding opfs_push_tx_def Let_def by (simp only:) (rule faulty_intros)+
qed

lemma good_update_success: "mem_good C t \<Longrightarrow>
    mem_good C (snd (mem_update_success_tx C tx t)) \<and> fst (mem_update_success_tx C tx t) = Ok ()"
  using sim_update_success_tx [of tx]
  by (simp add: simulates_def in_memory_db_ops_def spec_db_ops_def spec_update_success_tx_def run_simps)

lemma good_update_failed: "mem_good C t \<Longrightarrow>
    mem_good C (snd (mem_update_failed_tx C tx t)) \<and> fst (mem_update_failed_tx C tx t) = Ok ()"
  using sim_update_failed_tx [of tx]
  by (simp add: simulates_def in_memory_db_ops_def spec_db_ops_def spec_update_failed_tx_def run_simps)

lemma tries_update_success_tx: "tries (opfs_update_success_tx R C tx) (mem_update_success_tx C tx)"
  unfolding opfs_update_success_tx_def
  by (rule write_txn_attempts,
      (rule faulty_push_tx faulty_totals faulty_and_then faulty_open_table faulty_table_insert)+)
    (simp_all add: good_update_success, simp add: mem_update_success_tx_def modify_tables ret_unit_then)

lemma tries_update_failed_tx: "tries (opfs_update_failed_tx R C tx) (mem_update_failed_tx C tx)"
  unfolding opfs_update_failed_tx_def
  by (rule write_txn_attempts,
      (rule faulty_push_tx faulty_totals faulty_and_then faulty_open_table faulty_table_insert)+)
    (simp_all add: good_update_failed, simp add: mem_update_failed_tx_def modify_tables ret_unit_then)

lemma tries_read_txs:
  "tries (opfs_read_txs R C key)
     (and_then (gets (\<lambda>s. case map_of (transactions s) key of Some v \<Rightarrow> v | None \<Rightarrow> []))
       (decode_all (dec_tx C)))"
  unfolding opfs_read_txs_def
  by (rule read_txn_attempts, (rule faulty_intros)+)
    (auto simp: run_simps good_decode_all_or_err run_decode_all split: option.splits dest: good_txs)

lemma tries_get_total:
  "tries (read_txn R (\<lambda>h. and_then (open_table R h TRANSACTIONS_DATA_TABLE) (\<lambda>_.
       and_then (opfs_totals R C h) (\<lambda>d. ret (f d)))))
     (and_then (mem_totals C) (\<lambda>d. ret (f d)))"
  by (rule read_txn_attempts, (rule faulty_totals faulty_and_then faulty_open_table faulty_refl)+)
    (simp_all add: run_simps run_mem_totals)

lemma tries_reads:
  shows tries_get_failed_txs: "tries (opfs_get_failed_txs R C) (mem_get_failed_txs C)"
    and tries_get_success_txs: "tries (opfs_get_success_txs R C) (mem_get_success_txs C)"
    and tries_get_total_value_success:
      "tries (opfs_get_total_value_success R C) (mem_get_total_value_success C)"
    and tries_get_total_value_failed:
      "tries (opfs_get_total_value_failed R C) (mem_get_total_value_failed C)"
  unfolding opfs_get_failed_txs_def opfs_get_success_txs_def mem_get_failed_txs_def
    mem_get_success_txs_def opfs_get_total_value_success_def opfs_get_total_value_failed_def
    mem_get_total_value_success_def mem_get_total_value_failed_def
  by (rule tries_read_txs tries_get_total)+

end

section \<open>A worker that may fail\<close>

text \<open>The calls that no engine error stopped, with their replies.\<close>

fun engine_error :: "'a outcome \<Rightarrow> bool" where
  "engine_error (Err (RedbError e)) = True"
| "engine_error _ = False"

definition completed :: "db_call list \<Rightarrow> db_reply outcome list \<Rightarrow> (db_call \<times> db_reply outcome) list" where
  "completed cs rs = filter (\<lambda>(c, r). \<not> engine_error r) (zip cs rs)"

lemma spec_call_no_engine_error: "\<not> engine_error (fst (run_call spec_db_ops c v))"
  by (cases c)
    (simp_all add: spec_db_ops_def reply_def run_simps spec_update_user_account_def
      spec_get_user_account_def spec_update_success_tx_def spec_update_failed_tx_def
      spec_get_saved_user_peers_def spec_delete_saved_peer_def split: option.splits)

text \<open>The contract of a database whose engine may report errors: each trait call attempts the
  abstract one.\<close>

locale faulty_db_worker =
  fixes D :: "'s db_ops" and view :: "'s \<Rightarrow> db_view" and good :: "'s \<Rightarrow> bool" and faults :: "string set"
  assumes call_attempts: "attempts faults view good (run_call D c) (run_call spec_db_ops c)"
begin

lemma call_cases:
  assumes "good s"
  obtains (failed) e where "e \<in> faults" "fst (run_call D c s) = Err (RedbError e)"
      "view (snd (run_call D c s)) = view s" "good (snd (run_call D c s))"
  | (answered) "run_call spec_db_ops c (view s) = (fst (run_call D c s), view (snd (run_call D c s)))"
      "\<not> engine_error (fst (run_call D c s))" "good (snd (run_call D c s))"
  using call_attempts [of c] assms spec_call_no_engine_error [of c "view s"]
  unfolding attempts_def by (metis fst_conv)

lemma run_calls_completed:
  "good s \<Longrightarrow> run_calls D cs s = (rs, s') \<Longrightarrow>
   run_calls spec_db_ops (map fst (completed cs rs)) (view s) = (map snd (completed cs rs), view s')
   \<and> good s' \<and> (\<forall>r \<in> set rs. engine_error r \<longrightarrow> (\<exists>e \<in> faults. r = Err (RedbError e)))"
proof (induction cs arbitrary: s rs)
  case Nil
  then show ?case by (simp add: completed_def)
next
  case (Cons c cs)
  obtain r s1 where c: "run_call D c s = (r, s1)" by (cases "run_call D c s")
  obtain rs1 s2 where cs: "run_calls D cs s1 = (rs1, s2)" by (cases "run_calls D cs s1")
  have rs: "rs = r # rs1" "s' = s2" using Cons.prems(2) c cs by simp_all
  from Cons.prems(1) show ?case
  proof (cases rule: call_cases [where c = c])
    case (failed e)
    then show ?thesis using Cons.IH [of s1 rs1] cs c rs by (auto simp: completed_def)
  next
    case answered
    then show ?thesis using Cons.IH [of s1 rs1] cs c rs by (auto simp: completed_def)
  qed
qed

end

lemma dispatch_attempts:
  assumes "attempts F v g m p" "simulates v' g' n p"
  shows "attempts F (\<lambda>w. case w of Opfs x \<Rightarrow> v (ow_db x) | InMemory y \<Rightarrow> v' y)
    (\<lambda>w. case w of Opfs x \<Rightarrow> g (ow_db x) | InMemory y \<Rightarrow> g' y) (dispatch (on_redb m) n) p"
  using assms
  by (auto simp: attempts_def simulates_def dispatch_def on_redb_def split: db_worker.splits)

definition worker_view :: "('h \<Rightarrow> 'b tables) \<Rightarrow> 'b codec \<Rightarrow> ('h, 'f, 'b) db_worker \<Rightarrow> db_view" where
  "worker_view contents C = (\<lambda>w. case w of
       Opfs x \<Rightarrow> mem_view C (contents (ow_db x)) | InMemory y \<Rightarrow> mem_view C y)"

definition worker_good :: "('h \<Rightarrow> 'b tables) \<Rightarrow> 'b codec \<Rightarrow> ('h, 'f, 'b) db_worker \<Rightarrow> bool" where
  "worker_good contents C = (\<lambda>w. case w of
       Opfs x \<Rightarrow> mem_good C (contents (ow_db x)) | InMemory y \<Rightarrow> mem_good C y)"

context opfs_engine
begin

lemma worker_op:
  assumes "tries m n" "sim n p"
  shows "attempts faults (worker_view contents C) (worker_good contents C) (dispatch (on_redb m) n) p"
  unfolding worker_view_def worker_good_def
  by (rule dispatch_attempts [OF attempts_simulates [OF assms] assms(2)])

lemmas worker_ops =
  worker_op [OF tries_set_user_account sim_set_user_account [unfolded in_memory_db_ops_def db_ops.simps]]
  worker_op [OF tries_update_user_account sim_update_user_account [unfolded in_memory_db_ops_def db_ops.simps]]
  worker_op [OF tries_get_nonce sim_get_nonce [unfolded in_memory_db_ops_def db_ops.simps]]
  worker_op [OF tries_set_nonce sim_set_nonce [unfolded in_memory_db_ops_def db_ops.simps]]
  worker_op [OF tries_get_user_account sim_get_user_account [unfolded in_memory_db_ops_def db_ops.simps]]
  worker_op [OF tries_update_success_tx sim_update_success_tx [unfolded in_memory_db_ops_def db_ops.simps]]
  worker_op [OF tries_update_failed_tx sim_update_failed_tx [unfolded in_memory_db_ops_def db_ops.simps]]
  worker_op [OF tries_get_failed_txs sim_get_failed_txs [unfolded in_memory_db_ops_def db_ops.simps]]
  worker_op [OF tries_get_total_value_success sim_get_total_value_success [unfolded in_memory_db_ops_def db_ops.simps]]
  worker_op [OF tries_get_total_value_failed sim_get_total_value_failed [unfolded in_memory_db_ops_def db_ops.simps]]
  worker_op [OF tries_get_success_txs sim_get_success_txs [unfolded in_memory_db_ops_def db_ops.simps]]
  worker_op [OF tries_increment_nonce sim_increment_nonce [unfolded in_memory_db_ops_def db_ops.simps]]
  worker_op [OF tries_get_all_saved_peers_info sim_get_all_saved_peers_info [unfolded in_memory_db_ops_def db_ops.simps]]
  worker_op [OF tries_get_saved_user_peers sim_get_saved_user_peers [unfolded in_memory_db_ops_def db_ops.simps]]
  worker_op [OF tries_delete_saved_peer sim_delete_saved_peer [unfolded in_memory_db_ops_def db_ops.simps]]
  worker_op [OF tries_record_saved_user_peers sim_record_saved_user_peers [unfolded in_memory_db_ops_def db_ops.simps]]

lemmas worker_defs = db_worker_ops_def opfs_db_ops_def in_memory_db_ops_def Let_def db_ops.simps

end

sublocale opfs_engine < worker: faulty_db_worker
    "db_worker_ops R C" "worker_view contents C" "worker_good contents C" faults
proof
  show "attempts faults (worker_view contents C) (worker_good contents C)
      (run_call (db_worker_ops R C) c) (run_call spec_db_ops c)" for c
    by (cases c; simp only: run_call.simps; unfold worker_defs; rule attempts_reply; rule worker_ops)
qed

context opfs_engine
begin

lemmas worker_run = worker.run_calls_completed

end

text \<open>Over an engine without errors the worker keeps the full contract, so what the clients of
  \<open>db_worker_interface\<close> prove holds for it too.\<close>

locale reliable_engine = opfs_engine R contents "{}" C
  for R :: "('h, 'b) redb" and contents :: "'h \<Rightarrow> 'b tables" and C :: "'b codec"

sublocale reliable_engine < dbw: db_worker_interface
    "db_worker_ops R C" "worker_view contents C" "worker_good contents C"
  by unfold_locales (unfold attempts_empty [symmetric] worker_defs, (rule worker_ops)+)

context reliable_engine
begin

lemma init_tables_keeps:
  "\<exists>h'. init_tables R h = (Ok (), h') \<and> contents h' = contents h"
proof -
  have "attempts {} contents (\<lambda>h. True) (init_tables R) (ret ())"
    unfolding init_tables_def
    by (rule write_txn_attempts [where good = "\<lambda>_. True"],
        (rule faulty_and_then faulty_open_table)+) (simp_all add: run_simps)
  then have "Ok () = fst (init_tables R h)" "contents h = contents (snd (init_tables R h))"
    by (simp_all add: attempts_def run_simps)
  then show ?thesis by (metis prod.collapse)
qed

lemma opened:
  assumes "rd_create R ''vane_virtual.db'' = Inr h"
    and "opfs_file_system_new F url f = (Ok (), f')" and "fs_read F url f' = Inr bs"
  shows "\<exists>w. initialize_opfs_db_client R F url f = Ok (Opfs w) \<and> contents (ow_db w) = contents h"
  using init_tables_keeps [of h] assms
  by (auto simp: initialize_opfs_db_client_def opfs_redb_worker_new_def get_db_bytes_def create_db_def)

lemma fresh_worker_run:
  assumes "worker_view contents C w = empty_view" "worker_good contents C w"
  shows "fst (run_calls (db_worker_ops R C) cs w) = fst (run_calls spec_db_ops cs empty_view)"
  using dbw.run_calls_refine [OF assms(2), of cs] assms(1) by simp

end

section \<open>Engines for concrete runs\<close>

text \<open>An engine that holds its tables in memory and never fails, and one whose storage has room for
  a number of commits.\<close>

definition plain_redb :: "('b tables, 'b) redb" where
  "plain_redb = \<lparr>rd_create = (\<lambda>_. Inr mem_initialize_db_client), rd_begin_read = Inr,
     rd_begin_write = Inr, rd_fault = (\<lambda>_ _. None), rd_commit = (\<lambda>t h. (None, t))\<rparr>"

definition bounded_redb :: "('b tables \<times> nat, 'b) redb" where
  "bounded_redb = \<lparr>rd_create = (\<lambda>_. Inr (mem_initialize_db_client, 1)),
     rd_begin_read = (\<lambda>(t, n). Inr t), rd_begin_write = (\<lambda>(t, n). Inr t), rd_fault = (\<lambda>_ _. None),
     rd_commit = (\<lambda>t' (t, n). case n of
        0 \<Rightarrow> (Some ''no space'', (t, n)) | Suc m \<Rightarrow> (None, (t', m)))\<rparr>"

definition plain_opfs :: "bytes opfs" where
  "plain_opfs = \<lparr>fs_app_specific_dir = (\<lambda>_. None), fs_get_file_handle = (\<lambda>_ _ f. (None, f)),
     fs_read = (\<lambda>_ f. Inr f), fs_create_writable = (\<lambda>_ keep f. (None, if keep then f else [])),
     fs_write_at_cursor_pos = (\<lambda>_ bs f. (None, f @ bs)), fs_close = (\<lambda>_ f. (None, f))\<rparr>"

interpretation plain_engine: reliable_engine plain_redb "\<lambda>h. h" plain_codec
  by unfold_locales (simp_all add: plain_redb_def)

interpretation bounded_engine: opfs_engine bounded_redb fst "{''no space''}" plain_codec
  by unfold_locales (auto simp: bounded_redb_def split: nat.splits)

section \<open>Theorems\<close>

text \<open>C20: a \<open>DbWorker\<close>, whichever engine it runs on, behaves as the abstract database on the calls that
  no engine error stopped: those calls have the abstract replies, the data at the end are
  the abstract data after them, and a call that an engine error stopped has changed nothing, wherever
  in the transaction the error occurred.\<close>

theorem db_worker_atomic:
  assumes "opfs_engine R contents faults C" and "worker_good contents C w"
    and "run_calls (db_worker_ops R C) cs w = (rs, w')"
  shows "run_calls spec_db_ops (map fst (completed cs rs)) (worker_view contents C w)
           = (map snd (completed cs rs), worker_view contents C w')"
  using opfs_engine.worker_run [OF assms] by blast

theorem db_worker_atomic_witness:
  "run_calls spec_db_ops [CSetNonce 5, CGetNonce] empty_view
     = ([Ok RUnit, Ok (RNonce 5)], empty_view\<lparr>v_nonce := 5\<rparr>)
   \<and> fst (run_calls (db_worker_ops bounded_redb plain_codec) [CSetNonce 5, CSetNonce 7, CGetNonce]
       (Opfs \<lparr>ow_db = (mem_initialize_db_client, 1), ow_fs = (), ow_file = ''vane.db''\<rparr>))
     = [Ok RUnit, Err (RedbError ''no space''), Ok (RNonce 5)]"
proof -
  let ?w = "Opfs \<lparr>ow_db = (mem_initialize_db_client, 1), ow_fs = (), ow_file = ''vane.db''\<rparr>
      :: (plain_encoding tables \<times> nat, unit, plain_encoding) db_worker"
  obtain rs w' where run: "run_calls (db_worker_ops bounded_redb plain_codec)
      [CSetNonce 5, CSetNonce 7, CGetNonce] ?w = (rs, w')"
    by (metis surj_pair)
  have w': "worker_view fst plain_codec w' = empty_view\<lparr>v_nonce := 5\<rparr>"
    and rs: "rs = [Ok RUnit, Err (RedbError ''no space''), Ok (RNonce 5)]"
    using run
    by (auto simp: reply_def run_simps db_worker_ops_def opfs_db_ops_def Let_def dispatch_def on_redb_def
        opfs_set_nonce_def opfs_get_nonce_def write_txn_def read_txn_def bounded_redb_def open_table_def
        table_get_def table_insert_def guarded_def worker_view_def mem_view_def empty_view_def
        mem_initialize_db_client_def txs_under_def data_of_def)
  have good: "worker_good fst plain_codec ?w" and view: "worker_view fst plain_codec ?w = empty_view"
    by (simp_all add: worker_good_def worker_view_def good_fresh view_fresh)
  show ?thesis
    using db_worker_atomic [OF bounded_engine.opfs_engine_axioms good run] run
    unfolding view w' rs by (simp add: completed_def)
qed



end
