(* ===== verification/Db_Prisma.thy ===== *)
theory Db_Prisma
  imports Native_P2p "HOL-Library.Multiset"
begin

text \<open>
  \<open>LocalDbWorker\<close> of \<open>db/src/lib.rs\<close>, the database of the native node: queries of a Prisma client on the tables of
  \<open>db/schema.prisma\<close>. The client is generated by the build and not in the repository: it is an argument, a
  record with one action per query the worker issues, on a state of its own. The locale \<open>prisma\<close> states what
  Prisma documents of these queries, as relations between the tables before, the result and the tables after:
  a query that fails changes nothing, \<open>create\<close> appends a row with a fresh id and only when the unique columns
  stay unique and the referenced row is there, \<open>find_first\<close> returns any row that matches, \<open>find_many\<close> all of them in
  any order, \<open>update\<close> and \<open>delete\<close> find their row, a row that others reference is not deleted (the schema sets no
  other action), and \<open>_transaction().run\<close> keeps the changes of its body or none of them. Any query may fail;
  \<open>reliable_prisma\<close> is a client whose queries fail only for these reasons. Both are interpreted on a client over
  lists of rows.

  As \<open>Native_P2p\<close>, the crate was written against an earlier \<open>primitives\<close>. Shown: every operation keeps the
  unique columns and the references of the tables; the accounts saved for a peer are read back exactly;
  a saved peer cannot be deleted, cannot be found by an account once it has two, and a database records
  its own peer only once, so that a node does not start on it again.
\<close>

section \<open>Tables\<close>

record user_account_row =
  uar_username :: string
  uar_account_id :: string
  uar_network_id :: string

record transaction_row =
  tr_tx_hash :: bytes
  tr_value :: i64
  tr_network :: string
  tr_status :: bool

record user_peer_row =
  up_id :: string
  up_peer_id :: string
  up_multi_addr :: string
  up_keypair :: bytes

record user_peer_account_row =
  upa_account_id :: string
  upa_network :: string
  upa_user_peer_id :: string

record saved_peer_row =
  sp_id :: string
  sp_node_id :: string
  sp_multi_addr :: string

record saved_peer_account_row =
  spa_account_id :: string
  spa_network :: string
  spa_saved_peer_id :: string

text \<open>Ids that the worker never reads are left out. The tables whose row 1 it reads have their ids.\<close>

record prisma_tables =
  t_user_account :: "user_account_row list"
  t_port :: "(nat \<times> i64 \<times> i64) list"
  t_transactions_data :: "(nat \<times> int \<times> int) list"
  t_transaction :: "transaction_row list"
  t_nonce :: "(nat \<times> int) list"
  t_user_peer :: "user_peer_row list"
  t_user_peer_account_info :: "user_peer_account_row list"
  t_saved_peers :: "saved_peer_row list"
  t_saved_peer_account_info :: "saved_peer_account_row list"

definition no_tables :: prisma_tables where
  "no_tables = \<lparr>t_user_account = [], t_port = [], t_transactions_data = [], t_transaction = [], t_nonce = [],
     t_user_peer = [], t_user_peer_account_info = [], t_saved_peers = [], t_saved_peer_account_info = []\<rparr>"

section \<open>The client\<close>

datatype user_peer_where = UserPeerAccountsEvery string | UserPeerPeerId string
datatype saved_peers_where = SavedPeersNodeId string | SavedPeersAccountsEvery string

record 's prisma_client =
  migrate_deploy :: "('s, unit) action"
  user_account_create :: "user_account_row \<Rightarrow> ('s, unit) action"
  user_account_find_many :: "string \<Rightarrow> ('s, user_account_row list) action"
  port_create :: "i64 \<Rightarrow> i64 \<Rightarrow> ('s, unit) action"
  port_find_unique :: "nat \<Rightarrow> ('s, (i64 \<times> i64) option) action"
  transactions_data_create :: "int \<Rightarrow> int \<Rightarrow> ('s, unit) action"
  transactions_data_find :: "nat \<Rightarrow> ('s, (int \<times> int) option) action"
  success_value_increment :: "nat \<Rightarrow> i64 \<Rightarrow> ('s, unit) action"
  failed_value_increment :: "nat \<Rightarrow> i64 \<Rightarrow> ('s, unit) action"
  transaction_create :: "transaction_row \<Rightarrow> ('s, unit) action"
  transaction_find_many :: "bool \<Rightarrow> ('s, transaction_row list) action"
  nonce_create :: "int \<Rightarrow> ('s, unit) action"
  nonce_find_unique :: "nat \<Rightarrow> ('s, int option) action"
  nonce_increment :: "nat \<Rightarrow> ('s, unit) action"
  user_peer_create :: "user_peer_row \<Rightarrow> ('s, unit) action"
  user_peer_find_first :: "user_peer_where
     \<Rightarrow> ('s, (user_peer_row \<times> user_peer_account_row list option) option) action"
  user_peer_account_info_create :: "string \<Rightarrow> string \<Rightarrow> string \<Rightarrow> ('s, unit) action"
  saved_peers_find_unique :: "string \<Rightarrow> ('s, saved_peer_row option) action"
  saved_peers_find_first :: "saved_peers_where \<Rightarrow> ('s, saved_peer_row option) action"
  saved_peers_find_many :: "('s, saved_peer_row list) action"
  saved_peers_create :: "string \<Rightarrow> string \<Rightarrow> ('s, saved_peer_row) action"
  saved_peers_set_multi_addr :: "string \<Rightarrow> string \<Rightarrow> ('s, unit) action"
  saved_peers_delete :: "string \<Rightarrow> ('s, unit) action"
  saved_peer_account_info_find_first :: "string \<Rightarrow> string \<Rightarrow> ('s, saved_peer_account_row option) action"
  saved_peer_account_info_find_many :: "string \<Rightarrow> ('s, saved_peer_account_row list) action"
  saved_peer_account_info_create :: "string \<Rightarrow> string \<Rightarrow> string \<Rightarrow> ('s, unit) action"
  saved_peer_account_info_delete_many :: "string \<Rightarrow> ('s, unit) action"
  transaction_run :: "('s, unit) action \<Rightarrow> ('s, unit) action"

section \<open>The worker\<close>

definition SERVER_DATA_ID :: nat where "SERVER_DATA_ID = 1"

text \<open>\<open>new_client_with_url\<close> opens a client on a database file.\<close>

definition prisma_initialize_db_client ::
    "(string \<Rightarrow> ('s, 's prisma_client) action) \<Rightarrow> string \<Rightarrow> ('s, 's prisma_client) action" where
  "prisma_initialize_db_client new_client file_url =
     and_then (attempt (new_client (''file:'' @ file_url))) (\<lambda>r. case r of
       Inl _ \<Rightarrow> raise (Anyhow ''failed to initialize db client'')
     | Inr P \<Rightarrow>
         and_then (migrate_deploy P) (\<lambda>_.
         and_then (attempt (transactions_data_find P 1)) (\<lambda>r.
         and_then (case r of
             Inr None \<Rightarrow> transactions_data_create P 0 0
           | Inr (Some _) \<Rightarrow> ret ()
           | Inl _ \<Rightarrow> and_then (attempt (transactions_data_create P 0 0)) (\<lambda>_. ret ())) (\<lambda>_.
         ret P))))"

record prisma_user =
  pu_user_name :: string
  pu_account_id :: string
  pu_network :: chain_supported

definition prisma_set_user_account :: "'s prisma_client \<Rightarrow> prisma_user \<Rightarrow> ('s, unit) action" where
  "prisma_set_user_account P u = user_account_create P \<lparr>uar_username = pu_user_name u,
     uar_account_id = pu_account_id u, uar_network_id = chain_to_string (pu_network u)\<rparr>"

definition prisma_increment_nonce :: "'s prisma_client \<Rightarrow> ('s, unit) action" where
  "prisma_increment_nonce P = nonce_increment P 1"

definition prisma_get_nonce :: "'s prisma_client \<Rightarrow> ('s, u32) action" where
  "prisma_get_nonce P = and_then (nonce_find_unique P 1) (\<lambda>r. case r of
       None \<Rightarrow> and_then (nonce_create P 0) (\<lambda>_. ret 0)
     | Some n \<Rightarrow> ret (word_of_int n))"

definition user_of_row :: "user_account_row \<Rightarrow> prisma_user" where
  "user_of_row r = \<lparr>pu_user_name = uar_username r, pu_account_id = uar_account_id r,
     pu_network = chain_from_str (uar_network_id r)\<rparr>"

definition prisma_get_user_accounts :: "'s prisma_client \<Rightarrow> chain_supported \<Rightarrow> ('s, prisma_user list) action" where
  "prisma_get_user_accounts P net = and_then (user_account_find_many P (chain_to_string net)) (\<lambda>rows.
     ret (map user_of_row rows))"

record prisma_tx =
  px_tx_hash :: bytes
  px_amount :: u128
  px_network :: chain_supported
  px_success :: bool

definition row_of_tx :: "prisma_tx \<Rightarrow> transaction_row" where
  "row_of_tx tx = \<lparr>tr_tx_hash = px_tx_hash tx, tr_value = ucast (px_amount tx),
     tr_network = chain_to_string (px_network tx), tr_status = px_success tx\<rparr>"

definition prisma_update_success_tx :: "'s prisma_client \<Rightarrow> prisma_tx \<Rightarrow> ('s, unit) action" where
  "prisma_update_success_tx P tx = and_then (transaction_create P (row_of_tx tx)) (\<lambda>_.
     success_value_increment P 1 (ucast (px_amount tx)))"

definition prisma_update_failed_tx :: "'s prisma_client \<Rightarrow> prisma_tx \<Rightarrow> ('s, unit) action" where
  "prisma_update_failed_tx P tx = and_then (transaction_create P (row_of_tx tx)) (\<lambda>_.
     failed_value_increment P 1 (ucast (px_amount tx)))"

text \<open>\<open>value.try_into().expect(..)\<close> from \<open>i64\<close> to \<open>u128\<close> panics on a negative value.\<close>

definition tx_of_row :: "transaction_row \<Rightarrow> prisma_tx outcome" where
  "tx_of_row r = (if 0 \<le> sint (tr_value r)
     then Ok \<lparr>px_tx_hash = tr_tx_hash r, px_amount = ucast (tr_value r),
       px_network = chain_from_str (tr_network r), px_success = tr_status r\<rparr>
     else Panic (ExpectFailed ''failed to convert u128 to u64''))"

fun txs_of_rows :: "transaction_row list \<Rightarrow> ('s, prisma_tx list) action" where
  "txs_of_rows [] = ret []"
| "txs_of_rows (r # rs) = and_then (lift_outcome (tx_of_row r)) (\<lambda>x.
     and_then (txs_of_rows rs) (\<lambda>xs. ret (x # xs)))"

definition prisma_get_failed_txs :: "'s prisma_client \<Rightarrow> ('s, prisma_tx list) action" where
  "prisma_get_failed_txs P = and_then (transaction_find_many P False) txs_of_rows"

definition prisma_get_success_txs :: "'s prisma_client \<Rightarrow> ('s, prisma_tx list) action" where
  "prisma_get_success_txs P = and_then (transaction_find_many P True) txs_of_rows"

definition prisma_get_total_value_success :: "'s prisma_client \<Rightarrow> ('s, u64) action" where
  "prisma_get_total_value_success P = and_then (transactions_data_find P SERVER_DATA_ID) (\<lambda>r. case r of
       None \<Rightarrow> raise (Anyhow ''Main Data not found, shouldnt happen must initailize'')
     | Some d \<Rightarrow> ret (word_of_int (fst d)))"

definition prisma_get_total_value_failed :: "'s prisma_client \<Rightarrow> ('s, u64) action" where
  "prisma_get_total_value_failed P = and_then (transactions_data_find P SERVER_DATA_ID) (\<lambda>r. case r of
       None \<Rightarrow> raise (Anyhow ''Main Data not found, shouldnt happen must initailize'')
     | Some d \<Rightarrow> ret (word_of_int (snd d)))"

definition MAIN_USER_ID :: string where "MAIN_USER_ID = ''MAIN_USER_ID''"

definition or_default :: "'a list option \<Rightarrow> 'a list" where
  "or_default v = (case v of Some x \<Rightarrow> x | None \<Rightarrow> [])"

definition prisma_update_user_peer_id_account_ids :: "'s prisma_client \<Rightarrow> account_info \<Rightarrow> ('s, unit) action" where
  "prisma_update_user_peer_id_account_ids P a =
     user_peer_account_info_create P (ai_account a) (chain_to_string (ai_network a)) MAIN_USER_ID"

definition prisma_record_user_peer_id :: "'s prisma_client \<Rightarrow> peer_record \<Rightarrow> ('s, unit) action" where
  "prisma_record_user_peer_id P p = transaction_run P (
     and_then (user_peer_create P \<lparr>up_id = MAIN_USER_ID, up_peer_id = or_default (pr_peer_id p),
        up_multi_addr = or_default (pr_multi_addr p), up_keypair = or_default (pr_keypair p)\<rparr>) (\<lambda>_.
     for_each (\<lambda>a. user_peer_account_info_create P (ai_account a) (chain_to_string (ai_network a)) MAIN_USER_ID)
       (pr_accounts p)))"

definition info_of_user_account :: "user_peer_account_row \<Rightarrow> account_info" where
  "info_of_user_account r = \<lparr>ai_account = upa_account_id r, ai_network = chain_from_str (upa_network r)\<rparr>"

definition record_of_user_peer :: "user_peer_row \<times> user_peer_account_row list option \<Rightarrow> peer_record" where
  "record_of_user_peer d = \<lparr>pr_peer_id = Some (up_peer_id (fst d)),
     pr_accounts = map info_of_user_account (or_default (snd d)),
     pr_multi_addr = Some (up_multi_addr (fst d)), pr_keypair = Some (up_keypair (fst d))\<rparr>"

definition prisma_get_user_peer_id ::
    "'s prisma_client \<Rightarrow> string option \<Rightarrow> string option \<Rightarrow> ('s, peer_record) action" where
  "prisma_get_user_peer_id P acc peer =
     (let find = (\<lambda>w. and_then (user_peer_find_first P w) (\<lambda>r. case r of
            None \<Rightarrow> raise (Anyhow ''Peer not found in DB'')
          | Some d \<Rightarrow> ret (record_of_user_peer d)))
      in case (acc, peer) of
           (Some a, _) \<Rightarrow> find (UserPeerAccountsEvery a)
         | (None, Some p) \<Rightarrow> find (UserPeerPeerId p)
         | (None, None) \<Rightarrow> raise (Anyhow ''Please provide either account ID or peer ID''))"

definition prisma_set_ports :: "'s prisma_client \<Rightarrow> u16 \<Rightarrow> u16 \<Rightarrow> ('s, unit) action" where
  "prisma_set_ports P rpc p2p = port_create P (ucast rpc) (ucast p2p)"

text \<open>\<open>as u16\<close> on an \<open>i64\<close> keeps the low 16 bits.\<close>

fun ports_of_row :: "i64 \<times> i64 \<Rightarrow> u16 \<times> u16" where
  "ports_of_row (rpc, p2p) = (ucast rpc, ucast p2p)"

definition prisma_get_ports :: "'s prisma_client \<Rightarrow> ('s, (u16 \<times> u16) option) action" where
  "prisma_get_ports P = and_then (port_find_unique P 1) (\<lambda>r.
     ret (map_option ports_of_row r))"

text \<open>The network of an account, inferred from the shape of its address.\<close>

definition infer_network :: "string \<Rightarrow> string" where
  "infer_network acc =
     (if starts_with ''0x'' acc \<and> length acc = 42 then ''Ethereum''
      else if length acc = 44 then ''Solana''
      else if length acc = 48 \<or> starts_with ''5'' acc then ''Polkadot''
      else if starts_with ''T'' acc then ''Tron''
      else ''Ethereum'')"

definition prisma_record_saved_user_peers :: "'s prisma_client \<Rightarrow> string \<Rightarrow> string \<Rightarrow> ('s, unit) action" where
  "prisma_record_saved_user_peers P acc ma = transaction_run P (
     and_then (saved_peers_find_unique P ma) (\<lambda>found.
     and_then (case found of Some p \<Rightarrow> ret p | None \<Rightarrow> saved_peers_create P ma ma) (\<lambda>peer.
     and_then (saved_peer_account_info_find_first P (sp_id peer) acc) (\<lambda>existing.
     case existing of
       None \<Rightarrow> saved_peer_account_info_create P acc (infer_network acc) (sp_id peer)
     | Some _ \<Rightarrow> ret ()))))"

definition prisma_get_saved_user_peers :: "'s prisma_client \<Rightarrow> string \<Rightarrow> ('s, string) action" where
  "prisma_get_saved_user_peers P acc = and_then (saved_peers_find_first P (SavedPeersAccountsEvery acc)) (\<lambda>r. case r of
       None \<Rightarrow> raise (Anyhow ''Peer Not found in DB'')
     | Some p \<Rightarrow> ret (sp_multi_addr p))"

fun collect_accounts :: "'s prisma_client \<Rightarrow> saved_peer_row list \<Rightarrow> ('s, string list) action" where
  "collect_accounts P [] = ret []"
| "collect_accounts P (p # ps) =
     and_then (saved_peer_account_info_find_many P (sp_id p)) (\<lambda>xs.
     and_then (collect_accounts P ps) (\<lambda>rest. ret (map spa_account_id xs @ rest)))"

definition prisma_get_all_saved_peers :: "'s prisma_client \<Rightarrow> ('s, string list \<times> string) action" where
  "prisma_get_all_saved_peers P = and_then (saved_peers_find_many P) (\<lambda>peers. case peers of
       [] \<Rightarrow> raise (Anyhow ''No saved peers found'')
     | first # _ \<Rightarrow>
         (case List.find (\<lambda>p. sp_node_id p \<noteq> sp_node_id first) peers of
            Some p \<Rightarrow> raise (Anyhow (''Inconsistent peer ID mapping: expected '' @ sp_node_id first
                        @ '', got '' @ sp_node_id p))
          | None \<Rightarrow> and_then (collect_accounts P peers) (\<lambda>accs. ret (accs, sp_node_id first))))"

definition prisma_delete_saved_peer :: "'s prisma_client \<Rightarrow> string \<Rightarrow> ('s, unit) action" where
  "prisma_delete_saved_peer P peer = and_then (saved_peers_find_unique P peer) (\<lambda>r. case r of
       None \<Rightarrow> raise (PeerNotFoundWithMultiAddr peer)
     | Some p \<Rightarrow> saved_peers_delete P (sp_id p))"

definition prisma_get_saved_peer_by_id :: "'s prisma_client \<Rightarrow> string \<Rightarrow> ('s, string option) action" where
  "prisma_get_saved_peer_by_id P peer = and_then (saved_peers_find_first P (SavedPeersNodeId peer)) (\<lambda>r.
     ret (map_option sp_node_id r))"

definition prisma_update_saved_peer :: "'s prisma_client \<Rightarrow> peer_record \<Rightarrow> ('s, unit) action" where
  "prisma_update_saved_peer P p = transaction_run P (case pr_peer_id p of
       None \<Rightarrow> raise (Anyhow ''PeerRecord must have a peer_id'')
     | Some peer \<Rightarrow>
         and_then (saved_peers_find_unique P peer) (\<lambda>r. case r of
           None \<Rightarrow> raise (Anyhow ''Peer not found for update'')
         | Some x \<Rightarrow>
             and_then (saved_peers_set_multi_addr P (sp_id x) (or_default (pr_multi_addr p))) (\<lambda>_.
             and_then (saved_peer_account_info_delete_many P (sp_id x)) (\<lambda>_.
             for_each (\<lambda>a. saved_peer_account_info_create P (ai_account a) (chain_to_string (ai_network a)) (sp_id x))
               (pr_accounts p)))))"

definition prisma_get_account_ids_by_peer_id :: "'s prisma_client \<Rightarrow> string \<Rightarrow> ('s, string list) action" where
  "prisma_get_account_ids_by_peer_id P peer = and_then (saved_peers_find_first P (SavedPeersNodeId peer)) (\<lambda>r. case r of
       None \<Rightarrow> raise (Anyhow (''Peer not found with peer_id: '' @ peer))
     | Some x \<Rightarrow> and_then (saved_peer_account_info_find_many P (sp_id x)) (\<lambda>xs. ret (map spa_account_id xs)))"

fun collect_infos :: "'s prisma_client \<Rightarrow> saved_peer_row list \<Rightarrow> ('s, saved_peer_info list) action" where
  "collect_infos P [] = ret []"
| "collect_infos P (p # ps) =
     and_then (saved_peer_account_info_find_many P (sp_id p)) (\<lambda>xs.
     and_then (collect_infos P ps) (\<lambda>rest. ret (\<lparr>peer_id = sp_multi_addr p, multi_addr = sp_multi_addr p,
       account_ids = map spa_account_id xs\<rparr> # rest)))"

definition prisma_get_all_saved_peers_info :: "'s prisma_client \<Rightarrow> ('s, saved_peer_info list) action" where
  "prisma_get_all_saved_peers_info P = and_then (saved_peers_find_many P) (collect_infos P)"

section \<open>What the client promises\<close>

definition documented ::
    "('s \<Rightarrow> prisma_tables) \<Rightarrow> ('s, 'a) action \<Rightarrow> (prisma_tables \<Rightarrow> 'a \<Rightarrow> prisma_tables \<Rightarrow> bool) \<Rightarrow> bool" where
  "documented view q R \<longleftrightarrow> (\<forall>s. case q s of
       (Ok x, s') \<Rightarrow> R (view s) x (view s')
     | (Err _, s') \<Rightarrow> view s' = view s
     | (Panic _, _) \<Rightarrow> False)"

definition answers ::
    "('s \<Rightarrow> prisma_tables) \<Rightarrow> ('s, 'a) action \<Rightarrow> (prisma_tables \<Rightarrow> 'a \<Rightarrow> prisma_tables \<Rightarrow> bool) \<Rightarrow> bool" where
  "answers view q R \<longleftrightarrow> (\<forall>s. (\<exists>x t. R (view s) x t) \<longrightarrow> (\<exists>x s'. q s = (Ok x, s')))"

definition atomic_run :: "('s \<Rightarrow> prisma_tables) \<Rightarrow> (('s, unit) action \<Rightarrow> ('s, unit) action) \<Rightarrow> bool" where
  "atomic_run view run \<longleftrightarrow> (\<forall>m s. case run m s of
       (Ok x, s') \<Rightarrow> \<exists>s''. m s = (Ok x, s'') \<and> view s' = view s''
     | (_, s') \<Rightarrow> view s' = view s)"

definition reads :: "(prisma_tables \<Rightarrow> 'a) \<Rightarrow> prisma_tables \<Rightarrow> 'a \<Rightarrow> prisma_tables \<Rightarrow> bool" where
  "reads sel t x t' \<longleftrightarrow> t' = t \<and> x = sel t"

definition reads_first ::
    "(prisma_tables \<Rightarrow> 'r list) \<Rightarrow> (prisma_tables \<Rightarrow> 'r \<Rightarrow> bool) \<Rightarrow> prisma_tables \<Rightarrow> 'r option \<Rightarrow> prisma_tables \<Rightarrow> bool" where
  "reads_first rows matches t x t' \<longleftrightarrow> t' = t \<and> (case x of
       None \<Rightarrow> \<forall>r \<in> set (rows t). \<not> matches t r
     | Some r \<Rightarrow> r \<in> set (rows t) \<and> matches t r)"

definition reads_many ::
    "(prisma_tables \<Rightarrow> 'r list) \<Rightarrow> ('r \<Rightarrow> bool) \<Rightarrow> prisma_tables \<Rightarrow> 'r list \<Rightarrow> prisma_tables \<Rightarrow> bool" where
  "reads_many rows matches t x t' \<longleftrightarrow> t' = t \<and> mset x = mset (filter matches (rows t))"

definition writes ::
    "(prisma_tables \<Rightarrow> bool) \<Rightarrow> (prisma_tables \<Rightarrow> prisma_tables) \<Rightarrow> prisma_tables \<Rightarrow> unit \<Rightarrow> prisma_tables \<Rightarrow> bool" where
  "writes guard f t x t' \<longleftrightarrow> guard t \<and> t' = f t"

text \<open>An automatic integer id is new, and 1 in an empty table.\<close>

definition new_id :: "(nat \<times> 'r) list \<Rightarrow> nat \<Rightarrow> bool" where
  "new_id rows i \<longleftrightarrow> i \<notin> fst ` set rows \<and> (rows = [] \<longrightarrow> i = 1)"

definition in_i64 :: "int \<Rightarrow> bool" where
  "in_i64 n \<longleftrightarrow> - (2 ^ 63) \<le> n \<and> n < 2 ^ 63"

text \<open>\<open>increment\<close> on the two sums; a sum beyond the column's range is not specified.\<close>

definition sums ::
    "nat \<Rightarrow> i64 \<Rightarrow> i64 \<Rightarrow> prisma_tables \<Rightarrow> unit \<Rightarrow> prisma_tables \<Rightarrow> bool" where
  "sums i a b t x t' \<longleftrightarrow> (\<exists>u v u' v'. map_of (t_transactions_data t) i = Some (u, v)
     \<and> (a = 0 \<or> in_i64 (u + sint a) \<longrightarrow> u' = u + sint a) \<and> (b = 0 \<or> in_i64 (v + sint b) \<longrightarrow> v' = v + sint b)
     \<and> t' = t\<lparr>t_transactions_data := AList.update i (u', v') (t_transactions_data t)\<rparr>)"

definition accounts_of :: "string \<Rightarrow> prisma_tables \<Rightarrow> saved_peer_account_row list" where
  "accounts_of i t = filter (\<lambda>x. spa_saved_peer_id x = i) (t_saved_peer_account_info t)"

fun user_peer_matches :: "user_peer_where \<Rightarrow> prisma_tables \<Rightarrow> user_peer_row \<Rightarrow> bool" where
  "user_peer_matches (UserPeerPeerId p) t r = (up_peer_id r = p)"
| "user_peer_matches (UserPeerAccountsEvery a) t r =
     (\<forall>x \<in> set (t_user_peer_account_info t). upa_user_peer_id x = up_id r \<longrightarrow> upa_account_id x = a)"

fun saved_peer_matches :: "saved_peers_where \<Rightarrow> prisma_tables \<Rightarrow> saved_peer_row \<Rightarrow> bool" where
  "saved_peer_matches (SavedPeersNodeId p) t r = (sp_node_id r = p)"
| "saved_peer_matches (SavedPeersAccountsEvery a) t r = (\<forall>x \<in> set (accounts_of (sp_id r) t). spa_account_id x = a)"

definition creates_user_peer :: "user_peer_row \<Rightarrow> prisma_tables \<Rightarrow> unit \<Rightarrow> prisma_tables \<Rightarrow> bool" where
  "creates_user_peer r = writes
     (\<lambda>t. up_id r \<notin> up_id ` set (t_user_peer t) \<and> up_peer_id r \<notin> up_peer_id ` set (t_user_peer t))
     (\<lambda>t. t\<lparr>t_user_peer := t_user_peer t @ [r]\<rparr>)"

definition creates_user_account_info :: "string \<Rightarrow> string \<Rightarrow> string \<Rightarrow> prisma_tables \<Rightarrow> unit \<Rightarrow> prisma_tables \<Rightarrow> bool" where
  "creates_user_account_info acc net i = writes (\<lambda>t. i \<in> up_id ` set (t_user_peer t))
     (\<lambda>t. t\<lparr>t_user_peer_account_info := t_user_peer_account_info t @
        [\<lparr>upa_account_id = acc, upa_network = net, upa_user_peer_id = i\<rparr>]\<rparr>)"

definition creates_saved_peer :: "string \<Rightarrow> string \<Rightarrow> prisma_tables \<Rightarrow> saved_peer_row \<Rightarrow> prisma_tables \<Rightarrow> bool" where
  "creates_saved_peer node ma t r t' \<longleftrightarrow> sp_node_id r = node \<and> sp_multi_addr r = ma
     \<and> node \<notin> sp_node_id ` set (t_saved_peers t) \<and> sp_id r \<notin> sp_id ` set (t_saved_peers t)
     \<and> t' = t\<lparr>t_saved_peers := t_saved_peers t @ [r]\<rparr>"

definition creates_saved_account :: "string \<Rightarrow> string \<Rightarrow> string \<Rightarrow> prisma_tables \<Rightarrow> unit \<Rightarrow> prisma_tables \<Rightarrow> bool" where
  "creates_saved_account acc net i = writes (\<lambda>t. i \<in> sp_id ` set (t_saved_peers t))
     (\<lambda>t. t\<lparr>t_saved_peer_account_info := t_saved_peer_account_info t @
        [\<lparr>spa_account_id = acc, spa_network = net, spa_saved_peer_id = i\<rparr>]\<rparr>)"

definition sets_multi_addr :: "string \<Rightarrow> string \<Rightarrow> prisma_tables \<Rightarrow> unit \<Rightarrow> prisma_tables \<Rightarrow> bool" where
  "sets_multi_addr i ma = writes (\<lambda>t. i \<in> sp_id ` set (t_saved_peers t))
     (\<lambda>t. t\<lparr>t_saved_peers := map (\<lambda>r. if sp_id r = i then r\<lparr>sp_multi_addr := ma\<rparr> else r) (t_saved_peers t)\<rparr>)"

definition deletes_saved_peer :: "string \<Rightarrow> prisma_tables \<Rightarrow> unit \<Rightarrow> prisma_tables \<Rightarrow> bool" where
  "deletes_saved_peer i = writes (\<lambda>t. i \<in> sp_id ` set (t_saved_peers t) \<and> accounts_of i t = [])
     (\<lambda>t. t\<lparr>t_saved_peers := filter (\<lambda>r. sp_id r \<noteq> i) (t_saved_peers t)\<rparr>)"

definition deletes_saved_accounts :: "string \<Rightarrow> prisma_tables \<Rightarrow> unit \<Rightarrow> prisma_tables \<Rightarrow> bool" where
  "deletes_saved_accounts i = writes (\<lambda>_. True)
     (\<lambda>t. t\<lparr>t_saved_peer_account_info := filter (\<lambda>x. spa_saved_peer_id x \<noteq> i) (t_saved_peer_account_info t)\<rparr>)"

lemmas relation_defs = reads_def reads_first_def reads_many_def writes_def creates_user_peer_def
  creates_user_account_info_def creates_saved_peer_def creates_saved_account_def sets_multi_addr_def
  deletes_saved_peer_def deletes_saved_accounts_def

locale prisma =
  fixes P :: "'s prisma_client" and view :: "'s \<Rightarrow> prisma_tables"
  assumes migrate: "documented view (migrate_deploy P) (writes (\<lambda>_. True) (\<lambda>t. t))"
    and user_accounts:
      "documented view (user_account_create P u)
         (writes (\<lambda>_. True) (\<lambda>t. t\<lparr>t_user_account := t_user_account t @ [u]\<rparr>))"
      "documented view (user_account_find_many P n) (reads_many t_user_account (\<lambda>r. uar_network_id r = n))"
    and ports:
      "documented view (port_create P a b)
         (\<lambda>t x t'. \<exists>i. new_id (t_port t) i \<and> t' = t\<lparr>t_port := t_port t @ [(i, a, b)]\<rparr>)"
      "documented view (port_find_unique P k) (reads (\<lambda>t. map_of (t_port t) k))"
    and transactions_data:
      "documented view (transactions_data_create P c d)
         (\<lambda>t x t'. \<exists>i. new_id (t_transactions_data t) i
            \<and> t' = t\<lparr>t_transactions_data := t_transactions_data t @ [(i, c, d)]\<rparr>)"
      "documented view (transactions_data_find P k) (reads (\<lambda>t. map_of (t_transactions_data t) k))"
      "documented view (success_value_increment P k a) (sums k a 0)"
      "documented view (failed_value_increment P k a) (sums k 0 a)"
    and transactions:
      "documented view (transaction_create P tx)
         (writes (\<lambda>_. True) (\<lambda>t. t\<lparr>t_transaction := t_transaction t @ [tx]\<rparr>))"
      "documented view (transaction_find_many P st) (reads_many t_transaction (\<lambda>r. tr_status r = st))"
    and nonces:
      "documented view (nonce_create P c)
         (\<lambda>t x t'. \<exists>i. new_id (t_nonce t) i \<and> t' = t\<lparr>t_nonce := t_nonce t @ [(i, c)]\<rparr>)"
      "documented view (nonce_find_unique P k) (reads (\<lambda>t. map_of (t_nonce t) k))"
      "documented view (nonce_increment P k)
         (\<lambda>t x t'. \<exists>n. map_of (t_nonce t) k = Some n \<and> t' = t\<lparr>t_nonce := AList.update k (n + 1) (t_nonce t)\<rparr>)"
    and user_peers:
      "documented view (user_peer_create P up) (creates_user_peer up)"
      "documented view (user_peer_find_first P uw)
         (\<lambda>t x t'. reads_first t_user_peer (user_peer_matches uw) t (map_option fst x) t'
            \<and> (\<forall>d \<in> set_option x. snd d = None))"
      "documented view (user_peer_account_info_create P acc net j) (creates_user_account_info acc net j)"
    and saved_peers:
      "documented view (saved_peers_find_unique P node)
         (reads (\<lambda>t. List.find (\<lambda>r. sp_node_id r = node) (t_saved_peers t)))"
      "documented view (saved_peers_find_first P sw) (reads_first t_saved_peers (saved_peer_matches sw))"
      "documented view (saved_peers_find_many P) (reads_many t_saved_peers (\<lambda>_. True))"
      "documented view (saved_peers_create P node ma) (creates_saved_peer node ma)"
      "documented view (saved_peers_set_multi_addr P j ma) (sets_multi_addr j ma)"
      "documented view (saved_peers_delete P j) (deletes_saved_peer j)"
    and saved_accounts:
      "documented view (saved_peer_account_info_find_first P j acc) (reads_first t_saved_peer_account_info
         (\<lambda>t x. spa_saved_peer_id x = j \<and> spa_account_id x = acc))"
      "documented view (saved_peer_account_info_find_many P j)
         (reads_many t_saved_peer_account_info (\<lambda>x. spa_saved_peer_id x = j))"
      "documented view (saved_peer_account_info_create P acc net j) (creates_saved_account acc net j)"
      "documented view (saved_peer_account_info_delete_many P j) (deletes_saved_accounts j)"
    and run: "atomic_run view (transaction_run P)"

text \<open>Of the queries below, only the documented reasons make one fail.\<close>

locale reliable_prisma = prisma P view for P :: "'s prisma_client" and view +
  assumes finds_answer:
      "answers view (saved_peers_find_unique P node)
         (reads (\<lambda>t. List.find (\<lambda>r. sp_node_id r = node) (t_saved_peers t)))"
      "answers view (saved_peers_find_first P sw) (reads_first t_saved_peers (saved_peer_matches sw))"
      "answers view (saved_peer_account_info_find_first P j acc) (reads_first t_saved_peer_account_info
         (\<lambda>t x. spa_saved_peer_id x = j \<and> spa_account_id x = acc))"
      "answers view (saved_peer_account_info_find_many P j)
         (reads_many t_saved_peer_account_info (\<lambda>x. spa_saved_peer_id x = j))"
    and creates_answer:
      "answers view (saved_peers_create P node ma) (creates_saved_peer node ma)"
      "answers view (saved_peer_account_info_create P acc net j) (creates_saved_account acc net j)"
    and run_answers: "m s = (Ok (), s') \<Longrightarrow> fst (transaction_run P m s) = Ok ()"

section \<open>The schema's constraints\<close>

definition prisma_wf :: "prisma_tables \<Rightarrow> bool" where
  "prisma_wf t \<longleftrightarrow>
     distinct_keys (t_port t) \<and> distinct_keys (t_transactions_data t) \<and> distinct_keys (t_nonce t)
   \<and> distinct (map up_id (t_user_peer t)) \<and> distinct (map up_peer_id (t_user_peer t))
   \<and> upa_user_peer_id ` set (t_user_peer_account_info t) \<subseteq> up_id ` set (t_user_peer t)
   \<and> distinct (map sp_id (t_saved_peers t)) \<and> distinct (map sp_node_id (t_saved_peers t))
   \<and> spa_saved_peer_id ` set (t_saved_peer_account_info t) \<subseteq> sp_id ` set (t_saved_peers t)"

lemma documented_preserves:
  assumes "documented view q R" and "\<And>t x t'. R t x t' \<Longrightarrow> J t \<Longrightarrow> J t'"
  shows "preserves (\<lambda>s. J (view s)) q"
  unfolding preserves_def
proof (intro allI impI)
  fix s assume "J (view s)"
  then show "J (view (snd (q s)))"
    using assms(1) [unfolded documented_def, rule_format, of s] assms(2)
    by (cases "q s"; cases "fst (q s)") auto
qed

lemma documented_Ok: "documented view q R \<Longrightarrow> q s = (Ok x, s') \<Longrightarrow> R (view s) x (view s')"
  by (auto simp: documented_def split: prod.splits outcome.splits elim!: allE [of _ s])

lemma answers_Ok: "answers view q R \<Longrightarrow> R (view s) x t \<Longrightarrow> \<exists>x s'. q s = (Ok x, s')"
  unfolding answers_def by blast

lemma wf_reads:
  "reads sel t x t' \<Longrightarrow> prisma_wf t \<Longrightarrow> prisma_wf t'"
  "reads_first rows matches t y t' \<Longrightarrow> prisma_wf t \<Longrightarrow> prisma_wf t'"
  "reads_many rows' matches' t z t' \<Longrightarrow> prisma_wf t \<Longrightarrow> prisma_wf t'"
  by (simp_all add: relation_defs)

lemma wf_sums: "sums i a b t x t' \<Longrightarrow> prisma_wf t \<Longrightarrow> prisma_wf t'"
  by (clarsimp simp: sums_def prisma_wf_def)

lemma wf_writes:
  "creates_user_peer up t x t' \<Longrightarrow> prisma_wf t \<Longrightarrow> prisma_wf t'"
  "creates_user_account_info acc net j t x t' \<Longrightarrow> prisma_wf t \<Longrightarrow> prisma_wf t'"
  "creates_saved_peer node ma t r t' \<Longrightarrow> prisma_wf t \<Longrightarrow> prisma_wf t'"
  "creates_saved_account acc net j t x t' \<Longrightarrow> prisma_wf t \<Longrightarrow> prisma_wf t'"
  by (simp_all add: relation_defs prisma_wf_def subset_insertI2)

lemma wf_deletes_saved_accounts: "deletes_saved_accounts j t x t' \<Longrightarrow> prisma_wf t \<Longrightarrow> prisma_wf t'"
  unfolding relation_defs prisma_wf_def by (clarsimp simp: image_subset_iff)

lemma wf_saved_peers:
  assumes "prisma_wf t" and ids: "map sp_id rs = map sp_id (t_saved_peers t)"
    and "map sp_node_id rs = map sp_node_id (t_saved_peers t)"
  shows "prisma_wf (t\<lparr>t_saved_peers := rs\<rparr>)"
proof -
  have "sp_id ` set rs = sp_id ` set (t_saved_peers t)"
    using ids by (metis list.set_map)
  then show ?thesis using assms by (simp add: prisma_wf_def)
qed

lemma wf_sets_multi_addr: "sets_multi_addr j ma t x t' \<Longrightarrow> prisma_wf t \<Longrightarrow> prisma_wf t'"
  unfolding sets_multi_addr_def writes_def by (auto intro!: wf_saved_peers)

lemma wf_deletes_saved_peer:
  assumes "deletes_saved_peer j t x t'" and "prisma_wf t"
  shows "prisma_wf t'"
proof -
  have ids: "sp_id ` {x \<in> S. sp_id x \<noteq> j} = sp_id ` S - {j}" for S by auto
  have "j \<notin> spa_saved_peer_id ` set (t_saved_peer_account_info t)"
    using assms(1) by (auto simp: relation_defs accounts_of_def filter_empty_conv)
  then show ?thesis
    using assms by (simp add: relation_defs prisma_wf_def ids distinct_map_filter subset_Diff_insert)
qed

lemma wf_new_row:
  assumes "prisma_wf t"
  shows "new_id (t_port t) i \<Longrightarrow> prisma_wf (t\<lparr>t_port := t_port t @ [(i, p)]\<rparr>)"
    and "new_id (t_transactions_data t) i \<Longrightarrow>
      prisma_wf (t\<lparr>t_transactions_data := t_transactions_data t @ [(i, d)]\<rparr>)"
    and "new_id (t_nonce t) i \<Longrightarrow> prisma_wf (t\<lparr>t_nonce := t_nonce t @ [(i, n)]\<rparr>)"
  using assms by (auto simp: prisma_wf_def new_id_def)

lemma atomic_run_preserves:
  assumes "atomic_run view run" and "preserves (\<lambda>s. J (view s)) m"
  shows "preserves (\<lambda>s. J (view s)) (run m)"
  unfolding preserves_def
proof (intro allI impI)
  fix s assume J: "J (view s)"
  have run: "case run m s of (Ok x, s') \<Rightarrow> \<exists>s''. m s = (Ok x, s'') \<and> view s' = view s'' | (_, s') \<Rightarrow> view s' = view s"
    using assms(1) by (simp add: atomic_run_def)
  then show "J (view (snd (run m s)))"
    using J preservesD [OF assms(2), of s]
    by (cases "run m s"; cases "fst (run m s)") auto
qed

lemma preserves_list [preserves_intros]:
  "(xs = [] \<Longrightarrow> preserves I n) \<Longrightarrow> (\<And>y ys. xs = y # ys \<Longrightarrow> preserves I (f y ys)) \<Longrightarrow>
   preserves I (case xs of [] \<Rightarrow> n | y # ys \<Rightarrow> f y ys)"
  by (cases xs) simp_all

lemma preserves_for_each: "(\<And>x. preserves I (f x)) \<Longrightarrow> preserves I (for_each f xs)"
  by (induction xs) (auto intro!: preserves_intros)

context prisma
begin

abbreviation kept :: "('s, 'a) action \<Rightarrow> bool" where
  "kept \<equiv> preserves (\<lambda>s. prisma_wf (view s))"

lemma reads_kept:
  "kept (user_account_find_many P n)" "kept (port_find_unique P k)" "kept (transactions_data_find P k)"
  "kept (transaction_find_many P st)" "kept (nonce_find_unique P k)" "kept (saved_peers_find_unique P node)"
  "kept (saved_peers_find_first P sw)" "kept (saved_peers_find_many P)"
  "kept (saved_peer_account_info_find_first P j acc)" "kept (saved_peer_account_info_find_many P j)"
  by (rule documented_preserves, rule user_accounts ports transactions_data transactions nonces saved_peers
      saved_accounts, erule (1) wf_reads)+

lemma user_peer_find_first_kept: "kept (user_peer_find_first P uw)"
  by (rule documented_preserves [OF user_peers(2)]) (blast intro: wf_reads)

lemma writes_kept:
  "kept (success_value_increment P k a)" "kept (failed_value_increment P k a)" "kept (user_peer_create P up)"
  "kept (user_peer_account_info_create P acc net j)" "kept (saved_peers_create P node ma)"
  "kept (saved_peers_set_multi_addr P j ma)" "kept (saved_peers_delete P j)"
  "kept (saved_peer_account_info_create P acc net j)" "kept (saved_peer_account_info_delete_many P j)"
  by (rule documented_preserves, rule transactions_data user_peers saved_peers saved_accounts,
      erule (1) wf_sums wf_writes wf_sets_multi_addr wf_deletes_saved_peer wf_deletes_saved_accounts)+

lemma rows_kept:
  "kept (migrate_deploy P)" "kept (user_account_create P u)" "kept (transaction_create P tx)"
  "kept (port_create P a b)" "kept (transactions_data_create P c d)" "kept (nonce_create P c)"
  "kept (nonce_increment P k)"
proof -
  show "kept (migrate_deploy P)" "kept (user_account_create P u)" "kept (transaction_create P tx)"
    by (rule documented_preserves, rule migrate user_accounts transactions, simp add: writes_def prisma_wf_def)+
  show "kept (port_create P a b)" "kept (transactions_data_create P c d)" "kept (nonce_create P c)"
    by (rule documented_preserves, rule ports transactions_data nonces, auto intro: wf_new_row)+
  show "kept (nonce_increment P k)"
    by (rule documented_preserves [OF nonces(3)]) (clarsimp simp: prisma_wf_def)
qed

lemmas kept_intros = preserves_intros preserves_for_each atomic_run_preserves [OF run] reads_kept
  user_peer_find_first_kept writes_kept rows_kept

lemma collect_kept: "kept (collect_accounts P ps)" "kept (collect_infos P ps)"
  by (induction ps) (auto intro!: kept_intros)

lemma txs_of_rows_kept: "kept (txs_of_rows rs)"
  by (induction rs) (auto intro!: kept_intros)

end

section \<open>Calls of the trait\<close>

datatype prisma_call =
    PSetUserAccount prisma_user
  | PIncrementNonce
  | PGetNonce
  | PGetUserAccounts chain_supported
  | PUpdateSuccessTx prisma_tx
  | PUpdateFailedTx prisma_tx
  | PGetFailedTxs
  | PGetSuccessTxs
  | PGetTotalValueSuccess
  | PGetTotalValueFailed
  | PRecordUserPeerId peer_record
  | PUpdateUserPeerIdAccountIds account_info
  | PGetUserPeerId "string option" "string option"
  | PSetPorts u16 u16
  | PGetPorts
  | PRecordSavedUserPeers string string
  | PGetSavedUserPeers string
  | PGetAllSavedPeers
  | PDeleteSavedPeer string
  | PGetSavedPeerById string
  | PUpdateSavedPeer peer_record
  | PGetAccountIdsByPeerId string
  | PGetAllSavedPeersInfo

definition drop_result :: "('s, 'a) action \<Rightarrow> ('s, unit) action" where
  "drop_result m = and_then m (\<lambda>_. ret ())"

fun prisma_step :: "'s prisma_client \<Rightarrow> prisma_call \<Rightarrow> ('s, unit) action" where
  "prisma_step P (PSetUserAccount u) = prisma_set_user_account P u"
| "prisma_step P PIncrementNonce = prisma_increment_nonce P"
| "prisma_step P PGetNonce = drop_result (prisma_get_nonce P)"
| "prisma_step P (PGetUserAccounts net) = drop_result (prisma_get_user_accounts P net)"
| "prisma_step P (PUpdateSuccessTx tx) = prisma_update_success_tx P tx"
| "prisma_step P (PUpdateFailedTx tx) = prisma_update_failed_tx P tx"
| "prisma_step P PGetFailedTxs = drop_result (prisma_get_failed_txs P)"
| "prisma_step P PGetSuccessTxs = drop_result (prisma_get_success_txs P)"
| "prisma_step P PGetTotalValueSuccess = drop_result (prisma_get_total_value_success P)"
| "prisma_step P PGetTotalValueFailed = drop_result (prisma_get_total_value_failed P)"
| "prisma_step P (PRecordUserPeerId r) = prisma_record_user_peer_id P r"
| "prisma_step P (PUpdateUserPeerIdAccountIds a) = prisma_update_user_peer_id_account_ids P a"
| "prisma_step P (PGetUserPeerId acc peer) = drop_result (prisma_get_user_peer_id P acc peer)"
| "prisma_step P (PSetPorts a b) = prisma_set_ports P a b"
| "prisma_step P PGetPorts = drop_result (prisma_get_ports P)"
| "prisma_step P (PRecordSavedUserPeers acc ma) = prisma_record_saved_user_peers P acc ma"
| "prisma_step P (PGetSavedUserPeers acc) = drop_result (prisma_get_saved_user_peers P acc)"
| "prisma_step P PGetAllSavedPeers = drop_result (prisma_get_all_saved_peers P)"
| "prisma_step P (PDeleteSavedPeer peer) = prisma_delete_saved_peer P peer"
| "prisma_step P (PGetSavedPeerById peer) = drop_result (prisma_get_saved_peer_by_id P peer)"
| "prisma_step P (PUpdateSavedPeer r) = prisma_update_saved_peer P r"
| "prisma_step P (PGetAccountIdsByPeerId peer) = drop_result (prisma_get_account_ids_by_peer_id P peer)"
| "prisma_step P PGetAllSavedPeersInfo = drop_result (prisma_get_all_saved_peers_info P)"

fun prisma_run :: "'s prisma_client \<Rightarrow> prisma_call list \<Rightarrow> 's \<Rightarrow> 's" where
  "prisma_run P [] s = s"
| "prisma_run P (c # cs) s = prisma_run P cs (snd (prisma_step P c s))"

lemmas read_defs = drop_result_def prisma_get_user_accounts_def prisma_get_failed_txs_def prisma_get_success_txs_def
  prisma_get_total_value_success_def prisma_get_total_value_failed_def prisma_get_user_peer_id_def
  prisma_get_ports_def prisma_get_saved_user_peers_def prisma_get_all_saved_peers_def
  prisma_get_saved_peer_by_id_def prisma_get_account_ids_by_peer_id_def prisma_get_all_saved_peers_info_def

lemmas write_defs = prisma_set_user_account_def prisma_increment_nonce_def prisma_get_nonce_def
  prisma_update_success_tx_def prisma_update_failed_tx_def prisma_record_user_peer_id_def
  prisma_update_user_peer_id_account_ids_def prisma_set_ports_def prisma_record_saved_user_peers_def
  prisma_delete_saved_peer_def prisma_update_saved_peer_def

context prisma
begin

lemma step_kept: "kept (prisma_step P c)"
  by (cases c)
    (simp_all add: read_defs write_defs Let_def split: option.split,
     auto intro!: kept_intros collect_kept txs_of_rows_kept split: option.split)

lemma run_kept: "prisma_wf (view s) \<Longrightarrow> prisma_wf (view (prisma_run P cs s))"
  by (induction cs arbitrary: s) (simp_all add: preservesD [OF step_kept])

end

section \<open>Failed calls\<close>

definition clean :: "('s \<Rightarrow> prisma_tables) \<Rightarrow> ('s, 'a) action \<Rightarrow> bool" where
  "clean view m \<longleftrightarrow> (\<forall>s r s'. m s = (r, s') \<longrightarrow> (\<forall>x. r \<noteq> Ok x) \<longrightarrow> view s' = view s)"

lemma cleanD: "clean view m \<Longrightarrow> m s = (r, s') \<Longrightarrow> (\<And>x. r \<noteq> Ok x) \<Longrightarrow> view s' = view s"
  by (simp add: clean_def)

lemma clean_documented:
  assumes "documented view q R"
  shows "clean view q"
  unfolding clean_def
proof (intro allI impI)
  fix s r s' assume q: "q s = (r, s')" "\<forall>x. r \<noteq> Ok x"
  show "view s' = view s"
    using assms [unfolded documented_def, rule_format, of s] q by (cases r) auto
qed

lemma clean_atomic_run:
  assumes "atomic_run view run"
  shows "clean view (run m)"
  unfolding clean_def
proof (intro allI impI)
  fix s r s' assume q: "run m s = (r, s')" "\<forall>x. r \<noteq> Ok x"
  show "view s' = view s"
    using assms [unfolded atomic_run_def, rule_format, of m s] q by (cases r) auto
qed

lemma quiet_view: "(\<And>v. preserves (\<lambda>s. view s = v) m) \<Longrightarrow> m s = (r, s') \<Longrightarrow> view s' = view s"
  using preservesD [of "\<lambda>s'. view s' = view s" m s] by simp

lemma clean_quiet: "(\<And>v. preserves (\<lambda>s. view s = v) m) \<Longrightarrow> clean view m"
  unfolding clean_def using quiet_view [of view m] by blast

lemma clean_and_then:
  assumes "\<And>v. preserves (\<lambda>s. view s = v) m" and "\<And>x. clean view (f x)"
  shows "clean view (and_then m f)"
  unfolding clean_def
proof (intro allI impI)
  fix s r s' assume run: "and_then m f s = (r, s')" "\<forall>x. r \<noteq> Ok x"
  obtain r1 s1 where m: "m s = (r1, s1)" by (cases "m s") auto
  have "view s1 = view s" by (rule quiet_view [OF assms(1) m])
  then show "view s' = view s"
    using run m cleanD [OF assms(2)] by (cases r1) (auto simp: run_and_then)
qed

lemma clean_then_ret: "clean view m \<Longrightarrow> clean view (and_then m (\<lambda>x. ret (f x)))"
  unfolding clean_def run_and_then run_ret by (auto split: prod.splits outcome.splits)

lemma clean_split:
  "(b \<Longrightarrow> clean view m) \<Longrightarrow> (\<not> b \<Longrightarrow> clean view n) \<Longrightarrow> clean view (if b then m else n)"
  "(o1 = None \<Longrightarrow> clean view m) \<Longrightarrow> (\<And>x. o1 = Some x \<Longrightarrow> clean view (g x)) \<Longrightarrow>
   clean view (case o1 of None \<Rightarrow> m | Some x \<Rightarrow> g x)"
  by (auto split: option.split)

fun recorded :: "prisma_call \<Rightarrow> prisma_tx set" where
  "recorded (PUpdateSuccessTx tx) = {tx}"
| "recorded (PUpdateFailedTx tx) = {tx}"
| "recorded _ = {}"

context prisma
begin

lemma quiet_reads:
  "preserves (\<lambda>s. view s = v) (user_account_find_many P n)"
  "preserves (\<lambda>s. view s = v) (port_find_unique P k)"
  "preserves (\<lambda>s. view s = v) (transactions_data_find P k)"
  "preserves (\<lambda>s. view s = v) (transaction_find_many P st)"
  "preserves (\<lambda>s. view s = v) (nonce_find_unique P k)"
  "preserves (\<lambda>s. view s = v) (user_peer_find_first P uw)"
  "preserves (\<lambda>s. view s = v) (saved_peers_find_unique P node)"
  "preserves (\<lambda>s. view s = v) (saved_peers_find_first P sw)"
  "preserves (\<lambda>s. view s = v) (saved_peers_find_many P)"
  "preserves (\<lambda>s. view s = v) (saved_peer_account_info_find_first P j acc)"
  "preserves (\<lambda>s. view s = v) (saved_peer_account_info_find_many P j)"
  by (rule documented_preserves, rule user_accounts ports transactions_data transactions nonces user_peers
      saved_peers saved_accounts, simp add: relation_defs)+

lemmas quiet_intros = preserves_intros quiet_reads

lemma quiet_collect:
  "preserves (\<lambda>s. view s = v) (collect_accounts P ps)" "preserves (\<lambda>s. view s = v) (collect_infos P ps)"
  by (induction ps) (simp_all add: quiet_intros)

lemma quiet_txs_of_rows: "preserves (\<lambda>s. view s = v) (txs_of_rows rs)"
  by (induction rs) (simp_all add: quiet_intros)

lemma clean_writes:
  "clean view (user_account_create P u)" "clean view (port_create P a b)" "clean view (nonce_create P c)"
  "clean view (nonce_increment P k)" "clean view (user_peer_account_info_create P acc net i)"
  "clean view (saved_peers_delete P i)" "clean view (transaction_run P m)"
  by (rule clean_documented, rule user_accounts ports nonces user_peers saved_peers)+
    (rule clean_atomic_run [OF run])

lemma clean_get_nonce: "clean view (prisma_get_nonce P)"
  unfolding prisma_get_nonce_def
  by (intro clean_and_then quiet_reads clean_split clean_then_ret [of view _ "\<lambda>_. 0"] clean_writes
      clean_quiet [of view "ret _"] preserves_ret)

lemma clean_delete_saved_peer: "clean view (prisma_delete_saved_peer P peer)"
  unfolding prisma_delete_saved_peer_def
  by (intro clean_and_then quiet_reads clean_split clean_writes clean_quiet [of view "raise _"] preserves_raise)

lemma step_clean: "recorded c = {} \<Longrightarrow> clean view (prisma_step P c)"
proof (cases c)
  case PGetNonce
  then show ?thesis by (simp add: drop_result_def clean_then_ret clean_get_nonce)
next
  case (PDeleteSavedPeer x19)
  then show ?thesis by (simp add: clean_delete_saved_peer)
qed (auto simp: read_defs write_defs Let_def split: option.split
       intro!: clean_quiet [of view] quiet_intros quiet_collect quiet_txs_of_rows clean_writes)

lemma update_tx_failed:
  assumes "and_then (transaction_create P row) (\<lambda>_. m) s = (r, s')" and "r \<noteq> Ok ()" and "clean view m"
  shows "view s' = view s \<or> view s' = (view s)\<lparr>t_transaction := t_transaction (view s) @ [row]\<rparr>"
proof (cases "transaction_create P row s")
  case (Pair r1 s1)
  show ?thesis
  proof (cases r1)
    case (Ok x)
    then have "view s1 = (view s)\<lparr>t_transaction := t_transaction (view s) @ [row]\<rparr>"
      using documented_Ok [OF transactions(1)] Pair by (force simp: writes_def)
    then show ?thesis
      using assms Pair Ok cleanD [OF assms(3)] by (auto simp: run_and_then)
  qed (use assms(1) Pair cleanD [OF clean_documented [OF transactions(1)] Pair] in \<open>auto simp: run_and_then\<close>)
qed

lemma step_failed:
  assumes "prisma_step P c s = (r, s')" and "r \<noteq> Ok ()"
  shows "view s' = view s
    \<or> (\<exists>tx \<in> recorded c. view s' = (view s)\<lparr>t_transaction := t_transaction (view s) @ [row_of_tx tx]\<rparr>)"
proof -
  have "(\<And>x. r \<noteq> Ok x)" using assms(2) by simp
  then have "recorded c = {} \<Longrightarrow> view s' = view s"
    using cleanD [OF step_clean assms(1)] by blast
  moreover have "clean view (success_value_increment P k a)" "clean view (failed_value_increment P k a)" for k a
    by (rule clean_documented, rule transactions_data)+
  ultimately show ?thesis
    using assms update_tx_failed
    by (cases c) (auto simp: prisma_update_success_tx_def prisma_update_failed_tx_def)
qed

end

section \<open>Saved peers\<close>

definition saved_accounts :: "string \<Rightarrow> prisma_tables \<Rightarrow> string list" where
  "saved_accounts node t = (case List.find (\<lambda>r. sp_node_id r = node) (t_saved_peers t) of
     None \<Rightarrow> [] | Some r \<Rightarrow> map spa_account_id (accounts_of (sp_id r) t))"

text \<open>What a successful \<open>record_saved_user_peers\<close> leaves in the tables.\<close>

definition peer_recorded :: "string \<Rightarrow> string \<Rightarrow> prisma_tables \<Rightarrow> prisma_tables \<Rightarrow> bool" where
  "peer_recorded acc ma t t' \<longleftrightarrow> (\<exists>p. sp_node_id p = ma
     \<and> (p \<in> set (t_saved_peers t) \<and> t_saved_peers t' = t_saved_peers t
        \<or> ma \<notin> sp_node_id ` set (t_saved_peers t) \<and> sp_id p \<notin> sp_id ` set (t_saved_peers t)
            \<and> t_saved_peers t' = t_saved_peers t @ [p])
     \<and> t_saved_peer_account_info t' = t_saved_peer_account_info t @
        (if acc \<in> set (map spa_account_id (accounts_of (sp_id p) t)) then []
         else [\<lparr>spa_account_id = acc, spa_network = infer_network acc, spa_saved_peer_id = sp_id p\<rparr>]))"

lemma find_node:
  "distinct (map sp_node_id rs) \<Longrightarrow> r \<in> set rs \<Longrightarrow> List.find (\<lambda>x. sp_node_id x = sp_node_id r) rs = Some r"
  by (induction rs) (auto simp: image_iff)

lemma find_node_None: "List.find (\<lambda>x. sp_node_id x = n) rs = None \<longleftrightarrow> n \<notin> sp_node_id ` set rs"
  by (auto simp: find_None_iff)

lemma find_mem: "List.find Q rs = Some r \<Longrightarrow> r \<in> set rs \<and> Q r"
  by (auto simp: find_Some_iff)

lemma find_node_append:
  "List.find Q (rs @ rs') = (case List.find Q rs of Some r \<Rightarrow> Some r | None \<Rightarrow> List.find Q rs')"
  by (induction rs) auto

lemma accounts_of_new:
  "prisma_wf t \<Longrightarrow> i \<notin> sp_id ` set (t_saved_peers t) \<Longrightarrow> accounts_of i t = []"
  unfolding prisma_wf_def accounts_of_def by (auto simp: filter_empty_conv)

lemma saved_accounts_recorded:
  assumes "prisma_wf t" and "peer_recorded acc ma t t'"
  shows "saved_accounts ma t' = saved_accounts ma t @ (if acc \<in> set (saved_accounts ma t) then [] else [acc])"
    and "node \<noteq> ma \<Longrightarrow> saved_accounts node t' = saved_accounts node t"
proof -
  obtain p where p: "sp_node_id p = ma"
    and peers: "p \<in> set (t_saved_peers t) \<and> t_saved_peers t' = t_saved_peers t
      \<or> ma \<notin> sp_node_id ` set (t_saved_peers t) \<and> sp_id p \<notin> sp_id ` set (t_saved_peers t)
          \<and> t_saved_peers t' = t_saved_peers t @ [p]"
    and accs: "t_saved_peer_account_info t' = t_saved_peer_account_info t @
        (if acc \<in> set (map spa_account_id (accounts_of (sp_id p) t)) then []
         else [\<lparr>spa_account_id = acc, spa_network = infer_network acc, spa_saved_peer_id = sp_id p\<rparr>])"
    using assms(2) unfolding peer_recorded_def by blast
  have wf: "distinct (map sp_id (t_saved_peers t))" "distinct (map sp_node_id (t_saved_peers t))"
    using assms(1) by (simp_all add: prisma_wf_def)
  have found': "List.find (\<lambda>r. sp_node_id r = ma) (t_saved_peers t') = Some p"
    using peers
  proof
    assume "p \<in> set (t_saved_peers t) \<and> t_saved_peers t' = t_saved_peers t"
    then show ?thesis using find_node [OF wf(2), of p] p by simp
  next
    assume *: "ma \<notin> sp_node_id ` set (t_saved_peers t) \<and> sp_id p \<notin> sp_id ` set (t_saved_peers t)
          \<and> t_saved_peers t' = t_saved_peers t @ [p]"
    then have "List.find (\<lambda>r. sp_node_id r = ma) (t_saved_peers t) = None" by (simp add: find_node_None)
    then show ?thesis using * p by (simp add: find_node_append)
  qed
  have same: "saved_accounts ma t = map spa_account_id (accounts_of (sp_id p) t)"
    using peers
  proof
    assume "p \<in> set (t_saved_peers t) \<and> t_saved_peers t' = t_saved_peers t"
    then show ?thesis using find_node [OF wf(2), of p] p by (simp add: saved_accounts_def)
  next
    assume *: "ma \<notin> sp_node_id ` set (t_saved_peers t) \<and> sp_id p \<notin> sp_id ` set (t_saved_peers t)
          \<and> t_saved_peers t' = t_saved_peers t @ [p]"
    then have "List.find (\<lambda>r. sp_node_id r = ma) (t_saved_peers t) = None" by (simp add: find_node_None)
    then show ?thesis using * accounts_of_new [OF assms(1), of "sp_id p"] by (simp add: saved_accounts_def)
  qed
  show "saved_accounts ma t' = saved_accounts ma t @ (if acc \<in> set (saved_accounts ma t) then [] else [acc])"
    unfolding same using accs by (simp add: saved_accounts_def found' accounts_of_def)
  show "saved_accounts node t' = saved_accounts node t" if "node \<noteq> ma"
  proof -
    have "List.find (\<lambda>r. sp_node_id r = node) (t_saved_peers t') = List.find (\<lambda>r. sp_node_id r = node) (t_saved_peers t)"
      using peers p that by (auto simp: find_node_append split: option.splits)
    moreover have "accounts_of (sp_id r) t' = accounts_of (sp_id r) t"
      if "List.find (\<lambda>r. sp_node_id r = node) (t_saved_peers t) = Some r" for r
    proof -
      have r: "r \<in> set (t_saved_peers t)" "sp_node_id r = node"
        using find_mem [OF that] by simp_all
      have "sp_id r \<noteq> sp_id p"
        using peers
      proof
        assume "p \<in> set (t_saved_peers t) \<and> t_saved_peers t' = t_saved_peers t"
        then show ?thesis
          using wf(1) r \<open>node \<noteq> ma\<close> p by (auto simp: distinct_map dest: inj_onD)
      qed (use imageI [OF r(1), of sp_id] in auto)
      then show ?thesis using accs by (simp add: accounts_of_def)
    qed
    ultimately show ?thesis by (simp add: saved_accounts_def split: option.split)
  qed
qed

context prisma
begin

lemma run_Ok: "transaction_run P m s = (Ok (), s') \<Longrightarrow> \<exists>s''. m s = (Ok (), s'') \<and> view s' = view s''"
  using run [unfolded atomic_run_def, rule_format, of m s] by simp

lemma record_saved_Ok:
  assumes "prisma_record_saved_user_peers P acc ma s = (Ok (), s')"
  shows "peer_recorded acc ma (view s) (view s')"
proof -
  obtain s'' where s'': "view s' = view s''"
    and body: "and_then (saved_peers_find_unique P ma) (\<lambda>found.
       and_then (case found of Some p \<Rightarrow> ret p | None \<Rightarrow> saved_peers_create P ma ma) (\<lambda>peer.
       and_then (saved_peer_account_info_find_first P (sp_id peer) acc) (\<lambda>existing. case existing of
         None \<Rightarrow> saved_peer_account_info_create P acc (infer_network acc) (sp_id peer) | Some _ \<Rightarrow> ret ()))) s
      = (Ok (), s'')"
    using run_Ok assms unfolding prisma_record_saved_user_peers_def by blast
  obtain found s1 peer s2 existing s3 where
      q1: "saved_peers_find_unique P ma s = (Ok found, s1)"
    and q2: "(case found of Some p \<Rightarrow> ret p | None \<Rightarrow> saved_peers_create P ma ma) s1 = (Ok peer, s2)"
    and q3: "saved_peer_account_info_find_first P (sp_id peer) acc s2 = (Ok existing, s3)"
    and q4: "(case existing of None \<Rightarrow> saved_peer_account_info_create P acc (infer_network acc) (sp_id peer)
         | Some _ \<Rightarrow> ret ()) s3 = (Ok (), s'')"
    using body unfolding and_then_Ok_iff by blast
  have v1: "view s1 = view s" "found = List.find (\<lambda>r. sp_node_id r = ma) (t_saved_peers (view s))"
    using documented_Ok [OF saved_peers(1) q1] by (simp_all add: reads_def)
  have v2: "sp_node_id peer = ma
     \<and> (peer \<in> set (t_saved_peers (view s)) \<and> view s2 = view s
        \<or> ma \<notin> sp_node_id ` set (t_saved_peers (view s)) \<and> sp_id peer \<notin> sp_id ` set (t_saved_peers (view s))
            \<and> view s2 = (view s)\<lparr>t_saved_peers := t_saved_peers (view s) @ [peer]\<rparr>)"
  proof (cases found)
    case None
    then show ?thesis
      using q2 v1(1) documented_Ok [OF saved_peers(4), of ma ma s1 peer s2] by (simp add: creates_saved_peer_def)
  next
    case (Some p)
    then show ?thesis
      using q2 v1(1) find_mem [OF v1(2) [symmetric, unfolded Some]] by (simp add: run_ret)
  qed
  have v3: "view s3 = view s2"
    "existing = None \<longleftrightarrow> acc \<notin> set (map spa_account_id (accounts_of (sp_id peer) (view s2)))"
    using documented_Ok [OF saved_accounts(1) q3]
    by (auto simp: reads_first_def accounts_of_def split: option.splits)
  have v4: "t_saved_peers (view s'') = t_saved_peers (view s2)"
    "t_saved_peer_account_info (view s'') = t_saved_peer_account_info (view s2) @ (if existing = None
       then [\<lparr>spa_account_id = acc, spa_network = infer_network acc, spa_saved_peer_id = sp_id peer\<rparr>] else [])"
    using q4 v3 documented_Ok [OF saved_accounts(3), of acc "infer_network acc" "sp_id peer" s3 "()" s'']
    by (auto simp: run_ret creates_saved_account_def writes_def split: option.splits)
  have "t_saved_peer_account_info (view s2) = t_saved_peer_account_info (view s)"
    using v2 by auto
  moreover from this have "accounts_of (sp_id peer) (view s2) = accounts_of (sp_id peer) (view s)"
    by (simp add: accounts_of_def)
  ultimately show ?thesis
    unfolding peer_recorded_def s'' using v2 v3 v4 by (intro exI [of _ peer]) auto
qed

end

context prisma
begin

lemma account_ids_Ok:
  assumes "prisma_get_account_ids_by_peer_id P node s = (Ok accs, s')" and "prisma_wf (view s)"
  shows "mset accs = mset (saved_accounts node (view s))"
proof -
  obtain p s1 xs s2 where q1: "saved_peers_find_first P (SavedPeersNodeId node) s = (Ok (Some p), s1)"
    and q2: "saved_peer_account_info_find_many P (sp_id p) s1 = (Ok xs, s2)" and accs: "accs = map spa_account_id xs"
    using assms(1) unfolding prisma_get_account_ids_by_peer_id_def and_then_Ok_iff
    by (auto simp: and_then_Ok_iff run_ret run_raise split: option.splits)
  have p: "view s1 = view s" "p \<in> set (t_saved_peers (view s))" "sp_node_id p = node"
    using documented_Ok [OF saved_peers(2) q1] by (simp_all add: reads_first_def)
  have "List.find (\<lambda>r. sp_node_id r = node) (t_saved_peers (view s)) = Some p"
    using find_node [OF _ p(2)] assms(2) p(3) by (simp add: prisma_wf_def)
  moreover have "mset xs = mset (accounts_of (sp_id p) (view s))"
    using documented_Ok [OF saved_accounts(2) q2] p(1) by (simp add: reads_many_def accounts_of_def)
  ultimately show ?thesis by (simp add: saved_accounts_def accs)
qed

text \<open>A peer with an account is not deleted.\<close>

lemma delete_with_account:
  assumes "prisma_wf (view s)" and "saved_accounts node (view s) \<noteq> []"
  shows "prisma_delete_saved_peer P node s \<noteq> (Ok (), s')"
proof
  assume "prisma_delete_saved_peer P node s = (Ok (), s')"
  then obtain r s1 where q1: "saved_peers_find_unique P node s = (Ok (Some r), s1)"
    and q2: "saved_peers_delete P (sp_id r) s1 = (Ok (), s')"
    unfolding prisma_delete_saved_peer_def by (auto simp: and_then_Ok_iff run_ret run_raise split: option.splits)
  have "view s1 = view s" "List.find (\<lambda>r. sp_node_id r = node) (t_saved_peers (view s)) = Some r"
    using documented_Ok [OF saved_peers(1) q1] by (simp_all add: reads_def)
  moreover have "accounts_of (sp_id r) (view s1) = []"
    using documented_Ok [OF saved_peers(6) q2] by (simp add: deletes_saved_peer_def writes_def)
  ultimately show False using assms(2) by (simp add: saved_accounts_def)
qed

text \<open>The peer that a lookup by account returns has no other account.\<close>

lemma saved_user_peers_Ok:
  assumes "prisma_get_saved_user_peers P acc s = (Ok ma, s')" and "prisma_wf (view s)"
  shows "\<exists>r \<in> set (t_saved_peers (view s)). sp_multi_addr r = ma
    \<and> set (saved_accounts (sp_node_id r) (view s)) \<subseteq> {acc}"
proof -
  obtain r s1 where q1: "saved_peers_find_first P (SavedPeersAccountsEvery acc) s = (Ok (Some r), s1)"
    and ma: "ma = sp_multi_addr r"
    using assms(1) unfolding prisma_get_saved_user_peers_def
    by (auto simp: and_then_Ok_iff run_ret run_raise split: option.splits)
  have r: "r \<in> set (t_saved_peers (view s))" "\<forall>x \<in> set (accounts_of (sp_id r) (view s)). spa_account_id x = acc"
    using documented_Ok [OF saved_peers(2) q1] by (simp_all add: reads_first_def)
  then show ?thesis
    using find_node [OF _ r(1)] assms(2) ma
    by (intro bexI [of _ r]) (auto simp: saved_accounts_def prisma_wf_def)
qed

lemma record_user_peer_Ok:
  assumes "prisma_record_user_peer_id P r s = (Ok (), s')"
  shows "MAIN_USER_ID \<notin> up_id ` set (t_user_peer (view s))"
proof -
  obtain s'' where "and_then (user_peer_create P \<lparr>up_id = MAIN_USER_ID, up_peer_id = or_default (pr_peer_id r),
        up_multi_addr = or_default (pr_multi_addr r), up_keypair = or_default (pr_keypair r)\<rparr>) (\<lambda>_.
     for_each (\<lambda>a. user_peer_account_info_create P (ai_account a) (chain_to_string (ai_network a)) MAIN_USER_ID)
       (pr_accounts r)) s = (Ok (), s'')"
    using run_Ok assms unfolding prisma_record_user_peer_id_def by blast
  then obtain s1 where q: "user_peer_create P \<lparr>up_id = MAIN_USER_ID, up_peer_id = or_default (pr_peer_id r),
        up_multi_addr = or_default (pr_multi_addr r), up_keypair = or_default (pr_keypair r)\<rparr> s
      = (Ok (), s1)"
    unfolding and_then_Ok_iff by auto
  show ?thesis
    using documented_Ok [OF user_peers(1) q] by (simp add: creates_user_peer_def writes_def)
qed

end

context reliable_prisma
begin

lemma find_unique_answers: "\<exists>x s'. saved_peers_find_unique P node s = (Ok x, s') \<and> view s' = view s
    \<and> x = List.find (\<lambda>r. sp_node_id r = node) (t_saved_peers (view s))"
proof -
  obtain x s' where q: "saved_peers_find_unique P node s = (Ok x, s')"
    using answers_Ok [OF finds_answer(1), of node s] by (auto simp: reads_def)
  then show ?thesis using documented_Ok [OF saved_peers(1) q] by (auto simp: reads_def)
qed

lemma reads_first_possible: "\<exists>x. reads_first rows matches t x t"
proof (cases "\<exists>r \<in> set (rows t). matches t r")
  case True
  then obtain r where "r \<in> set (rows t)" "matches t r" by blast
  then show ?thesis by (intro exI [of _ "Some r"]) (simp add: reads_first_def)
next
  case False
  then show ?thesis by (intro exI [of _ None]) (simp add: reads_first_def)
qed

lemma find_first_answers:
  "\<exists>x s'. saved_peers_find_first P sw s = (Ok x, s')"
  "\<exists>x s'. saved_peer_account_info_find_first P j acc s = (Ok x, s')"
  "\<exists>x s'. saved_peer_account_info_find_many P j s = (Ok x, s')"
proof -
  obtain x where "reads_first t_saved_peers (saved_peer_matches sw) (view s) x (view s)"
    using reads_first_possible by blast
  then show "\<exists>x s'. saved_peers_find_first P sw s = (Ok x, s')" by (rule answers_Ok [OF finds_answer(2)])
  obtain y where "reads_first t_saved_peer_account_info
      (\<lambda>t x. spa_saved_peer_id x = j \<and> spa_account_id x = acc) (view s) y (view s)"
    using reads_first_possible by blast
  then show "\<exists>x s'. saved_peer_account_info_find_first P j acc s = (Ok x, s')"
    by (rule answers_Ok [OF finds_answer(3)])
  have "reads_many t_saved_peer_account_info (\<lambda>x. spa_saved_peer_id x = j) (view s)
      (accounts_of j (view s)) (view s)"
    by (simp add: reads_many_def accounts_of_def)
  then show "\<exists>x s'. saved_peer_account_info_find_many P j s = (Ok x, s')"
    by (rule answers_Ok [OF finds_answer(4)])
qed

lemma saved_peers_create_answers:
  assumes "node \<notin> sp_node_id ` set (t_saved_peers (view s))"
  shows "\<exists>r s'. saved_peers_create P node ma s = (Ok r, s')"
proof -
  obtain i :: string where "i \<notin> sp_id ` set (t_saved_peers (view s))"
    using ex_new_if_finite [OF infinite_UNIV_listI, of "sp_id ` set (t_saved_peers (view s))"] by auto
  then have "creates_saved_peer node ma (view s) \<lparr>sp_id = i, sp_node_id = node, sp_multi_addr = ma\<rparr>
      ((view s)\<lparr>t_saved_peers := t_saved_peers (view s) @ [\<lparr>sp_id = i, sp_node_id = node, sp_multi_addr = ma\<rparr>]\<rparr>)"
    using assms by (simp add: creates_saved_peer_def)
  then show ?thesis by (rule answers_Ok [OF creates_answer(1)])
qed

lemma saved_account_create_answers:
  "j \<in> sp_id ` set (t_saved_peers (view s)) \<Longrightarrow> \<exists>s'. saved_peer_account_info_create P acc net j s = (Ok (), s')"
  using answers_Ok [OF creates_answer(2), of acc net j s "()"] by (auto simp: creates_saved_account_def writes_def)

lemma record_saved_answers: "\<exists>s'. prisma_record_saved_user_peers P acc ma s = (Ok (), s')"
proof -
  obtain s1 where q1: "saved_peers_find_unique P ma s
      = (Ok (List.find (\<lambda>r. sp_node_id r = ma) (t_saved_peers (view s))), s1)" "view s1 = view s"
    using find_unique_answers by blast
  obtain peer s2 where q2: "(case List.find (\<lambda>r. sp_node_id r = ma) (t_saved_peers (view s)) of
      Some p \<Rightarrow> ret p | None \<Rightarrow> saved_peers_create P ma ma) s1 = (Ok peer, s2)"
    and peer: "sp_id peer \<in> sp_id ` set (t_saved_peers (view s2))"
  proof (cases "List.find (\<lambda>r. sp_node_id r = ma) (t_saved_peers (view s))")
    case None
    then obtain r s2 where "saved_peers_create P ma ma s1 = (Ok r, s2)"
      using saved_peers_create_answers q1(2) by (metis find_node_None)
    then show thesis
      using documented_Ok [OF saved_peers(4), of ma ma s1 r s2] None
      by (intro that [of r s2]) (auto simp: creates_saved_peer_def)
  next
    case (Some p)
    then show thesis
      using find_mem [OF Some] q1(2) by (intro that [of p s1]) (auto simp: run_ret)
  qed
  obtain existing s3 where q3: "saved_peer_account_info_find_first P (sp_id peer) acc s2 = (Ok existing, s3)"
    using find_first_answers(2) by blast
  have "view s3 = view s2"
    using documented_Ok [OF saved_accounts(1) q3] by (simp add: reads_first_def)
  then obtain s4 where q4: "(case existing of
      None \<Rightarrow> saved_peer_account_info_create P acc (infer_network acc) (sp_id peer) | Some _ \<Rightarrow> ret ()) s3 = (Ok (), s4)"
    using saved_account_create_answers [of "sp_id peer" s3] peer by (cases existing) (auto simp: run_ret)
  let ?body = "and_then (saved_peers_find_unique P ma) (\<lambda>found.
     and_then (case found of Some p \<Rightarrow> ret p | None \<Rightarrow> saved_peers_create P ma ma) (\<lambda>peer.
     and_then (saved_peer_account_info_find_first P (sp_id peer) acc) (\<lambda>existing. case existing of
       None \<Rightarrow> saved_peer_account_info_create P acc (infer_network acc) (sp_id peer) | Some _ \<Rightarrow> ret ())))"
  have "?body s = (Ok (), s4)"
    by (simp add: run_and_then q1(1) q2 q3 q4)
  then have "fst (transaction_run P ?body s) = Ok ()" by (rule run_answers)
  then show ?thesis
    unfolding prisma_record_saved_user_peers_def by (cases "transaction_run P ?body s") simp
qed

lemma account_ids_answer:
  assumes "node \<in> sp_node_id ` set (t_saved_peers (view s))"
  shows "\<exists>accs s'. prisma_get_account_ids_by_peer_id P node s = (Ok accs, s')"
proof -
  obtain x s1 where q1: "saved_peers_find_first P (SavedPeersNodeId node) s = (Ok x, s1)"
    using find_first_answers(1) by blast
  moreover have "x \<noteq> None"
    using documented_Ok [OF saved_peers(2) q1] assms by (cases x) (auto simp: reads_first_def)
  ultimately obtain p where p: "x = Some p" by blast
  obtain xs s2 where "saved_peer_account_info_find_many P (sp_id p) s1 = (Ok xs, s2)"
    using find_first_answers(3) by blast
  then show ?thesis
    using q1 by (simp add: prisma_get_account_ids_by_peer_id_def run_and_then run_ret p)
qed

end

section \<open>A client over lists of rows\<close>

text \<open>The argument \<open>F\<close> says which queries fail on which tables.\<close>

type_synonym faults = "string \<Rightarrow> prisma_tables \<Rightarrow> string option"

definition exec :: "faults \<Rightarrow> string \<Rightarrow> (prisma_tables, 'a) action \<Rightarrow> (prisma_tables, 'a) action" where
  "exec F name m = (\<lambda>t. case F name t of Some e \<Rightarrow> (Err (PrismaError e), t) | None \<Rightarrow> m t)"

definition change :: "faults \<Rightarrow> string \<Rightarrow> (prisma_tables \<Rightarrow> bool) \<Rightarrow> (prisma_tables \<Rightarrow> prisma_tables)
    \<Rightarrow> (prisma_tables, unit) action" where
  "change F name guard f = exec F name (\<lambda>t. if guard t then (Ok (), f t)
     else (Err (PrismaError ''constraint''), t))"

definition next_id :: "(nat \<times> 'r) list \<Rightarrow> nat" where
  "next_id rows = Suc (sum_list (map fst rows))"

definition next_uuid :: "prisma_tables \<Rightarrow> string" where
  "next_uuid t = ''u'' @ concat (map sp_id (t_saved_peers t))"

definition table_client :: "faults \<Rightarrow> prisma_tables prisma_client" where
  "table_client F = \<lparr>
     migrate_deploy = change F ''migrate'' (\<lambda>_. True) (\<lambda>t. t),
     user_account_create = (\<lambda>u. change F ''user_account create'' (\<lambda>_. True)
       (\<lambda>t. t\<lparr>t_user_account := t_user_account t @ [u]\<rparr>)),
     user_account_find_many = (\<lambda>n. exec F ''user_account find_many''
       (gets (\<lambda>t. filter (\<lambda>r. uar_network_id r = n) (t_user_account t)))),
     port_create = (\<lambda>a b. change F ''port create'' (\<lambda>_. True)
       (\<lambda>t. t\<lparr>t_port := t_port t @ [(next_id (t_port t), a, b)]\<rparr>)),
     port_find_unique = (\<lambda>k. exec F ''port find_unique'' (gets (\<lambda>t. map_of (t_port t) k))),
     transactions_data_create = (\<lambda>a b. change F ''transactions_data create'' (\<lambda>_. True)
       (\<lambda>t. t\<lparr>t_transactions_data := t_transactions_data t @ [(next_id (t_transactions_data t), a, b)]\<rparr>)),
     transactions_data_find = (\<lambda>k. exec F ''transactions_data find'' (gets (\<lambda>t. map_of (t_transactions_data t) k))),
     success_value_increment = (\<lambda>k a. change F ''success_value increment'' (\<lambda>t. map_of (t_transactions_data t) k \<noteq> None)
       (\<lambda>t. case the (map_of (t_transactions_data t) k) of (u, v) \<Rightarrow>
          t\<lparr>t_transactions_data := AList.update k (u + sint a, v) (t_transactions_data t)\<rparr>)),
     failed_value_increment = (\<lambda>k a. change F ''failed_value increment'' (\<lambda>t. map_of (t_transactions_data t) k \<noteq> None)
       (\<lambda>t. case the (map_of (t_transactions_data t) k) of (u, v) \<Rightarrow>
          t\<lparr>t_transactions_data := AList.update k (u, v + sint a) (t_transactions_data t)\<rparr>)),
     transaction_create = (\<lambda>tx. change F ''transaction create'' (\<lambda>_. True)
       (\<lambda>t. t\<lparr>t_transaction := t_transaction t @ [tx]\<rparr>)),
     transaction_find_many = (\<lambda>st. exec F ''transaction find_many''
       (gets (\<lambda>t. filter (\<lambda>r. tr_status r = st) (t_transaction t)))),
     nonce_create = (\<lambda>n. change F ''nonce create'' (\<lambda>_. True)
       (\<lambda>t. t\<lparr>t_nonce := t_nonce t @ [(next_id (t_nonce t), n)]\<rparr>)),
     nonce_find_unique = (\<lambda>k. exec F ''nonce find_unique'' (gets (\<lambda>t. map_of (t_nonce t) k))),
     nonce_increment = (\<lambda>k. change F ''nonce increment'' (\<lambda>t. map_of (t_nonce t) k \<noteq> None)
       (\<lambda>t. t\<lparr>t_nonce := AList.update k (the (map_of (t_nonce t) k) + 1) (t_nonce t)\<rparr>)),
     user_peer_create = (\<lambda>r. change F ''user_peer create''
       (\<lambda>t. up_id r \<notin> up_id ` set (t_user_peer t) \<and> up_peer_id r \<notin> up_peer_id ` set (t_user_peer t))
       (\<lambda>t. t\<lparr>t_user_peer := t_user_peer t @ [r]\<rparr>)),
     user_peer_find_first = (\<lambda>w. exec F ''user_peer find_first''
       (gets (\<lambda>t. map_option (\<lambda>r. (r, None)) (List.find (user_peer_matches w t) (t_user_peer t))))),
     user_peer_account_info_create = (\<lambda>acc net i. change F ''user_peer_account_info create''
       (\<lambda>t. i \<in> up_id ` set (t_user_peer t)) (\<lambda>t. t\<lparr>t_user_peer_account_info := t_user_peer_account_info t @
          [\<lparr>upa_account_id = acc, upa_network = net, upa_user_peer_id = i\<rparr>]\<rparr>)),
     saved_peers_find_unique = (\<lambda>n. exec F ''saved_peers find_unique''
       (gets (\<lambda>t. List.find (\<lambda>r. sp_node_id r = n) (t_saved_peers t)))),
     saved_peers_find_first = (\<lambda>w. exec F ''saved_peers find_first''
       (gets (\<lambda>t. List.find (saved_peer_matches w t) (t_saved_peers t)))),
     saved_peers_find_many = exec F ''saved_peers find_many'' (gets t_saved_peers),
     saved_peers_create = (\<lambda>n ma. exec F ''saved_peers create'' (\<lambda>t.
       let r = \<lparr>sp_id = next_uuid t, sp_node_id = n, sp_multi_addr = ma\<rparr>
       in if n \<in> sp_node_id ` set (t_saved_peers t) then (Err (PrismaError ''constraint''), t)
          else (Ok r, t\<lparr>t_saved_peers := t_saved_peers t @ [r]\<rparr>))),
     saved_peers_set_multi_addr = (\<lambda>i ma. change F ''saved_peers update'' (\<lambda>t. i \<in> sp_id ` set (t_saved_peers t))
       (\<lambda>t. t\<lparr>t_saved_peers := map (\<lambda>r. if sp_id r = i then r\<lparr>sp_multi_addr := ma\<rparr> else r) (t_saved_peers t)\<rparr>)),
     saved_peers_delete = (\<lambda>i. change F ''saved_peers delete''
       (\<lambda>t. i \<in> sp_id ` set (t_saved_peers t) \<and> accounts_of i t = [])
       (\<lambda>t. t\<lparr>t_saved_peers := filter (\<lambda>r. sp_id r \<noteq> i) (t_saved_peers t)\<rparr>)),
     saved_peer_account_info_find_first = (\<lambda>i acc. exec F ''saved_peer_account_info find_first''
       (gets (\<lambda>t. List.find (\<lambda>x. spa_saved_peer_id x = i \<and> spa_account_id x = acc) (t_saved_peer_account_info t)))),
     saved_peer_account_info_find_many = (\<lambda>i. exec F ''saved_peer_account_info find_many'' (gets (accounts_of i))),
     saved_peer_account_info_create = (\<lambda>acc net i. change F ''saved_peer_account_info create''
       (\<lambda>t. i \<in> sp_id ` set (t_saved_peers t)) (\<lambda>t. t\<lparr>t_saved_peer_account_info := t_saved_peer_account_info t @
          [\<lparr>spa_account_id = acc, spa_network = net, spa_saved_peer_id = i\<rparr>]\<rparr>)),
     saved_peer_account_info_delete_many = (\<lambda>i. change F ''saved_peer_account_info delete_many'' (\<lambda>_. True)
       (\<lambda>t. t\<lparr>t_saved_peer_account_info := filter (\<lambda>x. spa_saved_peer_id x \<noteq> i) (t_saved_peer_account_info t)\<rparr>)),
     transaction_run = (\<lambda>m t. case m t of
         (Ok x, t') \<Rightarrow> (case F ''commit'' t' of Some e \<Rightarrow> (Err (PrismaError e), t) | None \<Rightarrow> (Ok x, t'))
       | (r, _) \<Rightarrow> (r, t))\<rparr>"

lemma next_id_new: "new_id rows (next_id rows)"
proof -
  have "i \<in> fst ` set rows \<Longrightarrow> i \<le> sum_list (map fst rows)" for i
    using member_le_sum_list [of i "map fst rows"] by simp
  from this [of "Suc (sum_list (map fst rows))"] show ?thesis by (auto simp: new_id_def next_id_def)
qed

lemma next_uuid_new: "next_uuid t \<notin> sp_id ` set (t_saved_peers t)"
proof
  assume "next_uuid t \<in> sp_id ` set (t_saved_peers t)"
  moreover have "length i \<le> length (concat (map sp_id rs))" if "i \<in> sp_id ` set rs" for i rs
    using that by (induction rs) auto
  ultimately have "length (next_uuid t) \<le> length (concat (map sp_id (t_saved_peers t)))" by blast
  then show False by (simp add: next_uuid_def)
qed

lemma sums_one:
  assumes "map_of (t_transactions_data t) i = Some (u, v)"
  shows "sums i a 0 t x (t\<lparr>t_transactions_data := AList.update i (u + sint a, v) (t_transactions_data t)\<rparr>)"
    and "sums i 0 a t x (t\<lparr>t_transactions_data := AList.update i (u, v + sint a) (t_transactions_data t)\<rparr>)"
proof -
  show "sums i a 0 t x (t\<lparr>t_transactions_data := AList.update i (u + sint a, v) (t_transactions_data t)\<rparr>)"
    unfolding sums_def
    by (rule exI [of _ u], rule exI [of _ v], rule exI [of _ "u + sint a"], rule exI [of _ v]) (simp add: assms)
  show "sums i 0 a t x (t\<lparr>t_transactions_data := AList.update i (u, v + sint a) (t_transactions_data t)\<rparr>)"
    unfolding sums_def
    by (rule exI [of _ u], rule exI [of _ v], rule exI [of _ u], rule exI [of _ "v + sint a"]) (simp add: assms)
qed

interpretation table_client: prisma "table_client F" "\<lambda>t. t" for F
  by unfold_locales
    (auto simp: table_client_def relation_defs Let_def next_uuid_new atomic_run_def
       accounts_of_def run_simps documented_def change_def exec_def find_None_iff
       intro!: next_id_new sums_one dest: find_mem split: option.splits prod.splits outcome.splits if_splits)

definition no_faults :: faults where "no_faults = (\<lambda>_ _. None)"

interpretation sound_client: reliable_prisma "table_client no_faults" "\<lambda>t. t"
  by unfold_locales
    (auto simp: table_client_def answers_def relation_defs Let_def run_simps change_def exec_def no_faults_def)

section \<open>Properties\<close>



text \<open>C37: a call that does not succeed leaves the tables as they were, except that
  \<open>update_success_tx\<close> and \<open>update_failed_tx\<close>, whose two queries are not in one transaction, may leave the transaction's
  row without its amount in the sum.\<close>

theorem prisma_failure_clean:
  assumes "prisma P view" and "prisma_step P c s = (r, s')" and "r \<noteq> Ok ()"
  shows "view s' = view s
    \<or> (\<exists>tx \<in> recorded c. view s' = (view s)\<lparr>t_transaction := t_transaction (view s) @ [row_of_tx tx]\<rparr>)"
  by (rule prisma.step_failed [OF assms])

theorem prisma_failure_clean_witness:
  "(let tx = \<lparr>px_tx_hash = [1], px_amount = 5, px_network = Ethereum, px_success = True\<rparr>
    in snd (prisma_step (table_client no_faults) (PUpdateSuccessTx tx) no_tables)
         \<in> {no_tables, no_tables\<lparr>t_transaction := [row_of_tx tx]\<rparr>}
     \<and> snd (prisma_step (table_client no_faults) (PUpdateSuccessTx tx) no_tables) \<noteq> no_tables)"
proof -
  let ?tx = "\<lparr>px_tx_hash = [1], px_amount = 5, px_network = Ethereum, px_success = True\<rparr>"
  let ?t = "no_tables\<lparr>t_transaction := [row_of_tx ?tx]\<rparr>"
  have step: "prisma_step (table_client no_faults) (PUpdateSuccessTx ?tx) no_tables = (Err (PrismaError ''constraint''), ?t)"
    by (simp add: prisma_update_success_tx_def table_client_def change_def exec_def no_faults_def run_and_then
        no_tables_def)
  show ?thesis
    using prisma_failure_clean [OF table_client.prisma_axioms step] step by (simp add: no_tables_def)
qed

text \<open>C38: over a client that fails only for documented reasons, \<open>record_saved_user_peers\<close> succeeds, and
  \<open>get_account_ids_by_peer_id\<close> then returns the accounts saved for the peer before, and the new one once; the
  accounts of the other peers stay as they were.\<close>

theorem prisma_saved_accounts_exact:
  assumes "reliable_prisma P view" and "prisma_wf (view s)"
  shows "\<exists>s1 accs s2. prisma_record_saved_user_peers P acc ma s = (Ok (), s1)
    \<and> prisma_get_account_ids_by_peer_id P ma s1 = (Ok accs, s2)
    \<and> mset accs = mset (saved_accounts ma (view s)) + (if acc \<in> set (saved_accounts ma (view s)) then {#} else {#acc#})
    \<and> (\<forall>node. node \<noteq> ma \<longrightarrow> saved_accounts node (view s1) = saved_accounts node (view s))"
proof -
  have prisma: "prisma P view" using assms(1) by (simp add: reliable_prisma_def)
  obtain s1 where s1: "prisma_record_saved_user_peers P acc ma s = (Ok (), s1)"
    using reliable_prisma.record_saved_answers [OF assms(1)] by blast
  then have rec: "peer_recorded acc ma (view s) (view s1)"
    by (rule prisma.record_saved_Ok [OF prisma])
  then have "ma \<in> sp_node_id ` set (t_saved_peers (view s1))"
    by (auto simp: peer_recorded_def)
  then obtain accs s2 where accs: "prisma_get_account_ids_by_peer_id P ma s1 = (Ok accs, s2)"
    using reliable_prisma.account_ids_answer [OF assms(1)] by blast
  have "prisma_wf (view s1)"
    using prisma.run_kept [OF prisma assms(2), of "[PRecordSavedUserPeers acc ma]"] s1 by simp
  then have "mset accs = mset (saved_accounts ma (view s1))"
    by (rule prisma.account_ids_Ok [OF prisma accs])
  then show ?thesis
    using s1 accs saved_accounts_recorded [OF assms(2) rec] by auto
qed

theorem prisma_saved_accounts_exact_witness:
  "\<exists>s1 accs s2. prisma_record_saved_user_peers (table_client no_faults) ''0xa'' ''/ip4'' no_tables = (Ok (), s1)
    \<and> prisma_get_account_ids_by_peer_id (table_client no_faults) ''/ip4'' s1 = (Ok accs, s2) \<and> mset accs = {#''0xa''#}"
  using prisma_saved_accounts_exact [OF sound_client.reliable_prisma_axioms, of no_tables "''0xa''" "''/ip4''"]
  by (auto simp: prisma_wf_def no_tables_def saved_accounts_def)

text \<open>A saved peer cannot be deleted: \<open>delete_saved_peer\<close> expects the deletion to cascade to the peer's accounts, and
  the schema makes the database refuse it.\<close>

theorem saved_peer_not_deleted:
  assumes "prisma P view" and "prisma_wf (view s)" and "prisma_record_saved_user_peers P acc ma s = (Ok (), s1)"
  shows "prisma_delete_saved_peer P ma s1 \<noteq> (Ok (), s2)"
proof (rule prisma.delete_with_account [OF assms(1)])
  show "prisma_wf (view s1)"
    using prisma.run_kept [OF assms(1,2), of "[PRecordSavedUserPeers acc ma]"] assms(3) by simp
  show "saved_accounts ma (view s1) \<noteq> []"
    using saved_accounts_recorded(1) [OF assms(2) prisma.record_saved_Ok [OF assms(1,3)]]
    by (cases "acc \<in> set (saved_accounts ma (view s))") auto
qed

text \<open>When two accounts were saved for the only saved peer, the lookup by either of them fails.\<close>

theorem saved_peer_lost:
  assumes "prisma P view" and "view s = no_tables" and "a \<noteq> b"
    and "prisma_record_saved_user_peers P a ma s = (Ok (), s1)" and "prisma_record_saved_user_peers P b ma s1 = (Ok (), s2)"
  shows "prisma_get_saved_user_peers P acc s2 \<noteq> (Ok x, s3)"
proof
  assume get: "prisma_get_saved_user_peers P acc s2 = (Ok x, s3)"
  have wf: "prisma_wf (view s)" by (simp add: assms(2) prisma_wf_def no_tables_def)
  have wf1: "prisma_wf (view s1)" and wf2: "prisma_wf (view s2)"
    using prisma.run_kept [OF assms(1) wf, of "[PRecordSavedUserPeers a ma]"]
      prisma.run_kept [OF assms(1) wf, of "[PRecordSavedUserPeers a ma, PRecordSavedUserPeers b ma]"] assms(4,5)
    by simp_all
  note rec1 = prisma.record_saved_Ok [OF assms(1,4)] and rec2 = prisma.record_saved_Ok [OF assms(1,5)]
  obtain r where r: "r \<in> set (t_saved_peers (view s2))" "set (saved_accounts (sp_node_id r) (view s2)) \<subseteq> {acc}"
    using prisma.saved_user_peers_Ok [OF assms(1) get wf2] by blast
  have "sp_node_id r = ma"
    using r(1) rec1 rec2 by (auto simp: peer_recorded_def assms(2) no_tables_def)
  moreover have "saved_accounts ma (view s2) = [a, b]"
    using saved_accounts_recorded(1) [OF wf rec1] saved_accounts_recorded(1) [OF wf1 rec2] assms(3)
    by (simp add: assms(2) no_tables_def saved_accounts_def)
  ultimately show False using r(2) assms(3) by simp
qed

text \<open>\<open>get_all_saved_peers\<close> wants one node id in all rows, and the column is unique: it fails on two peers.\<close>

theorem all_saved_peers_fails:
  assumes "prisma P view" and "prisma_wf (view s)" and "2 \<le> length (t_saved_peers (view s))"
  shows "prisma_get_all_saved_peers P s \<noteq> (Ok x, s')"
proof
  assume "prisma_get_all_saved_peers P s = (Ok x, s')"
  then obtain peers s1 where q: "saved_peers_find_many P s = (Ok peers, s1)"
    and rest: "(case peers of [] \<Rightarrow> raise (Anyhow ''No saved peers found'')
       | first # _ \<Rightarrow> (case List.find (\<lambda>p. sp_node_id p \<noteq> sp_node_id first) peers of
            Some p \<Rightarrow> raise (Anyhow (''Inconsistent peer ID mapping: expected '' @ sp_node_id first
                        @ '', got '' @ sp_node_id p))
          | None \<Rightarrow> and_then (collect_accounts P peers) (\<lambda>accs. ret (accs, sp_node_id first)))) s1 = (Ok x, s')"
    unfolding prisma_get_all_saved_peers_def and_then_Ok_iff by blast
  have perm: "mset peers = mset (t_saved_peers (view s))"
    using documented_Ok [OF prisma.saved_peers(3) [OF assms(1)] q] by (simp add: reads_many_def)
  then have "mset (map sp_node_id peers) = mset (map sp_node_id (t_saved_peers (view s)))" by simp
  then have "distinct (map sp_node_id peers)"
    using assms(2) by (metis mset_eq_imp_distinct_iff prisma_wf_def)
  moreover have "2 \<le> length peers" using assms(3) mset_eq_length [OF perm] by simp
  then obtain p1 p2 ps where "peers = p1 # p2 # ps"
    by (cases peers; cases "tl peers") auto
  ultimately show False using rest by (auto simp: run_raise)
qed

text \<open>A node does not start a second time on its database: \<open>P2pWorker::new\<close> makes a fresh key at every start and
  records it under the one id \<open>MAIN_USER_ID\<close>.\<close>

definition record_in_db :: "'s prisma_client \<Rightarrow> peer_record \<Rightarrow> 's \<Rightarrow> string option \<times> 's" where
  "record_in_db P r s = (case prisma_record_user_peer_id P r s of
     (Ok _, s') \<Rightarrow> (None, s') | (_, s') \<Rightarrow> (Some ''db'', s'))"

theorem native_no_second_start:
  assumes "prisma P view" and "MAIN_USER_ID \<in> up_id ` set (t_user_peer (view s))"
    and "nb_record_user_peer_id B = record_in_db P" and "\<And>a b c. snd (nb_hset B a b c s) = s"
  shows "\<exists>e s'. native_p2p_new B port h accs s = (Inl e, s')"
proof -
  obtain f where hset: "\<And>c. nb_hset B ''ACCOUNT_PROFILE'' h c s = (f c, s)"
    using that [of "\<lambda>c. fst (nb_hset B ''ACCOUNT_PROFILE'' h c s)"] assms(4) by (simp add: prod_eq_iff)
  have "fst (record_in_db P r s) \<noteq> None" for r
    using prisma.record_user_peer_Ok [OF assms(1), of r s] assms(2)
    by (auto simp: record_in_db_def split: prod.splits outcome.splits)
  then obtain err g where rec: "\<And>r. record_in_db P r s = (Some (err r), g r)"
    using that [of "\<lambda>r. the (fst (record_in_db P r s))" "\<lambda>r. snd (record_in_db P r s)"] by (simp add: prod_eq_iff)
  show ?thesis
    by (cases "nb_local_ip B") (simp_all add: native_p2p_new_def Let_def assms(3) hset rec split: option.split)
qed

end
