(* ===== verification/Native_Start.thy ===== *)
theory Native_Start
  imports Native_Node Db_Prisma
begin

text \<open>
  How the native node comes up and stays up: \<open>MainServiceWorker::new\<close>, \<open>start_rpc_server\<close> and \<open>run\<close> of
  \<open>node/native/src/lib.rs\<close> with their end-to-end variants, \<open>TransactionRpcWorker::new\<close> of \<open>rpc.rs\<close> and
  \<open>TxProcessingWorker::new\<close> of \<open>tx_processing.rs\<close>, over the Prisma database of \<open>Db_Prisma\<close> and the P2P worker of
  \<open>Native_P2p\<close>. What lies outside (opening the database file, Redis, the host's address, the random port, the chain
  URLs and their parser, the server socket) is the record \<open>start_env\<close>. The subtractions on \<open>u16\<close> wrap, as in a
  release build.

  \<open>run\<close> spawns two essential tasks, the loop over the user's updates and the loop over swarm messages; the
  task manager stops the node when either of them ends, whether it returns, fails or panics. \<open>service\<close> is a node
  with that switch.

  Shown: the ports a started node uses are the recorded ones; a node starts once on a database and never again;
  the node stays up exactly as long as no handler fails or panics, so bytes that do not decode, sent by
  any peer, stop it.
\<close>

section \<open>The environment\<close>

record 's start_env =
  se_new_client :: "string \<Rightarrow> ('s, 's prisma_client) action"
  se_redis_open :: "string \<Rightarrow> string option"
  se_random_port :: u16
  se_boot :: "'s native_boot"
  se_chain_url :: "native_chain \<Rightarrow> string"
  se_parse_url :: "string \<Rightarrow> string option"
  se_build_server :: "string \<Rightarrow> string option"
  se_local_addr :: "string + string"
  se_start_server :: "string option"
  se_task_manager :: "string option"

text \<open>A step that fails with an error text or goes on.\<close>

definition check_ok :: "string option \<Rightarrow> string \<Rightarrow> ('s, unit) action" where
  "check_ok r msg = (case r of Some err \<Rightarrow> raise (Anyhow (msg @ err)) | None \<Rightarrow> ret ())"

section \<open>The workers\<close>

record native_tx_worker =
  tw_eth_client :: string
  tw_bnb_client :: string

definition native_tx_worker_new ::
    "'s start_env \<Rightarrow> native_chain \<times> native_chain \<times> native_chain \<Rightarrow> ('s, native_tx_worker) action" where
  "native_tx_worker_new E chain_networks =
     (let (solana, eth, bnb) = chain_networks;
          eth_url = se_chain_url E eth; bnb_url = se_chain_url E bnb in
      and_then (check_ok (se_parse_url E eth_url) ''eth rpc parse error: '') (\<lambda>_.
      and_then (check_ok (se_parse_url E bnb_url) ''bnb rpc url parse error: '') (\<lambda>_.
      ret \<lparr>tw_eth_client = eth_url, tw_bnb_client = bnb_url\<rparr>)))"

record native_rpc_worker =
  rw_rpc_url :: string
  rw_peer_id :: string
  rw_error_receiver :: bool

text \<open>\<open>TransactionRpcWorker::new\<close>: both branches on the kind of address build the same text, and the receiving
  end of the error channel is dropped on return.\<close>

definition native_rpc_worker_new :: "'s start_env \<Rightarrow> u16 \<Rightarrow> string \<Rightarrow> ('s, native_rpc_worker) action" where
  "native_rpc_worker_new E port peer = (case nb_local_ip (se_boot E) of
       Inl err \<Rightarrow> raise (Anyhow (''failed to get local ip address; caused by: '' @ err))
     | Inr (ipv4, ip) \<Rightarrow>
         (let rpc_url = (if ipv4 then ip @ '':'' @ nat_to_dec (unat port) else ip @ '':'' @ nat_to_dec (unat port))
          in ret \<lparr>rw_rpc_url = rpc_url, rw_peer_id = peer, rw_error_receiver = False\<rparr>))"

text \<open>\<open>dry_run_tx\<close> is \<open>todo!()\<close> after a match without effect.\<close>

definition native_dry_run_tx :: "native_chain \<Rightarrow> ('s, u64) action" where
  "native_dry_run_tx net = panic (NotImplemented ''dry_run_tx'')"

text \<open>\<open>subscribe_node_execution_status\<close> forwards what arrives on a channel that it makes itself. Its sending end is
  given to nobody and dropped on return, so the channel ends empty; the worker's own error channel is only cloned.\<close>

fun forward_errors :: "((string \<times> string) \<Rightarrow> bool) \<Rightarrow> (string \<times> string) list \<Rightarrow> (string \<times> string) list" where
  "forward_errors sink [] = []"
| "forward_errors sink (e # es) = (if sink e then e # forward_errors sink es else [])"

definition native_subscribe_node_execution_status ::
    "bool \<Rightarrow> ((string \<times> string) \<Rightarrow> bool) \<Rightarrow> ('s, (string \<times> string) list) action" where
  "native_subscribe_node_execution_status accepted sink =
     (if \<not> accepted then raise (Anyhow ''failed to accept error subscription channel'')
      else (let error_receiver = [] in ret (forward_errors sink error_receiver)))"

fun p2p_error_text :: "native_error \<Rightarrow> string" where
  "p2p_error_text (LocalIpFailed e) = ''failed to get local ip address; caused by: '' @ e"
| "p2p_error_text (RedisFailed e) = e"
| "p2p_error_text KeypairEncode = ''failed to encode keypair''"
| "p2p_error_text KeypairDecode = ''failed to decode keypair ed25519''"
| "p2p_error_text (DbFailed e) = e"
| "p2p_error_text (MultiAddrParse e) = ''failed to parse multi addr, caused by: '' @ e"
| "p2p_error_text (PeerIdParse e) = ''failed to convert PeerId, caused by: '' @ e"
| "p2p_error_text (SwarmBuild e) = e"

text \<open>The P2P worker records its identity through the node's own database.\<close>

definition native_p2p_start ::
    "'s start_env \<Rightarrow> 's prisma_client \<Rightarrow> u16 \<Rightarrow> string \<Rightarrow> (string \<times> string) list \<Rightarrow> ('s, native_worker) action" where
  "native_p2p_start E P port profile_hash accs s =
     (case native_p2p_new ((se_boot E)\<lparr>nb_record_user_peer_id := record_in_db P\<rparr>) port profile_hash accs s of
        (Inl e, s') \<Rightarrow> (Err (Anyhow (p2p_error_text e)), s')
      | (Inr w, s') \<Rightarrow> (Ok w, s'))"

section \<open>The main worker\<close>

record 's native_main =
  nm_db :: "'s prisma_client"
  nm_rpc_worker :: native_rpc_worker
  nm_tx_worker :: native_tx_worker
  nm_p2p_worker :: native_worker

definition native_workers_new ::
    "'s start_env \<Rightarrow> 's prisma_client \<Rightarrow> u16 \<Rightarrow> u16 \<Rightarrow> string \<Rightarrow> (string \<times> string) list \<Rightarrow> ('s, 's native_main) action" where
  "native_workers_new E P rpc_port p2p_port profile_hash accs =
     and_then (native_p2p_start E P p2p_port profile_hash accs) (\<lambda>w.
     and_then (native_tx_worker_new E (NBnb, NEthereum, NSolana)) (\<lambda>t.
     and_then (native_rpc_worker_new E rpc_port (nw_node_id w)) (\<lambda>r.
     ret \<lparr>nm_db = P, nm_rpc_worker = r, nm_tx_worker = t, nm_p2p_worker = w\<rparr>)))"

definition native_main_new ::
    "'s start_env \<Rightarrow> string option \<Rightarrow> u16 option \<Rightarrow> string \<Rightarrow> string \<Rightarrow> (string \<times> string) list \<Rightarrow> ('s, 's native_main) action" where
  "native_main_new E db_url_path port redis_url profile_hash accs =
     (let db_url = (case db_url_path of Some url \<Rightarrow> url | None \<Rightarrow> ''db/dev.db'') in
      and_then (prisma_initialize_db_client (se_new_client E) db_url) (\<lambda>P.
      and_then (check_ok (se_redis_open E redis_url) []) (\<lambda>_.
      and_then (prisma_get_ports P) (\<lambda>stored.
      (let (rpc_port, p2p_port) = native_ports stored port (se_random_port E) in
       and_then (case stored of Some _ \<Rightarrow> ret () | None \<Rightarrow> prisma_set_ports P rpc_port p2p_port) (\<lambda>_.
       native_workers_new E P rpc_port p2p_port profile_hash accs))))))"

definition native_e2e_new ::
    "'s start_env \<Rightarrow> u16 \<Rightarrow> string \<Rightarrow> string \<Rightarrow> string \<Rightarrow> (string \<times> string) list \<Rightarrow> ('s, 's native_main) action" where
  "native_e2e_new E port db redis_url profile_hash accs =
     and_then (prisma_initialize_db_client (se_new_client E) db) (\<lambda>P.
     and_then (check_ok (se_redis_open E redis_url) []) (\<lambda>_.
     native_workers_new E P (port - 100) (port - 589) profile_hash accs))"

section \<open>Running\<close>

definition native_start_rpc_server :: "'s start_env \<Rightarrow> 's native_main \<Rightarrow> ('s, string) action" where
  "native_start_rpc_server E m =
     and_then (check_ok (se_build_server E (rw_rpc_url (nm_rpc_worker m))) []) (\<lambda>_.
     case se_local_addr E of
       Inl err \<Rightarrow> raise (Anyhow (''failed to get address: '' @ err))
     | Inr addr \<Rightarrow>
         and_then (check_ok (se_start_server E) ''rpc handler error: '') (\<lambda>_. ret addr))"

text \<open>The part of \<open>run\<close> before the tasks; \<open>e2e_run\<close> is the same from a given main worker.\<close>

definition native_e2e_run :: "'s start_env \<Rightarrow> 's native_main \<Rightarrow> ('s, string) action" where
  "native_e2e_run E m =
     and_then (attempt (native_start_rpc_server E m)) (\<lambda>r.
     case r of
       Inl _ \<Rightarrow> raise (Anyhow ''failed to start rpc server'')
     | Inr addr \<Rightarrow> and_then (check_ok (se_task_manager E) []) (\<lambda>_. ret addr))"

definition native_run ::
    "'s start_env \<Rightarrow> string option \<Rightarrow> u16 option \<Rightarrow> string \<Rightarrow> string \<Rightarrow> (string \<times> string) list
       \<Rightarrow> ('s, 's native_main \<times> string) action" where
  "native_run E db_url port redis_url profile_hash accs =
     and_then (native_main_new E db_url port redis_url profile_hash accs) (\<lambda>m.
     and_then (native_e2e_run E m) (\<lambda>addr. ret (m, addr)))"

text \<open>The tasks of a node that runs. A turn that returns an error or panics ends its task, and then the task
  manager stops the node.\<close>

record 'd service =
  sv_node :: "'d native_node"
  sv_up :: bool

fun service_step :: "'d native_world \<Rightarrow> native_call \<Rightarrow> 'd service \<Rightarrow> 'd service" where
  "service_step W TakeUpdate s =
     (if \<not> sv_up s then s
      else (let (r, n) = native_take_update W (sv_node s) in \<lparr>sv_node = n, sv_up = (r = NOk ())\<rparr>))"
| "service_step W (TakeSwarm msg) s =
     (if \<not> sv_up s then s
      else (let (r, n) = native_swarm_message W msg (sv_node s) in \<lparr>sv_node = n, sv_up = (r = NOk ())\<rparr>))"
| "service_step W c s = (if \<not> sv_up s then s else s\<lparr>sv_node := native_step W c (sv_node s)\<rparr>)"

section \<open>What a start leaves in the database\<close>

definition main_user_recorded :: "prisma_tables \<Rightarrow> bool" where
  "main_user_recorded t \<longleftrightarrow> MAIN_USER_ID \<in> up_id ` set (t_user_peer t)"

text \<open>What \<open>initialize_db_client\<close> does once the client is open.\<close>

definition db_client_ready :: "'s prisma_client \<Rightarrow> ('s, unit) action" where
  "db_client_ready P =
     and_then (migrate_deploy P) (\<lambda>_.
     and_then (attempt (transactions_data_find P 1)) (\<lambda>r.
     case r of
       Inr None \<Rightarrow> transactions_data_create P 0 0
     | Inr (Some _) \<Rightarrow> ret ()
     | Inl _ \<Rightarrow> and_then (attempt (transactions_data_create P 0 0)) (\<lambda>_. ret ())))"

lemma initialize_client:
  "prisma_initialize_db_client new_client url =
     and_then (attempt (new_client (''file:'' @ url))) (\<lambda>r. case r of
       Inl _ \<Rightarrow> raise (Anyhow ''failed to initialize db client'')
     | Inr P \<Rightarrow> and_then (db_client_ready P) (\<lambda>_. ret P))"
  by (simp only: prisma_initialize_db_client_def db_client_ready_def and_then_assoc)

context prisma
begin

lemma main_user_kept:
  "preserves (\<lambda>s. main_user_recorded (view s)) (migrate_deploy P)"
  "preserves (\<lambda>s. main_user_recorded (view s)) (port_create P a b)"
  "preserves (\<lambda>s. main_user_recorded (view s)) (port_find_unique P k)"
  "preserves (\<lambda>s. main_user_recorded (view s)) (transactions_data_create P c d)"
  "preserves (\<lambda>s. main_user_recorded (view s)) (transactions_data_find P k)"
  "preserves (\<lambda>s. main_user_recorded (view s)) (user_peer_account_info_create P acc net j)"
  by (rule documented_preserves, rule migrate ports transactions_data user_peers,
      auto simp: main_user_recorded_def relation_defs)+

lemma port_rows_kept:
  "preserves (\<lambda>s. t_port (view s) = x) (migrate_deploy P)"
  "preserves (\<lambda>s. t_port (view s) = x) (port_find_unique P k)"
  "preserves (\<lambda>s. t_port (view s) = x) (transactions_data_create P c d)"
  "preserves (\<lambda>s. t_port (view s) = x) (transactions_data_find P k)"
  "preserves (\<lambda>s. t_port (view s) = x) (user_peer_create P up)"
  "preserves (\<lambda>s. t_port (view s) = x) (user_peer_account_info_create P acc net j)"
  by (rule documented_preserves, rule migrate ports transactions_data user_peers,
      auto simp: relation_defs)+

lemma start_keeps_ports:
  "preserves (\<lambda>s. t_port (view s) = x) (db_client_ready P)"
  "preserves (\<lambda>s. t_port (view s) = x) (prisma_record_user_peer_id P r)"
  unfolding db_client_ready_def prisma_record_user_peer_id_def
  by (auto intro!: preserves_intros preserves_for_each port_rows_kept atomic_run_preserves [OF run]
      split: sum.split option.split)

lemma get_ports_Ok:
  "prisma_get_ports P s = (Ok r, s') \<Longrightarrow>
   view s' = view s \<and> r = map_option ports_of_row (map_of (t_port (view s)) 1)"
  unfolding prisma_get_ports_def and_then_Ok_iff
  using documented_Ok [OF ports(2), of 1 s] by (auto simp: reads_def ret_def)

lemma set_ports_Ok:
  assumes "prisma_set_ports P a b s = (Ok (), s')" and "t_port (view s) = []"
  shows "t_port (view s') = [(1, ucast a, ucast b)]"
  using documented_Ok [OF ports(1) assms(1) [unfolded prisma_set_ports_def]] assms(2) by (auto simp: new_id_def)

lemma ready_keeps_user: "preserves (\<lambda>s. main_user_recorded (view s)) (db_client_ready P)"
  unfolding db_client_ready_def
  by (auto intro!: preserves_intros main_user_kept split: sum.split option.split)

lemma main_user_added:
  assumes "prisma_record_user_peer_id P r s = (Ok (), s')"
  shows "main_user_recorded (view s')"
proof -
  let ?row = "\<lparr>up_id = MAIN_USER_ID, up_peer_id = or_default (pr_peer_id r),
        up_multi_addr = or_default (pr_multi_addr r), up_keypair = or_default (pr_keypair r)\<rparr>"
  let ?rest = "for_each (\<lambda>a. user_peer_account_info_create P (ai_account a) (chain_to_string (ai_network a)) MAIN_USER_ID)
       (pr_accounts r)"
  obtain s'' where m: "and_then (user_peer_create P ?row) (\<lambda>_. ?rest) s = (Ok (), s'')" and v: "view s' = view s''"
    using run_Ok [OF assms [unfolded prisma_record_user_peer_id_def]] by blast
  from m obtain s1 where s1: "user_peer_create P ?row s = (Ok (), s1)" "?rest s1 = (Ok (), s'')"
    unfolding and_then_Ok_iff by auto
  have "main_user_recorded (view s1)"
    using documented_Ok [OF user_peers(1) s1(1)] by (simp add: creates_user_peer_def writes_def main_user_recorded_def)
  then have "main_user_recorded (view (snd (?rest s1)))"
    by (rule preservesD [OF preserves_for_each [OF main_user_kept(6)]])
  then show ?thesis by (simp add: s1(2) v)
qed

lemma main_user_blocks:
  assumes "main_user_recorded (view s)" and "\<And>a b c. view (snd (nb_hset (se_boot E) a b c s)) = view s"
  shows "\<exists>e s'. native_p2p_start E P port h accs s = (Err e, s')"
proof -
  have rec: "fst (record_in_db P r s') \<noteq> None" if "view s' = view s" for r s'
    using record_user_peer_Ok [of r s'] assms(1) that
    by (auto simp: record_in_db_def main_user_recorded_def split: prod.splits outcome.splits)
  show ?thesis
  proof (cases "nb_local_ip (se_boot E)")
    case (Inr ip)
    let ?profile = "\<lparr>rap_accounts = map (\<lambda>(a, n). \<lparr>ai_account = a, ai_network = chain_from_str n\<rparr>) accs,
      rap_multi_addr = p2p_url ip port (nb_peer_id (se_boot E)), rap_peer_id = nb_peer_id (se_boot E), rap_rpc = []\<rparr>"
    obtain r1 s1 where h: "nb_hset (se_boot E) ''ACCOUNT_PROFILE'' h ?profile s = (r1, s1)" by fastforce
    have "view s1 = view s" using assms(2) [of "''ACCOUNT_PROFILE''" h ?profile] by (simp add: h)
    note rec = rec [OF this]
    obtain err g where g: "\<And>r. record_in_db P r s1 = (Some (err r), g r)"
      using that [of "\<lambda>r. the (fst (record_in_db P r s1))" "\<lambda>r. snd (record_in_db P r s1)"] rec
      by (simp add: prod_eq_iff)
    show ?thesis by (simp add: native_p2p_start_def native_p2p_new_def Let_def Inr h g split: option.split)
  qed (simp add: native_p2p_start_def native_p2p_new_def)
qed

end

text \<open>A view of the database that opening it, and writing to Redis, does not change.\<close>

definition opens :: "'s start_env \<Rightarrow> ('s \<Rightarrow> prisma_tables) \<Rightarrow> bool" where
  "opens E view \<longleftrightarrow> (\<forall>url s P s'. se_new_client E url s = (Ok P, s') \<longrightarrow> prisma P view \<and> view s' = view s)
     \<and> (\<forall>a b c s. view (snd (nb_hset (se_boot E) a b c s)) = view s)"

lemma initialize_Ok:
  assumes "opens E view" and "prisma_initialize_db_client (se_new_client E) url s = (Ok P, s')"
  shows "prisma P view" and "main_user_recorded (view s) \<Longrightarrow> main_user_recorded (view s')"
    and "t_port (view s') = t_port (view s)"
proof -
  obtain Q s1 where q: "se_new_client E (''file:'' @ url) s = (Ok Q, s1)" and
    rest: "and_then (db_client_ready Q) (\<lambda>_. ret Q) s1 = (Ok P, s')"
    using assms(2)
    by (auto simp: initialize_client and_then_Ok_iff run_attempt run_simps split: outcome.splits prod.splits sum.splits)
  have Q: "prisma Q view" "view s1 = view s" using assms(1) q by (auto simp: opens_def)
  have P: "P = Q" "snd (db_client_ready Q s1) = s'" using rest by (auto simp: and_then_Ok_iff ret_def)
  with Q show "prisma P view" by simp
  show "main_user_recorded (view s) \<Longrightarrow> main_user_recorded (view s')"
    using preservesD [OF prisma.ready_keeps_user [OF Q(1)], of s1] P(2) Q(2) by simp
  show "t_port (view s') = t_port (view s)"
    using preservesD [OF prisma.start_keeps_ports(1) [OF Q(1)], of s1 "t_port (view s)"] P(2) Q(2) by simp
qed

text \<open>The steps after the P2P worker touch no state.\<close>

definition stateless :: "('s, 'a) action \<Rightarrow> bool" where
  "stateless m \<longleftrightarrow> (\<forall>s. snd (m s) = s)"

lemma stateless_intros:
  "stateless (ret x)" "stateless (raise e)" "stateless (check_ok r msg)"
  "stateless m \<Longrightarrow> (\<And>x. stateless (f x)) \<Longrightarrow> stateless (and_then m f)"
  by (auto simp: stateless_def check_ok_def and_then_def run_simps split: option.split prod.split outcome.split)
    (metis snd_conv)+

lemma stateless_workers: "stateless (native_tx_worker_new E c)" "stateless (native_rpc_worker_new E port peer)"
  by (auto simp: native_tx_worker_new_def native_rpc_worker_new_def Let_def split: prod.split sum.split
      intro!: stateless_intros)

lemma stateless_run: "stateless m \<Longrightarrow> m s = (r, s') \<Longrightarrow> s' = s"
  by (auto simp: stateless_def) (metis snd_conv)

lemma p2p_start_Ok:
  assumes "native_p2p_start E P port h accs s = (Ok w, s')"
  shows "\<exists>ip r c. nb_local_ip (se_boot E) = Inr ip \<and> nw_url w = p2p_url ip port (nb_peer_id (se_boot E))
    \<and> nw_node_id w = nb_peer_id (se_boot E)
    \<and> prisma_record_user_peer_id P r (snd (nb_hset (se_boot E) ''ACCOUNT_PROFILE'' h c s)) = (Ok (), s')"
proof -
  obtain ip where ip: "nb_local_ip (se_boot E) = Inr ip"
    using assms by (cases "nb_local_ip (se_boot E)") (auto simp: native_p2p_start_def native_p2p_new_def)
  let ?c = "\<lparr>rap_accounts = map (\<lambda>(a, n). \<lparr>ai_account = a, ai_network = chain_from_str n\<rparr>) accs,
      rap_multi_addr = p2p_url ip port (nb_peer_id (se_boot E)), rap_peer_id = nb_peer_id (se_boot E), rap_rpc = []\<rparr>"
  obtain r1 s1 where h: "nb_hset (se_boot E) ''ACCOUNT_PROFILE'' h ?c s = (r1, s1)" by fastforce
  have "\<exists>r. prisma_record_user_peer_id P r s1 = (Ok (), s') \<and> nw_url w = p2p_url ip port (nb_peer_id (se_boot E))
      \<and> nw_node_id w = nb_peer_id (se_boot E)"
    using assms ip h
    by (auto simp: native_p2p_start_def native_p2p_new_def Let_def record_in_db_def
        split: prod.splits option.splits if_splits outcome.splits)
  then obtain r where "prisma_record_user_peer_id P r (snd (nb_hset (se_boot E) ''ACCOUNT_PROFILE'' h ?c s)) = (Ok (), s')"
    "nw_url w = p2p_url ip port (nb_peer_id (se_boot E))" "nw_node_id w = nb_peer_id (se_boot E)"
    by (auto simp: h)
  with ip show ?thesis by blast
qed

lemma workers_Ok:
  assumes "native_workers_new E P rpc_port p2p_port h accs s = (Ok m, s')"
  shows "\<exists>ip r c. nb_local_ip (se_boot E) = Inr ip \<and> nw_url (nm_p2p_worker m) = p2p_url ip p2p_port (nb_peer_id (se_boot E))
    \<and> rw_rpc_url (nm_rpc_worker m) = snd ip @ '':'' @ nat_to_dec (unat rpc_port)
    \<and> rw_peer_id (nm_rpc_worker m) = nw_node_id (nm_p2p_worker m)
    \<and> tw_eth_client (nm_tx_worker m) = se_chain_url E NEthereum \<and> tw_bnb_client (nm_tx_worker m) = se_chain_url E NSolana
    \<and> prisma_record_user_peer_id P r (snd (nb_hset (se_boot E) ''ACCOUNT_PROFILE'' h c s)) = (Ok (), s')"
proof -
  obtain w s1 t s2 r s3 where w: "native_p2p_start E P p2p_port h accs s = (Ok w, s1)"
    and t: "native_tx_worker_new E (NBnb, NEthereum, NSolana) s1 = (Ok t, s2)"
    and r: "native_rpc_worker_new E rpc_port (nw_node_id w) s2 = (Ok r, s3)"
    and m: "m = \<lparr>nm_db = P, nm_rpc_worker = r, nm_tx_worker = t, nm_p2p_worker = w\<rparr>" "s' = s3"
    using assms by (auto simp: native_workers_new_def and_then_Ok_iff ret_def)
  have s: "s2 = s1" "s3 = s1" using stateless_run [OF stateless_workers(1) t] stateless_run [OF stateless_workers(2) r] by simp_all
  have "tw_eth_client t = se_chain_url E NEthereum \<and> tw_bnb_client t = se_chain_url E NSolana"
    using t by (auto simp: native_tx_worker_new_def Let_def and_then_Ok_iff ret_def)
  moreover have "rw_peer_id r = nw_node_id w \<and> (\<forall>ip. nb_local_ip (se_boot E) = Inr ip \<longrightarrow>
      rw_rpc_url r = snd ip @ '':'' @ nat_to_dec (unat rpc_port))"
    using r by (auto simp: native_rpc_worker_new_def Let_def ret_def raise_def split: sum.splits)
  ultimately show ?thesis using p2p_start_Ok [OF w] m s by auto
qed

lemma main_new_Ok:
  assumes "opens E view" and "native_main_new E db port redis h accs s = (Ok m, s')"
  obtains P s1 s2 s3 stored where "prisma P view"
    and "prisma_initialize_db_client (se_new_client E) (case db of Some url \<Rightarrow> url | None \<Rightarrow> ''db/dev.db'') s = (Ok P, s1)"
    and "prisma_get_ports P s1 = (Ok stored, s2)"
    and "(case stored of Some _ \<Rightarrow> ret () | None \<Rightarrow>
           prisma_set_ports P (fst (native_ports stored port (se_random_port E)))
             (snd (native_ports stored port (se_random_port E)))) s2 = (Ok (), s3)"
    and "native_workers_new E P (fst (native_ports stored port (se_random_port E)))
           (snd (native_ports stored port (se_random_port E))) h accs s3 = (Ok m, s')"
proof -
  from assms(2) obtain P s1 s1' s2 s3 stored where *:
    "prisma_initialize_db_client (se_new_client E) (case db of Some url \<Rightarrow> url | None \<Rightarrow> ''db/dev.db'') s = (Ok P, s1)"
    "check_ok (se_redis_open E redis) [] s1 = (Ok (), s1')" "prisma_get_ports P s1' = (Ok stored, s2)"
    "(case stored of Some _ \<Rightarrow> ret () | None \<Rightarrow>
           prisma_set_ports P (fst (native_ports stored port (se_random_port E)))
             (snd (native_ports stored port (se_random_port E)))) s2 = (Ok (), s3)"
    "native_workers_new E P (fst (native_ports stored port (se_random_port E)))
           (snd (native_ports stored port (se_random_port E))) h accs s3 = (Ok m, s')"
    by (auto simp: native_main_new_def Let_def and_then_Ok_iff case_prod_beta)
  moreover have "s1' = s1" using stateless_run [OF stateless_intros(3) *(2)] .
  ultimately show thesis using that [OF initialize_Ok(1) [OF assms(1)]] by simp
qed

lemma main_new_records:
  assumes "opens E view" and "native_main_new E db port redis h accs s = (Ok m, s')"
  shows "main_user_recorded (view s')"
proof (rule main_new_Ok [OF assms])
  fix P s3 a b
  assume P: "prisma P view" and w: "native_workers_new E P a b h accs s3 = (Ok m, s')"
  from workers_Ok [OF w] obtain r s4 where "prisma_record_user_peer_id P r s4 = (Ok (), s')" by blast
  then show ?thesis by (rule prisma.main_user_added [OF P])
qed

lemma main_new_needs_fresh:
  assumes "opens E view" and "native_main_new E db port redis h accs s = (Ok m, s')"
  shows "\<not> main_user_recorded (view s)"
proof
  assume old: "main_user_recorded (view s)"
  show False
  proof (rule main_new_Ok [OF assms])
    fix P s1 s2 s3 stored
    assume P: "prisma P view"
      and init: "prisma_initialize_db_client (se_new_client E) (case db of Some url \<Rightarrow> url | None \<Rightarrow> ''db/dev.db'') s = (Ok P, s1)"
      and get: "prisma_get_ports P s1 = (Ok stored, s2)"
      and set: "(case stored of Some _ \<Rightarrow> ret () | None \<Rightarrow>
           prisma_set_ports P (fst (native_ports stored port (se_random_port E)))
             (snd (native_ports stored port (se_random_port E)))) s2 = (Ok (), s3)"
      and work: "native_workers_new E P (fst (native_ports stored port (se_random_port E)))
           (snd (native_ports stored port (se_random_port E))) h accs s3 = (Ok m, s')"
    have "main_user_recorded (view s1)" using initialize_Ok(2) [OF assms(1) init] old .
    moreover have "preserves (\<lambda>s. main_user_recorded (view s)) (prisma_get_ports P)"
      unfolding prisma_get_ports_def by (intro preserves_intros prisma.main_user_kept(3) [OF P])
    ultimately have "main_user_recorded (view s2)" using preservesD get by fastforce
    moreover have "preserves (\<lambda>s. main_user_recorded (view s)) (case stored of Some _ \<Rightarrow> ret () | None \<Rightarrow>
           prisma_set_ports P (fst (native_ports stored port (se_random_port E)))
             (snd (native_ports stored port (se_random_port E))))"
      by (auto simp: prisma_set_ports_def intro!: preserves_intros prisma.main_user_kept(2) [OF P] split: option.split)
    ultimately have "main_user_recorded (view s3)" using preservesD set by fastforce
    moreover have "view (snd (nb_hset (se_boot E) a b c s3)) = view s3" for a b c
      using assms(1) by (simp add: opens_def)
    ultimately obtain e s4 where
      "native_p2p_start E P (snd (native_ports stored port (se_random_port E))) h accs s3 = (Err e, s4)"
      using prisma.main_user_blocks [OF P] by blast
    then show False using work by (simp add: native_workers_new_def and_then_def)
  qed
qed

section \<open>Theorems\<close>

text \<open>A native node starts on a database once. After a start that succeeded, no start on that database
  succeeds, whatever its arguments, ports, addresses and Redis: the first one has recorded the user's
  peer under a fixed id, and a start records a fresh key under the same id.\<close>

theorem native_starts_once:
  assumes "opens E view" and "native_main_new E db port redis h accs s = (Ok m, s')"
    and "opens E' view" and "view t = view s'"
  shows "fst (native_main_new E' db' port' redis' h' accs' t) \<noteq> Ok m'"
proof
  assume "fst (native_main_new E' db' port' redis' h' accs' t) = Ok m'"
  then have "native_main_new E' db' port' redis' h' accs' t = (Ok m', snd (native_main_new E' db' port' redis' h' accs' t))"
    by (simp add: prod_eq_iff)
  from main_new_needs_fresh [OF assms(3) this] main_new_records [OF assms(1,2)] assms(4)
  show False by simp
qed

text \<open>The addresses of a node that has started are those of its ports: the recorded ports when the
  database has them, whatever port is asked for; else the asked-for or a random RPC port and the P2P port 541
  below it (modulo \<open>2 ^ 16\<close>), which the start records for the next one.\<close>

theorem native_ports_recorded:
  assumes "opens E view" and "native_main_new E db port redis h accs s = (Ok m, s')"
    and "(rpc, p2p) = native_ports (map_option ports_of_row (map_of (t_port (view s)) 1)) port (se_random_port E)"
  shows "\<exists>ip. nb_local_ip (se_boot E) = Inr ip \<and> nw_url (nm_p2p_worker m) = p2p_url ip p2p (nb_peer_id (se_boot E))
      \<and> rw_rpc_url (nm_rpc_worker m) = snd ip @ '':'' @ nat_to_dec (unat rpc)
      \<and> (t_port (view s) = [] \<longrightarrow> t_port (view s') = [(1, ucast rpc, ucast p2p)])"
proof (rule main_new_Ok [OF assms(1,2)])
  fix P s1 s2 s3 stored
  assume P: "prisma P view"
    and init: "prisma_initialize_db_client (se_new_client E) (case db of Some url \<Rightarrow> url | None \<Rightarrow> ''db/dev.db'') s = (Ok P, s1)"
    and get: "prisma_get_ports P s1 = (Ok stored, s2)"
    and set: "(case stored of Some _ \<Rightarrow> ret () | None \<Rightarrow>
         prisma_set_ports P (fst (native_ports stored port (se_random_port E)))
           (snd (native_ports stored port (se_random_port E)))) s2 = (Ok (), s3)"
    and work: "native_workers_new E P (fst (native_ports stored port (se_random_port E)))
         (snd (native_ports stored port (se_random_port E))) h accs s3 = (Ok m, s')"
  have s1: "t_port (view s1) = t_port (view s)" by (rule initialize_Ok(3) [OF assms(1) init])
  have s2: "view s2 = view s1" "native_ports stored port (se_random_port E) = (rpc, p2p)"
    using prisma.get_ports_Ok [OF P get] s1 assms(3) by simp_all
  have s3: "t_port (view s3) = [(1, ucast rpc, ucast p2p)]" if "t_port (view s) = []"
    using that s1 s2 prisma.get_ports_Ok [OF P get] set prisma.set_ports_Ok [OF P, of rpc p2p s2 s3] by simp
  from workers_Ok [OF work] s2(2) obtain ip r c where *: "nb_local_ip (se_boot E) = Inr ip"
    "nw_url (nm_p2p_worker m) = p2p_url ip p2p (nb_peer_id (se_boot E))"
    "rw_rpc_url (nm_rpc_worker m) = snd ip @ '':'' @ nat_to_dec (unat rpc)"
    and rec: "prisma_record_user_peer_id P r (snd (nb_hset (se_boot E) ''ACCOUNT_PROFILE'' h c s3)) = (Ok (), s')"
    by auto
  have "view (snd (nb_hset (se_boot E) ''ACCOUNT_PROFILE'' h c s3)) = view s3" using assms(1) by (simp add: opens_def)
  with preservesD [OF prisma.start_keeps_ports(2) [OF P, of "t_port (view s3)" r],
      of "snd (nb_hset (se_boot E) ''ACCOUNT_PROFILE'' h c s3)"] rec
  have "t_port (view s') = t_port (view s3)" by simp
  with * s3 show ?thesis by auto
qed

text \<open>The BNB client of a started node is connected to the Solana URL: the chains are passed as BNB, Ethereum,
  Solana and taken as Solana, Ethereum, BNB.\<close>

theorem bnb_client_at_solana:
  assumes "opens E view" and "native_main_new E db port redis h accs s = (Ok m, s')"
  shows "tw_bnb_client (nm_tx_worker m) = se_chain_url E NSolana"
proof (rule main_new_Ok [OF assms])
  fix P s3 a b
  assume w: "native_workers_new E P a b h accs s3 = (Ok m, s')"
  from workers_Ok [OF w] show ?thesis by blast
qed

section \<open>Staying up\<close>

definition failing_turn :: "'d native_world \<Rightarrow> native_call \<Rightarrow> 'd native_node \<Rightarrow> bool" where
  "failing_turn W c n = (case c of
       TakeUpdate \<Rightarrow> fst (native_take_update W n) \<noteq> NOk ()
     | TakeSwarm msg \<Rightarrow> fst (native_swarm_message W msg n) \<noteq> NOk ()
     | _ \<Rightarrow> False)"

lemma service_step_up:
  "service_step W c \<lparr>sv_node = n, sv_up = True\<rparr> = \<lparr>sv_node = native_step W c n, sv_up = (\<not> failing_turn W c n)\<rparr>"
  by (cases c) (simp_all add: failing_turn_def Let_def case_prod_beta)

lemma service_down: "\<not> sv_up s \<Longrightarrow> fold (service_step W) cs s = s"
proof (induction cs)
  case (Cons c cs)
  have "service_step W c s = s" using Cons(2) by (cases c) simp_all
  then show ?case using Cons by simp
qed simp

lemma service_run:
  "sv_up (fold (service_step W) cs \<lparr>sv_node = n, sv_up = True\<rparr>)
     = (\<forall>k < length cs. \<not> failing_turn W (cs ! k) (fold (native_step W) (take k cs) n))
   \<and> (sv_up (fold (service_step W) cs \<lparr>sv_node = n, sv_up = True\<rparr>) \<longrightarrow>
        sv_node (fold (service_step W) cs \<lparr>sv_node = n, sv_up = True\<rparr>) = fold (native_step W) cs n)"
proof (induction cs arbitrary: n)
  case (Cons c cs)
  show ?case
  proof (cases "failing_turn W c n")
    case True
    then show ?thesis
      using service_down [of "\<lparr>sv_node = native_step W c n, sv_up = False\<rparr>" W cs] by (auto simp: service_step_up)
  next
    case False
    then show ?thesis using Cons [of "native_step W c n"] by (auto simp: service_step_up less_Suc_eq_0_disj)
  qed
qed simp



text \<open>Bytes that do not decode stop the node: whatever happened before and whatever comes after, once the swarm
  loop takes a request or a response with such a body the node is down. Any connected peer can send them.\<close>

theorem native_stopped_by_garbage:
  assumes "w_decode W d = None"
  shows "\<not> sv_up (fold (service_step W) (cs @ TakeSwarm (SwarmRequest d i) # cs') s)
    \<and> \<not> sv_up (fold (service_step W) (cs @ TakeSwarm (SwarmResponse d i) # cs') s)"
proof -
  have down: "\<not> sv_up (service_step W (TakeSwarm (SwarmRequest d i)) t)" "\<not> sv_up (service_step W (TakeSwarm (SwarmResponse d i)) t)" for t
    using assms by (simp_all add: native_swarm_message_def native_swarm_request_def native_swarm_response_def npanic_def)
  show ?thesis
    using service_down [OF down(1), of W cs'] service_down [OF down(2), of W cs'] down by simp
qed

theorem native_stopped_by_garbage_witness:
  "\<not> sv_up (fold (service_step sample_world) [TakeSwarm (SwarmRequest [] 1), TakeUpdate]
     \<lparr>sv_node = native_node_new (4, []) sample_worker, sv_up = True\<rparr>)"
  using native_stopped_by_garbage [of sample_world "[]" "[]" 1 "[TakeUpdate]"]
  by (simp add: sample_world_def del: service_step.simps)

section \<open>A first start\<close>

definition sample_start :: "prisma_tables start_env" where
  "sample_start = \<lparr>se_new_client = (\<lambda>_ s. (Ok (table_client no_faults), s)), se_redis_open = (\<lambda>_. None),
     se_random_port = 9000,
     se_boot = \<lparr>nb_peer_id = ''12D3'', nb_local_ip = Inr (True, ''10.0.0.7''), nb_hset = (\<lambda>_ _ _ s. (None, s)),
       nb_keypair = Some [1], nb_record_user_peer_id = (\<lambda>_ s. (None, s)), nb_parse_multi_addr = (\<lambda>_. None),
       nb_parse_peer_id = (\<lambda>_. None), nb_decode_keypair = (\<lambda>_. True), nb_build_swarm = None\<rparr>,
     se_chain_url = (\<lambda>c. if c = NSolana then ''solana'' else if c = NBnb then ''bnb'' else ''eth''),
     se_parse_url = (\<lambda>_. None), se_build_server = (\<lambda>_. None), se_local_addr = Inr ''10.0.0.7:9000'',
     se_start_server = None, se_task_manager = None\<rparr>"

lemma sample_opens: "opens sample_start (\<lambda>t. t)"
  by (simp add: opens_def sample_start_def table_client.prisma_axioms)

lemma sample_first_start:
  "\<exists>m s'. native_main_new sample_start None (Some 9000) ''redis'' ''h'' [(''0xaa'', ''Ethereum'')] no_tables = (Ok m, s')"
  by (simp add: sample_start_def native_main_new_def prisma_initialize_db_client_def prisma_get_ports_def prisma_set_ports_def
      native_ports_def native_workers_new_def native_p2p_start_def native_p2p_new_def record_in_db_def prisma_record_user_peer_id_def
      native_tx_worker_new_def native_rpc_worker_new_def check_ok_def run_simps Let_def table_client_def change_def exec_def
      no_faults_def no_tables_def or_default_def)

theorem native_starts_once_witness:
  "\<exists>m s'. native_main_new sample_start None (Some 9000) ''redis'' ''h'' [(''0xaa'', ''Ethereum'')] no_tables = (Ok m, s')
     \<and> (\<forall>m'. fst (native_main_new sample_start None None ''redis'' ''h'' [] s') \<noteq> Ok m')"
proof -
  obtain m s' where start: "native_main_new sample_start None (Some 9000) ''redis'' ''h'' [(''0xaa'', ''Ethereum'')] no_tables = (Ok m, s')"
    using sample_first_start by blast
  then show ?thesis using native_starts_once [OF sample_opens start sample_opens refl] by blast
qed

theorem native_ports_recorded_witness:
  "\<exists>m s'. native_main_new sample_start None (Some 9000) ''redis'' ''h'' [(''0xaa'', ''Ethereum'')] no_tables = (Ok m, s')
     \<and> rw_rpc_url (nm_rpc_worker m) = ''10.0.0.7:'' @ nat_to_dec 9000 \<and> t_port s' = [(1, 9000, 8459)]"
proof -
  obtain m s' where start: "native_main_new sample_start None (Some 9000) ''redis'' ''h'' [(''0xaa'', ''Ethereum'')] no_tables = (Ok m, s')"
    using sample_first_start by blast
  have "(9000, 8459) = native_ports (map_option ports_of_row (map_of (t_port no_tables) 1)) (Some 9000)
      (se_random_port sample_start)"
    by (simp add: native_ports_def no_tables_def)
  from native_ports_recorded [OF sample_opens start this] start show ?thesis
    by (intro exI [of _ m] exI [of _ s']) (simp add: sample_start_def no_tables_def)
qed

end
