(* ===== verification/Spec2Isabelle.thy ===== *)
theory Spec2Isabelle
  imports Wasm_Await Native_Exchange App Wasm_Delivery Wasm_Logging Db_Opfs Native_Start
begin

text \<open>
  Vane lets a sender and a receiver agree on a blockchain transfer before it is submitted: the
  receiver proves with a signature that it controls its address, the sender confirms and signs the
  call, and only then is the transaction handed to the chain. The repository holds a node that runs
  in the browser (\<open>node/wasm\<close>), a backend that relays the transactions between the nodes
  (\<open>node/vane-backend\<close>), the local database of a node (\<open>db-wasm\<close>) and the data types they share
  (\<open>primitives\<close>); beside them a libp2p relay with a metric server (\<open>node/relay\<close>, started by \<open>app\<close>) and an
  older node that runs natively over libp2p (\<open>node/native\<close>) on a Prisma database (\<open>db\<close>), both excluded from
  the workspace. This development models these parts and proves how they work, each alone and together.

  \<^bold>\<open>How the parts interact.\<close> The application calls \<open>PublicInterfaceWorker\<close>, which queues transactions
  for \<open>WasmMainServiceWorker\<close>. Its handlers, one per transaction status, use the database, the cache
  of pending transactions and the signature checks, announce updates to the application, and put
  commands on the channel of \<open>WasmP2pWorker\<close>. That worker turns commands into JSON-RPC calls to the
  backend, and events of its subscription into messages for the main worker. The backend keeps the
  pending requests for thirty minutes and broadcasts events that each subscription filters by
  address.

  \<^bold>\<open>Theories.\<close>
  \<^item> \<open>Vane_Prelude\<close>: words, the result type \<open>outcome\<close> (\<open>Ok\<close>, \<open>Err\<close> for an error the code returns,
    \<open>Panic\<close> for one it does not survive), state-passing actions, and the lemmas on association lists
    and on preservation of invariants that the components share.
  \<^item> \<open>Data_Structure\<close>, \<open>Status_Json\<close>: \<open>primitives/src/data_structure.rs\<close>, its types and methods, and the
    hand-written JSON conversions of the status and the request ids, shown to invert serialisation.
  \<^item> \<open>Db_Interface\<close>: the trait \<open>DbWorkerInterface\<close>, an abstract database, and the locale
    \<open>db_worker_interface\<close> that says an implementation simulates it.
  \<^item> \<open>Db_Wasm\<close>: \<open>InMemoryDbWorker\<close> of \<open>db-wasm/src/lib.rs\<close>, a refinement of the abstract database; the
    totals it keeps, where they are exact and where they are not.
  \<^item> \<open>Db_Opfs\<close>: \<open>OpfsRedbWorker\<close> and the enum \<open>DbWorker\<close> of the same file. The engine is the locale \<open>redb\<close> (a
    commit publishes a transaction or changes nothing, every call may fail); each trait method is shown to
    \<open>attempt\<close> the in-memory one, and through it the abstract database, so the worker is atomic over a
    failing engine and agrees with the in-memory worker over a reliable one.
  \<^item> \<open>Lru_Cache\<close>: what the \<open>lru\<close> crate promises, as the locale \<open>lru_cache\<close>.
  \<^item> \<open>Backend_Metrics\<close>, \<open>Backend_Server\<close>, \<open>Backend_Rpc\<close>: \<open>node/vane-backend/src/server.rs\<close>, its metrics and
    client reports, the request store with expiry, the RPC methods, runs of the server, and the
    subscription filter. Shown: the invariant of every reachable state, what each call stores,
    answers and announces, that live requests of others survive every call, and who may be sent
    which event.
  \<^item> \<open>Http_Server\<close>: requests and routes as both metric servers use them; the locale \<open>report_server\<close> is the contract of a
    server that keeps the reports of clients, interpreted on the backend and on the relay.
  \<^item> \<open>Backend_Start\<close>: the backend as a program: \<open>VaneSwarmServer::run\<close>, its two servers, the metric service and the
    HTTP routes. Shown: over any interleaving of JSON-RPC calls and HTTP requests the summaries are exact.
  \<^item> \<open>Cryptography\<close>, \<open>Tx_Processing\<close>: \<open>node/wasm/src/cryptography.rs\<close> and \<open>tx_processing.rs\<close>, the address and
    signature checks, characterised exactly over the third-party primitives.
  \<^item> \<open>Wasm_P2p\<close>: the loop of \<open>node/wasm/src/p2p.rs\<close>; what it hands to the node and when it stalls.
  \<^item> \<open>Wasm_Main\<close>: the handlers of \<open>node/wasm/src/lib.rs\<close>, with the borrow flag of the cache cell; the
    locale \<open>wasm_node\<close> extends \<open>lru_cache\<close> with the invariant of a node.
  \<^item> \<open>Wasm_Interface\<close>: \<open>node/wasm/src/interface.rs\<close>, the runs of a node (\<open>node_step\<close>, \<open>reachable_node\<close>) and
    the main safety property: only verified transactions are submitted.
  \<^item> \<open>Wasm_Await\<close>: the same handlers cut where they await the JavaScript host, with the borrow flag of the cell of the
    transaction worker, and the runs in which the tasks and the application are interleaved there (\<open>async_step\<close>,
    \<open>reachable_async\<close>). Shown: cut handlers that are not interleaved compute what those of \<open>Wasm_Main\<close> compute; the safety property
    holds in every interleaving, and one call of the host is open at a time; a reversal that arrives while the host is
    asked is overwritten, and a confirmation that arrives then ends the update loop.
  \<^item> \<open>Wasm_Network\<close>: how a node starts (\<open>start_vane_web3\<close>, \<open>run\<close>, \<open>start_swarm_handler\<close>, \<open>WasmP2pWorker::start\<close>), the
    turns of its tasks (\<open>host_task\<close>), and the network of nodes around one backend (\<open>net_task\<close> for the tasks, the calls and
    the deliveries, \<open>net_app\<close> for the applications, \<open>reachable_net\<close>). Shown: a measure that every turn decreases,
    and that a network consists of runs of its parts.
  \<^item> \<open>Wasm_Delivery\<close>: what the network delivers: it comes to rest, what was sent has then been handled if the tasks
    on its way still run, what is handled was sent, and a node whose P2P side did not start freezes.
  \<^item> \<open>Wasm_Logging\<close>: \<open>node/wasm/src/logging.rs\<close>; which log lines reach the host, and that the first initialisation fixes the level.
  \<^item> \<open>Relay_Metrics\<close>, \<open>Relay\<close>: \<open>node/relay/src/metric_server.rs\<close>, \<open>p2p.rs\<close>, \<open>lib.rs\<close> and the arm for the relay in
    \<open>app/src/main.rs\<close>. The relay's report store is shown to compute the backend's; the exported counters
    and summaries are characterised for every interleaving of swarm events and HTTP requests, and the relay
    is shown to outlive its metric server.
  \<^item> \<open>App\<close>: the program of \<open>app/src/main.rs\<close> with its commands, defaults and log set-up, and the test client of the relay
    (\<open>node/test_client/src/main.rs\<close>). Shown: when the relay command fails, which keys it looks at, and the order of the
    client's calls.
  \<^item> \<open>Native_Codec\<close>: the length-prefixed framing of \<open>node/native/src/p2p.rs\<close>, over the locale \<open>varint\<close>, which is
    interpreted on LEB128, and the locale \<open>appending\<close> of the substreams.
  \<^item> \<open>Native_P2p\<close>, \<open>Native_Processing\<close>, \<open>Native_Node\<close>: the rest of \<open>node/native/src\<close>: the swarm loop and the
    network service, address and signature checks, creation and submission, the RPC methods and the
    handlers of the main worker. The locale \<open>native_invariant\<close> lifts a property that every effect keeps to
    the runs of a node.
  \<^item> \<open>Native_Exchange\<close>: two native nodes: the locale \<open>substream\<close> joins \<open>varint\<close> and \<open>appending\<close>; a transaction and its confirmation
    are followed from user to user through main workers, swarm loops and framing.
  \<^item> \<open>Db_Prisma\<close>: \<open>db/src/lib.rs\<close>, over the locale \<open>prisma\<close>, which states the documented effect of each query of
    the generated client on the tables, and \<open>reliable_prisma\<close>, a client whose queries fail for no other reason;
    both are interpreted on a client over lists of rows. Shown: the constraints of the schema are kept, what
    a failed call leaves, and that saved accounts are read back exactly.
  \<^item> \<open>Native_Start\<close>: the start of the native node on its Prisma database and its essential tasks. Shown: which ports a
    started node has and records, that it starts on a database only once, and exactly when it stays up.
  \<^item> this theory: the paths of a request and of its response through both nodes and the backend.

  \<^bold>\<open>Modelling decisions.\<close>
  \<^item> In \<open>Wasm_Main\<close> and \<open>Wasm_Network\<close> a handler is one step. On the backend the server's mutex makes it so; on the node,
    which has one thread, the awaits inside a handler are taken not to be interleaved with another handler, and
    its channel sends to complete. \<open>Wasm_Await\<close> gives up the first for the awaits of the host, the ones that
    wait for a user or a chain, and adds the cell of the transaction worker, which only matters there. The exceptions, where waiting matters, are the P2P loop, whose
    sends wait when the channel is full, and \<open>try_send\<close>, which fails then.
  \<^item> A handler is given its reading of the clock (\<open>now\<close>), and a second, later one (\<open>later\<close>) where the
    code checks the age of an entry again after a cleanup.
  \<^item> The cache is behind a \<open>RefCell\<close>. Its mutable borrow is a flag of the state; it is held as long as
    edition 2021 keeps the temporaries of an \<open>if let\<close>, and a panic leaves it set, because a panic in
    WebAssembly does not unwind.
  \<^item> Hash maps are association lists with distinct keys (an invariant that is proved); the order of
    the list stands for the unspecified iteration order.
  \<^item> Machine integers are words, with wrapping and saturating operations as in the source. Strings
    are lists of characters; their bytes are taken one per character.
  \<^item> Code outside the repository is an argument: the JSON encoder and decoder, \<open>hex\<close>, the SCALE codec,
    the \<open>lru\<close> crate, \<open>redb\<close>, the Prisma client, libp2p, curves and hashes, the JavaScript host, the floating-point success rate, the HTTP and WebSocket frameworks, Redis. What is
    assumed of it is a hypothesis or a locale: decoding inverts encoding, and the documented
    behaviour of the cache. No assumption is made on the cryptography.
  \<^item> The capacities are those of the source: ten cached transactions, ten updates to the application,
    twenty notifications, 256 messages to the main worker. No definition needs fuel: every loop runs
    over a list. Loops that have no exit (the swarm loops) are functions of the inputs delivered so far, or tasks of
    a step relation; that the tasks of a network come to rest is proved with a measure (\<open>network_work\<close>).
  \<^item> In the network the buffer between a subscription and the P2P loop is not bounded, a spawned call reaches the
    backend, in any order, and a subscription may be ended once it lags behind the broadcast by more than its 100 places.
  \<^item> The native node was written against an earlier \<open>primitives\<close>: its enums are those of its exhaustive
    matches, its transaction record that of its struct literal. Its channels do not fill up, and its
    \<open>moka\<close> cache may lose an entry at any step.

  \<^bold>\<open>Not modelled:\<close> sockets, the frameworks and the generated clients, which are arguments; log lines; row conversions of \<open>db/src/lib.rs\<close> that nothing
  calls; \<open>integration-test/src/lib.rs\<close>, which is commented out as a whole; and the code in other languages. The next parts to
  add are, in this order: handlers that wait for a full channel or for the database, and the network of nodes over the
  interleaved handlers.
\<close>

section \<open>A request and its response\<close>

text \<open>C5: a new transaction reaches its receiver. When the sender's node takes a transaction with status
  \<open>Genesis\<close> whose two addresses are not both its own, it emits one request command; the P2P worker
  turns it into the call \<open>handleSenderRequest\<close>; the backend, in whatever state it is, accepts the call
  and broadcasts an event that the receiver's subscription lets through; the receiver's P2P worker
  makes a request message of it, and the receiver's node announces exactly this transaction to its
  user and caches it. The JSON encoding is assumed to be read back as the transaction.\<close>

theorem request_end_to_end:
  assumes lru: "lru_cache (lru R) cap"
    and new: "status tx = Genesis"
    and prof: "op_get_user_account (dbw N) (db s) = (Ok profile, d0)" "\<not> both_in_profile profile tx"
    and json: "to_vec tx = Some d" "from_slice E d = Some tx"
    and srv: "reachable_server E t b"
    and rcv: "\<not> cache_borrowed r" "length (rpc_channel r) < rpc_capacity"
  shows "\<exists>s' b' r'. handle_user_update N H now tx s = (Ok (), s')
    \<and> p2p_commands s' = p2p_commands s @ [WasmSendRequest tx]
    \<and> route_command to_vec (WasmSendRequest tx) = Some (HandleSenderRequest (sender_address tx) d)
    \<and> rpc_dispatch E bnow blater (HandleSenderRequest (sender_address tx) d) b = (Ok (), b')
    \<and> EvSenderRequestHandled (receiver_address tx) d \<in> set (events b')
    \<and> should_send E (receiver_address tx) (EvSenderRequestHandled (receiver_address tx) d)
    \<and> route_event E (receiver_address tx) (EvSenderRequestHandled (receiver_address tx) d) = Some (WasmRequest tx)
    \<and> handle_swarm_message R H' rnow (Inr (WasmRequest tx)) r = (Ok (), r')
    \<and> rpc_channel r' = rpc_channel r @ [tx]
    \<and> cached (lru R) (cache r') (tx_nonce tx) = Some (ttl_new tx rnow)"
proof -
  have sent: "handle_user_update N H now tx s =
      (Ok (), s\<lparr>db := d0, p2p_commands := p2p_commands s @ [WasmSendRequest tx]\<rparr>)"
    using new prof
    by (simp add: handle_user_update_def handle_genesis_tx_state_def run_simps wasm_send_request_def)
  note served = stored_by_sender_request [OF reachable_wf [OF srv] json(2) refl refl, of bnow "sender_address tx"]
  have handled: "rpc_dispatch E bnow blater (HandleSenderRequest (sender_address tx) d) b
      = (Ok (), snd (handle_sender_request E bnow (sender_address tx) d b))"
    using served(1) by (simp add: rpc_defs prod_eq_iff)
  have taken: "handle_swarm_message R H' rnow (Inr (WasmRequest tx)) r = (Ok (),
      r\<lparr>rpc_channel := rpc_channel r @ [tx],
        cache := lru_push (lru R) (tx_nonce tx) (ttl_new tx rnow) (cache r)\<rparr>)"
    using rcv by (simp add: swarm_wasm_request_def run_simps)
  show ?thesis
    using sent handled taken served(4) json lru_cache.cached_push_same [OF lru]
    by (simp add: route_command_def route_event_def)
qed

theorem request_end_to_end_witness:
  "\<exists>s' b' r'. handle_user_update sample_node echo_host 5 (sample_tx 7) (sample_state signed_tx) = (Ok (), s')
    \<and> rpc_dispatch sample_env 20 21 (HandleSenderRequest ''alice'' [7, 0]) sample_server = (Ok (), b')
    \<and> handle_swarm_message sample_node echo_host 6 (Inr (WasmRequest (sample_tx 7))) (sample_state signed_tx) = (Ok (), r')
    \<and> rpc_channel r' = [sample_tx 7]"
  using request_end_to_end [OF sample_lru, of "sample_tx 7" sample_node "sample_state signed_tx" sample_user sample_db
      "\<lambda>_. Some [7, 0]" "[7, 0]" sample_env 10 sample_server "sample_state signed_tx" echo_host 5 20 21 echo_host 6]
    sample_reachable
  by (auto simp: both_in_profile_def in_profile_def sample_user_def rpc_capacity_def)

text \<open>A confirmed transaction and a decoder for the concrete run of the second property.\<close>

definition reply_tx :: tx_state_machine where
  "reply_tx = signed_tx\<lparr>status := RecvAddrConfirmed\<rparr>"

definition reply_env :: backend_env where
  "reply_env = \<lparr>from_slice = (\<lambda>_. Some reply_tx), hex_encode = byte_string\<rparr>"

lemma reply_tx_simps [simp]:
  "status reply_tx = RecvAddrConfirmed" "receiver_address reply_tx = ''0xbb''" "sender_address reply_tx = ''0xaa''"
  "tx_nonce reply_tx = 1" "tx_version reply_tx = 0" "from_slice reply_env d = Some reply_tx"
  by (simp_all add: reply_tx_def reply_env_def)

lemma reply_valid [simp]: "validate_receiver_and_sender_address sample_crypto reply_tx ''Receiver'' = Ok ()"
  unfolding receiver_valid_iff by (simp add: reply_tx_def sample_signatures)

text \<open>C6: the receiver's answer reaches the sender and is accepted. When the receiver's node takes its
  confirmed transaction, one response command is emitted and becomes the call
  \<open>handleReceiverResponse\<close>; the backend stores the answer under the transaction's multi id and
  broadcasts an event that the sender's subscription lets through; the sender's node, which has the
  transaction in its cache neither reverted nor newer, checks the receiver's signature, has the host
  create the chain transaction, announces the result to its user and replaces the cached value.\<close>

theorem response_end_to_end:
  assumes lru: "lru_cache (lru S) cap"
    and tx: "status tx = RecvAddrConfirmed"
    and prof: "op_get_user_account (dbw N) (db r) = (Ok profile, d0)" "\<not> both_in_profile profile tx"
    and json: "to_vec tx = Some d" "from_slice E d = Some tx"
    and srv: "reachable_server E t b" "bnow \<le> blater"
    and snd_node: "\<not> cache_borrowed s" "cache_ok (lru S) cap (cache s)" "length (rpc_channel s) < rpc_capacity"
    and entry: "cached (lru S) (cache s) (tx_nonce tx) = Some w"
      "\<not> is_reverted (status (get_value w))" "tx_version (get_value w) \<le> tx_version tx"
    and valid: "validate_receiver_and_sender_address (kryptos S) tx ''Receiver'' = Ok ()"
    and host: "create_tx_js H' (increment_version (tx\<lparr>status := RecvAddrConfirmationPassed\<rparr>)) = Some tx'"
      "tx_nonce tx' = tx_nonce tx"
  shows "\<exists>r' b' s'. handle_user_update N H now tx r = (Ok (), r')
    \<and> p2p_commands r' = p2p_commands r @ [WasmSendResponse (Inr tx)]
    \<and> route_command to_vec (WasmSendResponse (Inr tx)) = Some (HandleReceiverResponse (receiver_address tx) d)
    \<and> rpc_dispatch E bnow blater (HandleReceiverResponse (receiver_address tx) d) b = (Ok (), b')
    \<and> (\<exists>e. map_of (requests b') (hex_encode E (multi_id tx)) = Some e \<and> data e = d)
    \<and> EvReceiverResponseHandled (receiver_address tx) d \<in> set (events b')
    \<and> should_send E (sender_address tx) (EvReceiverResponseHandled (receiver_address tx) d)
    \<and> route_event E (sender_address tx) (EvReceiverResponseHandled (receiver_address tx) d) = Some (WasmResponse tx)
    \<and> handle_swarm_message S H' snow (Inr (WasmResponse tx)) s = (Ok (), s')
    \<and> rpc_channel s' = rpc_channel s @ [tx']
    \<and> cached (lru S) (cache s') (tx_nonce tx) = Some (update_value tx' w)"
proof -
  have wn: "wasm_node S cap" using lru by (simp add: wasm_node_def)
  have sent: "handle_user_update N H now tx r =
      (Ok (), r\<lparr>db := d0, p2p_commands := p2p_commands r @ [WasmSendResponse (Inr tx)]\<rparr>)"
    using tx prof
    by (simp add: handle_user_update_def handle_recv_addr_confirmed_tx_state_def run_simps wasm_send_response_def)
  note served = stored_by_receiver_response [OF reachable_wf [OF srv(1)] json(2) srv(2) refl, of "receiver_address tx"]
  have handled: "rpc_dispatch E bnow blater (HandleReceiverResponse (receiver_address tx) d) b
      = (Ok (), snd (handle_receiver_response E bnow blater (receiver_address tx) d b))"
    using served(1) by (simp add: rpc_defs prod_eq_iff)
  have taken: "handle_swarm_message S H' snow (Inr (WasmResponse tx)) s = swarm_store_response S snow tx' s"
    using entry valid host
    by (simp add: wasm_node.run_response [OF wn snd_node(1)] create_tx_def recv_confirmation_passed_def Let_def)
  from wasm_node.store_response_present [OF wn snd_node, of tx' w snow] entry(1) host(2)
  obtain c where "swarm_store_response S snow tx' s = (Ok (), s\<lparr>rpc_channel := rpc_channel s @ [tx'], cache := c\<rparr>)"
    "cached (lru S) c (tx_nonce tx) = Some (update_value tx' w)" by auto
  with sent handled taken served(2,3) json tx show ?thesis
    by (simp add: route_command_def route_event_def matches_tx_def)
qed

theorem response_end_to_end_witness:
  "\<exists>r' b' s'. handle_user_update sample_node echo_host 5 reply_tx (sample_state reply_tx) = (Ok (), r')
    \<and> rpc_dispatch reply_env 20 21 (HandleReceiverResponse ''0xbb'' [1]) swarm_server_new = (Ok (), b')
    \<and> handle_swarm_message sample_node echo_host 6 (Inr (WasmResponse reply_tx)) (sample_state reply_tx) = (Ok (), s')
    \<and> rpc_channel s' = [increment_version (reply_tx\<lparr>status := RecvAddrConfirmationPassed\<rparr>)]"
  using response_end_to_end [OF sample_lru, of reply_tx sample_node "sample_state reply_tx" sample_user sample_db
      "\<lambda>_. Some [1]" "[1]" reply_env 10 swarm_server_new 20 21 "sample_state reply_tx" "ttl_new reply_tx 0" echo_host
      "increment_version (reply_tx\<lparr>status := RecvAddrConfirmationPassed\<rparr>)" echo_host 5 6]
    reachable_server.init [of reply_env 10]
  by (auto simp: both_in_profile_def in_profile_def sample_user_def rpc_capacity_def cache_ok_def cache_capacity_def
      echo_host_def increment_version_def)
end
